(* ===== verification/Prelude.thy ===== *)
theory Prelude
  imports Main "HOL-Library.Word" "HOL-Library.Finite_Map" "HOL-Library.List_Lexorder"
begin

text \<open>
  Shared vocabulary of the development: the machine types of the Rust sources, results
  (\<open>Result<T, E>\<close> is the sum \<open>'e + 'a\<close>, \<open>Inl\<close> the error), checked and saturating
  arithmetic, the state-and-error monad in which every \<open>&mut self\<close> method is written,
  its weakest-precondition calculus, and the locale of reflexive-transitive step
  relations through which invariants are carried over whole methods.
\<close>

section \<open>Machine types\<close>

type_synonym u8 = "8 word"
type_synonym u16 = "16 word"
type_synonym u32 = "32 word"
type_synonym u64 = "64 word"
type_synonym bytes = "u8 list"

text \<open>Rust's \<open>checked_add\<close>, \<open>saturating_add\<close> and \<open>saturating_sub\<close> on unsigned words.\<close>

definition checked_add :: "'w::len word \<Rightarrow> 'w word \<Rightarrow> 'w word option" where
  "checked_add a b = (if unat a + unat b < 2 ^ LENGTH('w) then Some (a + b) else None)"

definition saturating_add :: "'w::len word \<Rightarrow> 'w word \<Rightarrow> 'w word" where
  "saturating_add a b = (case checked_add a b of Some c \<Rightarrow> c | None \<Rightarrow> - 1)"

definition saturating_sub :: "'w::len word \<Rightarrow> 'w word \<Rightarrow> 'w word" where
  "saturating_sub a b = (if b \<le> a then a - b else 0)"

lemma checked_add_Some_iff:
  "checked_add a (b :: 'w::len word) = Some c \<longleftrightarrow> unat a + unat b < 2 ^ LENGTH('w) \<and> c = a + b"
  by (auto simp: checked_add_def)

lemma checked_add_unat:
  "checked_add a (b :: 'w::len word) = Some c \<Longrightarrow> unat c = unat a + unat b"
  by (auto simp: checked_add_Some_iff unat_word_ariths)

lemma checked_add_le:
  assumes "checked_add a (b :: 'w::len word) = Some c"
  shows "a \<le> c" and "b \<le> c"
  using checked_add_unat [OF assms] by (simp_all add: word_le_nat_alt)

lemma checked_add_one_less:
  assumes "checked_add a (1 :: 'w::len word) = Some c"
  shows "a < c"
  using checked_add_unat [OF assms] by (simp add: word_less_nat_alt)

lemma checked_add_one_pred:
  "checked_add a (1 :: 'w::len word) = Some c \<Longrightarrow> c - 1 = a"
  by (auto simp: checked_add_Some_iff)

lemma saturating_add_ge: "(a :: 'w::len word) \<le> saturating_add a b"
  by (auto simp: saturating_add_def split: option.split dest: checked_add_le)

text \<open>Widening casts (\<open>as u64\<close>) and checked narrowing (\<open>try_into\<close>) between word sizes.\<close>

lemma unat_ucast_up:
  "LENGTH('a::len) \<le> LENGTH('b::len) \<Longrightarrow> unat (ucast (n :: 'a word) :: 'b word) = unat n"
proof -
  assume "LENGTH('a) \<le> LENGTH('b)"
  then have "(2::nat) ^ LENGTH('a) \<le> 2 ^ LENGTH('b)" by (simp add: power_increasing)
  then have "unat n < 2 ^ LENGTH('b)"
    using unsigned_less [of n, where 'a = nat] by linarith
  then show ?thesis by (simp add: unsigned_ucast_eq take_bit_nat_eq_self)
qed

lemma ucast_up_down:
  "LENGTH('a::len) \<le> LENGTH('b::len) \<Longrightarrow> ucast (ucast (n :: 'a word) :: 'b word) = n"
  by (simp add: ucast_up_ucast_id is_up)

lemma ucast_down_up:
  "unat (n :: 'b::len word) < 2 ^ LENGTH('a::len) \<Longrightarrow> LENGTH('a) \<le> LENGTH('b) \<Longrightarrow>
     ucast (ucast n :: 'a word) = n"
  by (rule word_unat_eq_iff [THEN iffD2])
    (simp add: unat_ucast_up unsigned_ucast_eq unsigned_take_bit_eq take_bit_nat_eq_self)

section \<open>Results\<close>

definition rbind :: "'e + 'a \<Rightarrow> ('a \<Rightarrow> 'e + 'b) \<Rightarrow> 'e + 'b" where
  "rbind r f = (case r of Inl e \<Rightarrow> Inl e | Inr x \<Rightarrow> f x)"

definition ok_or :: "'e \<Rightarrow> 'a option \<Rightarrow> 'e + 'a" where
  "ok_or e o' = (case o' of None \<Rightarrow> Inl e | Some x \<Rightarrow> Inr x)"

definition map_err :: "('e \<Rightarrow> 'f) \<Rightarrow> 'e + 'a \<Rightarrow> 'f + 'a" where
  "map_err f r = (case r of Inl e \<Rightarrow> Inl (f e) | Inr x \<Rightarrow> Inr x)"

definition reject_if :: "bool \<Rightarrow> 'e \<Rightarrow> 'e + unit" where
  "reject_if b e = (if b then Inl e else Inr ())"

definition is_ok :: "'e + 'a \<Rightarrow> bool" where
  "is_ok r = (case r of Inl e \<Rightarrow> False | Inr x \<Rightarrow> True)"

fun rmap :: "('a \<Rightarrow> 'e + 'b) \<Rightarrow> 'a list \<Rightarrow> 'e + 'b list" where
  "rmap f [] = Inr []"
| "rmap f (x # xs) = rbind (f x) (\<lambda>y. rbind (rmap f xs) (\<lambda>ys. Inr (y # ys)))"

lemma rbind_simps [simp]: "rbind (Inl e) f = Inl e" "rbind (Inr x) f = f x"
  by (simp_all add: rbind_def)

lemma ok_or_simps [simp]: "ok_or e None = Inl e" "ok_or e (Some x) = Inr x"
  by (simp_all add: ok_or_def)

lemma map_err_simps [simp]: "map_err f (Inl e) = Inl (f e)" "map_err f (Inr x) = Inr x"
  by (simp_all add: map_err_def)

lemma reject_if_simps [simp]: "reject_if True e = Inl e" "reject_if False e = Inr ()"
  by (simp_all add: reject_if_def)

lemma is_ok_simps [simp]: "\<not> is_ok (Inl e)" "is_ok (Inr x)"
  by (simp_all add: is_ok_def)

lemma is_ok_iff: "is_ok r \<longleftrightarrow> (\<exists>x. r = Inr x)"
  by (cases r) auto

lemma rbind_Inr_iff: "rbind r f = Inr y \<longleftrightarrow> (\<exists>x. r = Inr x \<and> f x = Inr y)"
  by (cases r) auto

lemma ok_or_Inr_iff: "ok_or e r = Inr y \<longleftrightarrow> r = Some y"
  by (cases r) auto

lemma map_err_Inr_iff: "map_err f r = Inr y \<longleftrightarrow> r = Inr y"
  by (cases r) auto

lemma reject_if_Inr_iff: "reject_if b e = Inr u \<longleftrightarrow> \<not> b"
  by (simp add: reject_if_def)

lemmas result_Inr_iffs = rbind_Inr_iff ok_or_Inr_iff map_err_Inr_iff reject_if_Inr_iff

lemma rmap_Inr_iff: "rmap f xs = Inr ys \<longleftrightarrow> list_all2 (\<lambda>x y. f x = Inr y) xs ys"
  by (induction xs arbitrary: ys) (auto simp: rbind_Inr_iff list_all2_Cons1)

lemma rmap_map_Inr: "(\<And>x. x \<in> set xs \<Longrightarrow> f (g x) = Inr x) \<Longrightarrow> rmap f (map g xs) = Inr xs"
  by (induction xs) auto

section \<open>The state-and-error monad\<close>

text \<open>
  A method \<open>fn m(&mut self, ..) -> Result<T, E>\<close> is a function from the object's state to
  its result and the state it leaves behind, on the error paths as well as on success:
  the \<open>?\<close> operator (\<open>bnd\<close>) returns early but keeps every mutation made so far.
\<close>

type_synonym ('c, 'e, 'a) sm = "'c \<Rightarrow> ('e + 'a) \<times> 'c"

definition ret :: "'a \<Rightarrow> ('c, 'e, 'a) sm" where
  "ret x = (\<lambda>c. (Inr x, c))"

definition raise :: "'e \<Rightarrow> ('c, 'e, 'a) sm" where
  "raise e = (\<lambda>c. (Inl e, c))"

definition bnd :: "('c, 'e, 'a) sm \<Rightarrow> ('a \<Rightarrow> ('c, 'e, 'b) sm) \<Rightarrow> ('c, 'e, 'b) sm" where
  "bnd m k = (\<lambda>c. case m c of (r, c') \<Rightarrow> (case r of Inl e \<Rightarrow> (Inl e, c') | Inr x \<Rightarrow> k x c'))"

definition gets :: "('c \<Rightarrow> 'a) \<Rightarrow> ('c, 'e, 'a) sm" where
  "gets f = (\<lambda>c. (Inr (f c), c))"

definition modify :: "('c \<Rightarrow> 'c) \<Rightarrow> ('c, 'e, unit) sm" where
  "modify f = (\<lambda>c. (Inr (), f c))"

text \<open>\<open>lift\<close> embeds a pure result; \<open>attempt\<close> hands the result of a call to the caller as a
  value, for code that inspects it with \<open>is_err\<close>, \<open>match\<close> or \<open>if let Err\<close>.\<close>

definition lift :: "'e + 'a \<Rightarrow> ('c, 'e, 'a) sm" where
  "lift r = (\<lambda>c. (r, c))"

definition attempt :: "('c, 'e, 'a) sm \<Rightarrow> ('c, 'f, 'e + 'a) sm" where
  "attempt m = (\<lambda>c. case m c of (r, c') \<Rightarrow> (Inr r, c'))"

definition guard_err :: "bool \<Rightarrow> 'e \<Rightarrow> ('c, 'e, unit) sm" where
  "guard_err b e = (if b then raise e else ret ())"

definition thn :: "('c, 'e, 'a) sm \<Rightarrow> ('c, 'e, 'b) sm \<Rightarrow> ('c, 'e, 'b) sm" where
  "thn m n = bnd m (\<lambda>_. n)"

section \<open>Weakest preconditions\<close>

definition wp :: "('c, 'e, 'a) sm \<Rightarrow> ('e + 'a \<Rightarrow> 'c \<Rightarrow> bool) \<Rightarrow> 'c \<Rightarrow> bool" where
  "wp m Q c = (case m c of (r, c') \<Rightarrow> Q r c')"

lemma wp_ret [simp]: "wp (ret x) Q c = Q (Inr x) c"
  by (simp add: wp_def ret_def)

lemma wp_raise [simp]: "wp (raise e) Q c = Q (Inl e) c"
  by (simp add: wp_def raise_def)

lemma wp_bnd [simp]:
  "wp (bnd m k) Q c = wp m (\<lambda>r c'. case r of Inl e \<Rightarrow> Q (Inl e) c' | Inr x \<Rightarrow> wp (k x) Q c') c"
  by (simp add: wp_def bnd_def split: prod.split sum.split)

lemma wp_thn [simp]:
  "wp (thn m n) Q c = wp m (\<lambda>r c'. case r of Inl e \<Rightarrow> Q (Inl e) c' | Inr x \<Rightarrow> wp n Q c') c"
  by (simp add: thn_def)

lemma wp_gets [simp]: "wp (gets f) Q c = Q (Inr (f c)) c"
  by (simp add: wp_def gets_def)

lemma wp_modify [simp]: "wp (modify f) Q c = Q (Inr ()) (f c)"
  by (simp add: wp_def modify_def)

lemma wp_lift [simp]: "wp (lift r) Q c = Q r c"
  by (simp add: wp_def lift_def)

lemma wp_attempt [simp]: "wp (attempt m) Q c = wp m (\<lambda>r c'. Q (Inr r) c') c"
  by (simp add: wp_def attempt_def split: prod.split)

lemma wp_guard_err [simp]:
  "wp (guard_err b e) Q c = (if b then Q (Inl e) c else Q (Inr ()) c)"
  by (simp add: guard_err_def)

lemma wp_if: "wp (if b then m else n) Q c = (if b then wp m Q c else wp n Q c)"
  by simp

lemma wp_mono: "wp m Q c \<Longrightarrow> (\<And>r c'. Q r c' \<Longrightarrow> Q' r c') \<Longrightarrow> wp m Q' c"
  by (auto simp: wp_def split: prod.splits)

lemma wp_conj: "wp m Q c \<Longrightarrow> wp m Q' c \<Longrightarrow> wp m (\<lambda>r c'. Q r c' \<and> Q' r c') c"
  by (simp add: wp_def split: prod.splits)

lemma wpI: "(\<And>r c'. m c = (r, c') \<Longrightarrow> Q r c') \<Longrightarrow> wp m Q c"
  by (auto simp: wp_def split: prod.split)

lemma wpD: "wp m Q c \<Longrightarrow> m c = (r, c') \<Longrightarrow> Q r c'"
  by (simp add: wp_def)

section \<open>Running a method\<close>

text \<open>\<open>run_simps\<close> evaluate a method on a given state; \<open>run_Inr_iffs\<close> say exactly when it
  succeeds, with which value and in which state.\<close>

lemma run_simps:
  "ret x c = (Inr x, c)" "raise e c = (Inl e, c)" "gets f c = (Inr (f c), c)"
  "modify g c = (Inr (), g c)" "lift r c = (r, c)"
  "bnd m k c = (case m c of (Inl e, c) \<Rightarrow> (Inl e, c) | (Inr x, c) \<Rightarrow> k x c)"
  "thn m n c = (case m c of (Inl e, c) \<Rightarrow> (Inl e, c) | (Inr _, c) \<Rightarrow> n c)"
  "attempt m c = (case m c of (r, c) \<Rightarrow> (Inr r, c))"
  "guard_err b e c = (if b then (Inl e, c) else (Inr (), c))"
  by (simp_all add: ret_def raise_def gets_def modify_def lift_def bnd_def thn_def attempt_def
      guard_err_def split: prod.split sum.split)

lemma bnd_Inr_iff:
  "bnd m k c = (Inr y, c') \<longleftrightarrow> (\<exists>x d. m c = (Inr x, d) \<and> k x d = (Inr y, c'))"
  by (cases "m c"; cases "fst (m c)") (simp_all add: run_simps)

lemma thn_Inr_iff:
  "thn m n c = (Inr y, c') \<longleftrightarrow> (\<exists>x d. m c = (Inr x, d) \<and> n d = (Inr y, c'))"
  by (cases "m c"; cases "fst (m c)") (simp_all add: run_simps)

lemma prim_Inr_iffs:
  "ret x c = (Inr y, c') \<longleftrightarrow> y = x \<and> c' = c" "raise e c \<noteq> (Inr y, c')"
  "gets f c = (Inr y, c') \<longleftrightarrow> y = f c \<and> c' = c"
  "modify g c = (Inr u, c') \<longleftrightarrow> c' = g c"
  "lift r c = (Inr y, c') \<longleftrightarrow> r = Inr y \<and> c' = c"
  "guard_err b e c = (Inr u, c') \<longleftrightarrow> \<not> b \<and> c' = c"
  "attempt m c = (Inr r, c') \<longleftrightarrow> m c = (r, c')"
  by (auto simp: run_simps split: prod.splits)

lemmas run_Inr_iffs = bnd_Inr_iff thn_Inr_iff prim_Inr_iffs ok_or_Inr_iff

section \<open>Step relations\<close>

text \<open>
  \<open>steps R m\<close>: whatever \<open>m\<close> returns, it moves the state along \<open>R\<close>. For a reflexive
  and transitive \<open>R\<close> this is closed under the monad's operations; with
  \<open>R c c' = (I c \<longrightarrow> I c')\<close> it says that \<open>m\<close> keeps the invariant \<open>I\<close>.
\<close>

definition steps :: "('c \<Rightarrow> 'c \<Rightarrow> bool) \<Rightarrow> ('c, 'e, 'a) sm \<Rightarrow> bool" where
  "steps R m \<longleftrightarrow> (\<forall>c. R c (snd (m c)))"

named_theorems steps_intros \<open>introduction rules for step relations\<close>

lemma stepsI: "(\<And>c. wp m (\<lambda>r c'. R c c') c) \<Longrightarrow> steps R m"
  by (simp add: steps_def wp_def case_prod_unfold)

lemma steps_wp: "steps R m \<Longrightarrow> wp m (\<lambda>r c'. R c c') c"
  by (simp add: steps_def wp_def case_prod_unfold)

lemma stepsD: "steps R m \<Longrightarrow> m c = (r, c') \<Longrightarrow> R c c'"
  unfolding steps_def by (drule spec [of _ c]) simp

locale step_relation =
  fixes R :: "'c \<Rightarrow> 'c \<Rightarrow> bool"
  assumes R_refl: "R c c"
    and R_trans: "R a b \<Longrightarrow> R b c \<Longrightarrow> R a c"
begin

lemma ret_step: "steps R (ret x)"
  by (simp add: steps_def ret_def R_refl)

lemma raise_step: "steps R (raise e)"
  by (simp add: steps_def raise_def R_refl)

lemma gets_step: "steps R (gets f)"
  by (simp add: steps_def gets_def R_refl)

lemma lift_step: "steps R (lift r)"
  by (simp add: steps_def lift_def R_refl)

lemma guard_err_step: "steps R (guard_err b e)"
  by (simp add: guard_err_def ret_step raise_step)

lemma modify_step: "(\<And>c. R c (f c)) \<Longrightarrow> steps R (modify f)"
  by (simp add: steps_def modify_def)

lemma attempt_step: "steps R m \<Longrightarrow> steps R (attempt m)"
  by (simp add: steps_def attempt_def case_prod_unfold)

lemma bnd_step:
  assumes m: "steps R m" and k: "\<And>x. steps R (k x)"
  shows "steps R (bnd m k)"
proof -
  have "R c (snd (bnd m k c))" for c
  proof (cases "m c")
    case (Pair r c')
    with m have "R c c'" by (auto dest: stepsD)
    moreover have "R c' (snd (k x c'))" for x using k [of x] by (simp add: steps_def)
    ultimately show ?thesis
      using Pair by (auto simp: bnd_def split: sum.split intro: R_trans)
  qed
  then show ?thesis by (simp add: steps_def)
qed

lemma thn_step: "steps R m \<Longrightarrow> steps R n \<Longrightarrow> steps R (thn m n)"
  by (simp add: thn_def bnd_step)

lemma if_step: "(b \<Longrightarrow> steps R m) \<Longrightarrow> (\<not> b \<Longrightarrow> steps R n) \<Longrightarrow> steps R (if b then m else n)"
  by simp

lemma option_step:
  "(x = None \<Longrightarrow> steps R m) \<Longrightarrow> (\<And>y. x = Some y \<Longrightarrow> steps R (k y)) \<Longrightarrow>
     steps R (case x of None \<Rightarrow> m | Some y \<Rightarrow> k y)"
  by (simp split: option.split)

lemma sum_step:
  "(\<And>e. x = Inl e \<Longrightarrow> steps R (f e)) \<Longrightarrow> (\<And>y. x = Inr y \<Longrightarrow> steps R (k y)) \<Longrightarrow>
     steps R (case x of Inl e \<Rightarrow> f e | Inr y \<Rightarrow> k y)"
  by (simp split: sum.split)

lemma let_step: "steps R (k v) \<Longrightarrow> steps R (let x = v in k x)"
  by simp

lemmas monad_steps =
  ret_step raise_step gets_step lift_step guard_err_step attempt_step bnd_step thn_step if_step
  option_step sum_step let_step

end

definition keeps :: "('c \<Rightarrow> bool) \<Rightarrow> 'c \<Rightarrow> 'c \<Rightarrow> bool" where
  "keeps I c c' \<longleftrightarrow> (I c \<longrightarrow> I c')"

interpretation keeps: step_relation "keeps I" for I
  by unfold_locales (auto simp: keeps_def)

section \<open>Options, finite maps and lists\<close>

text \<open>\<open>is_some_and\<close>, \<open>is_none_or\<close> and \<open>filter\<close> of \<open>Option\<close>, and its derived order, in which
  \<open>None\<close> is below every \<open>Some\<close>.\<close>

definition is_some_and :: "('a \<Rightarrow> bool) \<Rightarrow> 'a option \<Rightarrow> bool" where
  "is_some_and p x = (case x of None \<Rightarrow> False | Some y \<Rightarrow> p y)"

definition is_none_or :: "('a \<Rightarrow> bool) \<Rightarrow> 'a option \<Rightarrow> bool" where
  "is_none_or p x = (case x of None \<Rightarrow> True | Some y \<Rightarrow> p y)"

definition option_filter :: "('a \<Rightarrow> bool) \<Rightarrow> 'a option \<Rightarrow> 'a option" where
  "option_filter p x = (case x of None \<Rightarrow> None | Some y \<Rightarrow> if p y then Some y else None)"

fun option_less :: "'a::ord option \<Rightarrow> 'a option \<Rightarrow> bool" where
  "option_less _ None = False"
| "option_less None (Some b) = True"
| "option_less (Some a) (Some b) = (a < b)"

lemma option_pred_simps [simp]:
  "\<not> is_some_and p None" "is_some_and p (Some y) = p y"
  "is_none_or p None" "is_none_or p (Some y) = p y"
  "option_filter p None = None" "option_filter p (Some y) = (if p y then Some y else None)"
  by (simp_all add: is_some_and_def is_none_or_def option_filter_def)

lemma option_filter_Some_iff: "option_filter p x = Some y \<longleftrightarrow> x = Some y \<and> p y"
  by (cases x) auto

lemma option_less_irrefl [simp]: "\<not> option_less (a :: 'a::linorder option) a"
  by (cases a) auto

lemma option_not_less_trans:
  "\<not> option_less b a \<Longrightarrow> \<not> option_less c b \<Longrightarrow> \<not> option_less c (a :: 'a::linorder option)"
  by (cases a; cases b; cases c) auto

text \<open>A \<open>BTreeMap\<close> is a finite map, a \<open>BTreeSet\<close> a finite set; \<open>len()\<close> is the number of keys.\<close>

definition map_len :: "('k, 'v) fmap \<Rightarrow> nat" where
  "map_len m = fcard (fmdom m)"

definition get_or :: "'v \<Rightarrow> ('k, 'v) fmap \<Rightarrow> 'k \<Rightarrow> 'v" where
  "get_or d m k = (case fmlookup m k of None \<Rightarrow> d | Some v \<Rightarrow> v)"

lemma get_or_simps [simp]:
  "get_or d fmempty k = d"
  "get_or d (fmupd k v m) k' = (if k = k' then v else get_or d m k')"
  by (simp_all add: get_or_def)

lemma map_len_empty [simp]: "map_len fmempty = 0"
  by (simp add: map_len_def)

lemma map_len_upd:
  "map_len (fmupd k v m) = (if fmlookup m k = None then Suc (map_len m) else map_len m)"
  by (auto simp: map_len_def fmlookup_dom_iff fcard_finsert_if finsert_absorb)

text \<open>Updating the first element that satisfies a predicate (\<open>iter_mut().find(..)\<close>).\<close>

fun update_first :: "('a \<Rightarrow> bool) \<Rightarrow> ('a \<Rightarrow> 'a) \<Rightarrow> 'a list \<Rightarrow> 'a list" where
  "update_first p f [] = []"
| "update_first p f (x # xs) = (if p x then f x # xs else x # update_first p f xs)"

fun find_index :: "('a \<Rightarrow> bool) \<Rightarrow> 'a list \<Rightarrow> nat option" where
  "find_index p [] = None"
| "find_index p (x # xs) = (if p x then Some 0 else map_option Suc (find_index p xs))"

definition remove_at :: "nat \<Rightarrow> 'a list \<Rightarrow> 'a list" where
  "remove_at i xs = take i xs @ drop (Suc i) xs"

definition update_last :: "('a \<Rightarrow> 'a) \<Rightarrow> 'a list \<Rightarrow> 'a list" where
  "update_last f xs = (if xs = [] then [] else butlast xs @ [f (last xs)])"

lemma length_eqs:
  "length xs = Suc 0 \<longleftrightarrow> (\<exists>a. xs = [a])"
  "length xs = 2 \<longleftrightarrow> (\<exists>a b. xs = [a, b])"
  "length xs = 3 \<longleftrightarrow> (\<exists>a b c. xs = [a, b, c])"
  "length xs = 4 \<longleftrightarrow> (\<exists>a b c d. xs = [a, b, c, d])"
  by (auto simp: length_Suc_conv eval_nat_numeral)

lemma length_eq_6: "length xs = 6 \<longleftrightarrow> (\<exists>a b c d e f. xs = [a, b, c, d, e, f])"
  and length_eq_8: "length xs = 8 \<longleftrightarrow> (\<exists>a b c d e f g h. xs = [a, b, c, d, e, f, g, h])"
  and length_eq_9: "length xs = 9 \<longleftrightarrow> (\<exists>a b c d e f g h i. xs = [a, b, c, d, e, f, g, h, i])"
  by (auto simp: length_Suc_conv eval_nat_numeral)

lemma length_update_first [simp]: "length (update_first p f xs) = length xs"
  by (induction xs) auto

lemma update_first_set: "x \<in> set (update_first p f xs) \<Longrightarrow> x \<in> set xs \<or> (\<exists>y\<in>set xs. p y \<and> x = f y)"
  by (induction xs) (auto split: if_splits)

lemma find_index_Some: "find_index p xs = Some i \<Longrightarrow> i < length xs \<and> p (xs ! i)"
  by (induction xs arbitrary: i) (auto split: if_splits)

lemma length_remove_at: "i < length xs \<Longrightarrow> length (remove_at i xs) = length xs - 1"
  by (simp add: remove_at_def)

lemma set_remove_at: "set (remove_at i xs) \<subseteq> set xs"
  by (auto simp: remove_at_def dest: in_set_takeD in_set_dropD)

end
