(* ===== verification/Types.thy ===== *)
theory Types
  imports Prelude
begin

text \<open>
  The shared domain values of \<^verbatim>\<open>crates/openlock-types\<close>: identities, grants, policies,
  device keys and the error codes of \<^verbatim>\<open>lib.rs\<close>; readings, configuration, audit and firmware
  records, actions, commands, replies and responses of \<^verbatim>\<open>device.rs\<close>, with the validation
  methods the other crates call. Field names carry a short prefix for their structure,
  because Isabelle's record selectors share one name space; constructors that several
  Rust enums share carry the enum's name.
\<close>

unbundle bit_operations_syntax

section \<open>Constants\<close>

definition PROTOCOL_VERSION :: u64 where "PROTOCOL_VERSION = 4"
definition CREDENTIAL_VERSION :: u64 where "CREDENTIAL_VERSION = 2"
definition MAX_OBJECT_SIZE :: nat where "MAX_OBJECT_SIZE = 4096"
definition MAX_MESSAGE_SIZE :: nat where "MAX_MESSAGE_SIZE = 4096"
definition MAX_EVENT_SIZE :: nat where "MAX_EVENT_SIZE = MAX_MESSAGE_SIZE + 64"

definition RIGHTS_UNLOCK :: u32 where "RIGHTS_UNLOCK = 1"
definition RIGHTS_STATUS :: u32 where "RIGHTS_STATUS = 2"
definition RIGHTS_LOCK :: u32 where "RIGHTS_LOCK = 4"
definition RIGHTS_LOG :: u32 where "RIGHTS_LOG = 8"
definition RIGHTS_CONFIG :: u32 where "RIGHTS_CONFIG = 16"
definition RIGHTS_CREDENTIALS :: u32 where "RIGHTS_CREDENTIALS = 32"
definition RIGHTS_CLOCK :: u32 where "RIGHTS_CLOCK = 64"
definition RIGHTS_REBOOT :: u32 where "RIGHTS_REBOOT = 128"
definition RIGHTS_FIRMWARE :: u32 where "RIGHTS_FIRMWARE = 256"
definition RIGHTS_RESET :: u32 where "RIGHTS_RESET = 512"
definition RIGHTS_TRUST :: u32 where "RIGHTS_TRUST = 1024"
definition KNOWN_RIGHTS :: u32 where "KNOWN_RIGHTS = 2047"
definition KNOWN_CAPABILITIES :: u64 where "KNOWN_CAPABILITIES = push_bit 23 1 - 1"

lemmas rights_defs =
  RIGHTS_UNLOCK_def RIGHTS_STATUS_def RIGHTS_LOCK_def RIGHTS_LOG_def RIGHTS_CONFIG_def
  RIGHTS_CREDENTIALS_def RIGHTS_CLOCK_def RIGHTS_REBOOT_def RIGHTS_FIRMWARE_def
  RIGHTS_RESET_def RIGHTS_TRUST_def KNOWN_RIGHTS_def

section \<open>Identities, grants and policies\<close>

datatype LockId = LockId (lock_bytes: bytes)
datatype CredentialId = CredentialId (cred_bytes: bytes)
datatype SubjectKey = SubjectKey (subject_bytes: bytes)

text \<open>The derived \<open>Ord\<close> of an identifier is the lexicographic order of its bytes: a policy lists
  the revoked credentials, and a trust snapshot its devices, in that order.\<close>

instantiation LockId :: linorder
begin

definition less_eq_LockId :: "LockId \<Rightarrow> LockId \<Rightarrow> bool" where
  "a \<le> b \<longleftrightarrow> lock_bytes a \<le> lock_bytes b"

definition less_LockId :: "LockId \<Rightarrow> LockId \<Rightarrow> bool" where
  "a < b \<longleftrightarrow> lock_bytes a < lock_bytes b"

instance
  by standard (auto simp: less_eq_LockId_def less_LockId_def LockId.expand)

end

instantiation CredentialId :: linorder
begin

definition less_eq_CredentialId :: "CredentialId \<Rightarrow> CredentialId \<Rightarrow> bool" where
  "a \<le> b \<longleftrightarrow> cred_bytes a \<le> cred_bytes b"

definition less_CredentialId :: "CredentialId \<Rightarrow> CredentialId \<Rightarrow> bool" where
  "a < b \<longleftrightarrow> cred_bytes a < cred_bytes b"

instance
  by standard (auto simp: less_eq_CredentialId_def less_CredentialId_def CredentialId.expand)

end

record Validity =
  v_not_before :: u64
  v_not_after :: u64

record Grant =
  g_credential_id :: CredentialId
  g_lock_id :: LockId
  g_subject_key :: SubjectKey
  g_rights :: u32
  g_epoch :: u64
  g_validity :: "Validity option"
  g_max_uses :: "u32 option"

record PolicyUpdate =
  p_lock_id :: LockId
  p_epoch :: u64
  p_version :: u64
  p_revoked :: "CredentialId fset"

record ClockSample =
  cs_lower :: u64
  cs_upper :: u64

datatype Authorization = LongLived | Timed | Counted (counted_used: u32) (counted_max: u32)

datatype Decision = Authorized Authorization | AlreadyConsumed (next_use: u32)

record DeviceKey =
  dk_device_id :: LockId
  dk_key_id :: u32
  dk_key_version :: u32
  dk_x25519_public_key :: bytes
  dk_rotation_public_key :: bytes
  dk_capabilities :: u64

record DeviceKeyRecord =
  kr_key :: DeviceKey
  kr_issuer_key_id :: u32
  kr_signature :: bytes

record KeyUpdate =
  ku_old_key_id :: u32
  ku_new_record :: DeviceKeyRecord
  ku_not_before :: u64
  ku_retire_after :: u64
  ku_issuer_key_id :: "u32 option"
  ku_signature :: bytes

section \<open>Errors\<close>

datatype (plugins only: code size) Error =
    ObjectTooLarge | InvalidCose | InvalidPayload | BadSignature | WrongLock | Revoked
  | StaleEpoch | Expired | ClockUntrusted | UsageExhausted | StalePolicy | StorageUnavailable
  | InvalidConsumption | MissingRight | NoiseError | UnsupportedVersion | InvalidState
  | UnsupportedCapability | UntrustedKey | StaleKey | ActuatorFailed | InvalidNfc
  | Busy | DoorOpen | PrivacyActive | Jammed | ActionTimeout | SensorConflict
  | InvalidConfig | Conflict | ResultUnavailable | NotProvisioned | AlreadyProvisioned
  | PairingClosed | InvalidSetupKey | PhysicalConfirmationRequired | ClockRollback
  | FirmwareInvalid | FirmwareTargetMismatch | FirmwareRollback | FirmwareConflict
  | FirmwareIncomplete | PowerInsufficient | BootFailed | ResourceExhausted

primrec Error_code :: "Error \<Rightarrow> u32" where
  "Error_code ObjectTooLarge = 1"
| "Error_code InvalidCose = 2"
| "Error_code InvalidPayload = 3"
| "Error_code BadSignature = 4"
| "Error_code WrongLock = 5"
| "Error_code Revoked = 6"
| "Error_code StaleEpoch = 7"
| "Error_code Expired = 8"
| "Error_code ClockUntrusted = 9"
| "Error_code UsageExhausted = 10"
| "Error_code StalePolicy = 11"
| "Error_code StorageUnavailable = 12"
| "Error_code InvalidConsumption = 13"
| "Error_code MissingRight = 14"
| "Error_code NoiseError = 15"
| "Error_code UnsupportedVersion = 16"
| "Error_code InvalidState = 17"
| "Error_code UnsupportedCapability = 18"
| "Error_code UntrustedKey = 19"
| "Error_code StaleKey = 20"
| "Error_code ActuatorFailed = 21"
| "Error_code InvalidNfc = 22"
| "Error_code Busy = 32"
| "Error_code DoorOpen = 33"
| "Error_code PrivacyActive = 34"
| "Error_code Jammed = 35"
| "Error_code ActionTimeout = 36"
| "Error_code SensorConflict = 37"
| "Error_code InvalidConfig = 38"
| "Error_code Conflict = 39"
| "Error_code ResultUnavailable = 40"
| "Error_code NotProvisioned = 41"
| "Error_code AlreadyProvisioned = 42"
| "Error_code PairingClosed = 43"
| "Error_code InvalidSetupKey = 44"
| "Error_code PhysicalConfirmationRequired = 45"
| "Error_code ClockRollback = 46"
| "Error_code FirmwareInvalid = 47"
| "Error_code FirmwareTargetMismatch = 48"
| "Error_code FirmwareRollback = 49"
| "Error_code FirmwareConflict = 50"
| "Error_code FirmwareIncomplete = 51"
| "Error_code PowerInsufficient = 52"
| "Error_code BootFailed = 53"
| "Error_code ResourceExhausted = 54"

definition ClockSample_validate :: "ClockSample \<Rightarrow> Error + ClockSample" where
  "ClockSample_validate c = (if cs_lower c > cs_upper c then Inl ClockUntrusted else Inr c)"

section \<open>Physical state\<close>

datatype 'a Reading = Unsupported | Unknown | Known 'a
datatype BoltState = Locked | Unlocked
datatype DoorState = Closed | Open
datatype ActuatorKind = Motor | Pulse
datatype ActionTarget = Target_Unlock | Target_Lock
datatype Fault =
  Fault_None | Fault_Jammed | Fault_Timeout | Fault_SensorConflict | Fault_Driver | Fault_DoorAjar
datatype CompletionEvidence =
  Evidence_None | Evidence_Driver | Evidence_Sensor | Evidence_NoChange
datatype OperationPhase =
  Phase_Accepted | Phase_Running | Phase_Completed | Phase_Failed | Phase_Unknown

record OperationStatus =
  os_credential_id :: CredentialId
  os_sequence :: u64
  os_opcode :: u8
  os_phase :: OperationPhase
  os_evidence :: CompletionEvidence
  os_error :: u32

record LockStatus =
  ls_bolt :: "BoltState Reading"
  ls_door :: "DoorState Reading"
  ls_privacy :: "bool Reading"
  ls_battery_percent :: "u8 Reading"
  ls_fault :: Fault
  ls_active :: "OperationStatus option"
  ls_epoch :: u64
  ls_policy_version :: u64
  ls_config_version :: u64
  ls_generation :: u64
  ls_clock_trusted :: bool

record DeviceInfo =
  di_lock_id :: LockId
  di_model :: string
  di_hardware :: string
  di_firmware :: string
  di_capabilities :: u64
  di_actuator :: ActuatorKind
  di_bolt_sensor :: bool
  di_door_sensor :: bool
  di_privacy_sensor :: bool
  di_battery_sensor :: bool
  di_safe_lock_without_door :: bool
  di_hold_open :: bool
  di_max_release_ms :: u32
  di_max_action_ms :: u32
  di_max_delay_ms :: u32
  di_log_capacity :: u32
  di_operation_capacity :: u32
  di_credential_capacity :: u32
  di_max_image_size :: u64
  di_max_chunk_size :: u32

definition DeviceInfo_validate :: "DeviceInfo \<Rightarrow> Error + unit" where
  "DeviceInfo_validate i =
     (if di_capabilities i = 0
       \<or> di_capabilities i AND NOT KNOWN_CAPABILITIES \<noteq> 0
       \<or> di_model i = []
       \<or> di_hardware i = []
       \<or> di_firmware i = []
       \<or> length (di_model i) > 64
       \<or> length (di_hardware i) > 64
       \<or> length (di_firmware i) > 64
       \<or> di_max_release_ms i = 0
       \<or> di_max_action_ms i = 0
       \<or> di_max_delay_ms i = 0
       \<or> di_log_capacity i = 0
       \<or> di_operation_capacity i = 0
       \<or> di_credential_capacity i = 0
       \<or> di_max_chunk_size i > 1024
       \<or> (di_actuator i = Pulse \<and> di_capabilities i AND push_bit 3 1 \<noteq> 0)
       \<or> (di_capabilities i AND push_bit 13 0x3f \<noteq> 0
            \<and> (di_max_image_size i = 0 \<or> di_max_chunk_size i = 0))
      then Inl InvalidConfig else Inr ())"

datatype AutoRelock = Disabled | Delay u32 | AfterClose u32

record DeviceConfig =
  dc_version :: u64
  dc_auto_relock :: AutoRelock
  dc_release_ms :: u32
  dc_action_timeout_ms :: u32
  dc_hold_open :: bool
  dc_door_ajar_ms :: u32

definition DeviceConfig_factory :: "DeviceInfo \<Rightarrow> DeviceConfig" where
  "DeviceConfig_factory i =
     \<lparr>dc_version = 0, dc_auto_relock = Disabled,
      dc_release_ms = min (di_max_release_ms i) 500,
      dc_action_timeout_ms = min (di_max_action_ms i) 10000,
      dc_hold_open = False, dc_door_ajar_ms = 0\<rparr>"

definition relock_delay_invalid :: "DeviceConfig \<Rightarrow> DeviceInfo \<Rightarrow> u32 \<Rightarrow> bool \<Rightarrow> bool" where
  "relock_delay_invalid c i ms after_close \<longleftrightarrow>
     ms = 0
     \<or> ms > di_max_delay_ms i
     \<or> di_capabilities i AND push_bit 3 1 = 0
     \<or> dc_hold_open c
     \<or> (\<not> di_door_sensor i \<and> \<not> di_safe_lock_without_door i)
     \<or> (after_close \<and> \<not> di_door_sensor i)"

definition DeviceConfig_validate :: "DeviceConfig \<Rightarrow> DeviceInfo \<Rightarrow> Error + unit" where
  "DeviceConfig_validate c i =
     (if dc_release_ms c = 0
       \<or> dc_release_ms c > di_max_release_ms i
       \<or> dc_action_timeout_ms c = 0
       \<or> dc_action_timeout_ms c > di_max_action_ms i
       \<or> (dc_hold_open c \<and> \<not> di_hold_open i)
       \<or> dc_door_ajar_ms c > di_max_delay_ms i
       \<or> (dc_door_ajar_ms c \<noteq> 0 \<and> \<not> di_door_sensor i)
      then Inl InvalidConfig
      else case dc_auto_relock c of
          Disabled \<Rightarrow> Inr ()
        | Delay ms \<Rightarrow> reject_if (relock_delay_invalid c i ms False) InvalidConfig
        | AfterClose ms \<Rightarrow> reject_if (relock_delay_invalid c i ms True) InvalidConfig)"

section \<open>Audit and firmware records\<close>

datatype AuditKind =
    Audit_Operation | Audit_Hardware | Audit_Configuration | Audit_Ownership | Audit_Clock
  | Audit_Policy | Audit_Firmware | Audit_Reboot | Audit_Rejected

record HardwareState =
  hw_bolt :: "BoltState Reading"
  hw_door :: "DoorState Reading"
  hw_privacy :: "bool Reading"
  hw_battery_percent :: "u8 Reading"

record AuditEvent =
  ae_cursor :: u64
  ae_unix_seconds :: "u64 option"
  ae_kind :: AuditKind
  ae_credential_id :: "CredentialId option"
  ae_sequence :: "u64 option"
  ae_code :: u32
  ae_hardware :: "HardwareState option"
  ae_operation :: "OperationStatus option"

record AuditPage =
  ap_events :: "AuditEvent list"
  ap_next_cursor :: u64
  ap_gap :: bool

record FirmwareManifest =
  fm_model :: string
  fm_hardware :: string
  fm_version :: string
  fm_size :: u64
  fm_sha256 :: bytes
  fm_security_version :: u64

datatype FirmwarePhase =
  Firmware_Empty | Firmware_Receiving | Firmware_Verified | Firmware_Trial
| Firmware_Confirmed | Firmware_Failed

record FirmwareStatus =
  fs_phase :: FirmwarePhase
  fs_received :: u64
  fs_manifest :: "FirmwareManifest option"
  fs_security_version :: u64

section \<open>Actions, commands and responses\<close>

datatype (plugins only: code size) Action =
    Unlock | Status | ApplyPolicy bytes | Lock | Info | Operation u64 | GetConfig
  | SetConfig DeviceConfig | ReadLog (log_after: u64) (log_limit: u32) | SetClock u64
  | Reboot | FactoryReset | ReplaceIssuer bytes | FirmwareBegin bytes
  | FirmwareChunk (chunk_offset: u64) (chunk_data: bytes) | FirmwareFinish
  | FirmwareActivate | FirmwareAbort | FirmwareStatusQuery
  | Claim (claim_setup_key: bytes) (claim_issuer: bytes) (claim_admin_credential: bytes)
  | CredentialStatus | RotateDeviceKey bytes | PairingStatus

primrec Action_opcode :: "Action \<Rightarrow> u8" where
  "Action_opcode Unlock = 0"
| "Action_opcode Status = 1"
| "Action_opcode (ApplyPolicy _) = 2"
| "Action_opcode Lock = 3"
| "Action_opcode Info = 4"
| "Action_opcode (Operation _) = 5"
| "Action_opcode GetConfig = 6"
| "Action_opcode (SetConfig _) = 7"
| "Action_opcode (ReadLog _ _) = 8"
| "Action_opcode (SetClock _) = 9"
| "Action_opcode Reboot = 10"
| "Action_opcode FactoryReset = 11"
| "Action_opcode (ReplaceIssuer _) = 12"
| "Action_opcode (FirmwareBegin _) = 13"
| "Action_opcode (FirmwareChunk _ _) = 14"
| "Action_opcode FirmwareFinish = 15"
| "Action_opcode FirmwareActivate = 16"
| "Action_opcode FirmwareAbort = 17"
| "Action_opcode FirmwareStatusQuery = 18"
| "Action_opcode (Claim _ _ _) = 19"
| "Action_opcode CredentialStatus = 20"
| "Action_opcode (RotateDeviceKey _) = 21"
| "Action_opcode PairingStatus = 22"

primrec Action_right :: "Action \<Rightarrow> u32" where
  "Action_right Unlock = RIGHTS_UNLOCK"
| "Action_right Lock = RIGHTS_LOCK"
| "Action_right Status = RIGHTS_STATUS"
| "Action_right Info = RIGHTS_STATUS"
| "Action_right (Operation _) = RIGHTS_STATUS"
| "Action_right GetConfig = RIGHTS_STATUS"
| "Action_right CredentialStatus = RIGHTS_STATUS"
| "Action_right (ApplyPolicy _) = RIGHTS_CREDENTIALS"
| "Action_right (SetConfig _) = RIGHTS_CONFIG"
| "Action_right (ReadLog _ _) = RIGHTS_LOG"
| "Action_right (SetClock _) = RIGHTS_CLOCK"
| "Action_right Reboot = RIGHTS_REBOOT"
| "Action_right FactoryReset = RIGHTS_RESET"
| "Action_right (ReplaceIssuer _) = RIGHTS_TRUST"
| "Action_right (RotateDeviceKey _) = RIGHTS_TRUST"
| "Action_right (FirmwareBegin _) = RIGHTS_FIRMWARE"
| "Action_right (FirmwareChunk _ _) = RIGHTS_FIRMWARE"
| "Action_right FirmwareFinish = RIGHTS_FIRMWARE"
| "Action_right FirmwareActivate = RIGHTS_FIRMWARE"
| "Action_right FirmwareAbort = RIGHTS_FIRMWARE"
| "Action_right FirmwareStatusQuery = RIGHTS_FIRMWARE"
| "Action_right (Claim _ _ _) = 0"
| "Action_right PairingStatus = 0"

definition Action_mutates :: "Action \<Rightarrow> bool" where
  "Action_mutates a =
     (case a of Status \<Rightarrow> False | Info \<Rightarrow> False | Operation _ \<Rightarrow> False | GetConfig \<Rightarrow> False
      | ReadLog _ _ \<Rightarrow> False | FirmwareStatusQuery \<Rightarrow> False | CredentialStatus \<Rightarrow> False
      | PairingStatus \<Rightarrow> False | _ \<Rightarrow> True)"

record Command =
  cmd_credential :: bytes
  cmd_sequence :: "u64 option"
  cmd_action :: Action

definition Command_capability :: "Command \<Rightarrow> u64" where
  "Command_capability c = push_bit (unat (Action_opcode (cmd_action c))) 1"

definition credentialless :: "Action \<Rightarrow> bool" where
  "credentialless a = (case a of Claim _ _ _ \<Rightarrow> True | PairingStatus \<Rightarrow> True | _ \<Rightarrow> False)"

definition Command_validate :: "Command \<Rightarrow> Error + unit" where
  "Command_validate c =
     (if length (cmd_credential c) > MAX_OBJECT_SIZE
       \<or> (cmd_credential c = []) \<noteq> credentialless (cmd_action c)
       \<or> Action_mutates (cmd_action c) \<noteq> (cmd_sequence c \<noteq> None)
       \<or> cmd_sequence c = Some 0
      then Inl InvalidPayload else Inr ())"

datatype Reply =
    Reply_Operation OperationStatus | Reply_Status LockStatus | Reply_Info DeviceInfo
  | Reply_Config DeviceConfig | Reply_Audit AuditPage | Reply_Firmware FirmwareStatus
  | Reply_Pairing (pairing_epoch: u64) (pairing_generation: u64) (pairing_window_open: bool)
  | Reply_Claimed (claimed_epoch: u64) (claimed_generation: u64)
  | Reply_Credential (credential_uses: u32) (credential_max_uses: "u32 option")
      (credential_next_sequence: u64)

record Response =
  rsp_opcode :: u8
  rsp_result :: "u32 + Reply"

definition Response_rejected :: "Action \<Rightarrow> Error \<Rightarrow> Response" where
  "Response_rejected a e = \<lparr>rsp_opcode = Action_opcode a, rsp_result = Inl (Error_code e)\<rparr>"

end
