(* ===== verification/Externals.thy ===== *)
theory Externals
  imports Types
begin

text \<open>
  The boundary to third-party crates. \<^verbatim>\<open>ciborium\<close>, \<^verbatim>\<open>ed25519-dalek\<close>, \<^verbatim>\<open>sha2\<close> and
  \<^verbatim>\<open>x25519-dalek\<close> are not part of the repository: the functions the sources call are the
  fields of a record \<open>Crypto\<close>, an argument of every definition that uses them. What the
  code relies on is stated as named predicates over that record. The locale \<open>cbor_laws\<close> is
  the contract of the CBOR reader and writer on the values the protocol builds; theory
  \<open>Ref_Cbor\<close> interprets it with an RFC 8949 codec.
\<close>

section \<open>Text\<close>

text \<open>
  A \<open>String\<close> of the crates is well-formed UTF-8 (RFC 3629): no stray continuation byte, no overlong
  form, no surrogate, nothing above U+10FFFF. A text of the model is the list of its bytes,
  written as characters.
\<close>

definition utf8_tail :: "u8 \<Rightarrow> bool" where
  "utf8_tail b \<longleftrightarrow> 0x80 \<le> b \<and> b \<le> 0xbf"

definition utf8_second :: "u8 \<Rightarrow> u8 \<Rightarrow> bool" where
  "utf8_second a b \<longleftrightarrow> utf8_tail b \<and> (a = 0xe0 \<longrightarrow> 0xa0 \<le> b) \<and> (a = 0xed \<longrightarrow> b \<le> 0x9f)
     \<and> (a = 0xf0 \<longrightarrow> 0x90 \<le> b) \<and> (a = 0xf4 \<longrightarrow> b \<le> 0x8f)"

fun utf8_valid :: "bytes \<Rightarrow> bool" where
  "utf8_valid [] = True"
| "utf8_valid (a # rest) =
     (if a < 0x80 then utf8_valid rest
      else case rest of
        b # rest \<Rightarrow>
          if 0xc2 \<le> a \<and> a \<le> 0xdf then utf8_tail b \<and> utf8_valid rest
          else (case rest of
            c # rest \<Rightarrow>
              if 0xe0 \<le> a \<and> a \<le> 0xef then utf8_second a b \<and> utf8_tail c \<and> utf8_valid rest
              else (case rest of
                d # rest \<Rightarrow> 0xf0 \<le> a \<and> a \<le> 0xf4 \<and> utf8_second a b \<and> utf8_tail c \<and> utf8_tail d \<and> utf8_valid rest
              | [] \<Rightarrow> False)
          | [] \<Rightarrow> False)
      | [] \<Rightarrow> False)"

definition utf8_string :: "string \<Rightarrow> bool" where
  "utf8_string s = utf8_valid (map of_char s)"

lemma of_char_ascii: "(of_char (Char b0 b1 b2 b3 b4 b5 b6 False) :: u8) < 0x80"
  by (simp add: of_char_def word_less_nat_alt unsigned_of_nat)

lemma utf8_string_ascii [simp]:
  "utf8_string []" "utf8_string (Char b0 b1 b2 b3 b4 b5 b6 False # s) = utf8_string s"
  by (simp_all add: utf8_string_def of_char_ascii del: of_char_Char)

section \<open>CBOR values\<close>

text \<open>\<^verbatim>\<open>ciborium::value::Value\<close>; a float is kept as its 64-bit pattern.\<close>

datatype (plugins only: code size) Value =
    V_Integer int | V_Bytes bytes | V_Float u64 | V_Text string | V_Bool bool | V_Null
  | V_Tag u64 Value | V_Array "Value list" | V_Map "(Value \<times> Value) list"

text \<open>
  The values the protocol builds: integers that fit the CBOR head, byte strings, text strings in
  UTF-8, \<open>null\<close>, arrays and empty or integer-keyed maps, nested at most \<open>d\<close> containers deep.
\<close>

definition cbor_int :: "int \<Rightarrow> bool" where
  "cbor_int n \<longleftrightarrow> - (2 ^ 64) \<le> n \<and> n < 2 ^ 64"

fun plain :: "nat \<Rightarrow> Value \<Rightarrow> bool" where
  "plain d (V_Integer n) = cbor_int n"
| "plain d (V_Bytes b) = (length b < 2 ^ 64)"
| "plain d (V_Text s) = (length s < 2 ^ 64 \<and> utf8_string s)"
| "plain d V_Null = True"
| "plain (Suc d) (V_Array vs) = (length vs < 2 ^ 64 \<and> list_all (plain d) vs)"
| "plain (Suc d) (V_Map kvs) = (length kvs < 2 ^ 64 \<and> list_all (\<lambda>(k, v). plain d k \<and> plain d v) kvs)"
| "plain d v = False"

text \<open>The recursion limit the decoder passes is 16; protocol records nest less deeply.\<close>

definition wire_value :: "Value \<Rightarrow> bool" where
  "wire_value v = plain 15 v"

section \<open>Foreign functions\<close>

record Crypto =
  cr_into_writer :: "Value \<Rightarrow> bytes option"
  cr_from_reader :: "bytes \<Rightarrow> (Value \<times> bytes) option"
  cr_vk_from_bytes :: "bytes \<Rightarrow> bool"
  cr_signature_from_slice :: "bytes \<Rightarrow> bool"
  cr_verify_strict :: "bytes \<Rightarrow> bytes \<Rightarrow> bytes \<Rightarrow> bool"
  cr_sign :: "bytes \<Rightarrow> bytes \<Rightarrow> bytes"
  cr_verifying_key :: "bytes \<Rightarrow> bytes"
  cr_sha256 :: "bytes \<Rightarrow> bytes"
  cr_contributory :: "bytes \<Rightarrow> bool"
  cr_x25519_public :: "bytes \<Rightarrow> bytes"

text \<open>The CBOR reader inverts the writer on protocol values, and both sides are total there.\<close>

definition cbor_ok :: "Crypto \<Rightarrow> bool" where
  "cbor_ok cr \<longleftrightarrow> (\<forall>v. wire_value v \<longrightarrow>
     (\<exists>b. cr_into_writer cr v = Some b \<and> (\<forall>rest. cr_from_reader cr (b @ rest) = Some (v, rest))))"

text \<open>Ed25519: a signature made with a signing key has 64 bytes, is accepted as a signature
  and verifies under the key's public half, which is a valid verifying key.\<close>

definition ed25519_ok :: "Crypto \<Rightarrow> bool" where
  "ed25519_ok cr \<longleftrightarrow> (\<forall>sk m.
     cr_vk_from_bytes cr (cr_verifying_key cr sk) \<and>
     length (cr_sign cr sk m) = 64 \<and>
     cr_signature_from_slice cr (cr_sign cr sk m) \<and>
     cr_verify_strict cr (cr_verifying_key cr sk) m (cr_sign cr sk m))"

lemma plain_mono: "plain d v \<Longrightarrow> d \<le> d' \<Longrightarrow> plain d' v"
proof (induction d v arbitrary: d' rule: plain.induct)
  case (5 d vs)
  then obtain e where "d' = Suc e" "d \<le> e" by (cases d') auto
  with 5 show ?case by (auto simp: list_all_iff)
next
  case (6 d kvs)
  then obtain e where e: "d' = Suc e" "d \<le> e" by (cases d') auto
  with 6 show ?case by (fastforce simp: list_all_iff)
qed auto

lemma cbor_int_uint [simp]: "cbor_int (uint (w :: u64))"
  using uint_lt2p [of w] by (simp add: cbor_int_def) (smt (verit) uint_ge_0)

locale cbor_laws =
  fixes writer :: "Value \<Rightarrow> bytes option" and reader :: "bytes \<Rightarrow> (Value \<times> bytes) option"
  assumes reader_writer:
    "wire_value v \<Longrightarrow> \<exists>b. writer v = Some b \<and> (\<forall>rest. reader (b @ rest) = Some (v, rest))"
begin

lemma writer_total: "wire_value v \<Longrightarrow> \<exists>b. writer v = Some b"
  using reader_writer by blast

lemma writer_inj: "wire_value v \<Longrightarrow> wire_value w \<Longrightarrow> writer v = writer w \<Longrightarrow> v = w"
proof -
  assume v: "wire_value v" and w: "wire_value w" and eq: "writer v = writer w"
  from reader_writer [OF v] obtain b where b: "writer v = Some b" "reader (b @ []) = Some (v, [])"
    by blast
  from reader_writer [OF w] obtain c where c: "writer w = Some c" "reader (c @ []) = Some (w, [])"
    by blast
  from b c eq show "v = w" by simp
qed

lemma writer_prefix_free:
  "wire_value v \<Longrightarrow> wire_value w \<Longrightarrow> writer v = Some b \<Longrightarrow> writer w = Some (b @ r) \<Longrightarrow> v = w \<and> r = []"
proof -
  assume v: "wire_value v" and w: "wire_value w" and b: "writer v = Some b"
    and c: "writer w = Some (b @ r)"
  from reader_writer [OF v] b have "reader (b @ r) = Some (v, r)" by auto
  moreover from reader_writer [OF w] c have "\<forall>rest. reader ((b @ r) @ rest) = Some (w, rest)"
    by (auto simp del: append_assoc)
  then have "reader (b @ r) = Some (w, [])" by (drule_tac x = "[]" in spec) simp
  ultimately show "v = w \<and> r = []" by simp
qed

lemma cbor_ok_fields: "cr_into_writer cr = writer \<Longrightarrow> cr_from_reader cr = reader \<Longrightarrow> cbor_ok cr"
  by (simp add: cbor_ok_def reader_writer)

end

end
