(* ===== verification/Cbor.thy ===== *)
theory Cbor
  imports Externals
begin

text \<open>
  \<^verbatim>\<open>crates/openlock-crypto/src/cbor.rs\<close>: value constructors and accessors, and the bounded
  canonical encoder and decoder. The decoder re-encodes what it read and compares, so an
  accepted byte string is the canonical encoding of the value it returns, whatever the
  foreign reader does.
\<close>

definition cuint :: "u64 \<Rightarrow> Value" where
  "cuint n = V_Integer (uint n)"

definition cbytes :: "bytes \<Rightarrow> Value" where
  "cbytes b = V_Bytes b"

definition carray :: "Value list \<Rightarrow> Value" where
  "carray vs = V_Array vs"

definition number :: "Value \<Rightarrow> Error + u64" where
  "number v = (case v of
     V_Integer n \<Rightarrow> if 0 \<le> n \<and> n < 2 ^ 64 then Inr (word_of_int n) else Inl InvalidPayload
   | _ \<Rightarrow> Inl InvalidPayload)"

definition u32_value :: "Value \<Rightarrow> Error + u32" where
  "u32_value v = rbind (number v) (\<lambda>n.
     if unat n < 2 ^ 32 then Inr (ucast n) else Inl InvalidPayload)"

definition cdata :: "Value \<Rightarrow> Error + bytes" where
  "cdata v = (case v of V_Bytes b \<Rightarrow> Inr b | _ \<Rightarrow> Inl InvalidPayload)"

definition cfixed :: "nat \<Rightarrow> Value \<Rightarrow> Error + bytes" where
  "cfixed n v = rbind (cdata v) (\<lambda>b. if length b = n then Inr b else Inl InvalidPayload)"

definition cfields :: "Value \<Rightarrow> nat \<Rightarrow> Error + Value list" where
  "cfields v count = (case v of
     V_Array a \<Rightarrow> if length a = count then Inr a else Inl InvalidPayload
   | _ \<Rightarrow> Inl InvalidPayload)"

definition optional_u32 :: "Value \<Rightarrow> Error + u32 option" where
  "optional_u32 v = (if v = V_Null then Inr None else rbind (u32_value v) (\<lambda>n. Inr (Some n)))"

definition encode_limit :: "Crypto \<Rightarrow> Value \<Rightarrow> nat \<Rightarrow> Error + bytes" where
  "encode_limit cr v limit = (case cr_into_writer cr v of
     None \<Rightarrow> Inl InvalidPayload
   | Some out \<Rightarrow> if length out > limit then Inl ObjectTooLarge else Inr out)"

definition cencode :: "Crypto \<Rightarrow> Value \<Rightarrow> Error + bytes" where
  "cencode cr v = encode_limit cr v MAX_OBJECT_SIZE"

definition decode_limit :: "Crypto \<Rightarrow> bytes \<Rightarrow> nat \<Rightarrow> Error + Value" where
  "decode_limit cr b limit =
     (if length b > limit then Inl ObjectTooLarge
      else case cr_from_reader cr b of
          None \<Rightarrow> Inl InvalidPayload
        | Some (value, input) \<Rightarrow>
            if input \<noteq> [] then Inl InvalidPayload
            else rbind (encode_limit cr value limit) (\<lambda>enc.
              if enc \<noteq> b then Inl InvalidPayload else Inr value))"

definition cdecode :: "Crypto \<Rightarrow> bytes \<Rightarrow> Error + Value" where
  "cdecode cr b = decode_limit cr b MAX_OBJECT_SIZE"

section \<open>Accessors invert constructors\<close>

lemma number_cuint [simp]: "number (cuint n) = Inr n"
  using uint_lt2p [of n] by (simp add: number_def cuint_def)

lemma number_Inr_iff: "number v = Inr n \<longleftrightarrow> v = cuint n"
proof
  assume "number v = Inr n"
  then show "v = cuint n"
    by (cases v) (auto simp: number_def cuint_def uint_word_of_int split: if_splits)
qed simp

lemma cuint_inject [simp]: "cuint a = cuint b \<longleftrightarrow> a = b"
  by (simp add: cuint_def word_uint_eq_iff)

lemma ucast_u32_u64 [simp]: "ucast (ucast (n :: u32) :: u64) = n"
  by (simp add: ucast_up_down)

lemma ucast_u8_u64 [simp]: "ucast (ucast (n :: u8) :: u64) = n"
  by (simp add: ucast_up_down)

lemma u32_value_cuint [simp]: "u32_value (cuint (ucast (n :: u32))) = Inr n"
  using unsigned_less [of n, where 'a = nat] by (simp add: u32_value_def unat_ucast_up)

lemma u32_value_Inr_iff: "u32_value v = Inr n \<longleftrightarrow> v = cuint (ucast n)"
proof
  assume "u32_value v = Inr n"
  then obtain m where "number v = Inr m" "unat m < 2 ^ 32" "n = ucast m"
    by (auto simp: u32_value_def rbind_Inr_iff split: if_splits)
  then show "v = cuint (ucast n)" by (simp add: number_Inr_iff ucast_down_up)
qed simp

lemma cdata_Inr_iff: "cdata v = Inr b \<longleftrightarrow> v = cbytes b"
  by (cases v) (auto simp: cdata_def cbytes_def)

lemma cdata_cbytes [simp]: "cdata (cbytes b) = Inr b"
  by (simp add: cdata_Inr_iff)

lemma cfixed_Inr_iff: "cfixed n v = Inr b \<longleftrightarrow> v = cbytes b \<and> length b = n"
  by (auto simp: cfixed_def rbind_Inr_iff cdata_Inr_iff split: if_splits)

lemma cfixed_cbytes [simp]: "cfixed n (cbytes b) = (if length b = n then Inr b else Inl InvalidPayload)"
  by (simp add: cfixed_def)

lemma cfields_Inr_iff: "cfields v n = Inr vs \<longleftrightarrow> v = carray vs \<and> length vs = n"
  by (cases v) (auto simp: cfields_def carray_def)

lemma cfields_carray [simp]:
  "cfields (carray vs) n = (if length vs = n then Inr vs else Inl InvalidPayload)"
  by (simp add: cfields_def carray_def)

lemma value_distinct [simp]:
  "cuint n \<noteq> V_Null" "cbytes b \<noteq> V_Null" "carray vs \<noteq> V_Null"
  "V_Null \<noteq> cuint n" "V_Null \<noteq> cbytes b" "V_Null \<noteq> carray vs"
  by (simp_all add: cuint_def cbytes_def carray_def)

lemma carray_inject [simp]: "carray a = carray b \<longleftrightarrow> a = b"
  by (simp add: carray_def)

lemma cbytes_inject [simp]: "cbytes a = cbytes b \<longleftrightarrow> a = b"
  by (simp add: cbytes_def)

lemma optional_u32_Inr_iff:
  "optional_u32 v = Inr m \<longleftrightarrow> v = (case m of None \<Rightarrow> V_Null | Some n \<Rightarrow> cuint (ucast n))"
  by (cases m) (auto simp: optional_u32_def rbind_Inr_iff u32_value_Inr_iff)

lemmas cbor_Inr_iffs =
  number_Inr_iff u32_value_Inr_iff cdata_Inr_iff cfixed_Inr_iff cfields_Inr_iff
  optional_u32_Inr_iff

lemma plain_cuint [simp]: "plain d (cuint n)"
  by (simp add: cuint_def)

lemma plain_cbytes [simp]: "plain d (cbytes b) \<longleftrightarrow> length b < 2 ^ 64"
  by (simp add: cbytes_def)

lemma plain_carray [simp]:
  "plain (Suc d) (carray vs) \<longleftrightarrow> length vs < 2 ^ 64 \<and> list_all (plain d) vs"
  by (simp add: carray_def)

lemma plain_numeral [simp]:
  "plain (numeral k) (carray vs) \<longleftrightarrow> length vs < 2 ^ 64 \<and> list_all (plain (pred_numeral k)) vs"
  "plain (numeral k) (V_Map kvs) \<longleftrightarrow> length kvs < 2 ^ 64
     \<and> list_all (\<lambda>(k', v). plain (pred_numeral k) k' \<and> plain (pred_numeral k) v) kvs"
  using plain_carray [of "pred_numeral k" vs] plain.simps(6) [of "pred_numeral k" kvs]
  by (simp_all only: numeral_eq_Suc [of k, symmetric])

section \<open>Canonical encoding\<close>

lemma encode_limit_Inr_iff:
  "encode_limit cr v limit = Inr b \<longleftrightarrow> cr_into_writer cr v = Some b \<and> length b \<le> limit"
  by (auto simp: encode_limit_def split: option.splits)

lemma cencode_Inr_iff:
  "cencode cr v = Inr b \<longleftrightarrow> cr_into_writer cr v = Some b \<and> length b \<le> MAX_OBJECT_SIZE"
  by (simp add: cencode_def encode_limit_Inr_iff)

lemma decode_limit_canonical:
  "decode_limit cr b limit = Inr v \<Longrightarrow> encode_limit cr v limit = Inr b \<and> length b \<le> limit"
  by (auto simp: decode_limit_def rbind_Inr_iff split: if_splits option.splits prod.splits)

lemma decode_encode_limit:
  assumes "cbor_ok cr" "wire_value v" "encode_limit cr v limit = Inr b"
  shows "decode_limit cr b limit = Inr v"
proof -
  from assms(3) have b: "cr_into_writer cr v = Some b" "length b \<le> limit"
    by (simp_all add: encode_limit_Inr_iff)
  with assms(1,2) have "\<forall>rest. cr_from_reader cr (b @ rest) = Some (v, rest)"
    by (fastforce simp: cbor_ok_def)
  then have "cr_from_reader cr b = Some (v, [])" by (drule_tac x = "[]" in spec) simp
  with b assms(3) show ?thesis by (simp add: decode_limit_def)
qed

lemma cdecode_canonical: "cdecode cr b = Inr v \<Longrightarrow> cencode cr v = Inr b"
  by (simp add: cdecode_def cencode_def decode_limit_canonical)

lemma cdecode_cencode:
  "cbor_ok cr \<Longrightarrow> wire_value v \<Longrightarrow> cencode cr v = Inr b \<Longrightarrow> cdecode cr b = Inr v"
  by (simp add: cdecode_def cencode_def decode_encode_limit)

end
