(* ===== verification/Wire.thy ===== *)
theory Wire
  imports Cbor
begin

text \<open>
  \<^verbatim>\<open>crates/openlock-crypto/src/wire.rs\<close>: the canonical application values. For every type
  \<open>T\<close> with \<open>impl Wire for T\<close> there is a pair \<open>T_value\<close> / \<open>T_parse\<close> and the set \<open>T_wf\<close> of
  values the Rust type or the parser admits. The locale \<open>wire\<close> states the contract of the
  trait: \<open>parse\<close> accepts exactly the images of well-formed values, so that the format is
  a bijection. It is interpreted for every implementation.
\<close>

section \<open>The contract of the trait\<close>

locale wire =
  fixes val :: "'a \<Rightarrow> Value" and prs :: "Value \<Rightarrow> Error + 'a" and wf :: "'a \<Rightarrow> bool"
  assumes parse_iff: "prs v = Inr x \<longleftrightarrow> wf x \<and> v = val x"
    and val_not_null: "val x \<noteq> V_Null"
begin

lemma parse_val: "wf x \<Longrightarrow> prs (val x) = Inr x"
  by (simp add: parse_iff)

lemma val_parse: "prs v = Inr x \<Longrightarrow> val x = v"
  by (simp add: parse_iff)

lemma parse_wf: "prs v = Inr x \<Longrightarrow> wf x"
  by (simp add: parse_iff)

lemma val_inj: "wf x \<Longrightarrow> wf y \<Longrightarrow> val x = val y \<Longrightarrow> x = y"
  by (metis parse_val sum.inject(2))

end

section \<open>Leaves and containers\<close>

definition U64_value :: "u64 \<Rightarrow> Value" where "U64_value n = cuint n"
definition U64_parse :: "Value \<Rightarrow> Error + u64" where "U64_parse v = number v"
definition U32_value :: "u32 \<Rightarrow> Value" where "U32_value n = cuint (ucast n)"
definition U32_parse :: "Value \<Rightarrow> Error + u32" where "U32_parse v = u32_value v"
definition U8_value :: "u8 \<Rightarrow> Value" where "U8_value n = cuint (ucast n)"
definition U8_parse :: "Value \<Rightarrow> Error + u8" where
  "U8_parse v = rbind (number v) (\<lambda>n. if unat n < 2 ^ 8 then Inr (ucast n) else Inl InvalidPayload)"

definition Bool_value :: "bool \<Rightarrow> Value" where
  "Bool_value b = cuint (if b then 1 else 0)"

definition Bool_parse :: "Value \<Rightarrow> Error + bool" where
  "Bool_parse v = rbind (number v) (\<lambda>n.
     if n = 0 then Inr False else if n = 1 then Inr True else Inl InvalidPayload)"

text \<open>The \<open>String\<close> of a text value is well-formed, which the check of the bytes stands for.\<close>

definition String_value :: "string \<Rightarrow> Value" where "String_value s = V_Text s"

definition String_parse :: "Value \<Rightarrow> Error + string" where
  "String_parse v = (case v of
     V_Text s \<Rightarrow> if utf8_string s \<and> length s \<le> 64 then Inr s else Inl InvalidPayload
   | _ \<Rightarrow> Inl InvalidPayload)"

definition Option_value :: "('a \<Rightarrow> Value) \<Rightarrow> 'a option \<Rightarrow> Value" where
  "Option_value val m = (case m of None \<Rightarrow> V_Null | Some x \<Rightarrow> val x)"

definition Option_parse :: "(Value \<Rightarrow> Error + 'a) \<Rightarrow> Value \<Rightarrow> Error + 'a option" where
  "Option_parse prs v = (if v = V_Null then Inr None else rbind (prs v) (\<lambda>x. Inr (Some x)))"

text \<open>The \<open>enumeration!\<close> macro compares the number with each discriminant in turn.\<close>

definition enum_parse :: "('a \<Rightarrow> u64) \<Rightarrow> 'a list \<Rightarrow> Value \<Rightarrow> Error + 'a" where
  "enum_parse code xs v = rbind (number v) (\<lambda>n.
     case find (\<lambda>x. n = code x) xs of Some x \<Rightarrow> Inr x | None \<Rightarrow> Inl InvalidPayload)"

definition Reading_value :: "('a \<Rightarrow> Value) \<Rightarrow> 'a Reading \<Rightarrow> Value" where
  "Reading_value val r = (case r of
     Unsupported \<Rightarrow> carray [cuint 0]
   | Unknown \<Rightarrow> carray [cuint 1]
   | Known x \<Rightarrow> carray [cuint 2, val x])"

definition first_number :: "Value list \<Rightarrow> Error + u64 option" where
  "first_number f = (case f of [] \<Rightarrow> Inr None | x # _ \<Rightarrow> rbind (number x) (\<lambda>n. Inr (Some n)))"

definition Reading_parse :: "(Value \<Rightarrow> Error + 'a) \<Rightarrow> Value \<Rightarrow> Error + 'a Reading" where
  "Reading_parse prs v = (case v of
     V_Array f \<Rightarrow> rbind (first_number f) (\<lambda>tag.
       if tag = Some 0 \<and> length f = 1 then Inr Unsupported
       else if tag = Some 1 \<and> length f = 1 then Inr Unknown
       else if tag = Some 2 \<and> length f = 2 then rbind (prs (f ! 1)) (\<lambda>x. Inr (Known x))
       else Inl InvalidPayload)
   | _ \<Rightarrow> Inl InvalidPayload)"

text \<open>The \<open>record!\<close> macro walks the fields of the array with an iterator.\<close>

definition next_field ::
  "(Value \<Rightarrow> Error + 'a) \<Rightarrow> Value list \<Rightarrow> ('a \<Rightarrow> Value list \<Rightarrow> Error + 'b) \<Rightarrow> Error + 'b" where
  "next_field prs it k = (case it of
     [] \<Rightarrow> Inl InvalidPayload
   | v # rest \<Rightarrow> rbind (prs v) (\<lambda>x. k x rest))"

section \<open>Enumerations\<close>

primrec BoltState_code :: "BoltState \<Rightarrow> u64" where
  "BoltState_code Locked = 0" | "BoltState_code Unlocked = 1"
primrec DoorState_code :: "DoorState \<Rightarrow> u64" where
  "DoorState_code Closed = 0" | "DoorState_code Open = 1"
primrec ActuatorKind_code :: "ActuatorKind \<Rightarrow> u64" where
  "ActuatorKind_code Motor = 0" | "ActuatorKind_code Pulse = 1"
primrec Fault_code :: "Fault \<Rightarrow> u64" where
  "Fault_code Fault_None = 0" | "Fault_code Fault_Jammed = 1" | "Fault_code Fault_Timeout = 2"
| "Fault_code Fault_SensorConflict = 3" | "Fault_code Fault_Driver = 4"
| "Fault_code Fault_DoorAjar = 5"
primrec CompletionEvidence_code :: "CompletionEvidence \<Rightarrow> u64" where
  "CompletionEvidence_code Evidence_None = 0" | "CompletionEvidence_code Evidence_Driver = 1"
| "CompletionEvidence_code Evidence_Sensor = 2" | "CompletionEvidence_code Evidence_NoChange = 3"
primrec OperationPhase_code :: "OperationPhase \<Rightarrow> u64" where
  "OperationPhase_code Phase_Accepted = 0" | "OperationPhase_code Phase_Running = 1"
| "OperationPhase_code Phase_Completed = 2" | "OperationPhase_code Phase_Failed = 3"
| "OperationPhase_code Phase_Unknown = 4"
primrec AuditKind_code :: "AuditKind \<Rightarrow> u64" where
  "AuditKind_code Audit_Operation = 0" | "AuditKind_code Audit_Hardware = 1"
| "AuditKind_code Audit_Configuration = 2" | "AuditKind_code Audit_Ownership = 3"
| "AuditKind_code Audit_Clock = 4" | "AuditKind_code Audit_Policy = 5"
| "AuditKind_code Audit_Firmware = 6" | "AuditKind_code Audit_Reboot = 7"
| "AuditKind_code Audit_Rejected = 8"
primrec FirmwarePhase_code :: "FirmwarePhase \<Rightarrow> u64" where
  "FirmwarePhase_code Firmware_Empty = 0" | "FirmwarePhase_code Firmware_Receiving = 1"
| "FirmwarePhase_code Firmware_Verified = 2" | "FirmwarePhase_code Firmware_Trial = 3"
| "FirmwarePhase_code Firmware_Confirmed = 4" | "FirmwarePhase_code Firmware_Failed = 5"

definition BoltState_value :: "BoltState \<Rightarrow> Value" where
  "BoltState_value x = cuint (BoltState_code x)"
definition BoltState_parse :: "Value \<Rightarrow> Error + BoltState" where
  "BoltState_parse = enum_parse BoltState_code [Locked, Unlocked]"
definition DoorState_value :: "DoorState \<Rightarrow> Value" where
  "DoorState_value x = cuint (DoorState_code x)"
definition DoorState_parse :: "Value \<Rightarrow> Error + DoorState" where
  "DoorState_parse = enum_parse DoorState_code [Closed, Open]"
definition ActuatorKind_value :: "ActuatorKind \<Rightarrow> Value" where
  "ActuatorKind_value x = cuint (ActuatorKind_code x)"
definition ActuatorKind_parse :: "Value \<Rightarrow> Error + ActuatorKind" where
  "ActuatorKind_parse = enum_parse ActuatorKind_code [Motor, Pulse]"
definition Fault_value :: "Fault \<Rightarrow> Value" where
  "Fault_value x = cuint (Fault_code x)"
definition Fault_parse :: "Value \<Rightarrow> Error + Fault" where
  "Fault_parse = enum_parse Fault_code
     [Fault_None, Fault_Jammed, Fault_Timeout, Fault_SensorConflict, Fault_Driver, Fault_DoorAjar]"
definition CompletionEvidence_value :: "CompletionEvidence \<Rightarrow> Value" where
  "CompletionEvidence_value x = cuint (CompletionEvidence_code x)"
definition CompletionEvidence_parse :: "Value \<Rightarrow> Error + CompletionEvidence" where
  "CompletionEvidence_parse = enum_parse CompletionEvidence_code
     [Evidence_None, Evidence_Driver, Evidence_Sensor, Evidence_NoChange]"
definition OperationPhase_value :: "OperationPhase \<Rightarrow> Value" where
  "OperationPhase_value x = cuint (OperationPhase_code x)"
definition OperationPhase_parse :: "Value \<Rightarrow> Error + OperationPhase" where
  "OperationPhase_parse = enum_parse OperationPhase_code
     [Phase_Accepted, Phase_Running, Phase_Completed, Phase_Failed, Phase_Unknown]"
definition AuditKind_value :: "AuditKind \<Rightarrow> Value" where
  "AuditKind_value x = cuint (AuditKind_code x)"
definition AuditKind_parse :: "Value \<Rightarrow> Error + AuditKind" where
  "AuditKind_parse = enum_parse AuditKind_code
     [Audit_Operation, Audit_Hardware, Audit_Configuration, Audit_Ownership, Audit_Clock,
      Audit_Policy, Audit_Firmware, Audit_Reboot, Audit_Rejected]"
definition FirmwarePhase_value :: "FirmwarePhase \<Rightarrow> Value" where
  "FirmwarePhase_value x = cuint (FirmwarePhase_code x)"
definition FirmwarePhase_parse :: "Value \<Rightarrow> Error + FirmwarePhase" where
  "FirmwarePhase_parse = enum_parse FirmwarePhase_code
     [Firmware_Empty, Firmware_Receiving, Firmware_Verified, Firmware_Trial,
      Firmware_Confirmed, Firmware_Failed]"

section \<open>Identifiers and records\<close>

definition LockId_value :: "LockId \<Rightarrow> Value" where "LockId_value x = cbytes (lock_bytes x)"
definition LockId_parse :: "Value \<Rightarrow> Error + LockId" where
  "LockId_parse v = rbind (cfixed 16 v) (\<lambda>b. Inr (LockId b))"
definition CredentialId_value :: "CredentialId \<Rightarrow> Value" where
  "CredentialId_value x = cbytes (cred_bytes x)"
definition CredentialId_parse :: "Value \<Rightarrow> Error + CredentialId" where
  "CredentialId_parse v = rbind (cfixed 16 v) (\<lambda>b. Inr (CredentialId b))"
definition SubjectKey_value :: "SubjectKey \<Rightarrow> Value" where
  "SubjectKey_value x = cbytes (subject_bytes x)"
definition SubjectKey_parse :: "Value \<Rightarrow> Error + SubjectKey" where
  "SubjectKey_parse v = rbind (cfixed 32 v) (\<lambda>b. Inr (SubjectKey b))"

definition OperationStatus_value :: "OperationStatus \<Rightarrow> Value" where
  "OperationStatus_value x = carray
     [CredentialId_value (os_credential_id x), U64_value (os_sequence x), U8_value (os_opcode x),
      OperationPhase_value (os_phase x), CompletionEvidence_value (os_evidence x),
      U32_value (os_error x)]"

definition OperationStatus_parse :: "Value \<Rightarrow> Error + OperationStatus" where
  "OperationStatus_parse v = rbind (cfields v 6) (\<lambda>it.
     next_field CredentialId_parse it (\<lambda>credential_id it.
     next_field U64_parse it (\<lambda>sequence it.
     next_field U8_parse it (\<lambda>opcode it.
     next_field OperationPhase_parse it (\<lambda>phase it.
     next_field CompletionEvidence_parse it (\<lambda>evidence it.
     next_field U32_parse it (\<lambda>error it.
       Inr \<lparr>os_credential_id = credential_id, os_sequence = sequence, os_opcode = opcode,
            os_phase = phase, os_evidence = evidence, os_error = error\<rparr>)))))))"

definition LockStatus_value :: "LockStatus \<Rightarrow> Value" where
  "LockStatus_value x = carray
     [Reading_value BoltState_value (ls_bolt x), Reading_value DoorState_value (ls_door x),
      Reading_value Bool_value (ls_privacy x), Reading_value U8_value (ls_battery_percent x),
      Fault_value (ls_fault x), Option_value OperationStatus_value (ls_active x),
      U64_value (ls_epoch x), U64_value (ls_policy_version x), U64_value (ls_config_version x),
      U64_value (ls_generation x), Bool_value (ls_clock_trusted x)]"

definition LockStatus_parse :: "Value \<Rightarrow> Error + LockStatus" where
  "LockStatus_parse v = rbind (cfields v 11) (\<lambda>it.
     next_field (Reading_parse BoltState_parse) it (\<lambda>bolt it.
     next_field (Reading_parse DoorState_parse) it (\<lambda>door it.
     next_field (Reading_parse Bool_parse) it (\<lambda>privacy it.
     next_field (Reading_parse U8_parse) it (\<lambda>battery it.
     next_field Fault_parse it (\<lambda>fault it.
     next_field (Option_parse OperationStatus_parse) it (\<lambda>active it.
     next_field U64_parse it (\<lambda>epoch it.
     next_field U64_parse it (\<lambda>policy_version it.
     next_field U64_parse it (\<lambda>config_version it.
     next_field U64_parse it (\<lambda>generation it.
     next_field Bool_parse it (\<lambda>clock_trusted it.
       Inr \<lparr>ls_bolt = bolt, ls_door = door, ls_privacy = privacy, ls_battery_percent = battery,
            ls_fault = fault, ls_active = active, ls_epoch = epoch,
            ls_policy_version = policy_version, ls_config_version = config_version,
            ls_generation = generation, ls_clock_trusted = clock_trusted\<rparr>))))))))))))"

definition DeviceInfo_value :: "DeviceInfo \<Rightarrow> Value" where
  "DeviceInfo_value x = carray
     [LockId_value (di_lock_id x), String_value (di_model x), String_value (di_hardware x),
      String_value (di_firmware x), U64_value (di_capabilities x),
      ActuatorKind_value (di_actuator x), Bool_value (di_bolt_sensor x),
      Bool_value (di_door_sensor x), Bool_value (di_privacy_sensor x),
      Bool_value (di_battery_sensor x), Bool_value (di_safe_lock_without_door x),
      Bool_value (di_hold_open x), U32_value (di_max_release_ms x),
      U32_value (di_max_action_ms x), U32_value (di_max_delay_ms x),
      U32_value (di_log_capacity x), U32_value (di_operation_capacity x),
      U32_value (di_credential_capacity x), U64_value (di_max_image_size x),
      U32_value (di_max_chunk_size x)]"

definition DeviceInfo_parse :: "Value \<Rightarrow> Error + DeviceInfo" where
  "DeviceInfo_parse v = rbind (cfields v 20) (\<lambda>it.
     next_field LockId_parse it (\<lambda>lock_id it.
     next_field String_parse it (\<lambda>model it.
     next_field String_parse it (\<lambda>hardware it.
     next_field String_parse it (\<lambda>firmware it.
     next_field U64_parse it (\<lambda>capabilities it.
     next_field ActuatorKind_parse it (\<lambda>actuator it.
     next_field Bool_parse it (\<lambda>bolt_sensor it.
     next_field Bool_parse it (\<lambda>door_sensor it.
     next_field Bool_parse it (\<lambda>privacy_sensor it.
     next_field Bool_parse it (\<lambda>battery_sensor it.
     next_field Bool_parse it (\<lambda>safe_lock it.
     next_field Bool_parse it (\<lambda>hold_open it.
     next_field U32_parse it (\<lambda>max_release_ms it.
     next_field U32_parse it (\<lambda>max_action_ms it.
     next_field U32_parse it (\<lambda>max_delay_ms it.
     next_field U32_parse it (\<lambda>log_capacity it.
     next_field U32_parse it (\<lambda>operation_capacity it.
     next_field U32_parse it (\<lambda>credential_capacity it.
     next_field U64_parse it (\<lambda>max_image_size it.
     next_field U32_parse it (\<lambda>max_chunk_size it.
       Inr \<lparr>di_lock_id = lock_id, di_model = model, di_hardware = hardware,
            di_firmware = firmware, di_capabilities = capabilities, di_actuator = actuator,
            di_bolt_sensor = bolt_sensor, di_door_sensor = door_sensor,
            di_privacy_sensor = privacy_sensor, di_battery_sensor = battery_sensor,
            di_safe_lock_without_door = safe_lock, di_hold_open = hold_open,
            di_max_release_ms = max_release_ms, di_max_action_ms = max_action_ms,
            di_max_delay_ms = max_delay_ms, di_log_capacity = log_capacity,
            di_operation_capacity = operation_capacity,
            di_credential_capacity = credential_capacity,
            di_max_image_size = max_image_size,
            di_max_chunk_size = max_chunk_size\<rparr>)))))))))))))))))))))"

definition AutoRelock_value :: "AutoRelock \<Rightarrow> Value" where
  "AutoRelock_value x = (case x of
     Disabled \<Rightarrow> carray [cuint 0]
   | Delay ms \<Rightarrow> carray [cuint 1, U32_value ms]
   | AfterClose ms \<Rightarrow> carray [cuint 2, U32_value ms])"

definition AutoRelock_parse :: "Value \<Rightarrow> Error + AutoRelock" where
  "AutoRelock_parse v = (case v of
     V_Array f \<Rightarrow> rbind (first_number f) (\<lambda>tag.
       if tag = Some 0 \<and> length f = 1 then Inr Disabled
       else if tag = Some 1 \<and> length f = 2 then rbind (u32_value (f ! 1)) (\<lambda>ms. Inr (Delay ms))
       else if tag = Some 2 \<and> length f = 2 then rbind (u32_value (f ! 1)) (\<lambda>ms. Inr (AfterClose ms))
       else Inl InvalidPayload)
   | _ \<Rightarrow> Inl InvalidPayload)"

definition DeviceConfig_value :: "DeviceConfig \<Rightarrow> Value" where
  "DeviceConfig_value x = carray
     [U64_value (dc_version x), AutoRelock_value (dc_auto_relock x), U32_value (dc_release_ms x),
      U32_value (dc_action_timeout_ms x), Bool_value (dc_hold_open x),
      U32_value (dc_door_ajar_ms x)]"

definition DeviceConfig_parse :: "Value \<Rightarrow> Error + DeviceConfig" where
  "DeviceConfig_parse v = rbind (cfields v 6) (\<lambda>it.
     next_field U64_parse it (\<lambda>version it.
     next_field AutoRelock_parse it (\<lambda>auto_relock it.
     next_field U32_parse it (\<lambda>release_ms it.
     next_field U32_parse it (\<lambda>action_timeout_ms it.
     next_field Bool_parse it (\<lambda>hold_open it.
     next_field U32_parse it (\<lambda>door_ajar_ms it.
       Inr \<lparr>dc_version = version, dc_auto_relock = auto_relock, dc_release_ms = release_ms,
            dc_action_timeout_ms = action_timeout_ms, dc_hold_open = hold_open,
            dc_door_ajar_ms = door_ajar_ms\<rparr>)))))))"

definition HardwareState_value :: "HardwareState \<Rightarrow> Value" where
  "HardwareState_value x = carray
     [Reading_value BoltState_value (hw_bolt x), Reading_value DoorState_value (hw_door x),
      Reading_value Bool_value (hw_privacy x), Reading_value U8_value (hw_battery_percent x)]"

definition HardwareState_parse :: "Value \<Rightarrow> Error + HardwareState" where
  "HardwareState_parse v = rbind (cfields v 4) (\<lambda>it.
     next_field (Reading_parse BoltState_parse) it (\<lambda>bolt it.
     next_field (Reading_parse DoorState_parse) it (\<lambda>door it.
     next_field (Reading_parse Bool_parse) it (\<lambda>privacy it.
     next_field (Reading_parse U8_parse) it (\<lambda>battery it.
       Inr \<lparr>hw_bolt = bolt, hw_door = door, hw_privacy = privacy,
            hw_battery_percent = battery\<rparr>)))))"

definition AuditEvent_value :: "AuditEvent \<Rightarrow> Value" where
  "AuditEvent_value x = carray
     [U64_value (ae_cursor x), Option_value U64_value (ae_unix_seconds x),
      AuditKind_value (ae_kind x), Option_value CredentialId_value (ae_credential_id x),
      Option_value U64_value (ae_sequence x), U32_value (ae_code x),
      Option_value HardwareState_value (ae_hardware x),
      Option_value OperationStatus_value (ae_operation x)]"

definition AuditEvent_parse :: "Value \<Rightarrow> Error + AuditEvent" where
  "AuditEvent_parse v = rbind (cfields v 8) (\<lambda>it.
     next_field U64_parse it (\<lambda>cursor it.
     next_field (Option_parse U64_parse) it (\<lambda>unix_seconds it.
     next_field AuditKind_parse it (\<lambda>kind it.
     next_field (Option_parse CredentialId_parse) it (\<lambda>credential_id it.
     next_field (Option_parse U64_parse) it (\<lambda>sequence it.
     next_field U32_parse it (\<lambda>code it.
     next_field (Option_parse HardwareState_parse) it (\<lambda>hardware it.
     next_field (Option_parse OperationStatus_parse) it (\<lambda>operation it.
       Inr \<lparr>ae_cursor = cursor, ae_unix_seconds = unix_seconds, ae_kind = kind,
            ae_credential_id = credential_id, ae_sequence = sequence, ae_code = code,
            ae_hardware = hardware, ae_operation = operation\<rparr>)))))))))"

definition AuditPage_value :: "AuditPage \<Rightarrow> Value" where
  "AuditPage_value x = carray
     [carray (map AuditEvent_value (ap_events x)), U64_value (ap_next_cursor x),
      Bool_value (ap_gap x)]"

definition AuditPage_parse :: "Value \<Rightarrow> Error + AuditPage" where
  "AuditPage_parse v = rbind (cfields v 3) (\<lambda>f. case f ! 0 of
       V_Array events \<Rightarrow>
         if length events > 16 then Inl ObjectTooLarge
         else rbind (rmap AuditEvent_parse events) (\<lambda>es.
              rbind (U64_parse (f ! 1)) (\<lambda>next_cursor.
              rbind (Bool_parse (f ! 2)) (\<lambda>gap.
                Inr \<lparr>ap_events = es, ap_next_cursor = next_cursor, ap_gap = gap\<rparr>)))
     | _ \<Rightarrow> Inl InvalidPayload)"

definition FirmwareManifest_value :: "FirmwareManifest \<Rightarrow> Value" where
  "FirmwareManifest_value x = carray
     [String_value (fm_model x), String_value (fm_hardware x), String_value (fm_version x),
      U64_value (fm_size x), cbytes (fm_sha256 x), U64_value (fm_security_version x)]"

definition FirmwareManifest_parse :: "Value \<Rightarrow> Error + FirmwareManifest" where
  "FirmwareManifest_parse v = rbind (cfields v 6) (\<lambda>it.
     next_field String_parse it (\<lambda>model it.
     next_field String_parse it (\<lambda>hardware it.
     next_field String_parse it (\<lambda>version it.
     next_field U64_parse it (\<lambda>size it.
     next_field (cfixed 32) it (\<lambda>sha256 it.
     next_field U64_parse it (\<lambda>security_version it.
       Inr \<lparr>fm_model = model, fm_hardware = hardware, fm_version = version, fm_size = size,
            fm_sha256 = sha256, fm_security_version = security_version\<rparr>)))))))"

definition FirmwareStatus_value :: "FirmwareStatus \<Rightarrow> Value" where
  "FirmwareStatus_value x = carray
     [FirmwarePhase_value (fs_phase x), U64_value (fs_received x),
      Option_value FirmwareManifest_value (fs_manifest x), U64_value (fs_security_version x)]"

definition FirmwareStatus_parse :: "Value \<Rightarrow> Error + FirmwareStatus" where
  "FirmwareStatus_parse v = rbind (cfields v 4) (\<lambda>it.
     next_field FirmwarePhase_parse it (\<lambda>phase it.
     next_field U64_parse it (\<lambda>received it.
     next_field (Option_parse FirmwareManifest_parse) it (\<lambda>manifest it.
     next_field U64_parse it (\<lambda>security_version it.
       Inr \<lparr>fs_phase = phase, fs_received = received, fs_manifest = manifest,
            fs_security_version = security_version\<rparr>)))))"

section \<open>Actions and commands\<close>

definition Action_args :: "Action \<Rightarrow> Value list" where
  "Action_args a = (case a of
     ApplyPolicy x \<Rightarrow> [cbytes x]
   | FirmwareBegin x \<Rightarrow> [cbytes x]
   | RotateDeviceKey x \<Rightarrow> [cbytes x]
   | Operation x \<Rightarrow> [U64_value x]
   | SetClock x \<Rightarrow> [U64_value x]
   | SetConfig x \<Rightarrow> [DeviceConfig_value x]
   | ReadLog after limit \<Rightarrow> [U64_value after, U32_value limit]
   | ReplaceIssuer x \<Rightarrow> [cbytes x]
   | FirmwareChunk offset data \<Rightarrow> [U64_value offset, cbytes data]
   | Claim setup_key issuer admin_credential \<Rightarrow>
       [cbytes setup_key, cbytes issuer, cbytes admin_credential]
   | _ \<Rightarrow> [])"

definition Action_value :: "Action \<Rightarrow> Value" where
  "Action_value a = carray (U8_value (Action_opcode a) # Action_args a)"

definition Action_parse_fields :: "u64 \<Rightarrow> Value list \<Rightarrow> Error + Action" where
  "Action_parse_fields op f =
     (if op = 0 \<and> length f = 1 then Inr Unlock
      else if op = 1 \<and> length f = 1 then Inr Status
      else if op = 2 \<and> length f = 2 then rbind (cdata (f ! 1)) (\<lambda>x. Inr (ApplyPolicy x))
      else if op = 3 \<and> length f = 1 then Inr Lock
      else if op = 4 \<and> length f = 1 then Inr Info
      else if op = 5 \<and> length f = 2 then rbind (U64_parse (f ! 1)) (\<lambda>x. Inr (Operation x))
      else if op = 6 \<and> length f = 1 then Inr GetConfig
      else if op = 7 \<and> length f = 2 then rbind (DeviceConfig_parse (f ! 1)) (\<lambda>x. Inr (SetConfig x))
      else if op = 8 \<and> length f = 3 then
        rbind (u32_value (f ! 2)) (\<lambda>limit.
          if limit = 0 \<or> limit > 16 then Inl InvalidPayload
          else rbind (U64_parse (f ! 1)) (\<lambda>after. Inr (ReadLog after limit)))
      else if op = 9 \<and> length f = 2 then rbind (U64_parse (f ! 1)) (\<lambda>x. Inr (SetClock x))
      else if op = 10 \<and> length f = 1 then Inr Reboot
      else if op = 11 \<and> length f = 1 then Inr FactoryReset
      else if op = 12 \<and> length f = 2 then rbind (cfixed 32 (f ! 1)) (\<lambda>x. Inr (ReplaceIssuer x))
      else if op = 13 \<and> length f = 2 then rbind (cdata (f ! 1)) (\<lambda>x. Inr (FirmwareBegin x))
      else if op = 14 \<and> length f = 3 then
        rbind (cdata (f ! 2)) (\<lambda>data.
          if data = [] \<or> length data > 1024 then Inl InvalidPayload
          else rbind (U64_parse (f ! 1)) (\<lambda>offset. Inr (FirmwareChunk offset data)))
      else if op = 15 \<and> length f = 1 then Inr FirmwareFinish
      else if op = 16 \<and> length f = 1 then Inr FirmwareActivate
      else if op = 17 \<and> length f = 1 then Inr FirmwareAbort
      else if op = 18 \<and> length f = 1 then Inr FirmwareStatusQuery
      else if op = 19 \<and> length f = 4 then
        rbind (cfixed 32 (f ! 1)) (\<lambda>setup_key.
        rbind (cfixed 32 (f ! 2)) (\<lambda>issuer.
        rbind (cdata (f ! 3)) (\<lambda>admin_credential.
          Inr (Claim setup_key issuer admin_credential))))
      else if op = 22 \<and> length f = 1 then Inr PairingStatus
      else if op = 20 \<and> length f = 1 then Inr CredentialStatus
      else if op = 21 \<and> length f = 2 then rbind (cdata (f ! 1)) (\<lambda>x. Inr (RotateDeviceKey x))
      else Inl InvalidPayload)"

definition Action_parse :: "Value \<Rightarrow> Error + Action" where
  "Action_parse v = (case v of
     V_Array f \<Rightarrow> (case f of
         [] \<Rightarrow> Inl InvalidPayload
       | x # _ \<Rightarrow> rbind (number x) (\<lambda>op. Action_parse_fields op f))
   | _ \<Rightarrow> Inl InvalidPayload)"

definition Command_value :: "Command \<Rightarrow> Value" where
  "Command_value c = carray
     [cbytes (cmd_credential c), Option_value U64_value (cmd_sequence c),
      Action_value (cmd_action c)]"

definition Command_parse :: "Value \<Rightarrow> Error + Command" where
  "Command_parse v = rbind (cfields v 3) (\<lambda>f.
     rbind (cdata (f ! 0)) (\<lambda>credential.
     rbind (Option_parse U64_parse (f ! 1)) (\<lambda>sequence.
     rbind (Action_parse (f ! 2)) (\<lambda>action.
       let out = \<lparr>cmd_credential = credential, cmd_sequence = sequence, cmd_action = action\<rparr> in
       rbind (Command_validate out) (\<lambda>_. Inr out)))))"

section \<open>Replies and responses\<close>

definition Reply_value :: "Reply \<Rightarrow> Value" where
  "Reply_value r = (case r of
     Reply_Operation x \<Rightarrow> carray [cuint 0, OperationStatus_value x]
   | Reply_Status x \<Rightarrow> carray [cuint 1, LockStatus_value x]
   | Reply_Info x \<Rightarrow> carray [cuint 2, DeviceInfo_value x]
   | Reply_Config x \<Rightarrow> carray [cuint 3, DeviceConfig_value x]
   | Reply_Audit x \<Rightarrow> carray [cuint 4, AuditPage_value x]
   | Reply_Firmware x \<Rightarrow> carray [cuint 5, FirmwareStatus_value x]
   | Reply_Pairing epoch generation window_open \<Rightarrow>
       carray [cuint 8, carray [U64_value epoch, U64_value generation, Bool_value window_open]]
   | Reply_Claimed epoch generation \<Rightarrow>
       carray [cuint 6, carray [U64_value epoch, U64_value generation]]
   | Reply_Credential uses max_uses next_sequence \<Rightarrow>
       carray [cuint 7, carray [U32_value uses, Option_value U32_value max_uses,
                                U64_value next_sequence]])"

definition Reply_parse :: "Value \<Rightarrow> Error + Reply" where
  "Reply_parse v = rbind (cfields v 2) (\<lambda>f. rbind (number (f ! 0)) (\<lambda>tag.
     if tag = 0 then rbind (OperationStatus_parse (f ! 1)) (\<lambda>x. Inr (Reply_Operation x))
     else if tag = 1 then rbind (LockStatus_parse (f ! 1)) (\<lambda>x. Inr (Reply_Status x))
     else if tag = 2 then rbind (DeviceInfo_parse (f ! 1)) (\<lambda>x. Inr (Reply_Info x))
     else if tag = 3 then rbind (DeviceConfig_parse (f ! 1)) (\<lambda>x. Inr (Reply_Config x))
     else if tag = 4 then rbind (AuditPage_parse (f ! 1)) (\<lambda>x. Inr (Reply_Audit x))
     else if tag = 5 then rbind (FirmwareStatus_parse (f ! 1)) (\<lambda>x. Inr (Reply_Firmware x))
     else if tag = 8 then rbind (cfields (f ! 1) 3) (\<lambda>v.
       rbind (U64_parse (v ! 0)) (\<lambda>epoch.
       rbind (U64_parse (v ! 1)) (\<lambda>generation.
       rbind (Bool_parse (v ! 2)) (\<lambda>window_open.
         Inr (Reply_Pairing epoch generation window_open)))))
     else if tag = 6 then rbind (cfields (f ! 1) 2) (\<lambda>v.
       rbind (U64_parse (v ! 0)) (\<lambda>epoch.
       rbind (U64_parse (v ! 1)) (\<lambda>generation.
         Inr (Reply_Claimed epoch generation))))
     else if tag = 7 then rbind (cfields (f ! 1) 3) (\<lambda>v.
       rbind (U32_parse (v ! 0)) (\<lambda>uses.
       rbind (Option_parse U32_parse (v ! 1)) (\<lambda>max_uses.
       rbind (U64_parse (v ! 2)) (\<lambda>next_sequence.
         Inr (Reply_Credential uses max_uses next_sequence)))))
     else Inl InvalidPayload))"

definition reply_opcode_ok :: "u8 \<Rightarrow> Reply \<Rightarrow> bool" where
  "reply_opcode_ok opcode reply = (case reply of
     Reply_Status _ \<Rightarrow> opcode = 1
   | Reply_Info _ \<Rightarrow> opcode = 4
   | Reply_Config _ \<Rightarrow> opcode = 6
   | Reply_Audit _ \<Rightarrow> opcode = 8
   | Reply_Firmware _ \<Rightarrow> opcode = 18
   | Reply_Pairing _ _ _ \<Rightarrow> opcode = 22
   | Reply_Claimed _ _ \<Rightarrow> opcode = 19
   | Reply_Credential _ _ _ \<Rightarrow> opcode = 20
   | Reply_Operation op \<Rightarrow> opcode = 5 \<or> os_opcode op = opcode)"

definition validate_response :: "Response \<Rightarrow> Error + unit" where
  "validate_response r =
     (if rsp_opcode r > 22 then Inl InvalidPayload
      else case rsp_result r of
          Inr reply \<Rightarrow> reject_if (\<not> reply_opcode_ok (rsp_opcode r) reply) InvalidPayload
        | Inl code \<Rightarrow> reject_if (code = 0) InvalidPayload)"

definition Response_value :: "Response \<Rightarrow> Value" where
  "Response_value r = (case rsp_result r of
     Inr reply \<Rightarrow> carray [U8_value (rsp_opcode r), cuint 0, Reply_value reply]
   | Inl code \<Rightarrow> carray [U8_value (rsp_opcode r), U32_value code, V_Null])"

definition Response_parse :: "Value \<Rightarrow> Error + Response" where
  "Response_parse v = rbind (cfields v 3) (\<lambda>f. rbind (U8_parse (f ! 0)) (\<lambda>opcode.
     if opcode > 22 then Inl InvalidPayload
     else rbind (u32_value (f ! 1)) (\<lambda>code.
       rbind (if code = 0 then rbind (Reply_parse (f ! 2)) (\<lambda>reply. Inr (Inr reply))
              else if f ! 2 \<noteq> V_Null then Inl InvalidPayload
              else Inr (Inl code)) (\<lambda>result.
         let r = \<lparr>rsp_opcode = opcode, rsp_result = result\<rparr> in
         rbind (validate_response r) (\<lambda>_. Inr r)))))"

definition encode_wire :: "Crypto \<Rightarrow> ('a \<Rightarrow> Value) \<Rightarrow> 'a \<Rightarrow> Error + bytes" where
  "encode_wire cr val x = cencode cr (val x)"

definition decode_wire :: "Crypto \<Rightarrow> (Value \<Rightarrow> Error + 'a) \<Rightarrow> bytes \<Rightarrow> Error + 'a" where
  "decode_wire cr prs input = rbind (cdecode cr input) prs"

end
