(* ===== verification/Wire_Laws.thy ===== *)
theory Wire_Laws
  imports Wire
begin

text \<open>
  The wire format is a bijection: every \<open>impl Wire\<close> of \<^verbatim>\<open>wire.rs\<close> interprets the locale
  \<open>wire\<close>. Each type's parser accepts exactly the encodings of its well-formed values, so
  there is one encoding per value (no malleability) and decoding inverts encoding.
\<close>

section \<open>Well-formed values\<close>

definition any :: "'a \<Rightarrow> bool" where "any x = True"
definition String_wf :: "string \<Rightarrow> bool" where
  "String_wf s \<longleftrightarrow> utf8_string s \<and> length s \<le> 64"
definition LockId_wf :: "LockId \<Rightarrow> bool" where "LockId_wf x \<longleftrightarrow> length (lock_bytes x) = 16"
definition CredentialId_wf :: "CredentialId \<Rightarrow> bool" where
  "CredentialId_wf x \<longleftrightarrow> length (cred_bytes x) = 16"
definition SubjectKey_wf :: "SubjectKey \<Rightarrow> bool" where
  "SubjectKey_wf x \<longleftrightarrow> length (subject_bytes x) = 32"

definition OperationStatus_wf :: "OperationStatus \<Rightarrow> bool" where
  "OperationStatus_wf x \<longleftrightarrow> CredentialId_wf (os_credential_id x)"

definition LockStatus_wf :: "LockStatus \<Rightarrow> bool" where
  "LockStatus_wf x \<longleftrightarrow> pred_option OperationStatus_wf (ls_active x)"

definition DeviceInfo_wf :: "DeviceInfo \<Rightarrow> bool" where
  "DeviceInfo_wf x \<longleftrightarrow> LockId_wf (di_lock_id x) \<and> String_wf (di_model x)
     \<and> String_wf (di_hardware x) \<and> String_wf (di_firmware x)"

definition AuditEvent_wf :: "AuditEvent \<Rightarrow> bool" where
  "AuditEvent_wf x \<longleftrightarrow> pred_option CredentialId_wf (ae_credential_id x)
     \<and> pred_option OperationStatus_wf (ae_operation x)"

definition AuditPage_wf :: "AuditPage \<Rightarrow> bool" where
  "AuditPage_wf x \<longleftrightarrow> length (ap_events x) \<le> 16 \<and> list_all AuditEvent_wf (ap_events x)"

definition FirmwareManifest_wf :: "FirmwareManifest \<Rightarrow> bool" where
  "FirmwareManifest_wf x \<longleftrightarrow> String_wf (fm_model x) \<and> String_wf (fm_hardware x)
     \<and> String_wf (fm_version x) \<and> length (fm_sha256 x) = 32"

definition FirmwareStatus_wf :: "FirmwareStatus \<Rightarrow> bool" where
  "FirmwareStatus_wf x \<longleftrightarrow> pred_option FirmwareManifest_wf (fs_manifest x)"

definition Action_wf :: "Action \<Rightarrow> bool" where
  "Action_wf a = (case a of
     ReadLog _ limit \<Rightarrow> limit \<noteq> 0 \<and> limit \<le> 16
   | ReplaceIssuer x \<Rightarrow> length x = 32
   | FirmwareChunk _ data \<Rightarrow> data \<noteq> [] \<and> length data \<le> 1024
   | Claim setup_key issuer _ \<Rightarrow> length setup_key = 32 \<and> length issuer = 32
   | _ \<Rightarrow> True)"

definition Command_wf :: "Command \<Rightarrow> bool" where
  "Command_wf c \<longleftrightarrow> Action_wf (cmd_action c) \<and> Command_validate c = Inr ()"

definition Reply_wf :: "Reply \<Rightarrow> bool" where
  "Reply_wf r = (case r of
     Reply_Operation x \<Rightarrow> OperationStatus_wf x
   | Reply_Status x \<Rightarrow> LockStatus_wf x
   | Reply_Info x \<Rightarrow> DeviceInfo_wf x
   | Reply_Audit x \<Rightarrow> AuditPage_wf x
   | Reply_Firmware x \<Rightarrow> FirmwareStatus_wf x
   | _ \<Rightarrow> True)"

definition Response_wf :: "Response \<Rightarrow> bool" where
  "Response_wf r \<longleftrightarrow> validate_response r = Inr ()
     \<and> (case rsp_result r of Inr reply \<Rightarrow> Reply_wf reply | Inl _ \<Rightarrow> True)"

section \<open>Leaves\<close>

lemma U64_parse_iff: "U64_parse v = Inr x \<longleftrightarrow> any x \<and> v = U64_value x"
  by (simp add: U64_parse_def U64_value_def number_Inr_iff any_def)

lemma U32_parse_iff: "U32_parse v = Inr x \<longleftrightarrow> any x \<and> v = U32_value x"
  by (simp add: U32_parse_def U32_value_def u32_value_Inr_iff any_def)

lemma U8_parse_iff: "U8_parse v = Inr x \<longleftrightarrow> any x \<and> v = U8_value x"
proof
  assume "U8_parse v = Inr x"
  then obtain n where "number v = Inr n" "unat n < 2 ^ 8" "x = ucast n"
    by (auto simp: U8_parse_def rbind_Inr_iff split: if_splits)
  then show "any x \<and> v = U8_value x"
    by (simp add: number_Inr_iff U8_value_def any_def ucast_down_up)
next
  assume "any x \<and> v = U8_value x"
  then show "U8_parse v = Inr x"
    using unsigned_less [of x, where 'a = nat]
    by (simp add: U8_parse_def U8_value_def unat_ucast_up)
qed

lemma Bool_parse_iff: "Bool_parse v = Inr x \<longleftrightarrow> any x \<and> v = Bool_value x"
  by (cases x) (auto simp: Bool_parse_def Bool_value_def rbind_Inr_iff number_Inr_iff any_def
    split: if_splits intro: exI [of _ 0] exI [of _ 1])

lemma String_parse_iff: "String_parse v = Inr x \<longleftrightarrow> String_wf x \<and> v = String_value x"
  by (cases v) (auto simp: String_parse_def String_value_def String_wf_def)

lemma cfixed_parse_iff: "cfixed n v = Inr x \<longleftrightarrow> length x = n \<and> v = cbytes x"
  by (auto simp: cfixed_Inr_iff)

lemma cdata_parse_iff: "cdata v = Inr x \<longleftrightarrow> any x \<and> v = cbytes x"
  by (auto simp: cdata_Inr_iff any_def)

lemma enum_parse_iff:
  assumes "inj code" "set xs = UNIV"
  shows "enum_parse code xs v = Inr x \<longleftrightarrow> any x \<and> v = cuint (code x)"
proof
  assume "enum_parse code xs v = Inr x"
  then obtain n where n: "number v = Inr n" "find (\<lambda>y. n = code y) xs = Some x"
    by (auto simp: enum_parse_def rbind_Inr_iff split: option.splits)
  from n(2) have "n = code x" by (auto simp: find_Some_iff)
  with n(1) show "any x \<and> v = cuint (code x)" by (simp add: any_def number_Inr_iff)
next
  assume "any x \<and> v = cuint (code x)"
  moreover have "find (\<lambda>y. code x = code y) xs = Some x"
  proof (cases "find (\<lambda>y. code x = code y) xs")
    case None
    then have "x \<notin> set xs" by (auto simp: find_None_iff)
    with assms(2) show ?thesis by simp
  next
    case (Some y)
    then have "code x = code y" by (auto simp: find_Some_iff)
    with assms(1) Some show ?thesis by (auto dest: injD)
  qed
  ultimately show "enum_parse code xs v = Inr x" by (simp add: enum_parse_def)
qed

lemma enum_not_null: "cuint n \<noteq> V_Null" by simp

interpretation u64w: wire U64_value U64_parse any
  by unfold_locales (simp_all add: U64_parse_iff U64_value_def)

interpretation u32w: wire U32_value U32_parse any
  by unfold_locales (simp_all add: U32_parse_iff U32_value_def)

interpretation u8w: wire U8_value U8_parse any
  by unfold_locales (simp_all add: U8_parse_iff U8_value_def)

interpretation boolw: wire Bool_value Bool_parse any
  by unfold_locales (simp_all add: Bool_parse_iff Bool_value_def)

interpretation stringw: wire String_value String_parse String_wf
  by unfold_locales (simp_all add: String_parse_iff String_value_def)

interpretation bytesw: wire cbytes cdata any
  by unfold_locales (simp_all add: cdata_parse_iff)

interpretation arrayw: wire cbytes "cfixed n" "\<lambda>x. length x = n" for n
  by unfold_locales (simp_all add: cfixed_parse_iff)

section \<open>Enumerations\<close>

text \<open>Distinct discriminants, and every constructor listed, make the macro's parser exact.\<close>

lemma BoltState_enum: "inj BoltState_code" "set [Locked, Unlocked] = UNIV"
proof -
  show "inj BoltState_code" by (rule injI) (case_tac x; case_tac y; simp)
  show "set [Locked, Unlocked] = UNIV"
    by (rule UNIV_eq_I [symmetric]) (case_tac x; simp)
qed

interpretation boltw: wire BoltState_value BoltState_parse any
  by unfold_locales
    (simp_all add: BoltState_parse_def BoltState_value_def enum_parse_iff [OF BoltState_enum])

lemma DoorState_enum: "inj DoorState_code" "set [Closed, Open] = UNIV"
proof -
  show "inj DoorState_code" by (rule injI) (case_tac x; case_tac y; simp)
  show "set [Closed, Open] = UNIV"
    by (rule UNIV_eq_I [symmetric]) (case_tac x; simp)
qed

interpretation doorw: wire DoorState_value DoorState_parse any
  by unfold_locales
    (simp_all add: DoorState_parse_def DoorState_value_def enum_parse_iff [OF DoorState_enum])

lemma ActuatorKind_enum: "inj ActuatorKind_code" "set [Motor, Pulse] = UNIV"
proof -
  show "inj ActuatorKind_code" by (rule injI) (case_tac x; case_tac y; simp)
  show "set [Motor, Pulse] = UNIV"
    by (rule UNIV_eq_I [symmetric]) (case_tac x; simp)
qed

interpretation actuatorw: wire ActuatorKind_value ActuatorKind_parse any
  by unfold_locales
    (simp_all add: ActuatorKind_parse_def ActuatorKind_value_def enum_parse_iff [OF ActuatorKind_enum])

lemma Fault_enum: "inj Fault_code" "set [Fault_None, Fault_Jammed, Fault_Timeout, Fault_SensorConflict, Fault_Driver, Fault_DoorAjar] = UNIV"
proof -
  show "inj Fault_code" by (rule injI) (case_tac x; case_tac y; simp)
  show "set [Fault_None, Fault_Jammed, Fault_Timeout, Fault_SensorConflict, Fault_Driver, Fault_DoorAjar] = UNIV"
    by (rule UNIV_eq_I [symmetric]) (case_tac x; simp)
qed

interpretation faultw: wire Fault_value Fault_parse any
  by unfold_locales
    (simp_all add: Fault_parse_def Fault_value_def enum_parse_iff [OF Fault_enum])

lemma CompletionEvidence_enum: "inj CompletionEvidence_code" "set [Evidence_None, Evidence_Driver, Evidence_Sensor, Evidence_NoChange] = UNIV"
proof -
  show "inj CompletionEvidence_code" by (rule injI) (case_tac x; case_tac y; simp)
  show "set [Evidence_None, Evidence_Driver, Evidence_Sensor, Evidence_NoChange] = UNIV"
    by (rule UNIV_eq_I [symmetric]) (case_tac x; simp)
qed

interpretation evidencew: wire CompletionEvidence_value CompletionEvidence_parse any
  by unfold_locales
    (simp_all add: CompletionEvidence_parse_def CompletionEvidence_value_def enum_parse_iff [OF CompletionEvidence_enum])

lemma OperationPhase_enum: "inj OperationPhase_code" "set [Phase_Accepted, Phase_Running, Phase_Completed, Phase_Failed, Phase_Unknown] = UNIV"
proof -
  show "inj OperationPhase_code" by (rule injI) (case_tac x; case_tac y; simp)
  show "set [Phase_Accepted, Phase_Running, Phase_Completed, Phase_Failed, Phase_Unknown] = UNIV"
    by (rule UNIV_eq_I [symmetric]) (case_tac x; simp)
qed

interpretation phasew: wire OperationPhase_value OperationPhase_parse any
  by unfold_locales
    (simp_all add: OperationPhase_parse_def OperationPhase_value_def enum_parse_iff [OF OperationPhase_enum])

lemma AuditKind_enum: "inj AuditKind_code" "set [Audit_Operation, Audit_Hardware, Audit_Configuration, Audit_Ownership, Audit_Clock,
      Audit_Policy, Audit_Firmware, Audit_Reboot, Audit_Rejected] = UNIV"
proof -
  show "inj AuditKind_code" by (rule injI) (case_tac x; case_tac y; simp)
  show "set [Audit_Operation, Audit_Hardware, Audit_Configuration, Audit_Ownership, Audit_Clock,
      Audit_Policy, Audit_Firmware, Audit_Reboot, Audit_Rejected] = UNIV"
    by (rule UNIV_eq_I [symmetric]) (case_tac x; simp)
qed

interpretation audit_kindw: wire AuditKind_value AuditKind_parse any
  by unfold_locales
    (simp_all add: AuditKind_parse_def AuditKind_value_def enum_parse_iff [OF AuditKind_enum])

lemma FirmwarePhase_enum: "inj FirmwarePhase_code" "set [Firmware_Empty, Firmware_Receiving, Firmware_Verified, Firmware_Trial,
      Firmware_Confirmed, Firmware_Failed] = UNIV"
proof -
  show "inj FirmwarePhase_code" by (rule injI) (case_tac x; case_tac y; simp)
  show "set [Firmware_Empty, Firmware_Receiving, Firmware_Verified, Firmware_Trial,
      Firmware_Confirmed, Firmware_Failed] = UNIV"
    by (rule UNIV_eq_I [symmetric]) (case_tac x; simp)
qed

interpretation fw_phasew: wire FirmwarePhase_value FirmwarePhase_parse any
  by unfold_locales
    (simp_all add: FirmwarePhase_parse_def FirmwarePhase_value_def enum_parse_iff [OF FirmwarePhase_enum])

section \<open>Containers and identifiers\<close>

lemma pred_any [simp]: "pred_option any m" "pred_Reading any r"
  by (cases m; simp add: any_def) (cases r; simp add: any_def)

context wire
begin

lemma option_parse_iff: "Option_parse prs v = Inr m \<longleftrightarrow> pred_option wf m \<and> v = Option_value val m"
  by (cases m) (auto simp: Option_parse_def Option_value_def rbind_Inr_iff parse_iff val_not_null
    val_not_null [symmetric])

lemma reading_wire: "wire (Reading_value val) (Reading_parse prs) (pred_Reading wf)"
proof
  show "Reading_value val x \<noteq> V_Null" for x
    by (cases x) (simp_all add: Reading_value_def)
  fix v x
  show "Reading_parse prs v = Inr x \<longleftrightarrow> pred_Reading wf x \<and> v = Reading_value val x"
  proof
    assume "Reading_parse prs v = Inr x"
    then show "pred_Reading wf x \<and> v = Reading_value val x"
      by (cases v) (auto simp: Reading_parse_def Reading_value_def first_number_def carray_def
        rbind_Inr_iff parse_iff number_Inr_iff length_eqs
        split: if_splits list.splits)
  next
    assume "pred_Reading wf x \<and> v = Reading_value val x"
    then show "Reading_parse prs v = Inr x"
      by (cases x) (auto simp: Reading_parse_def Reading_value_def first_number_def parse_val carray_def)
  qed
qed

end

interpretation bolt_readingw: wire "Reading_value BoltState_value" "Reading_parse BoltState_parse"
  "pred_Reading any" by (rule boltw.reading_wire)

interpretation door_readingw: wire "Reading_value DoorState_value" "Reading_parse DoorState_parse"
  "pred_Reading any" by (rule doorw.reading_wire)

interpretation bool_readingw: wire "Reading_value Bool_value" "Reading_parse Bool_parse"
  "pred_Reading any" by (rule boolw.reading_wire)

interpretation u8_readingw: wire "Reading_value U8_value" "Reading_parse U8_parse"
  "pred_Reading any" by (rule u8w.reading_wire)

lemma LockId_parse_iff: "LockId_parse v = Inr x \<longleftrightarrow> LockId_wf x \<and> v = LockId_value x"
  by (cases x) (auto simp: LockId_value_def LockId_parse_def LockId_wf_def rbind_Inr_iff
    cfixed_Inr_iff)

interpretation lockidw: wire LockId_value LockId_parse LockId_wf
  by unfold_locales (simp_all add: LockId_parse_iff LockId_value_def)

lemma CredentialId_parse_iff: "CredentialId_parse v = Inr x \<longleftrightarrow> CredentialId_wf x \<and> v = CredentialId_value x"
  by (cases x) (auto simp: CredentialId_value_def CredentialId_parse_def CredentialId_wf_def rbind_Inr_iff
    cfixed_Inr_iff)

interpretation credidw: wire CredentialId_value CredentialId_parse CredentialId_wf
  by unfold_locales (simp_all add: CredentialId_parse_iff CredentialId_value_def)

lemma SubjectKey_parse_iff: "SubjectKey_parse v = Inr x \<longleftrightarrow> SubjectKey_wf x \<and> v = SubjectKey_value x"
  by (cases x) (auto simp: SubjectKey_value_def SubjectKey_parse_def SubjectKey_wf_def rbind_Inr_iff
    cfixed_Inr_iff)

interpretation subjectw: wire SubjectKey_value SubjectKey_parse SubjectKey_wf
  by unfold_locales (simp_all add: SubjectKey_parse_iff SubjectKey_value_def)

section \<open>Records\<close>

lemma next_field_Inr_iff:
  "next_field prs it k = Inr y \<longleftrightarrow> (\<exists>v rest x. it = v # rest \<and> prs v = Inr x \<and> k x rest = Inr y)"
  by (cases it) (auto simp: next_field_def rbind_Inr_iff)

lemmas record_iffs = rbind_Inr_iff cfields_Inr_iff next_field_Inr_iff any_def

lemmas leaf_iffs =
  u64w.parse_iff u32w.parse_iff u8w.parse_iff boolw.parse_iff stringw.parse_iff
  cfixed_parse_iff cdata_parse_iff boltw.parse_iff doorw.parse_iff actuatorw.parse_iff
  faultw.parse_iff evidencew.parse_iff phasew.parse_iff audit_kindw.parse_iff
  fw_phasew.parse_iff bolt_readingw.parse_iff door_readingw.parse_iff
  bool_readingw.parse_iff u8_readingw.parse_iff lockidw.parse_iff credidw.parse_iff
  subjectw.parse_iff u64w.option_parse_iff u32w.option_parse_iff credidw.option_parse_iff

lemma OperationStatus_parse_iff:
  "OperationStatus_parse v = Inr x \<longleftrightarrow> OperationStatus_wf x \<and> v = OperationStatus_value x"
  by (cases x) (auto simp: OperationStatus_parse_def OperationStatus_value_def
    OperationStatus_wf_def record_iffs leaf_iffs)

interpretation opstatusw: wire OperationStatus_value OperationStatus_parse OperationStatus_wf
  by unfold_locales (simp_all add: OperationStatus_parse_iff OperationStatus_value_def)

lemma LockStatus_parse_iff:
  "LockStatus_parse v = Inr x \<longleftrightarrow> LockStatus_wf x \<and> v = LockStatus_value x"
  by (cases x) (auto simp: LockStatus_parse_def LockStatus_value_def LockStatus_wf_def
    record_iffs leaf_iffs opstatusw.option_parse_iff)

interpretation lockstatusw: wire LockStatus_value LockStatus_parse LockStatus_wf
  by unfold_locales (simp_all add: LockStatus_parse_iff LockStatus_value_def)

lemma DeviceInfo_parse_iff:
  "DeviceInfo_parse v = Inr x \<longleftrightarrow> DeviceInfo_wf x \<and> v = DeviceInfo_value x"
  by (cases x) (auto simp: DeviceInfo_parse_def DeviceInfo_value_def DeviceInfo_wf_def
    record_iffs leaf_iffs)

interpretation infow: wire DeviceInfo_value DeviceInfo_parse DeviceInfo_wf
  by unfold_locales (simp_all add: DeviceInfo_parse_iff DeviceInfo_value_def)

lemma AutoRelock_parse_iff:
  "AutoRelock_parse v = Inr x \<longleftrightarrow> any x \<and> v = AutoRelock_value x"
proof
  assume "AutoRelock_parse v = Inr x"
  then show "any x \<and> v = AutoRelock_value x"
    by (cases v) (auto simp: AutoRelock_parse_def AutoRelock_value_def U32_value_def any_def
      first_number_def carray_def rbind_Inr_iff number_Inr_iff u32_value_Inr_iff
      length_eqs split: if_splits list.splits)
next
  assume "any x \<and> v = AutoRelock_value x"
  then show "AutoRelock_parse v = Inr x"
    by (cases x) (auto simp: AutoRelock_parse_def AutoRelock_value_def first_number_def
      U32_value_def carray_def)
qed

interpretation relockw: wire AutoRelock_value AutoRelock_parse any
proof
  show "AutoRelock_value x \<noteq> V_Null" for x by (cases x) (simp_all add: AutoRelock_value_def)
qed (rule AutoRelock_parse_iff)

lemma DeviceConfig_parse_iff:
  "DeviceConfig_parse v = Inr x \<longleftrightarrow> any x \<and> v = DeviceConfig_value x"
  by (cases x) (auto simp: DeviceConfig_parse_def DeviceConfig_value_def
    record_iffs leaf_iffs relockw.parse_iff)

interpretation configw: wire DeviceConfig_value DeviceConfig_parse any
  by unfold_locales (simp_all add: DeviceConfig_parse_iff DeviceConfig_value_def)

lemma HardwareState_parse_iff:
  "HardwareState_parse v = Inr x \<longleftrightarrow> any x \<and> v = HardwareState_value x"
  by (cases x) (auto simp: HardwareState_parse_def HardwareState_value_def record_iffs leaf_iffs)

interpretation hardwarew: wire HardwareState_value HardwareState_parse any
  by unfold_locales (simp_all add: HardwareState_parse_iff HardwareState_value_def)

lemma AuditEvent_parse_iff:
  "AuditEvent_parse v = Inr x \<longleftrightarrow> AuditEvent_wf x \<and> v = AuditEvent_value x"
  by (cases x) (auto simp: AuditEvent_parse_def AuditEvent_value_def AuditEvent_wf_def
    record_iffs leaf_iffs hardwarew.option_parse_iff opstatusw.option_parse_iff)

interpretation eventw: wire AuditEvent_value AuditEvent_parse AuditEvent_wf
  by unfold_locales (simp_all add: AuditEvent_parse_iff AuditEvent_value_def)

lemma FirmwareManifest_parse_iff:
  "FirmwareManifest_parse v = Inr x \<longleftrightarrow> FirmwareManifest_wf x \<and> v = FirmwareManifest_value x"
  by (cases x) (auto simp: FirmwareManifest_parse_def FirmwareManifest_value_def
    FirmwareManifest_wf_def record_iffs leaf_iffs)

interpretation manifestw: wire FirmwareManifest_value FirmwareManifest_parse FirmwareManifest_wf
  by unfold_locales (simp_all add: FirmwareManifest_parse_iff FirmwareManifest_value_def)

lemma FirmwareStatus_parse_iff:
  "FirmwareStatus_parse v = Inr x \<longleftrightarrow> FirmwareStatus_wf x \<and> v = FirmwareStatus_value x"
  by (cases x) (auto simp: FirmwareStatus_parse_def FirmwareStatus_value_def
    FirmwareStatus_wf_def record_iffs leaf_iffs manifestw.option_parse_iff)

interpretation fwstatusw: wire FirmwareStatus_value FirmwareStatus_parse FirmwareStatus_wf
  by unfold_locales (simp_all add: FirmwareStatus_parse_iff FirmwareStatus_value_def)

lemma AuditPage_parse_iff:
  "AuditPage_parse v = Inr x \<longleftrightarrow> AuditPage_wf x \<and> v = AuditPage_value x"
proof
  assume "AuditPage_parse v = Inr x"
  then obtain f where f0: "v = carray f" "length f = 3" and "(case f ! 0 of
       V_Array events \<Rightarrow>
         if length events > 16 then Inl ObjectTooLarge
         else rbind (rmap AuditEvent_parse events) (\<lambda>es.
              rbind (U64_parse (f ! 1)) (\<lambda>next_cursor.
              rbind (Bool_parse (f ! 2)) (\<lambda>gap.
                Inr \<lparr>ap_events = es, ap_next_cursor = next_cursor, ap_gap = gap\<rparr>)))
     | _ \<Rightarrow> Inl InvalidPayload) = Inr x"
    by (auto simp: AuditPage_parse_def rbind_Inr_iff cfields_Inr_iff)
  then obtain events es nc gap where f: "f ! 0 = V_Array events"
    "length events \<le> 16" "rmap AuditEvent_parse events = Inr es" "U64_parse (f ! 1) = Inr nc"
    "Bool_parse (f ! 2) = Inr gap" "x = \<lparr>ap_events = es, ap_next_cursor = nc, ap_gap = gap\<rparr>"
    by (cases "f ! 0") (auto simp: rbind_Inr_iff split: if_splits)
  have es: "list_all AuditEvent_wf es \<and> events = map AuditEvent_value es"
    using f(3) unfolding rmap_Inr_iff
    by (induction rule: list_all2_induct) (auto simp: AuditEvent_parse_iff)
  from f0(2) have "f = [f ! 0, f ! 1, f ! 2]" by (auto simp: length_eqs)
  with f0(1) f es show "AuditPage_wf x \<and> v = AuditPage_value x"
    by (simp add: AuditPage_wf_def AuditPage_value_def leaf_iffs carray_def)
next
  assume a: "AuditPage_wf x \<and> v = AuditPage_value x"
  then have "rmap AuditEvent_parse (map AuditEvent_value (ap_events x)) = Inr (ap_events x)"
    by (intro rmap_map_Inr) (auto simp: AuditPage_wf_def list_all_iff eventw.parse_val)
  with a show "AuditPage_parse v = Inr x"
    by (simp add: AuditPage_wf_def AuditPage_value_def AuditPage_parse_def u64w.parse_val
      boolw.parse_val any_def) (simp add: carray_def u64w.parse_val boolw.parse_val any_def)
qed

interpretation pagew: wire AuditPage_value AuditPage_parse AuditPage_wf
  by unfold_locales (simp_all add: AuditPage_parse_iff AuditPage_value_def)

section \<open>Actions and commands\<close>

lemma Action_parse_fields_value:
  "Action_wf a \<Longrightarrow> Action_parse_fields (ucast (Action_opcode a)) (U8_value (Action_opcode a) # Action_args a) = Inr a"
  by (cases a) (simp_all add: Action_parse_fields_def Action_args_def Action_wf_def u64w.parse_val
    configw.parse_val any_def U32_value_def not_less)

lemma Action_parse_value: "Action_wf a \<Longrightarrow> Action_parse (Action_value a) = Inr a"
  by (simp add: Action_parse_def Action_value_def carray_def U8_value_def
    Action_parse_fields_value [unfolded U8_value_def])

lemma Action_parse_fields_Inr:
  assumes "Action_parse_fields op f = Inr a" "f ! 0 = cuint op"
  shows "Action_wf a \<and> f = U8_value (Action_opcode a) # Action_args a"
  using assms
  by (auto simp: Action_parse_fields_def Action_args_def Action_wf_def U8_value_def U32_value_def
    rbind_Inr_iff leaf_iffs configw.parse_iff u32_value_Inr_iff length_eqs
    any_def not_less split: if_splits)

lemma Action_parse_iff: "Action_parse v = Inr a \<longleftrightarrow> Action_wf a \<and> v = Action_value a"
proof
  assume "Action_parse v = Inr a"
  then obtain f x rest op where "v = V_Array f" "f = x # rest" "number x = Inr op"
    "Action_parse_fields op f = Inr a"
    by (cases v) (auto simp: Action_parse_def rbind_Inr_iff split: list.splits)
  with Action_parse_fields_Inr [of op f a] show "Action_wf a \<and> v = Action_value a"
    by (simp add: Action_value_def carray_def number_Inr_iff)
qed (simp add: Action_parse_value)

interpretation actionw: wire Action_value Action_parse Action_wf
  by unfold_locales (simp_all add: Action_parse_iff Action_value_def)

lemma Command_parse_iff: "Command_parse v = Inr c \<longleftrightarrow> Command_wf c \<and> v = Command_value c"
  by (cases c) (auto simp: Command_parse_def Command_value_def Command_wf_def rbind_Inr_iff
    cfields_Inr_iff leaf_iffs actionw.parse_iff length_eqs any_def Let_def)

interpretation commandw: wire Command_value Command_parse Command_wf
  by unfold_locales (simp_all add: Command_parse_iff Command_value_def)

section \<open>Replies and responses\<close>

lemma Reply_parse_iff: "Reply_parse v = Inr r \<longleftrightarrow> Reply_wf r \<and> v = Reply_value r"
proof
  assume "Reply_parse v = Inr r"
  then show "Reply_wf r \<and> v = Reply_value r"
    by (auto simp: Reply_parse_def Reply_value_def Reply_wf_def rbind_Inr_iff cfields_Inr_iff
      leaf_iffs opstatusw.parse_iff lockstatusw.parse_iff infow.parse_iff configw.parse_iff
      pagew.parse_iff fwstatusw.parse_iff number_Inr_iff length_eqs any_def split: if_splits)
next
  assume "Reply_wf r \<and> v = Reply_value r"
  then show "Reply_parse v = Inr r"
    by (cases r) (auto simp: Reply_parse_def Reply_value_def Reply_wf_def rbind_Inr_iff cfields_Inr_iff
      leaf_iffs opstatusw.parse_iff lockstatusw.parse_iff infow.parse_iff configw.parse_iff
      pagew.parse_iff fwstatusw.parse_iff any_def)
qed

interpretation replyw: wire Reply_value Reply_parse Reply_wf
proof
  show "Reply_value x \<noteq> V_Null" for x by (cases x) (simp_all add: Reply_value_def)
qed (rule Reply_parse_iff)

lemma Response_parse_iff: "Response_parse v = Inr r \<longleftrightarrow> Response_wf r \<and> v = Response_value r"
proof
  assume "Response_parse v = Inr r"
  then show "Response_wf r \<and> v = Response_value r"
    by (cases r) (auto simp: Response_parse_def Response_value_def Response_wf_def U32_value_def
      rbind_Inr_iff cfields_Inr_iff leaf_iffs replyw.parse_iff u32_value_Inr_iff length_eqs any_def
      Let_def split: if_splits)
next
  assume a: "Response_wf r \<and> v = Response_value r"
  then show "Response_parse v = Inr r"
  proof (cases "rsp_result r")
    case (Inl code)
    with a have "code \<noteq> 0" "rsp_opcode r \<le> 22"
      by (auto simp: Response_wf_def validate_response_def reject_if_Inr_iff not_less split: if_splits)
    with a Inl show ?thesis
      by (cases r) (simp add: Response_parse_def Response_value_def Response_wf_def u8w.parse_val
        any_def U32_value_def not_less)
  next
    case (Inr reply)
    with a have "rsp_opcode r \<le> 22"
      by (auto simp: Response_wf_def validate_response_def not_less split: if_splits)
    moreover have "u32_value (cuint 0) = Inr 0" by (simp add: u32_value_Inr_iff)
    ultimately show ?thesis using a Inr
      by (cases r) (simp add: Response_parse_def Response_value_def Response_wf_def u8w.parse_val
        replyw.parse_val any_def not_less)
  qed
qed

interpretation responsew: wire Response_value Response_parse Response_wf
  by unfold_locales (auto simp: Response_parse_iff Response_value_def split: sum.splits)

end
