(* ===== verification/Cose.thy ===== *)
theory Cose
  imports Wire_Laws
begin

text \<open>
  \<^verbatim>\<open>crates/openlock-crypto/src/cose.rs\<close> and \<^verbatim>\<open>firmware.rs\<close>: COSE signing and verification of
  domain-separated objects, and the grant, policy and firmware-manifest formats on top of
  them. A verifying key is its 32-byte encoding; the Ed25519 operations are the foreign
  functions of the \<open>Crypto\<close> record.
\<close>

unbundle bit_operations_syntax

definition ascii :: "string \<Rightarrow> bytes" where
  "ascii s = map of_char s"

definition GRANT :: bytes where "GRANT = ascii ''openlock:v2:grant''"
definition POLICY :: bytes where "POLICY = ascii ''openlock:v2:policy''"
definition FIRMWARE_DOMAIN :: bytes where "FIRMWARE_DOMAIN = ascii ''openlock:v4:firmware''"

section \<open>Signed objects\<close>

definition cose_protected :: Value where
  "cose_protected = V_Map [(cuint 1, V_Integer (- 8))]"

definition cose_structure :: "bytes \<Rightarrow> bytes \<Rightarrow> bytes \<Rightarrow> Value" where
  "cose_structure kind header payload =
     carray [V_Text ''Signature1'', cbytes header, cbytes kind, cbytes payload]"

definition sign_object :: "Crypto \<Rightarrow> bytes \<Rightarrow> bytes \<Rightarrow> Value \<Rightarrow> Error + bytes" where
  "sign_object cr key kind payload =
     rbind (cencode cr payload) (\<lambda>payload.
     rbind (cencode cr cose_protected) (\<lambda>header.
     rbind (cencode cr (cose_structure kind header payload)) (\<lambda>tbs.
       cencode cr (carray [cbytes header, V_Map [], cbytes payload, cbytes (cr_sign cr key tbs)]))))"

definition verify_object :: "Crypto \<Rightarrow> bytes \<Rightarrow> bytes \<Rightarrow> bytes \<Rightarrow> Error + Value" where
  "verify_object cr key kind cose =
     rbind (cdecode cr cose) (\<lambda>object.
     rbind (map_err (\<lambda>_. InvalidCose) (cfields object 4)) (\<lambda>f.
     rbind (cdata (f ! 0)) (\<lambda>header.
     rbind (cencode cr cose_protected) (\<lambda>expected.
     rbind (reject_if (header \<noteq> expected \<or> f ! 1 \<noteq> V_Map []) InvalidCose) (\<lambda>_.
     rbind (cdata (f ! 2)) (\<lambda>payload.
     rbind (cdata (f ! 3)) (\<lambda>signature.
     rbind (reject_if (\<not> cr_signature_from_slice cr signature) InvalidCose) (\<lambda>_.
     rbind (cencode cr (cose_structure kind header payload)) (\<lambda>tbs.
     rbind (reject_if (\<not> cr_verify_strict cr key tbs signature) BadSignature) (\<lambda>_.
       cdecode cr payload))))))))))"

section \<open>Grants\<close>

definition grant_value :: "Grant \<Rightarrow> Value" where
  "grant_value g = carray
     [cuint CREDENTIAL_VERSION, V_Text ''grant'', cbytes (cred_bytes (g_credential_id g)),
      cbytes (lock_bytes (g_lock_id g)), cbytes (subject_bytes (g_subject_key g)),
      cuint (ucast (g_rights g)), cuint (g_epoch g),
      (case g_validity g of None \<Rightarrow> V_Null
       | Some v \<Rightarrow> carray [cuint (v_not_before v), cuint (v_not_after v)]),
      (case g_max_uses g of None \<Rightarrow> V_Null | Some n \<Rightarrow> cuint (ucast n))]"

definition validate_grant :: "Grant \<Rightarrow> Error + unit" where
  "validate_grant g =
     (if g_rights g = 0
       \<or> g_rights g AND NOT KNOWN_RIGHTS \<noteq> 0
       \<or> g_max_uses g = Some 0
       \<or> (case g_validity g of None \<Rightarrow> False | Some v \<Rightarrow> v_not_before v \<ge> v_not_after v)
      then Inl InvalidPayload else Inr ())"

definition parse_grant :: "Value \<Rightarrow> Error + Grant" where
  "parse_grant v = rbind (cfields v 9) (\<lambda>f.
     rbind (number (f ! 0)) (\<lambda>version.
     if version \<noteq> CREDENTIAL_VERSION \<or> f ! 1 \<noteq> V_Text ''grant'' then Inl UnsupportedVersion
     else rbind (if f ! 7 = V_Null then Inr None
            else rbind (cfields (f ! 7) 2) (\<lambda>t.
                 rbind (number (t ! 0)) (\<lambda>not_before.
                 rbind (number (t ! 1)) (\<lambda>not_after.
                   Inr (Some \<lparr>v_not_before = not_before, v_not_after = not_after\<rparr>))))) (\<lambda>validity.
       rbind (CredentialId_parse (f ! 2)) (\<lambda>credential_id.
       rbind (LockId_parse (f ! 3)) (\<lambda>lock_id.
       rbind (SubjectKey_parse (f ! 4)) (\<lambda>subject_key.
       rbind (u32_value (f ! 5)) (\<lambda>rights.
       rbind (number (f ! 6)) (\<lambda>epoch.
       rbind (optional_u32 (f ! 8)) (\<lambda>max_uses.
         let grant = \<lparr>g_credential_id = credential_id, g_lock_id = lock_id,
                      g_subject_key = subject_key, g_rights = rights, g_epoch = epoch,
                      g_validity = validity, g_max_uses = max_uses\<rparr> in
         rbind (validate_grant grant) (\<lambda>_. Inr grant))))))))))"

definition sign_grant :: "Crypto \<Rightarrow> bytes \<Rightarrow> Grant \<Rightarrow> Error + bytes" where
  "sign_grant cr key grant =
     rbind (validate_grant grant) (\<lambda>_. sign_object cr key GRANT (grant_value grant))"

definition read_grant :: "Crypto \<Rightarrow> bytes \<Rightarrow> bytes \<Rightarrow> Error + Grant" where
  "read_grant cr key cose = rbind (verify_object cr key GRANT cose) parse_grant"

definition verify_grant :: "Crypto \<Rightarrow> bytes \<Rightarrow> Grant \<Rightarrow> bytes \<Rightarrow> Error + unit" where
  "verify_grant cr key grant cose =
     rbind (read_grant cr key cose) (\<lambda>g. if g \<noteq> grant then Inl InvalidPayload else Inr ())"

section \<open>Policies\<close>

definition policy_value :: "PolicyUpdate \<Rightarrow> Value" where
  "policy_value p = carray
     [cuint CREDENTIAL_VERSION, V_Text ''policy'', cbytes (lock_bytes (p_lock_id p)),
      cuint (p_epoch p), cuint (p_version p),
      carray (map (\<lambda>i. cbytes (cred_bytes i)) (sorted_list_of_fset (p_revoked p)))]"

definition sign_policy :: "Crypto \<Rightarrow> bytes \<Rightarrow> PolicyUpdate \<Rightarrow> Error + bytes" where
  "sign_policy cr key policy = sign_object cr key POLICY (policy_value policy)"

definition parse_policy :: "Value \<Rightarrow> Error + PolicyUpdate" where
  "parse_policy v = rbind (cfields v 6) (\<lambda>f.
     rbind (number (f ! 0)) (\<lambda>version.
     if version \<noteq> CREDENTIAL_VERSION \<or> f ! 1 \<noteq> V_Text ''policy'' then Inl UnsupportedVersion
     else case f ! 5 of
         V_Array ids \<Rightarrow>
           rbind (LockId_parse (f ! 2)) (\<lambda>lock_id.
           rbind (number (f ! 3)) (\<lambda>epoch.
           rbind (number (f ! 4)) (\<lambda>version.
           rbind (rmap CredentialId_parse ids) (\<lambda>revoked.
             let p = \<lparr>p_lock_id = lock_id, p_epoch = epoch, p_version = version,
                      p_revoked = fset_of_list revoked\<rparr> in
             if policy_value p \<noteq> v then Inl InvalidPayload else Inr p))))
       | _ \<Rightarrow> Inl InvalidPayload))"

definition read_policy :: "Crypto \<Rightarrow> bytes \<Rightarrow> bytes \<Rightarrow> Error + PolicyUpdate" where
  "read_policy cr key cose = rbind (verify_object cr key POLICY cose) parse_policy"

definition verify_policy :: "Crypto \<Rightarrow> bytes \<Rightarrow> PolicyUpdate \<Rightarrow> bytes \<Rightarrow> Error + unit" where
  "verify_policy cr key policy cose =
     rbind (read_policy cr key cose) (\<lambda>p. if p \<noteq> policy then Inl InvalidPayload else Inr ())"

section \<open>Firmware manifests\<close>

definition validate_manifest :: "FirmwareManifest \<Rightarrow> Error + unit" where
  "validate_manifest m =
     (if fm_model m = []
       \<or> length (fm_model m) > 64
       \<or> fm_hardware m = []
       \<or> length (fm_hardware m) > 64
       \<or> fm_version m = []
       \<or> length (fm_version m) > 64
       \<or> fm_size m = 0
       \<or> fm_security_version m = 0
      then Inl FirmwareInvalid else Inr ())"

definition sign_manifest :: "Crypto \<Rightarrow> bytes \<Rightarrow> FirmwareManifest \<Rightarrow> Error + bytes" where
  "sign_manifest cr key manifest =
     rbind (validate_manifest manifest) (\<lambda>_.
       sign_object cr key FIRMWARE_DOMAIN (FirmwareManifest_value manifest))"

definition read_manifest :: "Crypto \<Rightarrow> bytes \<Rightarrow> bytes \<Rightarrow> Error + FirmwareManifest" where
  "read_manifest cr key b =
     rbind (verify_object cr key FIRMWARE_DOMAIN b) (\<lambda>v.
     rbind (FirmwareManifest_parse v) (\<lambda>m.
     rbind (validate_manifest m) (\<lambda>_. Inr m)))"

section \<open>What an accepted object proves\<close>

lemma verify_object_Inr:
  assumes "verify_object cr key kind cose = Inr v"
  obtains header payload signature tbs where
    "cencode cr cose_protected = Inr header"
    "cencode cr (carray [cbytes header, V_Map [], cbytes payload, cbytes signature]) = Inr cose"
    "cencode cr (cose_structure kind header payload) = Inr tbs"
    "cr_verify_strict cr key tbs signature"
    "cencode cr v = Inr payload"
proof -
  from assms obtain obj f header payload signature tbs where
    obj: "cdecode cr cose = Inr obj" "obj = carray f" "length f = 4"
    and f: "f ! 0 = cbytes header" "f ! 1 = V_Map []" "f ! 2 = cbytes payload" "f ! 3 = cbytes signature"
    and h: "cencode cr cose_protected = Inr header"
    and t: "cencode cr (cose_structure kind header payload) = Inr tbs"
      "cr_verify_strict cr key tbs signature" "cdecode cr payload = Inr v"
    by (auto simp: verify_object_def result_Inr_iffs cbor_Inr_iffs)
  from obj(3) f have "f = [cbytes header, V_Map [], cbytes payload, cbytes signature]"
    by (auto simp: length_eqs)
  with obj h t that show ?thesis by (metis cdecode_canonical)
qed

lemma parse_grant_iff:
  "parse_grant v = Inr g \<longleftrightarrow> v = grant_value g \<and> validate_grant g = Inr ()
     \<and> CredentialId_wf (g_credential_id g) \<and> LockId_wf (g_lock_id g) \<and> SubjectKey_wf (g_subject_key g)"
proof
  assume "parse_grant v = Inr g"
  then show "v = grant_value g \<and> validate_grant g = Inr ()
     \<and> CredentialId_wf (g_credential_id g) \<and> LockId_wf (g_lock_id g) \<and> SubjectKey_wf (g_subject_key g)"
    by (cases g) (auto simp: parse_grant_def grant_value_def result_Inr_iffs cbor_Inr_iffs length_eq_9
      length_eqs credidw.parse_iff lockidw.parse_iff subjectw.parse_iff Let_def
      CredentialId_value_def LockId_value_def SubjectKey_value_def split: if_splits option.splits)
next
  assume "v = grant_value g \<and> validate_grant g = Inr ()
     \<and> CredentialId_wf (g_credential_id g) \<and> LockId_wf (g_lock_id g) \<and> SubjectKey_wf (g_subject_key g)"
  then show "parse_grant v = Inr g"
    by (cases g) (auto simp: parse_grant_def grant_value_def result_Inr_iffs cbor_Inr_iffs
      credidw.parse_iff lockidw.parse_iff subjectw.parse_iff Let_def
      CredentialId_value_def LockId_value_def SubjectKey_value_def split: option.splits)
qed

lemma parse_policy_iff:
  "parse_policy v = Inr p \<longleftrightarrow> v = policy_value p \<and> LockId_wf (p_lock_id p)
     \<and> (\<forall>i. i |\<in>| p_revoked p \<longrightarrow> CredentialId_wf i)"
proof
  assume "parse_policy v = Inr p"
  then obtain f where f: "v = carray f" "length f = 6" and c: "(case f ! 5 of
         V_Array ids \<Rightarrow>
           rbind (LockId_parse (f ! 2)) (\<lambda>lock_id.
           rbind (number (f ! 3)) (\<lambda>epoch.
           rbind (number (f ! 4)) (\<lambda>version.
           rbind (rmap CredentialId_parse ids) (\<lambda>revoked.
             let p = \<lparr>p_lock_id = lock_id, p_epoch = epoch, p_version = version,
                      p_revoked = fset_of_list revoked\<rparr> in
             if policy_value p \<noteq> v then Inl InvalidPayload else Inr p))))
       | _ \<Rightarrow> Inl InvalidPayload) = Inr p"
    by (auto simp: parse_policy_def result_Inr_iffs cfields_Inr_iff split: if_splits)
  then obtain ids revoked where "LockId_parse (f ! 2) = Inr (p_lock_id p)"
    "rmap CredentialId_parse ids = Inr revoked" "p_revoked p = fset_of_list revoked" "policy_value p = v"
    by (cases "f ! 5") (auto simp: result_Inr_iffs Let_def split: if_splits)
  moreover from this(2) have "list_all CredentialId_wf revoked"
    unfolding rmap_Inr_iff by (induction rule: list_all2_induct) (auto simp: credidw.parse_iff)
  ultimately show "v = policy_value p \<and> LockId_wf (p_lock_id p)
     \<and> (\<forall>i. i |\<in>| p_revoked p \<longrightarrow> CredentialId_wf i)"
    by (auto simp: lockidw.parse_iff list_all_iff fset_of_list_elem)
next
  assume a: "v = policy_value p \<and> LockId_wf (p_lock_id p)
     \<and> (\<forall>i. i |\<in>| p_revoked p \<longrightarrow> CredentialId_wf i)"
  then have "rmap CredentialId_parse (map CredentialId_value (sorted_list_of_fset (p_revoked p)))
      = Inr (sorted_list_of_fset (p_revoked p))"
    by (intro rmap_map_Inr) (simp add: credidw.parse_val)
  moreover have "CredentialId_value = (\<lambda>i. cbytes (cred_bytes i))"
    by (simp add: CredentialId_value_def fun_eq_iff)
  moreover have "LockId_parse (cbytes (lock_bytes (p_lock_id p))) = Inr (p_lock_id p)"
    using a lockidw.parse_val by (simp add: LockId_value_def)
  ultimately show "parse_policy v = Inr p"
    using a by (cases p) (simp add: parse_policy_def policy_value_def carray_def cfields_def)
qed

section \<open>Signing and verifying\<close>

lemma wire_value_protected: "wire_value cose_protected"
  by (simp add: wire_value_def cose_protected_def cbor_int_def)

lemma cencode_length: "cencode cr v = Inr b \<Longrightarrow> length b < 2 ^ 64"
  by (simp add: cencode_Inr_iff MAX_OBJECT_SIZE_def)

lemma verify_sign_object:
  assumes ok: "cbor_ok cr" "ed25519_ok cr" and v: "wire_value v"
    and signed: "sign_object cr sk kind v = Inr cose"
  shows "verify_object cr (cr_verifying_key cr sk) kind cose = Inr v"
proof -
  from signed obtain payload header tbs where
    p: "cencode cr v = Inr payload" and h: "cencode cr cose_protected = Inr header"
    and t: "cencode cr (cose_structure kind header payload) = Inr tbs"
    and c: "cencode cr (carray [cbytes header, V_Map [], cbytes payload,
              cbytes (cr_sign cr sk tbs)]) = Inr cose"
    by (auto simp: sign_object_def result_Inr_iffs)
  have sig: "cr_signature_from_slice cr (cr_sign cr sk tbs)"
    "cr_verify_strict cr (cr_verifying_key cr sk) tbs (cr_sign cr sk tbs)"
    "length (cr_sign cr sk tbs) = 64"
    using ok(2) by (simp_all add: ed25519_ok_def)
  have "wire_value (carray [cbytes header, V_Map [], cbytes payload, cbytes (cr_sign cr sk tbs)])"
    using cencode_length [OF p] cencode_length [OF h] sig(3) by (simp add: wire_value_def)
  then have "cdecode cr cose
      = Inr (carray [cbytes header, V_Map [], cbytes payload, cbytes (cr_sign cr sk tbs)])"
    using ok(1) c by (simp add: cdecode_cencode)
  then show ?thesis
    using h t sig cdecode_cencode [OF ok(1) v p] by (simp add: verify_object_def)
qed

definition Grant_wf :: "Grant \<Rightarrow> bool" where
  "Grant_wf g \<longleftrightarrow> validate_grant g = Inr () \<and> CredentialId_wf (g_credential_id g)
     \<and> LockId_wf (g_lock_id g) \<and> SubjectKey_wf (g_subject_key g)"

lemma wire_value_grant: "Grant_wf g \<Longrightarrow> wire_value (grant_value g)"
  by (auto simp: wire_value_def grant_value_def Grant_wf_def CredentialId_wf_def LockId_wf_def
    SubjectKey_wf_def split: option.split)

lemma read_grant_Inr:
  assumes "read_grant cr key cose = Inr g"
  shows "Grant_wf g" and "verify_object cr key GRANT cose = Inr (grant_value g)"
  using assms by (auto simp: read_grant_def result_Inr_iffs parse_grant_iff Grant_wf_def)

lemma read_sign_grant:
  assumes "cbor_ok cr" "ed25519_ok cr" "Grant_wf g" "sign_grant cr sk g = Inr cose"
  shows "read_grant cr (cr_verifying_key cr sk) cose = Inr g"
proof -
  from assms(4) have "sign_object cr sk GRANT (grant_value g) = Inr cose"
    by (simp add: sign_grant_def result_Inr_iffs)
  with assms have "verify_object cr (cr_verifying_key cr sk) GRANT cose = Inr (grant_value g)"
    by (simp add: verify_sign_object wire_value_grant)
  with assms(3) show ?thesis by (simp add: read_grant_def parse_grant_iff Grant_wf_def)
qed

end
