(* ===== verification/Trust.thy ===== *)
theory Trust
  imports Cose
begin

text \<open>
  \<^verbatim>\<open>crates/openlock-crypto/src/trust.rs\<close> (with \<open>validate_public\<close> of \<^verbatim>\<open>noise.rs\<close>): signed device
  keys, key rotation records, the client-side \<open>TrustStore\<close>, and the validation of a
  rotation by the device. The store's persistence is a parameter: a function that commits
  a snapshot to a storage of any type and may fail.
\<close>

unbundle bit_operations_syntax

definition DEVICE :: bytes where "DEVICE = ascii ''openlock:v2:device-key''"
definition UPDATE :: bytes where "UPDATE = ascii ''openlock:v2:key-update''"

definition validate_public :: "Crypto \<Rightarrow> bytes \<Rightarrow> Error + unit" where
  "validate_public cr public =
     (if public = replicate 32 0 \<or> \<not> cr_contributory cr public then Inl UntrustedKey else Inr ())"

definition device_key_value :: "DeviceKey \<Rightarrow> u32 \<Rightarrow> Value" where
  "device_key_value key issuer_key_id = carray
     [cuint 2, cbytes (lock_bytes (dk_device_id key)), cuint (ucast (dk_key_id key)),
      cuint (ucast (dk_key_version key)), cbytes (dk_x25519_public_key key),
      cbytes (dk_rotation_public_key key), cuint (dk_capabilities key),
      cuint (ucast issuer_key_id)]"

definition validate_device_key :: "Crypto \<Rightarrow> DeviceKey \<Rightarrow> Error + unit" where
  "validate_device_key cr key =
     (if dk_key_version key = 0
       \<or> dk_x25519_public_key key = replicate 32 0
       \<or> dk_rotation_public_key key = replicate 32 0
       \<or> dk_capabilities key = 0
       \<or> dk_capabilities key AND NOT KNOWN_CAPABILITIES \<noteq> 0
      then Inl InvalidPayload
      else rbind (map_err (\<lambda>_. UntrustedKey) (validate_public cr (dk_x25519_public_key key))) (\<lambda>_.
        reject_if (\<not> cr_vk_from_bytes cr (dk_rotation_public_key key)) UntrustedKey))"

definition sign_device_key :: "Crypto \<Rightarrow> bytes \<Rightarrow> DeviceKey \<Rightarrow> u32 \<Rightarrow> Error + DeviceKeyRecord" where
  "sign_device_key cr issuer key issuer_key_id =
     rbind (validate_device_key cr key) (\<lambda>_.
     rbind (sign_object cr issuer DEVICE (device_key_value key issuer_key_id)) (\<lambda>signature.
       Inr \<lparr>kr_key = key, kr_issuer_key_id = issuer_key_id, kr_signature = signature\<rparr>))"

definition verify_device_key :: "Crypto \<Rightarrow> bytes \<Rightarrow> DeviceKeyRecord \<Rightarrow> Error + unit" where
  "verify_device_key cr issuer rec =
     rbind (validate_device_key cr (kr_key rec)) (\<lambda>_.
     rbind (verify_object cr issuer DEVICE (kr_signature rec)) (\<lambda>value.
     rbind (cfields value 8) (\<lambda>f.
     rbind (number (f ! 0)) (\<lambda>version. if version \<noteq> 2 then Inl InvalidPayload else
     rbind (cfixed 16 (f ! 1)) (\<lambda>device_id.
       if device_id \<noteq> lock_bytes (dk_device_id (kr_key rec)) then Inl InvalidPayload else
     rbind (u32_value (f ! 2)) (\<lambda>key_id.
       if key_id \<noteq> dk_key_id (kr_key rec) then Inl InvalidPayload else
     rbind (u32_value (f ! 3)) (\<lambda>key_version.
       if key_version \<noteq> dk_key_version (kr_key rec) then Inl InvalidPayload else
     rbind (cfixed 32 (f ! 4)) (\<lambda>x25519.
       if x25519 \<noteq> dk_x25519_public_key (kr_key rec) then Inl InvalidPayload else
     rbind (cfixed 32 (f ! 5)) (\<lambda>rotation.
       if rotation \<noteq> dk_rotation_public_key (kr_key rec) then Inl InvalidPayload else
     rbind (number (f ! 6)) (\<lambda>capabilities.
       if capabilities \<noteq> dk_capabilities (kr_key rec) then Inl InvalidPayload else
     rbind (u32_value (f ! 7)) (\<lambda>issuer_key_id.
       if issuer_key_id \<noteq> kr_issuer_key_id rec then Inl InvalidPayload else
       Inr ())))))))))))"

section \<open>Rotation records\<close>

definition key_update_value :: "KeyUpdate \<Rightarrow> Value" where
  "key_update_value update = carray
     [cuint 2, cuint (ucast (ku_old_key_id update)),
      device_key_value (kr_key (ku_new_record update)) (kr_issuer_key_id (ku_new_record update)),
      cuint (ku_not_before update), cuint (ku_retire_after update),
      (case ku_issuer_key_id update of None \<Rightarrow> V_Null | Some i \<Rightarrow> cuint (ucast i))]"

definition validate_key_update :: "Crypto \<Rightarrow> KeyUpdate \<Rightarrow> Error + unit" where
  "validate_key_update cr update =
     rbind (validate_device_key cr (kr_key (ku_new_record update))) (\<lambda>_.
       reject_if (ku_not_before update \<ge> ku_retire_after update) InvalidPayload)"

definition sign_key_update :: "Crypto \<Rightarrow> bytes \<Rightarrow> KeyUpdate \<Rightarrow> Error + KeyUpdate" where
  "sign_key_update cr issuer update =
     rbind (validate_key_update cr update) (\<lambda>_.
     rbind (sign_object cr issuer UPDATE (key_update_value update)) (\<lambda>signature.
       Inr (update\<lparr>ku_signature := signature\<rparr>)))"

definition sign_key_update_with_key :: "Crypto \<Rightarrow> bytes \<Rightarrow> KeyUpdate \<Rightarrow> Error + KeyUpdate" where
  "sign_key_update_with_key cr key update =
     rbind (validate_key_update cr update) (\<lambda>_.
     rbind (sign_object cr key UPDATE (key_update_value update)) (\<lambda>signature.
       Inr (update\<lparr>ku_signature := signature\<rparr>)))"

definition encode_key_update :: "Crypto \<Rightarrow> KeyUpdate \<Rightarrow> Error + bytes" where
  "encode_key_update cr update =
     cencode cr (carray [cbytes (ku_signature update), cbytes (kr_signature (ku_new_record update))])"

definition read_key_update ::
  "Crypto \<Rightarrow> bytes \<Rightarrow> DeviceKey \<Rightarrow> bytes \<Rightarrow> ClockSample \<Rightarrow> Error + KeyUpdate" where
  "read_key_update cr issuer old input now =
     rbind (ClockSample_validate now) (\<lambda>_.
     rbind (cdecode cr input) (\<lambda>outer.
     rbind (cfields outer 2) (\<lambda>parts.
     rbind (cdata (parts ! 0)) (\<lambda>signature.
     if \<not> cr_vk_from_bytes cr (dk_rotation_public_key old) then Inl UntrustedKey else
     rbind (case verify_object cr issuer UPDATE signature of
              Inr v \<Rightarrow> Inr (v, True)
            | Inl _ \<Rightarrow> rbind (verify_object cr (dk_rotation_public_key old) UPDATE signature)
                (\<lambda>v. Inr (v, False))) (\<lambda>(v, root_signed).
     rbind (cfields v 6) (\<lambda>f.
     rbind (number (f ! 0)) (\<lambda>fver. if fver \<noteq> 2 then Inl UnsupportedVersion else
     rbind (cfields (f ! 2) 8) (\<lambda>k.
     rbind (number (k ! 0)) (\<lambda>kver. if kver \<noteq> 2 then Inl UnsupportedVersion else
     rbind (LockId_parse (k ! 1)) (\<lambda>device_id.
     rbind (u32_value (k ! 2)) (\<lambda>key_id.
     rbind (u32_value (k ! 3)) (\<lambda>key_version.
     rbind (cfixed 32 (k ! 4)) (\<lambda>x25519.
     rbind (cfixed 32 (k ! 5)) (\<lambda>rotation.
     rbind (number (k ! 6)) (\<lambda>capabilities.
     rbind (u32_value (k ! 7)) (\<lambda>record_issuer.
     rbind (cdata (parts ! 1)) (\<lambda>record_signature.
     rbind (u32_value (f ! 1)) (\<lambda>old_key_id.
     rbind (number (f ! 3)) (\<lambda>not_before.
     rbind (number (f ! 4)) (\<lambda>retire_after.
     rbind (optional_u32 (f ! 5)) (\<lambda>issuer_key_id.
     let update = \<lparr>ku_old_key_id = old_key_id,
           ku_new_record = \<lparr>kr_key = \<lparr>dk_device_id = device_id, dk_key_id = key_id,
               dk_key_version = key_version, dk_x25519_public_key = x25519,
               dk_rotation_public_key = rotation, dk_capabilities = capabilities\<rparr>,
             kr_issuer_key_id = record_issuer, kr_signature = record_signature\<rparr>,
           ku_not_before = not_before, ku_retire_after = retire_after,
           ku_issuer_key_id = issuer_key_id, ku_signature = signature\<rparr> in
     if root_signed \<noteq> (issuer_key_id \<noteq> None) \<or> key_update_value update \<noteq> v
     then Inl InvalidPayload else
     rbind (validate_key_update cr update) (\<lambda>_.
     rbind (verify_device_key cr issuer (ku_new_record update)) (\<lambda>_.
     if ku_old_key_id update \<noteq> dk_key_id old
       \<or> device_id \<noteq> dk_device_id old
       \<or> key_version \<le> dk_key_version old
       \<or> cs_lower now < not_before
       \<or> cs_upper now \<ge> retire_after
     then Inl StaleKey else Inr update)))))))))))))))))))))))"

definition parse_device_key_value :: "Crypto \<Rightarrow> Value \<Rightarrow> Error + DeviceKey \<times> u32" where
  "parse_device_key_value cr value =
     rbind (cfields value 8) (\<lambda>f.
     rbind (number (f ! 0)) (\<lambda>version. if version \<noteq> 2 then Inl UnsupportedVersion else
     rbind (LockId_parse (f ! 1)) (\<lambda>device_id.
     rbind (u32_value (f ! 2)) (\<lambda>key_id.
     rbind (u32_value (f ! 3)) (\<lambda>key_version.
     rbind (cfixed 32 (f ! 4)) (\<lambda>x25519.
     rbind (cfixed 32 (f ! 5)) (\<lambda>rotation.
     rbind (number (f ! 6)) (\<lambda>capabilities.
     let key = \<lparr>dk_device_id = device_id, dk_key_id = key_id, dk_key_version = key_version,
           dk_x25519_public_key = x25519, dk_rotation_public_key = rotation,
           dk_capabilities = capabilities\<rparr> in
     rbind (validate_device_key cr key) (\<lambda>_.
     rbind (u32_value (f ! 7)) (\<lambda>issuer_key_id. Inr (key, issuer_key_id)))))))))))"

definition sign_trust_payload :: "Crypto \<Rightarrow> bytes \<Rightarrow> u32 \<Rightarrow> Value \<Rightarrow> Error + bytes" where
  "sign_trust_payload cr key kind value =
     (if kind = 3 then
        rbind (parse_device_key_value cr value) (\<lambda>(device, issuer_id).
        rbind (sign_device_key cr key device issuer_id) (\<lambda>rec. Inr (kr_signature rec)))
      else if kind = 4 then
        rbind (cfields value 6) (\<lambda>f.
        rbind (number (f ! 0)) (\<lambda>version. if version \<noteq> 2 then Inl UnsupportedVersion else
        rbind (u32_value (f ! 1)) (\<lambda>_.
        rbind (parse_device_key_value cr (f ! 2)) (\<lambda>_.
        rbind (optional_u32 (f ! 5)) (\<lambda>_.
        rbind (number (f ! 3)) (\<lambda>not_before.
        rbind (number (f ! 4)) (\<lambda>retire_after.
          if not_before \<ge> retire_after then Inl InvalidPayload
          else sign_object cr key UPDATE value)))))))
      else Inl InvalidPayload)"

section \<open>The client's trust store\<close>

type_synonym TrustSnapshot = "(LockId, DeviceKeyRecord) fmap"

type_synonym 's trust_commit = "TrustSnapshot \<Rightarrow> 's \<Rightarrow> (Error + unit) \<times> 's"

record 's TrustStore =
  ts_issuer :: bytes
  ts_snapshot :: TrustSnapshot
  ts_storage :: 's
  ts_poisoned :: bool

definition TrustStore_new :: "bytes \<Rightarrow> 's \<Rightarrow> 's TrustStore" where
  "TrustStore_new issuer storage =
     \<lparr>ts_issuer = issuer, ts_snapshot = fmempty, ts_storage = storage, ts_poisoned = False\<rparr>"

fun check_devices :: "Crypto \<Rightarrow> bytes \<Rightarrow> (LockId \<times> DeviceKeyRecord) list \<Rightarrow> Error + unit" where
  "check_devices cr issuer [] = Inr ()"
| "check_devices cr issuer ((i, rec) # rest) =
     (if i \<noteq> dk_device_id (kr_key rec) then Inl StorageUnavailable
      else rbind (validate_device_key cr (kr_key rec)) (\<lambda>_.
           rbind (if kr_signature rec \<noteq> [] then verify_device_key cr issuer rec else Inr ()) (\<lambda>_.
             check_devices cr issuer rest)))"

definition TrustStore_from_snapshot ::
  "Crypto \<Rightarrow> bytes \<Rightarrow> 's \<Rightarrow> TrustSnapshot \<Rightarrow> Error + 's TrustStore" where
  "TrustStore_from_snapshot cr issuer storage snapshot =
     rbind (check_devices cr issuer (sorted_list_of_fmap snapshot)) (\<lambda>_.
       Inr \<lparr>ts_issuer = issuer, ts_snapshot = snapshot, ts_storage = storage, ts_poisoned = False\<rparr>)"

definition TrustStore_ensure_healthy :: "('s TrustStore, Error, unit) sm" where
  "TrustStore_ensure_healthy = bnd (gets ts_poisoned) (\<lambda>p. guard_err p StorageUnavailable)"

definition TrustStore_commit :: "'s trust_commit \<Rightarrow> TrustSnapshot \<Rightarrow> ('s TrustStore, Error, unit) sm" where
  "TrustStore_commit commit next = (\<lambda>t.
     case commit next (ts_storage t) of
       (Inl _, s) \<Rightarrow> (Inl StorageUnavailable, t\<lparr>ts_storage := s, ts_poisoned := True\<rparr>)
     | (Inr _, s) \<Rightarrow> (Inr (), t\<lparr>ts_storage := s, ts_snapshot := next\<rparr>))"

definition key_is_newer :: "TrustSnapshot \<Rightarrow> DeviceKey \<Rightarrow> bool" where
  "key_is_newer snapshot key = (case fmlookup snapshot (dk_device_id key) of
     None \<Rightarrow> True
   | Some old \<Rightarrow> \<not> (dk_key_id (kr_key old) \<noteq> dk_key_id key
                    \<or> dk_key_version key \<le> dk_key_version (kr_key old)))"

definition TrustStore_import ::
  "Crypto \<Rightarrow> 's trust_commit \<Rightarrow> DeviceKeyRecord \<Rightarrow> ('s TrustStore, Error, unit) sm" where
  "TrustStore_import cr commit rec =
     bnd TrustStore_ensure_healthy (\<lambda>_.
     bnd (gets id) (\<lambda>t.
     bnd (lift (verify_device_key cr (ts_issuer t) rec)) (\<lambda>_.
     bnd (guard_err (\<not> key_is_newer (ts_snapshot t) (kr_key rec)) StaleKey) (\<lambda>_.
       TrustStore_commit commit (fmupd (dk_device_id (kr_key rec)) rec (ts_snapshot t))))))"

definition TrustStore_pin ::
  "Crypto \<Rightarrow> 's trust_commit \<Rightarrow> DeviceKey \<Rightarrow> ('s TrustStore, Error, unit) sm" where
  "TrustStore_pin cr commit key =
     bnd TrustStore_ensure_healthy (\<lambda>_.
     bnd (lift (validate_device_key cr key)) (\<lambda>_.
     bnd (gets ts_snapshot) (\<lambda>snapshot.
     bnd (guard_err (\<not> key_is_newer snapshot key) StaleKey) (\<lambda>_.
       TrustStore_commit commit (fmupd (dk_device_id key)
         \<lparr>kr_key = key, kr_issuer_key_id = 0, kr_signature = []\<rparr> snapshot)))))"

definition TrustStore_apply_update ::
  "Crypto \<Rightarrow> 's trust_commit \<Rightarrow> KeyUpdate \<Rightarrow> ClockSample \<Rightarrow> ('s TrustStore, Error, unit) sm" where
  "TrustStore_apply_update cr commit update now =
     bnd TrustStore_ensure_healthy (\<lambda>_.
     bnd (lift (ClockSample_validate now)) (\<lambda>_.
     bnd (gets id) (\<lambda>t.
     bnd (lift (ok_or UntrustedKey
            (fmlookup (ts_snapshot t) (dk_device_id (kr_key (ku_new_record update)))))) (\<lambda>old.
     bnd (guard_err
            (dk_key_id (kr_key old) \<noteq> ku_old_key_id update
             \<or> dk_key_version (kr_key (ku_new_record update)) \<le> dk_key_version (kr_key old)
             \<or> cs_lower now < ku_not_before update
             \<or> cs_upper now \<ge> ku_retire_after update
             \<or> ku_not_before update \<ge> ku_retire_after update) StaleKey) (\<lambda>_.
     bnd (lift (verify_device_key cr (ts_issuer t) (ku_new_record update))) (\<lambda>_.
     bnd (lift (if ku_issuer_key_id update \<noteq> None then Inr (ts_issuer t)
                else if cr_vk_from_bytes cr (dk_rotation_public_key (kr_key old))
                then Inr (dk_rotation_public_key (kr_key old))
                else Inl UntrustedKey)) (\<lambda>signer.
     bnd (lift (verify_object cr signer UPDATE (ku_signature update))) (\<lambda>v.
     bnd (guard_err (v \<noteq> key_update_value update) InvalidPayload) (\<lambda>_.
       TrustStore_commit commit (fmupd (dk_device_id (kr_key (ku_new_record update)))
         (ku_new_record update) (ts_snapshot t)))))))))))"

definition TrustStore_get :: "'s TrustStore \<Rightarrow> LockId \<Rightarrow> DeviceKeyRecord option" where
  "TrustStore_get t device = (if ts_poisoned t then None else fmlookup (ts_snapshot t) device)"

definition TrustStore_snapshot :: "('s TrustStore, Error, TrustSnapshot) sm" where
  "TrustStore_snapshot = bnd TrustStore_ensure_healthy (\<lambda>_. gets ts_snapshot)"

end
