(* ===== verification/Device_State.thy ===== *)
theory Device_State
  imports Trust
begin

text \<open>
  The data of \<^verbatim>\<open>crates/openlock-core/src/device.rs\<close>: the factory identity, the durable
  \<open>DeviceSnapshot\<close> with its factory value and validation, the volatile fields of the
  \<open>DeviceController\<close>, and the \<open>DeviceStorage\<close>, \<open>DevicePlatform\<close> and \<open>Bootloader\<close> traits. The
  traits are a record of functions \<open>Env\<close> over an abstract storage type and an abstract
  platform type. Every platform callback returns the platform it leaves behind, also those
  that take \<open>&self\<close> in Rust: a clock or a sensor may read differently the next time.
\<close>

unbundle bit_operations_syntax

section \<open>Durable data\<close>

record FactoryIdentity =
  fi_info :: DeviceInfo
  fi_setup_key_hash :: bytes
  fi_firmware_root :: bytes
  fi_device_key :: DeviceKey

record Owner =
  ow_issuer :: bytes
  ow_first_admin :: SubjectKey

record OperationRecord =
  or_digest :: bytes
  or_status :: OperationStatus

record DeviceSnapshot =
  s_format :: u32
  s_lock_id :: LockId
  s_owner :: "Owner option"
  s_epoch :: u64
  s_generation :: u64
  s_policy_version :: u64
  s_revoked :: "CredentialId fset"
  s_uses :: "(CredentialId, u32) fmap"
  s_watermarks :: "(CredentialId, u64) fmap"
  s_bindings :: "(CredentialId, bytes) fmap"
  s_operations :: "OperationRecord list"
  s_config :: DeviceConfig
  s_events :: "AuditEvent list"
  s_next_cursor :: u64
  s_clock_floor :: "u64 option"
  s_clock_valid :: bool
  s_pending_relock :: bool
  s_automatic_inflight :: bool
  s_firmware :: FirmwareStatus
  s_signed_manifest :: bytes
  s_device_key :: DeviceKey

section \<open>Volatile data\<close>

record ActuationId =
  ai_generation :: u64
  ai_audit_cursor :: u64

datatype ActuatorResult = Result_Completed | Result_Jammed | Result_SensorConflict | Result_Failed

datatype BootOutcome = Boot_Pending | Boot_Confirmed | Boot_RolledBack

record SessionContext =
  sc_peer :: SubjectKey
  sc_generation :: u64

record Active =
  a_id :: ActuationId
  a_credential_id :: CredentialId
  a_sequence :: u64
  a_target :: ActionTarget
  a_deadline :: u64
  a_automatic :: bool

record Confirmation =
  cf_peer :: SubjectKey
  cf_digest :: bytes
  cf_expires :: u64

record ('s, 'p) DeviceController =
  c_factory :: FactoryIdentity
  c_storage :: 's
  c_platform :: 'p
  c_state :: DeviceSnapshot
  c_poisoned :: bool
  c_sample :: HardwareState
  c_last_idle_bolt :: "BoltState option"
  c_fault :: Fault
  c_active :: "Active option"
  c_last_mono :: u64
  c_relock_deadline :: "u64 option"
  c_door_open_since :: "u64 option"
  c_pairing_until :: "u64 option"
  c_pairing_failures :: u8
  c_confirmation :: "Confirmation option"

section \<open>Storage, platform and bootloader\<close>

text \<open>
  \<open>env_bootloader\<close> says whether \<open>bootloader()\<close> returns one; the \<open>env_boot\<close> functions are its
  methods. \<open>env_boot_read\<close> takes the length of the buffer and returns the buffer it fills.
\<close>

record ('s, 'p) Env =
  env_crypto :: Crypto
  env_load :: "'s \<Rightarrow> Error + DeviceSnapshot option"
  env_commit :: "DeviceSnapshot \<Rightarrow> 's \<Rightarrow> (Error + unit) \<times> 's"
  env_monotonic_ms :: "'p \<Rightarrow> u64 \<times> 'p"
  env_wall_clock :: "'p \<Rightarrow> ClockSample option \<times> 'p"
  env_sensors :: "'p \<Rightarrow> HardwareState \<times> 'p"
  env_start_action :: "ActuationId \<Rightarrow> ActionTarget \<Rightarrow> u32 \<Rightarrow> bool \<Rightarrow> 'p \<Rightarrow> (Error + unit) \<times> 'p"
  env_stop_action :: "'p \<Rightarrow> (Error + unit) \<times> 'p"
  env_set_wall_clock :: "u64 \<Rightarrow> 'p \<Rightarrow> (Error + unit) \<times> 'p"
  env_request_reboot :: "'p \<Rightarrow> (Error + unit) \<times> 'p"
  env_has_device_private_key :: "bytes \<Rightarrow> 'p \<Rightarrow> bool \<times> 'p"
  env_bootloader :: "'p \<Rightarrow> bool \<times> 'p"
  env_boot_begin :: "FirmwareManifest \<Rightarrow> bytes \<Rightarrow> 'p \<Rightarrow> (Error + unit) \<times> 'p"
  env_boot_write :: "u64 \<Rightarrow> bytes \<Rightarrow> 'p \<Rightarrow> (Error + unit) \<times> 'p"
  env_boot_read :: "u64 \<Rightarrow> nat \<Rightarrow> 'p \<Rightarrow> (Error + bytes) \<times> 'p"
  env_boot_image_hash :: "u64 \<Rightarrow> 'p \<Rightarrow> (Error + bytes) \<times> 'p"
  env_boot_ready_to_activate :: "'p \<Rightarrow> (Error + unit) \<times> 'p"
  env_boot_activate :: "FirmwareManifest \<Rightarrow> bytes \<Rightarrow> 'p \<Rightarrow> (Error + unit) \<times> 'p"
  env_boot_outcome :: "FirmwareManifest \<Rightarrow> 'p \<Rightarrow> (Error + BootOutcome) \<times> 'p"
  env_boot_abort :: "'p \<Rightarrow> (Error + unit) \<times> 'p"

section \<open>Factory value and validation of a snapshot\<close>

definition DeviceSnapshot_factory :: "FactoryIdentity \<Rightarrow> DeviceSnapshot" where
  "DeviceSnapshot_factory f =
     \<lparr>s_format = 1, s_lock_id = di_lock_id (fi_info f), s_owner = None, s_epoch = 0,
      s_generation = 0, s_policy_version = 0, s_revoked = {||}, s_uses = fmempty,
      s_watermarks = fmempty, s_bindings = fmempty, s_operations = [],
      s_config = DeviceConfig_factory (fi_info f), s_events = [], s_next_cursor = 1,
      s_clock_floor = None, s_clock_valid = True, s_pending_relock = False,
      s_automatic_inflight = False,
      s_firmware = \<lparr>fs_phase = Firmware_Empty, fs_received = 0, fs_manifest = None,
                    fs_security_version = 0\<rparr>,
      s_signed_manifest = [], s_device_key = fi_device_key f\<rparr>"

definition operation_valid :: "DeviceSnapshot \<Rightarrow> OperationRecord \<Rightarrow> bool" where
  "operation_valid s r \<longleftrightarrow>
     \<not> (os_sequence (or_status r) = 0
        \<or> get_or 0 (s_watermarks s) (os_credential_id (or_status r)) < os_sequence (or_status r)
        \<or> os_opcode (or_status r) > 22)"

fun events_valid :: "u64 \<Rightarrow> u64 \<Rightarrow> AuditEvent list \<Rightarrow> bool" where
  "events_valid next_cursor prev [] = True"
| "events_valid next_cursor prev (e # es) =
     (\<not> (ae_cursor e \<le> prev \<or> ae_cursor e \<ge> next_cursor) \<and> events_valid next_cursor (ae_cursor e) es)"

definition firmware_validate :: "Crypto \<Rightarrow> FactoryIdentity \<Rightarrow> DeviceSnapshot \<Rightarrow> Error + unit" where
  "firmware_validate cr f s =
     (let fw = s_firmware s in
      if fs_phase fw = Firmware_Empty then
        reject_if (fs_manifest fw \<noteq> None \<or> s_signed_manifest s \<noteq> []) StorageUnavailable
      else if \<not> cr_vk_from_bytes cr (fi_firmware_root f) then Inl StorageUnavailable
      else rbind (map_err (\<lambda>_. StorageUnavailable)
                    (read_manifest cr (fi_firmware_root f) (s_signed_manifest s))) (\<lambda>manifest.
        reject_if
          (fs_manifest fw \<noteq> Some manifest
           \<or> fm_model manifest \<noteq> di_model (fi_info f)
           \<or> fm_hardware manifest \<noteq> di_hardware (fi_info f)
           \<or> fm_size manifest > di_max_image_size (fi_info f)
           \<or> (fs_phase fw \<in> {Firmware_Verified, Firmware_Trial, Firmware_Confirmed}
                \<and> fs_received fw \<noteq> fm_size manifest)
           \<or> (fs_phase fw = Firmware_Confirmed
                \<and> fs_security_version fw \<noteq> fm_security_version manifest)
           \<or> (fs_phase fw \<noteq> Firmware_Confirmed
                \<and> fm_security_version manifest \<le> fs_security_version fw))
          StorageUnavailable))"

definition DeviceSnapshot_validate ::
  "Crypto \<Rightarrow> FactoryIdentity \<Rightarrow> DeviceSnapshot \<Rightarrow> Error + unit" where
  "DeviceSnapshot_validate cr f s =
     (if s_format s \<noteq> 1
       \<or> s_lock_id s \<noteq> di_lock_id (fi_info f)
       \<or> dk_device_id (s_device_key s) \<noteq> s_lock_id s
       \<or> s_next_cursor s = 0
       \<or> length (s_operations s) > unat (di_operation_capacity (fi_info f))
       \<or> length (s_events s) > unat (di_log_capacity (fi_info f))
       \<or> map_len (s_watermarks s) > unat (di_credential_capacity (fi_info f))
       \<or> map_len (s_bindings s) > unat (di_credential_capacity (fi_info f))
       \<or> map_len (s_uses s) > unat (di_credential_capacity (fi_info f))
       \<or> fcard (s_revoked s) > unat (di_credential_capacity (fi_info f))
      then Inl StorageUnavailable
      else rbind (map_err (\<lambda>_. StorageUnavailable) (DeviceConfig_validate (s_config s) (fi_info f))) (\<lambda>_.
           rbind (map_err (\<lambda>_. StorageUnavailable) (validate_device_key cr (s_device_key s))) (\<lambda>_.
           rbind (case s_owner s of None \<Rightarrow> Inr ()
                  | Some ow \<Rightarrow> reject_if (\<not> cr_vk_from_bytes cr (ow_issuer ow)) StorageUnavailable) (\<lambda>_.
           rbind (reject_if (\<not> list_all (operation_valid s) (s_operations s)) StorageUnavailable) (\<lambda>_.
           rbind (reject_if (\<not> events_valid (s_next_cursor s) 0 (s_events s)) StorageUnavailable) (\<lambda>_.
           rbind (firmware_validate cr f s) (\<lambda>_.
             reject_if (fs_received (s_firmware s)
                 > (case fs_manifest (s_firmware s) of None \<Rightarrow> 0 | Some m \<Rightarrow> fm_size m))
               StorageUnavailable)))))))"

section \<open>Laws of the snapshot\<close>

lemma DeviceSnapshot_validate_iff:
  "DeviceSnapshot_validate cr f s = Inr () \<longleftrightarrow>
     s_format s = 1 \<and> s_lock_id s = di_lock_id (fi_info f) \<and> dk_device_id (s_device_key s) = s_lock_id s
     \<and> s_next_cursor s \<noteq> 0
     \<and> length (s_operations s) \<le> unat (di_operation_capacity (fi_info f))
     \<and> length (s_events s) \<le> unat (di_log_capacity (fi_info f))
     \<and> map_len (s_watermarks s) \<le> unat (di_credential_capacity (fi_info f))
     \<and> map_len (s_bindings s) \<le> unat (di_credential_capacity (fi_info f))
     \<and> map_len (s_uses s) \<le> unat (di_credential_capacity (fi_info f))
     \<and> fcard (s_revoked s) \<le> unat (di_credential_capacity (fi_info f))
     \<and> DeviceConfig_validate (s_config s) (fi_info f) = Inr ()
     \<and> validate_device_key cr (s_device_key s) = Inr ()
     \<and> (case s_owner s of None \<Rightarrow> True | Some ow \<Rightarrow> cr_vk_from_bytes cr (ow_issuer ow))
     \<and> list_all (operation_valid s) (s_operations s)
     \<and> events_valid (s_next_cursor s) 0 (s_events s)
     \<and> firmware_validate cr f s = Inr ()
     \<and> fs_received (s_firmware s) \<le> (case fs_manifest (s_firmware s) of None \<Rightarrow> 0 | Some m \<Rightarrow> fm_size m)"
  by (auto simp: DeviceSnapshot_validate_def result_Inr_iffs not_less split: option.splits)

text \<open>Only the parts of the factory identity that never change enter the validation.\<close>

definition same_factory :: "FactoryIdentity \<Rightarrow> FactoryIdentity \<Rightarrow> bool" where
  "same_factory f g \<longleftrightarrow>
     f\<lparr>fi_info := (fi_info f)\<lparr>di_firmware := []\<rparr>\<rparr> = g\<lparr>fi_info := (fi_info g)\<lparr>di_firmware := []\<rparr>\<rparr>"

lemma DeviceConfig_validate_firmware:
  "DeviceConfig_validate c (i\<lparr>di_firmware := v\<rparr>) = DeviceConfig_validate c i"
  by (simp add: DeviceConfig_validate_def relock_delay_invalid_def split: AutoRelock.split)

lemma DeviceSnapshot_validate_firmware:
  "DeviceSnapshot_validate cr (f\<lparr>fi_info := (fi_info f)\<lparr>di_firmware := v\<rparr>\<rparr>) s
     = DeviceSnapshot_validate cr f s"
  by (simp add: DeviceSnapshot_validate_def firmware_validate_def DeviceConfig_validate_firmware Let_def)

lemma same_factory_validate:
  "same_factory f g \<Longrightarrow> DeviceSnapshot_validate cr f s = DeviceSnapshot_validate cr g s"
  unfolding same_factory_def by (metis DeviceSnapshot_validate_firmware)

lemma same_factory_info:
  "same_factory f g \<Longrightarrow> (fi_info f)\<lparr>di_firmware := []\<rparr> = (fi_info g)\<lparr>di_firmware := []\<rparr>"
  unfolding same_factory_def by (drule arg_cong [where f = fi_info]) simp

lemma same_factory_refl [simp]: "same_factory f f"
  by (simp add: same_factory_def)

lemma same_factory_trans: "same_factory f g \<Longrightarrow> same_factory g h \<Longrightarrow> same_factory f h"
  by (simp add: same_factory_def)

lemma same_factory_firmware [simp]:
  "same_factory f (f\<lparr>fi_info := (fi_info f)\<lparr>di_firmware := v\<rparr>\<rparr>)"
  by (simp add: same_factory_def)

lemma DeviceConfig_factory_valid:
  assumes "DeviceInfo_validate i = Inr ()"
  shows "DeviceConfig_validate (DeviceConfig_factory i) i = Inr ()"
  using assms by (auto simp: DeviceConfig_factory_def DeviceConfig_validate_def DeviceInfo_validate_def
      min_def split: if_splits)

lemma DeviceSnapshot_factory_valid:
  assumes "DeviceInfo_validate (fi_info f) = Inr ()" "validate_device_key cr (fi_device_key f) = Inr ()"
    "dk_device_id (fi_device_key f) = di_lock_id (fi_info f)"
  shows "DeviceSnapshot_validate cr f (DeviceSnapshot_factory f) = Inr ()"
  using assms by (simp add: DeviceSnapshot_validate_iff DeviceSnapshot_factory_def
      DeviceConfig_factory_valid firmware_validate_def fcard_fempty)

lemma events_valid_append:
  "events_valid n prev (xs @ [e]) \<longleftrightarrow> events_valid n prev xs \<and>
     (if xs = [] then prev else ae_cursor (last xs)) < ae_cursor e \<and> ae_cursor e < n"
  by (induction xs arbitrary: prev) (auto simp: not_le)

lemma events_valid_mono: "events_valid n prev xs \<Longrightarrow> n \<le> m \<Longrightarrow> events_valid m prev xs"
  by (induction xs arbitrary: prev) auto

lemma events_valid_lower: "events_valid n prev xs \<Longrightarrow> l \<le> prev \<Longrightarrow> events_valid n l xs"
  by (cases xs) auto

lemma events_valid_sorted:
  "events_valid n l xs \<Longrightarrow> sorted_wrt (\<lambda>a b. ae_cursor a < ae_cursor b) xs
     \<and> (\<forall>e\<in>set xs. l < ae_cursor e \<and> ae_cursor e < n)"
  by (induction xs arbitrary: l) (force simp: not_le)+

end
