(* ===== verification/Device_Core.thy ===== *)
theory Device_Core
  imports Device_State
begin

text \<open>
  The inner methods of \<^verbatim>\<open>DeviceController\<close> in \<^verbatim>\<open>crates/openlock-core/src/device.rs\<close>: committing a
  snapshot, the monotonic and wall clocks, the audit log, poisoning, sensor validation and
  interlocks, the hardware observation that precedes every request, and authorization.
  A method that borrows the snapshot under construction (\<open>&mut DeviceSnapshot\<close>) takes it
  as an argument and returns it.
\<close>

unbundle bit_operations_syntax

type_synonym ('s, 'p, 'a) ctl = "(('s, 'p) DeviceController, Error, 'a) sm"

section \<open>Calls to the platform and the store\<close>

definition plat :: "('p \<Rightarrow> 'a \<times> 'p) \<Rightarrow> ('s, 'p, 'a) ctl" where
  "plat f = (\<lambda>c. case f (c_platform c) of (x, p) \<Rightarrow> (Inr x, c\<lparr>c_platform := p\<rparr>))"

definition plat_result :: "('p \<Rightarrow> (Error + 'a) \<times> 'p) \<Rightarrow> ('s, 'p, 'a) ctl" where
  "plat_result f = (\<lambda>c. case f (c_platform c) of (r, p) \<Rightarrow> (r, c\<lparr>c_platform := p\<rparr>))"

definition store_result :: "('s \<Rightarrow> (Error + 'a) \<times> 's) \<Rightarrow> ('s, 'p, 'a) ctl" where
  "store_result f = (\<lambda>c. case f (c_storage c) of (r, s) \<Rightarrow> (r, c\<lparr>c_storage := s\<rparr>))"

definition stop_poisoned_action :: "('s, 'p) Env \<Rightarrow> ('s, 'p, unit) ctl" where
  "stop_poisoned_action E =
     bnd (gets c_active) (\<lambda>active.
     if active = None then ret ()
     else bnd (attempt (plat_result (env_stop_action E))) (\<lambda>r.
       if is_ok r then modify (c_active_update (\<lambda>_. None)) else ret ()))"

definition poison :: "('s, 'p) Env \<Rightarrow> ('s, 'p, unit) ctl" where
  "poison E = thn (modify (c_poisoned_update (\<lambda>_. True))) (stop_poisoned_action E)"

definition commit :: "('s, 'p) Env \<Rightarrow> DeviceSnapshot \<Rightarrow> ('s, 'p, unit) ctl" where
  "commit E next =
     bnd (gets c_poisoned) (\<lambda>poisoned.
     thn (guard_err poisoned StorageUnavailable) (
     bnd (gets c_state) (\<lambda>state.
     thn (guard_err (option_less (s_clock_floor next) (s_clock_floor state)) ClockRollback) (
     bnd (gets c_factory) (\<lambda>factory.
     thn (lift (DeviceSnapshot_validate (env_crypto E) factory next)) (
     bnd (attempt (store_result (env_commit E next))) (\<lambda>r.
       if \<not> is_ok r then thn (poison E) (raise StorageUnavailable)
       else modify (c_state_update (\<lambda>_. next)))))))))"

definition now_ms :: "('s, 'p) Env \<Rightarrow> ('s, 'p, u64) ctl" where
  "now_ms E =
     bnd (gets c_poisoned) (\<lambda>poisoned.
     if poisoned then thn (stop_poisoned_action E) (raise StorageUnavailable)
     else bnd (plat (env_monotonic_ms E)) (\<lambda>now.
       bnd (gets c_last_mono) (\<lambda>last_mono.
       if now < last_mono then thn (poison E) (raise ClockUntrusted)
       else thn (modify (c_last_mono_update (\<lambda>_. now))) (ret now))))"

section \<open>Wall clock and audit log\<close>

definition refresh_clock :: "('s, 'p) Env \<Rightarrow> ('s, 'p, ClockSample option) ctl" where
  "refresh_clock E =
     bnd (plat (env_wall_clock E)) (\<lambda>observed.
     bnd (gets c_state) (\<lambda>state.
     thn (case observed of
            Some sample \<Rightarrow>
              if cs_lower sample > cs_upper sample
                 \<or> is_some_and (\<lambda>floor. cs_lower sample < floor) (s_clock_floor state)
              then (if s_clock_valid state then commit E (state\<lparr>s_clock_valid := False\<rparr>) else ret ())
              else if s_clock_valid state \<and> s_clock_floor state \<noteq> Some (cs_lower sample)
              then commit E (state\<lparr>s_clock_floor := Some (cs_lower sample)\<rparr>)
              else ret ()
          | None \<Rightarrow>
              if s_clock_valid state then commit E (state\<lparr>s_clock_valid := False\<rparr>) else ret ())
       (bnd (gets c_state) (\<lambda>state. ret (option_filter (\<lambda>_. s_clock_valid state) observed)))))"

definition wall :: "('s, 'p) Env \<Rightarrow> ('s, 'p, ClockSample option) ctl" where
  "wall E =
     bnd (gets c_state) (\<lambda>state.
     if \<not> s_clock_valid state then ret None
     else bnd (plat (env_wall_clock E)) (\<lambda>observed.
       ret (option_filter (\<lambda>c. cs_lower c \<le> cs_upper c
              \<and> is_none_or (\<lambda>floor. cs_lower c \<ge> floor) (s_clock_floor state)) observed)))"

definition record_wall :: "('s, 'p) Env \<Rightarrow> DeviceSnapshot \<Rightarrow> ('s, 'p, DeviceSnapshot) ctl" where
  "record_wall E s =
     bnd (wall E) (\<lambda>w. ret (case w of None \<Rightarrow> s
       | Some now \<Rightarrow> s\<lparr>s_clock_floor := Some (case s_clock_floor s of None \<Rightarrow> cs_lower now
                                            | Some old \<Rightarrow> max old (cs_lower now))\<rparr>))"

definition operation_is :: "CredentialId \<Rightarrow> u64 \<Rightarrow> OperationRecord \<Rightarrow> bool" where
  "operation_is i sequence r \<longleftrightarrow>
     os_credential_id (or_status r) = i \<and> os_sequence (or_status r) = sequence"

definition audit ::
  "('s, 'p) Env \<Rightarrow> AuditKind \<Rightarrow> CredentialId option \<Rightarrow> u64 option \<Rightarrow> u32 \<Rightarrow> DeviceSnapshot
     \<Rightarrow> ('s, 'p, DeviceSnapshot) ctl" where
  "audit E kind i sequence code s =
     bnd (record_wall E s) (\<lambda>s.
     bnd (lift (ok_or ResourceExhausted (checked_add (s_next_cursor s) 1))) (\<lambda>next_cursor.
     bnd (wall E) (\<lambda>w.
     bnd (gets c_factory) (\<lambda>factory.
     let event = \<lparr>ae_cursor = s_next_cursor s, ae_unix_seconds = map_option cs_lower w,
           ae_kind = kind, ae_credential_id = i, ae_sequence = sequence, ae_code = code,
           ae_hardware = None,
           ae_operation = (if kind = Audit_Operation
             then map_option or_status (find (\<lambda>r. Some (os_credential_id (or_status r)) = i
                    \<and> Some (os_sequence (or_status r)) = sequence) (s_operations s))
             else None)\<rparr>;
         events = s_events s @ [event] in
     ret (s\<lparr>s_next_cursor := next_cursor,
            s_events := (if length events > unat (di_log_capacity (fi_info factory))
                         then tl events else events)\<rparr>)))))"

definition automatic_status :: "OperationPhase \<Rightarrow> CompletionEvidence \<Rightarrow> u32 \<Rightarrow> OperationStatus" where
  "automatic_status phase evidence error =
     \<lparr>os_credential_id = CredentialId (replicate 16 0), os_sequence = 0, os_opcode = 3,
      os_phase = phase, os_evidence = evidence, os_error = error\<rparr>"

definition audit_automatic ::
  "('s, 'p) Env \<Rightarrow> OperationPhase \<Rightarrow> CompletionEvidence \<Rightarrow> u32 \<Rightarrow> DeviceSnapshot
     \<Rightarrow> ('s, 'p, DeviceSnapshot) ctl" where
  "audit_automatic E phase evidence error s =
     bnd (audit E Audit_Operation None None error s) (\<lambda>s.
       ret (s\<lparr>s_events := update_last
         (\<lambda>event. event\<lparr>ae_operation := Some (automatic_status phase evidence error)\<rparr>) (s_events s)\<rparr>))"

section \<open>Sensors and interlocks\<close>

definition reading_valid :: "'a Reading \<Rightarrow> bool \<Rightarrow> bool" where
  "reading_valid r present \<longleftrightarrow> (case r of Unsupported \<Rightarrow> True | _ \<Rightarrow> False) \<noteq> present"

definition validate_sample :: "DeviceInfo \<Rightarrow> HardwareState \<Rightarrow> Error + unit" where
  "validate_sample i s =
     (if \<not> reading_valid (hw_bolt s) (di_bolt_sensor i)
       \<or> \<not> reading_valid (hw_door s) (di_door_sensor i)
       \<or> \<not> reading_valid (hw_privacy s) (di_privacy_sensor i)
       \<or> \<not> reading_valid (hw_battery_percent s) (di_battery_sensor i)
       \<or> (case hw_battery_percent s of Known n \<Rightarrow> n > 100 | _ \<Rightarrow> False)
      then Inl SensorConflict else Inr ())"

definition can_lock_sample :: "DeviceInfo \<Rightarrow> HardwareState \<Rightarrow> Error + unit" where
  "can_lock_sample i sample =
     (if di_actuator i \<noteq> Motor then Inl UnsupportedCapability
      else case hw_door sample of
          Known Closed \<Rightarrow> Inr ()
        | Known Open \<Rightarrow> Inl DoorOpen
        | Unsupported \<Rightarrow> if di_safe_lock_without_door i then Inr () else Inl SensorConflict
        | Unknown \<Rightarrow> Inl SensorConflict)"

definition can_lock :: "('s, 'p) DeviceController \<Rightarrow> Error + unit" where
  "can_lock c = can_lock_sample (fi_info (c_factory c)) (c_sample c)"

definition known_bolt :: "BoltState Reading \<Rightarrow> BoltState option" where
  "known_bolt r = (case r of Known bolt \<Rightarrow> Some bolt | _ \<Rightarrow> None)"

definition schedule_relock ::
  "DeviceSnapshot \<Rightarrow> u64 \<Rightarrow> ('s, 'p, DeviceSnapshot) ctl" where
  "schedule_relock next now =
     (if dc_hold_open (s_config next) then ret next
      else case dc_auto_relock (s_config next) of
          Disabled \<Rightarrow> ret next
        | Delay ms \<Rightarrow>
            thn (modify (c_relock_deadline_update (\<lambda>_. Some (saturating_add now (ucast ms)))))
              (ret (next\<lparr>s_pending_relock := True\<rparr>))
        | AfterClose ms \<Rightarrow>
            bnd (gets c_sample) (\<lambda>sample.
            thn (modify (c_relock_deadline_update (\<lambda>_.
                   if hw_door sample = Known Closed then Some (saturating_add now (ucast ms)) else None)))
              (ret (next\<lparr>s_pending_relock := True\<rparr>))))"

definition set_status :: "OperationPhase \<Rightarrow> CompletionEvidence \<Rightarrow> u32 \<Rightarrow> OperationRecord \<Rightarrow> OperationRecord" where
  "set_status phase evidence error r =
     r\<lparr>or_status := (or_status r)\<lparr>os_phase := phase, os_evidence := evidence, os_error := error\<rparr>\<rparr>"

text \<open>The bookkeeping of a drive that failed: update its record (an automatic lock has
  none) and audit it.\<close>

definition fail_operation ::
  "('s, 'p) Env \<Rightarrow> Active \<Rightarrow> u32 \<Rightarrow> DeviceSnapshot \<Rightarrow> ('s, 'p, DeviceSnapshot) ctl" where
  "fail_operation E active code next =
     (if a_automatic active then audit_automatic E Phase_Failed Evidence_None code next
      else thn (guard_err (find (operation_is (a_credential_id active) (a_sequence active))
                             (s_operations next) = None) ResultUnavailable)
        (audit E Audit_Operation (Some (a_credential_id active)) (Some (a_sequence active)) code
          (next\<lparr>s_operations := update_first
             (operation_is (a_credential_id active) (a_sequence active))
             (set_status Phase_Failed Evidence_None code) (s_operations next)\<rparr>)))"

definition unsafe_reason :: "('s, 'p) DeviceController \<Rightarrow> Active \<Rightarrow> u64 \<Rightarrow> Error option" where
  "unsafe_reason c active now =
     (case (if a_target active = Target_Lock
            then (case can_lock c of Inl e \<Rightarrow> Some e | Inr _ \<Rightarrow> None) else None) of
        Some e \<Rightarrow> Some e
      | None \<Rightarrow> if now \<ge> a_deadline active then Some ActionTimeout else None)"

definition stop_unsafe_action :: "('s, 'p) Env \<Rightarrow> u64 \<Rightarrow> ('s, 'p, unit) ctl" where
  "stop_unsafe_action E now =
     bnd (gets id) (\<lambda>c.
     case c_active c of None \<Rightarrow> ret () | Some active \<Rightarrow>
     (case unsafe_reason c active now of None \<Rightarrow> ret () | Some error \<Rightarrow>
     bnd (attempt (plat_result (env_stop_action E))) (\<lambda>r.
     if \<not> is_ok r then thn (modify (c_poisoned_update (\<lambda>_. True))) (raise ActuatorFailed) else
     bnd (gets c_active) (\<lambda>taken.
     thn (modify (c_active_update (\<lambda>_. None))) (
     bnd (lift (ok_or InvalidState taken)) (\<lambda>active.
     bnd (gets c_sample) (\<lambda>sample.
     thn (modify (c_last_idle_bolt_update (\<lambda>_. known_bolt (hw_bolt sample)))) (
     thn (modify (c_fault_update (\<lambda>_.
            if error = ActionTimeout then Fault_Timeout
            else if error = DoorOpen then Fault_DoorAjar else Fault_SensorConflict))) (
     bnd (gets c_state) (\<lambda>state.
     let next = state\<lparr>s_automatic_inflight := False\<rparr>;
         clears = a_target active = Target_Lock \<or> hw_bolt sample = Known Locked in
     thn (if clears then modify (c_relock_deadline_update (\<lambda>_. None)) else ret ()) (
     bnd (fail_operation E active (Error_code error)
            (if clears then next\<lparr>s_pending_relock := False\<rparr> else next)) (\<lambda>next.
       commit E next))))))))))))"

section \<open>Hardware observation\<close>

definition unknown_sample :: "DeviceInfo \<Rightarrow> HardwareState" where
  "unknown_sample i =
     \<lparr>hw_bolt = (if di_bolt_sensor i then Unknown else Unsupported),
      hw_door = (if di_door_sensor i then Unknown else Unsupported),
      hw_privacy = (if di_privacy_sensor i then Unknown else Unsupported),
      hw_battery_percent = (if di_battery_sensor i then Unknown else Unsupported)\<rparr>"

definition stop_blind_drive :: "('s, 'p) Env \<Rightarrow> Active option \<Rightarrow> DeviceSnapshot \<Rightarrow> ('s, 'p, DeviceSnapshot) ctl" where
  "stop_blind_drive E act state = (case act of None \<Rightarrow> ret state | Some active \<Rightarrow>
     bnd (attempt (plat_result (env_stop_action E))) (\<lambda>r.
     if \<not> is_ok r then thn (modify (c_poisoned_update (\<lambda>_. True))) (raise ActuatorFailed) else
     thn (modify (c_active_update (\<lambda>_. None))) (
     let next = state\<lparr>s_automatic_inflight := False\<rparr>;
         clears = a_target active = Target_Lock in
     thn (if clears then modify (c_relock_deadline_update (\<lambda>_. None)) else ret ()) (
     fail_operation E active (Error_code SensorConflict)
       (if clears then next\<lparr>s_pending_relock := False\<rparr> else next)))))"

definition sensor_fault_logged :: "DeviceSnapshot \<Rightarrow> bool" where
  "sensor_fault_logged s \<longleftrightarrow> s_events s \<noteq> [] \<and> ae_kind (last (s_events s)) = Audit_Hardware
     \<and> ae_code (last (s_events s)) = Error_code SensorConflict"

definition observe_sensor_fault :: "('s, 'p) Env \<Rightarrow> bool \<Rightarrow> ('s, 'p, ClockSample option) ctl" where
  "observe_sensor_fault E allow_sensor_fault =
     thn (modify (c_fault_update (\<lambda>_. Fault_SensorConflict))) (
     thn (modify (\<lambda>c. c\<lparr>c_sample := unknown_sample (fi_info (c_factory c))\<rparr>)) (
     bnd (gets c_state) (\<lambda>state.
     bnd (gets c_active) (\<lambda>act.
     bnd (stop_blind_drive E act state) (\<lambda>next.
     bnd (if sensor_fault_logged next then ret next
          else audit E Audit_Hardware None None (Error_code SensorConflict) next) (\<lambda>next.
     bnd (gets c_state) (\<lambda>state.
     thn (if next \<noteq> state then commit E next else ret ()) (
     bnd (refresh_clock E) (\<lambda>clock.
       if allow_sensor_fault then ret clock else raise SensorConflict)))))))))"

definition door_changed :: "HardwareState \<Rightarrow> u64 \<Rightarrow> DeviceSnapshot \<Rightarrow> ('s, 'p, unit) ctl" where
  "door_changed sample now next =
     bnd (gets c_fault) (\<lambda>fault.
     thn (if hw_door sample = Known Closed \<and> fault = Fault_DoorAjar
          then modify (c_fault_update (\<lambda>_. Fault_None)) else ret ()) (
     thn (modify (c_door_open_since_update (\<lambda>_.
            if hw_door sample = Known Open then Some now else None))) (
     if s_pending_relock next then
       (case dc_auto_relock (s_config next) of
          AfterClose ms \<Rightarrow> modify (c_relock_deadline_update (\<lambda>_.
            if hw_door sample = Known Closed then Some (saturating_add now (ucast ms)) else None))
        | _ \<Rightarrow> ret ())
     else ret ())))"

definition observe_transition ::
  "('s, 'p) Env \<Rightarrow> u64 \<Rightarrow> HardwareState \<Rightarrow> HardwareState \<Rightarrow> bool \<Rightarrow> BoltState option
     \<Rightarrow> ClockSample option \<Rightarrow> bool \<Rightarrow> ('s, 'p, ClockSample option) ctl" where
  "observe_transition E now sample old was_idle previous_idle_bolt clock confirmed_locked =
     bnd (gets c_state) (\<lambda>next.
     bnd (if sample \<noteq> old then
            bnd (audit E Audit_Hardware None None 0 next) (\<lambda>next.
              ret (next\<lparr>s_events := update_last (\<lambda>event. event\<lparr>ae_hardware := Some sample\<rparr>)
                          (s_events next)\<rparr>))
          else ret next) (\<lambda>next.
     thn (if confirmed_locked then modify (c_relock_deadline_update (\<lambda>_. None)) else ret ()) (
     let next = (if confirmed_locked then next\<lparr>s_pending_relock := False\<rparr> else next) in
     thn (if hw_door old \<noteq> hw_door sample then door_changed sample now next else ret ()) (
     bnd (if was_idle \<and> previous_idle_bolt = Some Locked \<and> hw_bolt sample = Known Unlocked
          then schedule_relock next now else ret next) (\<lambda>next.
     thn (commit E next) (
     bnd (gets c_state) (\<lambda>state.
       ret (option_filter (\<lambda>sample. is_none_or (\<lambda>floor. cs_lower sample \<ge> floor)
              (s_clock_floor state)) clock))))))))"

definition observe_hardware :: "('s, 'p) Env \<Rightarrow> bool \<Rightarrow> ('s, 'p, ClockSample option) ctl" where
  "observe_hardware E allow_sensor_fault =
     bnd (now_ms E) (\<lambda>now.
     bnd (plat (env_sensors E)) (\<lambda>sample.
     bnd (gets id) (\<lambda>c.
     if \<not> is_ok (validate_sample (fi_info (c_factory c)) sample)
     then observe_sensor_fault E allow_sensor_fault
     else let old = c_sample c; was_idle = (c_active c = None);
              previous_idle_bolt = c_last_idle_bolt c in
     thn (modify (c_sample_update (\<lambda>_. sample))) (
     thn (stop_unsafe_action E now) (
     bnd (refresh_clock E) (\<lambda>clock.
     thn (if was_idle then (case hw_bolt sample of
              Known bolt \<Rightarrow> modify (c_last_idle_bolt_update (\<lambda>_. Some bolt)) | _ \<Rightarrow> ret ())
          else ret ()) (
     bnd (gets id) (\<lambda>c.
     let confirmed_locked = hw_bolt sample = Known Locked
           \<and> \<not> is_some_and (\<lambda>a. a_target a = Target_Unlock) (c_active c) in
     if sample = old \<and> \<not> (confirmed_locked \<and> s_pending_relock (c_state c)) then ret clock
     else observe_transition E now sample old was_idle previous_idle_bolt clock confirmed_locked)))))))) "

definition hardware_changed :: "('s, 'p) Env \<Rightarrow> ('s, 'p, unit) ctl" where
  "hardware_changed E = thn (observe_hardware E False) (ret ())"

section \<open>Authorization\<close>

definition outside :: "ClockSample \<Rightarrow> Validity \<Rightarrow> bool" where
  "outside now v \<longleftrightarrow> cs_lower now < v_not_before v \<or> cs_upper now \<ge> v_not_after v"

definition authorize :: "('s, 'p) Env \<Rightarrow> SessionContext \<Rightarrow> Command \<Rightarrow> ('s, 'p, Grant) ctl" where
  "authorize E context' c =
     bnd (gets c_state) (\<lambda>state.
     thn (guard_err (sc_generation context' \<noteq> s_generation state) InvalidState) (
     bnd (lift (ok_or NotProvisioned (s_owner state))) (\<lambda>owner.
     thn (guard_err (\<not> cr_vk_from_bytes (env_crypto E) (ow_issuer owner)) UntrustedKey) (
     bnd (lift (read_grant (env_crypto E) (ow_issuer owner) (cmd_credential c))) (\<lambda>grant.
     thn (guard_err (g_lock_id grant \<noteq> s_lock_id state) WrongLock) (
     thn (guard_err (g_subject_key grant \<noteq> sc_peer context') BadSignature) (
     thn (guard_err (g_epoch grant \<noteq> s_epoch state) StaleEpoch) (
     thn (guard_err (g_rights grant AND Action_right (cmd_action c) \<noteq> Action_right (cmd_action c))
            MissingRight) (
     thn (guard_err (g_credential_id grant |\<in>| s_revoked state) Revoked) (
     thn (case g_validity grant of None \<Rightarrow> ret () | Some v \<Rightarrow>
            bnd (observe_hardware E True) (\<lambda>clock.
            bnd (lift (ok_or ClockUntrusted clock)) (\<lambda>now.
              guard_err (outside now v) Expired))) (
     bnd (gets c_state) (\<lambda>state.
     thn (case fmlookup (s_bindings state) (g_credential_id grant) of None \<Rightarrow> ret ()
          | Some binding \<Rightarrow>
              guard_err (binding \<noteq> cr_sha256 (env_crypto E) (cmd_credential c)) Conflict) (
       ret grant)))))))))))))"

end
