(* ===== verification/Device_Ops.thy ===== *)
theory Device_Ops
  imports Device_Core
begin

text \<open>
  The request path of \<^verbatim>\<open>DeviceController\<close> in \<^verbatim>\<open>crates/openlock-core/src/device.rs\<close>: the pairing
  window and physical confirmation, claiming, queries, the preflight checks and execution
  of every action, dispatching with replay protection, the boot reconciliation, the
  actuator callback, the poll loop, and the constructors.
\<close>

unbundle bit_operations_syntax

definition open_pairing_window :: "('s, 'p) Env \<Rightarrow> ('s, 'p, unit) ctl" where
  "open_pairing_window E =
     bnd (now_ms E) (\<lambda>now.
     bnd (gets c_state) (\<lambda>state.
     thn (guard_err (s_owner state \<noteq> None) AlreadyProvisioned) (
     bnd (lift (ok_or InvalidState (checked_add now 120000))) (\<lambda>until.
       modify (\<lambda>c. c\<lparr>c_pairing_until := Some until, c_pairing_failures := 0\<rparr>)))))"

definition needs_confirmation :: "Action \<Rightarrow> bool" where
  "needs_confirmation a = (case a of FactoryReset \<Rightarrow> True | ReplaceIssuer _ \<Rightarrow> True | _ \<Rightarrow> False)"

definition confirm_physical :: "('s, 'p) Env \<Rightarrow> SessionContext \<Rightarrow> Command \<Rightarrow> ('s, 'p, unit) ctl" where
  "confirm_physical E context' command =
     thn (authorize E context' command) (
     thn (guard_err (\<not> needs_confirmation (cmd_action command)) InvalidPayload) (
     bnd (now_ms E) (\<lambda>now.
     bnd (lift (encode_wire (env_crypto E) Command_value command)) (\<lambda>encoded.
     bnd (lift (ok_or InvalidState (checked_add now 60000))) (\<lambda>expires.
       modify (c_confirmation_update (\<lambda>_. Some \<lparr>cf_peer = sc_peer context',
         cf_digest = cr_sha256 (env_crypto E) encoded, cf_expires = expires\<rparr>)))))))"

section \<open>Claiming and queries\<close>

definition claim ::
  "('s, 'p) Env \<Rightarrow> SessionContext \<Rightarrow> bytes \<Rightarrow> bytes \<Rightarrow> bytes \<Rightarrow> u64 \<Rightarrow> ('s, 'p, Reply) ctl" where
  "claim E context' key issuer admin now =
     bnd (gets id) (\<lambda>c.
     thn (guard_err (s_owner (c_state c) \<noteq> None) AlreadyProvisioned) (
     thn (guard_err (is_none_or (\<lambda>until. now \<ge> until) (c_pairing_until c)
                     \<or> c_pairing_failures c \<ge> 5) PairingClosed) (
     if cr_sha256 (env_crypto E) key \<noteq> fi_setup_key_hash (c_factory c) then
       thn (modify (\<lambda>c. c\<lparr>c_pairing_failures := c_pairing_failures c + 1\<rparr>)) (
       thn (modify (\<lambda>c. if c_pairing_failures c \<ge> 5 then c\<lparr>c_pairing_until := None\<rparr> else c)) (
         raise InvalidSetupKey))
     else
     thn (guard_err (\<not> cr_vk_from_bytes (env_crypto E) issuer) UntrustedKey) (
     bnd (lift (read_grant (env_crypto E) issuer admin)) (\<lambda>grant.
     thn (guard_err
            (g_lock_id grant \<noteq> s_lock_id (c_state c)
             \<or> g_subject_key grant \<noteq> sc_peer context'
             \<or> g_epoch grant \<noteq> s_epoch (c_state c)
             \<or> g_rights grant \<noteq> KNOWN_RIGHTS
             \<or> g_max_uses grant \<noteq> None
             \<or> g_validity grant \<noteq> None) InvalidPayload) (
     bnd (gets c_state) (\<lambda>next.
     let next = next\<lparr>s_owner := Some \<lparr>ow_issuer = issuer, ow_first_admin = sc_peer context'\<rparr>\<rparr> in
     bnd (lift (ok_or ResourceExhausted (checked_add (s_generation next) 1))) (\<lambda>generation.
     let next = next\<lparr>s_generation := generation,
           s_bindings := fmupd (g_credential_id grant) (cr_sha256 (env_crypto E) admin) (s_bindings next)\<rparr> in
     bnd (record_wall E next) (\<lambda>next.
     bnd (audit E Audit_Ownership (Some (g_credential_id grant)) None 0 next) (\<lambda>next.
     thn (commit E next) (
     thn (modify (c_pairing_until_update (\<lambda>_. None))) (
     thn (modify (c_confirmation_update (\<lambda>_. None))) (
     bnd (gets c_state) (\<lambda>state.
       ret (Reply_Claimed (s_epoch state) (s_generation state)))))))))))))))) "

definition status :: "('s, 'p) Env \<Rightarrow> ('s, 'p, LockStatus) ctl" where
  "status E =
     bnd (gets id) (\<lambda>c.
     let active = (case c_active c of None \<Rightarrow> None | Some a \<Rightarrow>
           if a_automatic a then Some (automatic_status Phase_Running Evidence_None 0)
           else map_option or_status
             (find (operation_is (a_credential_id a) (a_sequence a)) (s_operations (c_state c)))) in
     bnd (wall E) (\<lambda>w.
       ret \<lparr>ls_bolt = hw_bolt (c_sample c), ls_door = hw_door (c_sample c),
            ls_privacy = hw_privacy (c_sample c),
            ls_battery_percent = hw_battery_percent (c_sample c), ls_fault = c_fault c,
            ls_active = active, ls_epoch = s_epoch (c_state c),
            ls_policy_version = s_policy_version (c_state c),
            ls_config_version = dc_version (s_config (c_state c)),
            ls_generation = s_generation (c_state c), ls_clock_trusted = (w \<noteq> None)\<rparr>))"

definition read_log :: "DeviceSnapshot \<Rightarrow> u64 \<Rightarrow> u32 \<Rightarrow> AuditPage" where
  "read_log s after limit =
     (let first = (case s_events s of [] \<Rightarrow> s_next_cursor s | e # _ \<Rightarrow> ae_cursor e);
          events = take (unat limit) (filter (\<lambda>e. ae_cursor e > after) (s_events s)) in
      \<lparr>ap_events = events,
       ap_next_cursor = (if events = [] then after else ae_cursor (last events)),
       ap_gap = saturating_add after 1 < first\<rparr>)"

definition query :: "('s, 'p) Env \<Rightarrow> Grant \<Rightarrow> Action \<Rightarrow> ('s, 'p, Reply) ctl" where
  "query E g action =
     bnd (gets id) (\<lambda>c.
     case action of
       Info \<Rightarrow> ret (Reply_Info (fi_info (c_factory c)))
     | Status \<Rightarrow> bnd (status E) (\<lambda>st. ret (Reply_Status st))
     | GetConfig \<Rightarrow> ret (Reply_Config (s_config (c_state c)))
     | Operation seq \<Rightarrow>
         bnd (lift (ok_or ResultUnavailable
                (find (operation_is (g_credential_id g) seq) (s_operations (c_state c))))) (\<lambda>r.
           ret (Reply_Operation (or_status r)))
     | ReadLog after limit \<Rightarrow> ret (Reply_Audit (read_log (c_state c) after limit))
     | FirmwareStatusQuery \<Rightarrow> ret (Reply_Firmware (s_firmware (c_state c)))
     | CredentialStatus \<Rightarrow>
         bnd (lift (ok_or ResourceExhausted
                (checked_add (get_or 0 (s_watermarks (c_state c)) (g_credential_id g)) 1))) (\<lambda>next_sequence.
           ret (Reply_Credential (get_or 0 (s_uses (c_state c)) (g_credential_id g))
                  (g_max_uses g) next_sequence))
     | _ \<Rightarrow> raise InvalidPayload)"

section \<open>Firmware helpers\<close>

definition boot :: "('s, 'p) Env \<Rightarrow> ('s, 'p, unit) ctl" where
  "boot E = bnd (plat (env_bootloader E)) (\<lambda>present. guard_err (\<not> present) UnsupportedCapability)"

definition manifest :: "('s, 'p) Env \<Rightarrow> bytes \<Rightarrow> ('s, 'p, FirmwareManifest) ctl" where
  "manifest E b =
     bnd (gets id) (\<lambda>c.
     thn (guard_err (\<not> cr_vk_from_bytes (env_crypto E) (fi_firmware_root (c_factory c))) UntrustedKey) (
     bnd (lift (read_manifest (env_crypto E) (fi_firmware_root (c_factory c)) b)) (\<lambda>m.
     thn (guard_err (fm_model m \<noteq> di_model (fi_info (c_factory c))
                     \<or> fm_hardware m \<noteq> di_hardware (fi_info (c_factory c))) FirmwareTargetMismatch) (
     thn (guard_err (fm_security_version m \<le> fs_security_version (s_firmware (c_state c)))
            FirmwareRollback) (
       ret m)))))"

definition reconcile_boot :: "('s, 'p) Env \<Rightarrow> ('s, 'p, unit) ctl" where
  "reconcile_boot E =
     bnd (gets c_state) (\<lambda>state.
     if fs_phase (s_firmware state) \<noteq> Firmware_Trial then ret () else
     bnd (lift (ok_or FirmwareInvalid (fs_manifest (s_firmware state)))) (\<lambda>candidate.
     thn (boot E) (
     bnd (plat_result (env_boot_outcome E candidate)) (\<lambda>outcome.
     bnd (gets c_state) (\<lambda>next.
     if outcome = Boot_Pending then ret () else
     bnd (if outcome = Boot_Confirmed then
            bnd (lift (ok_or FirmwareInvalid (fs_manifest (s_firmware next)))) (\<lambda>m.
            thn (modify (\<lambda>c. c\<lparr>c_factory := (c_factory c)\<lparr>fi_info :=
                   (fi_info (c_factory c))\<lparr>di_firmware := fm_version m\<rparr>\<rparr>\<rparr>)) (
              ret (next\<lparr>s_firmware := (s_firmware next)\<lparr>fs_security_version := fm_security_version m,
                     fs_phase := Firmware_Confirmed\<rparr>\<rparr>)))
          else ret (next\<lparr>s_firmware := (s_firmware next)\<lparr>fs_phase := Firmware_Failed\<rparr>\<rparr>)) (\<lambda>next.
     bnd (audit E Audit_Firmware None None
            (if outcome = Boot_RolledBack then Error_code BootFailed else 0) next) (\<lambda>next.
       commit E next)))))))"

section \<open>Preflight\<close>

definition check_unlock_privacy :: "HardwareState \<Rightarrow> Error + unit" where
  "check_unlock_privacy sample = (case hw_privacy sample of
     Known True \<Rightarrow> Inl PrivacyActive | Unknown \<Rightarrow> Inl SensorConflict | _ \<Rightarrow> Inr ())"

definition busy :: "('s, 'p, unit) ctl" where
  "busy = bnd (gets c_active) (\<lambda>active. guard_err (active \<noteq> None) Busy)"

definition preflight_actuate :: "Action \<Rightarrow> ('s, 'p, unit) ctl" where
  "preflight_actuate action =
     thn busy (
     bnd (gets id) (\<lambda>c.
     thn (guard_err (fs_phase (s_firmware (c_state c)) = Firmware_Trial) Busy) (
     if action = Unlock then lift (check_unlock_privacy (c_sample c))
     else if hw_bolt (c_sample c) \<noteq> Known Locked then lift (can_lock c)
     else ret ())))"

definition preflight_config :: "DeviceConfig \<Rightarrow> ('s, 'p, unit) ctl" where
  "preflight_config config =
     thn busy (
     bnd (gets id) (\<lambda>c.
     thn (lift (DeviceConfig_validate config (fi_info (c_factory c)))) (
     bnd (lift (ok_or ResourceExhausted
            (checked_add (dc_version (s_config (c_state c))) 1))) (\<lambda>expected.
       guard_err (dc_version config \<noteq> expected) Conflict))))"

definition take_confirmation :: "bytes \<Rightarrow> SubjectKey \<Rightarrow> u64 \<Rightarrow> ('s, 'p, unit) ctl" where
  "take_confirmation digest peer now =
     bnd (gets c_confirmation) (\<lambda>taken.
     thn (modify (c_confirmation_update (\<lambda>_. None))) (
     bnd (lift (ok_or PhysicalConfirmationRequired taken)) (\<lambda>confirmation.
     thn (guard_err (cf_peer confirmation \<noteq> peer \<or> cf_digest confirmation \<noteq> digest
                     \<or> now \<ge> cf_expires confirmation) PhysicalConfirmationRequired) (
     bnd (gets c_state) (\<lambda>state.
       guard_err (fs_phase (s_firmware state) = Firmware_Trial) Busy)))))"

definition preflight_admin ::
  "('s, 'p) Env \<Rightarrow> Action \<Rightarrow> u64 \<Rightarrow> bytes \<Rightarrow> SubjectKey \<Rightarrow> ('s, 'p, unit) ctl" where
  "preflight_admin E action now digest peer =
     thn busy (
     thn (if needs_confirmation action then take_confirmation digest peer now else ret ()) (
     thn (case action of
            ReplaceIssuer key \<Rightarrow> guard_err (\<not> cr_vk_from_bytes (env_crypto E) key) UntrustedKey
          | _ \<Rightarrow> ret ()) (
     if action = FirmwareActivate then
       bnd (gets c_state) (\<lambda>state.
       thn (guard_err (fs_phase (s_firmware state) \<noteq> Firmware_Verified) FirmwareIncomplete) (
       thn (boot E) (plat_result (env_boot_ready_to_activate E))))
     else ret ())))"

definition preflight_chunk :: "('s, 'p) Env \<Rightarrow> u64 \<Rightarrow> bytes \<Rightarrow> ('s, 'p, unit) ctl" where
  "preflight_chunk E offset data =
     bnd (gets id) (\<lambda>c.
     let fw = s_firmware (c_state c) in
     thn (guard_err (fs_phase fw \<noteq> Firmware_Receiving) InvalidState) (
     bnd (lift (ok_or FirmwareInvalid (fs_manifest fw))) (\<lambda>m.
     thn (guard_err (length data > unat (di_max_chunk_size (fi_info (c_factory c)))
                     \<or> is_none_or (\<lambda>end'. end' > fm_size m) (checked_add offset (of_nat (length data)))
                     \<or> offset > fs_received fw) FirmwareConflict) (
     if offset < fs_received fw then
       thn (guard_err (offset + of_nat (length data) > fs_received fw) FirmwareConflict) (
       thn (boot E) (
       bnd (plat_result (env_boot_read E offset (length data))) (\<lambda>old.
         guard_err (old \<noteq> data) FirmwareConflict)))
     else ret ()))))"

definition preflight_policy :: "('s, 'p) Env \<Rightarrow> bytes \<Rightarrow> ('s, 'p, unit) ctl" where
  "preflight_policy E b =
     bnd (gets id) (\<lambda>c.
     bnd (lift (ok_or NotProvisioned (s_owner (c_state c)))) (\<lambda>owner.
     thn (guard_err (\<not> cr_vk_from_bytes (env_crypto E) (ow_issuer owner)) UntrustedKey) (
     bnd (lift (read_policy (env_crypto E) (ow_issuer owner) b)) (\<lambda>p.
     thn (guard_err (p_lock_id p \<noteq> s_lock_id (c_state c)) WrongLock) (
     thn (guard_err (c_active c \<noteq> None \<and> p_epoch p > s_epoch (c_state c)) Busy) (
     thn (guard_err (p_epoch p < s_epoch (c_state c)
                     \<or> (p_epoch p = s_epoch (c_state c)
                          \<and> p_version p \<le> s_policy_version (c_state c))) StalePolicy) (
       guard_err (fcard (p_revoked p) > unat (di_credential_capacity (fi_info (c_factory c)))
                  \<or> (p_epoch p = s_epoch (c_state c)
                       \<and> fcard (s_revoked (c_state c) |\<union>| p_revoked p)
                           > unat (di_credential_capacity (fi_info (c_factory c))))) ResourceExhausted)))))))"

definition preflight_action ::
  "('s, 'p) Env \<Rightarrow> ClockSample option \<Rightarrow> Action \<Rightarrow> u64 \<Rightarrow> bytes \<Rightarrow> SubjectKey \<Rightarrow> ('s, 'p, unit) ctl" where
  "preflight_action E clock action now digest peer =
     bnd (gets id) (\<lambda>c.
     case action of
       Unlock \<Rightarrow> preflight_actuate action
     | Lock \<Rightarrow> preflight_actuate action
     | SetConfig config \<Rightarrow> preflight_config config
     | SetClock t \<Rightarrow>
         thn (guard_err (is_some_and (\<lambda>floor. t < floor) (s_clock_floor (c_state c))) ClockRollback) (
           guard_err (is_some_and (\<lambda>now. t < cs_lower now) clock) ClockRollback)
     | Reboot \<Rightarrow> preflight_admin E action now digest peer
     | FactoryReset \<Rightarrow> preflight_admin E action now digest peer
     | ReplaceIssuer _ \<Rightarrow> preflight_admin E action now digest peer
     | FirmwareActivate \<Rightarrow> preflight_admin E action now digest peer
     | RotateDeviceKey _ \<Rightarrow> preflight_admin E action now digest peer
     | FirmwareBegin b \<Rightarrow>
         thn (guard_err (fs_phase (s_firmware (c_state c))
                \<in> {Firmware_Receiving, Firmware_Verified, Firmware_Trial}) Busy) (
         bnd (manifest E b) (\<lambda>m.
           guard_err (fm_size m > di_max_image_size (fi_info (c_factory c))) ObjectTooLarge))
     | FirmwareChunk offset data \<Rightarrow> preflight_chunk E offset data
     | FirmwareFinish \<Rightarrow>
         guard_err (fs_phase (s_firmware (c_state c)) \<noteq> Firmware_Receiving
                    \<or> is_none_or (\<lambda>m. fm_size m \<noteq> fs_received (s_firmware (c_state c)))
                        (fs_manifest (s_firmware (c_state c)))) FirmwareIncomplete
     | FirmwareAbort \<Rightarrow> guard_err (fs_phase (s_firmware (c_state c)) = Firmware_Trial) Busy
     | ApplyPolicy b \<Rightarrow> preflight_policy E b
     | _ \<Rightarrow> ret ())"

definition preflight ::
  "('s, 'p) Env \<Rightarrow> Grant \<Rightarrow> Command \<Rightarrow> u64 \<Rightarrow> bytes \<Rightarrow> SubjectKey \<Rightarrow> ('s, 'p, unit) ctl" where
  "preflight E grant c now digest peer =
     bnd (observe_hardware E False) (\<lambda>clock.
     thn (case g_validity grant of None \<Rightarrow> ret () | Some validity \<Rightarrow>
            bnd (lift (ok_or ClockUntrusted clock)) (\<lambda>clock. guard_err (outside clock validity) Expired)) (
       preflight_action E clock (cmd_action c) now digest peer))"

end
