(* ===== verification/Device_Run.thy ===== *)
theory Device_Run
  imports Device_Ops
begin

text \<open>
  The effects of \<^verbatim>\<open>DeviceController\<close> in \<^verbatim>\<open>crates/openlock-core/src/device.rs\<close>: the final gate before an
  actuation, the execution of every action, \<open>dispatch\<close> and \<open>handle\<close>, the actuator callback,
  \<open>poll\<close>, and the constructors \<open>provision\<close>, \<open>migrate_legacy\<close> and \<open>open\<close>.
\<close>

unbundle bit_operations_syntax

section \<open>Actuation\<close>

definition prepare_actuation :: "('s, 'p) Env \<Rightarrow> ActionTarget \<Rightarrow> ('s, 'p, u64 option) ctl" where
  "prepare_actuation E target =
     bnd (now_ms E) (\<lambda>now.
     bnd (plat (env_sensors E)) (\<lambda>sample.
     bnd (gets id) (\<lambda>c.
     let info = fi_info (c_factory c);
         expected = (if target = Target_Lock then Locked else Unlocked);
         reached = (hw_bolt sample = Known expected) in
     thn (lift (rbind (validate_sample info sample) (\<lambda>_.
            if target = Target_Lock then (if \<not> reached then can_lock_sample info sample else Inr ())
            else check_unlock_privacy sample))) (
     if reached then
       thn (modify (\<lambda>c. c\<lparr>c_sample := (c_sample c)\<lparr>hw_bolt := hw_bolt sample\<rparr>,
              c_last_idle_bolt := Some expected\<rparr>)) (ret None)
     else bnd (lift (ok_or InvalidState
                 (checked_add now (ucast (dc_action_timeout_ms (s_config (c_state c))))))) (\<lambda>deadline.
       ret (Some deadline))))))"

definition next_actuation_id :: "DeviceSnapshot \<Rightarrow> ActuationId" where
  "next_actuation_id s = \<lparr>ai_generation = s_generation s, ai_audit_cursor = s_next_cursor s - 1\<rparr>"

definition finish ::
  "('s, 'p) Env \<Rightarrow> OperationStatus \<Rightarrow> OperationPhase \<Rightarrow> CompletionEvidence \<Rightarrow> u32 \<Rightarrow> ('s, 'p, Reply) ctl" where
  "finish E st phase evidence error =
     bnd (gets c_state) (\<lambda>next.
     let this_operation = operation_is (os_credential_id st) (os_sequence st) in
     bnd (lift (ok_or ResultUnavailable (find this_operation (s_operations next)))) (\<lambda>rec.
     let next = next\<lparr>s_operations := update_first this_operation
                  (set_status phase evidence error) (s_operations next)\<rparr>;
         result = or_status (set_status phase evidence error rec) in
     bnd (audit E Audit_Operation (Some (os_credential_id st)) (Some (os_sequence st)) error next) (\<lambda>next.
     thn (commit E next) (ret (Reply_Operation result)))))"

definition execute_actuation ::
  "('s, 'p) Env \<Rightarrow> ActionTarget \<Rightarrow> OperationStatus \<Rightarrow> ('s, 'p, Reply) ctl" where
  "execute_actuation E target st =
     bnd (prepare_actuation E target) (\<lambda>prepared.
     case prepared of
       None \<Rightarrow> finish E st Phase_Completed Evidence_Sensor 0
     | Some deadline \<Rightarrow>
         thn (modify (\<lambda>c. if di_bolt_sensor (fi_info (c_factory c))
                then c\<lparr>c_sample := (c_sample c)\<lparr>hw_bolt := Unknown\<rparr>\<rparr> else c)) (
         thn (modify (\<lambda>c. c\<lparr>c_active := Some \<lparr>a_id = next_actuation_id (c_state c),
                a_credential_id = os_credential_id st, a_sequence = os_sequence st,
                a_target = target, a_deadline = deadline, a_automatic = False\<rparr>\<rparr>)) (
         thn (modify (c_last_idle_bolt_update (\<lambda>_. None))) (
         bnd (gets id) (\<lambda>c.
         bnd (lift (ok_or InvalidState (c_active c))) (\<lambda>active.
         bnd (attempt (plat_result (env_start_action E (a_id active) target
                (dc_release_ms (s_config (c_state c))) (dc_hold_open (s_config (c_state c)))))) (\<lambda>r.
         if \<not> is_ok r then
           thn (modify (c_fault_update (\<lambda>_. Fault_Driver))) (
             finish E st Phase_Unknown Evidence_None (Error_code ActuatorFailed))
         else finish E st Phase_Running Evidence_None 0)))))))"

section \<open>Execution of an accepted action\<close>

text \<open>
  Each arm of the \<open>match\<close> in \<open>execute\<close> either falls through to the common audit and commit with
  the next snapshot (\<open>Inl next\<close>), or returns the reply itself (\<open>Inr reply\<close>).
\<close>

type_synonym arm_result = "DeviceSnapshot + Reply option"

definition completed :: "OperationStatus \<Rightarrow> arm_result" where
  "completed st = Inr (Some (Reply_Operation (st\<lparr>os_phase := Phase_Completed\<rparr>)))"

definition audit_operation ::
  "('s, 'p) Env \<Rightarrow> AuditKind \<Rightarrow> OperationStatus \<Rightarrow> DeviceSnapshot \<Rightarrow> ('s, 'p, DeviceSnapshot) ctl" where
  "audit_operation E kind st next =
     audit E kind (Some (os_credential_id st)) (Some (os_sequence st)) 0 next"

definition execute_config ::
  "('s, 'p) Env \<Rightarrow> DeviceConfig \<Rightarrow> OperationStatus \<Rightarrow> u64 \<Rightarrow> DeviceSnapshot \<Rightarrow> ('s, 'p, arm_result) ctl" where
  "execute_config E config st now next =
     (let relock_changed = dc_auto_relock config \<noteq> dc_auto_relock (s_config next)
            \<or> dc_hold_open config \<noteq> dc_hold_open (s_config next);
          next = next\<lparr>s_config := config\<rparr> in
     bnd (if relock_changed then
            bnd (gets c_sample) (\<lambda>sample.
            let should_relock = s_pending_relock next \<or> hw_bolt sample = Known Unlocked;
                next = next\<lparr>s_pending_relock := False\<rparr> in
            thn (modify (c_relock_deadline_update (\<lambda>_. None))) (
            if should_relock then schedule_relock next now else ret next))
          else ret next) (\<lambda>next.
     bnd (audit_operation E Audit_Configuration st next) (\<lambda>next. ret (Inl next))))"

definition clear_domain :: "DeviceSnapshot \<Rightarrow> DeviceSnapshot" where
  "clear_domain s = s\<lparr>s_revoked := {||}, s_uses := fmempty, s_bindings := fmempty,
     s_watermarks := fmempty, s_operations := []\<rparr>"

definition execute_policy ::
  "('s, 'p) Env \<Rightarrow> bytes \<Rightarrow> OperationStatus \<Rightarrow> DeviceSnapshot \<Rightarrow> ('s, 'p, arm_result) ctl" where
  "execute_policy E b st next =
     bnd (lift (ok_or NotProvisioned (s_owner next))) (\<lambda>owner.
     thn (guard_err (\<not> cr_vk_from_bytes (env_crypto E) (ow_issuer owner)) UntrustedKey) (
     bnd (lift (read_policy (env_crypto E) (ow_issuer owner) b)) (\<lambda>p.
     let epoch_changed = p_epoch p > s_epoch next in
     bnd (if epoch_changed then
            bnd (lift (ok_or ResourceExhausted (checked_add (s_generation next) 1))) (\<lambda>generation.
              ret ((clear_domain next)\<lparr>s_epoch := p_epoch p, s_generation := generation\<rparr>))
          else ret next) (\<lambda>next.
     bnd (audit_operation E Audit_Policy st
            (next\<lparr>s_policy_version := p_version p, s_revoked := s_revoked next |\<union>| p_revoked p\<rparr>)) (\<lambda>next.
     if epoch_changed then
       thn (commit E next) (
       thn (modify (c_confirmation_update (\<lambda>_. None))) (
         ret (completed st)))
     else ret (Inl next))))))"

definition execute_clock ::
  "('s, 'p) Env \<Rightarrow> u64 \<Rightarrow> OperationStatus \<Rightarrow> ('s, 'p, arm_result) ctl" where
  "execute_clock E time st =
     bnd (observe_hardware E False) (\<lambda>clock.
     bnd (gets c_state) (\<lambda>next.
     thn (guard_err (is_some_and (\<lambda>floor. time < floor) (s_clock_floor next)
                     \<or> is_some_and (\<lambda>now. time < cs_lower now) clock) ClockRollback) (
     thn (commit E (next\<lparr>s_clock_floor := Some time, s_clock_valid := False\<rparr>)) (
     thn (plat_result (env_set_wall_clock E time)) (
     bnd (gets c_state) (\<lambda>next.
     bnd (audit_operation E Audit_Clock st (next\<lparr>s_clock_valid := True\<rparr>)) (\<lambda>next.
       ret (Inl next))))))))"

definition execute_reboot ::
  "('s, 'p) Env \<Rightarrow> OperationStatus \<Rightarrow> DeviceSnapshot \<Rightarrow> ('s, 'p, arm_result) ctl" where
  "execute_reboot E st next =
     thn (plat_result (env_request_reboot E)) (
     bnd (audit_operation E Audit_Reboot st next) (\<lambda>next. ret (Inl next)))"

definition execute_factory_reset ::
  "('s, 'p) Env \<Rightarrow> OperationStatus \<Rightarrow> DeviceSnapshot \<Rightarrow> ('s, 'p, arm_result) ctl" where
  "execute_factory_reset E st next =
     bnd (lift (ok_or ResourceExhausted (checked_add (s_epoch next) 1))) (\<lambda>epoch.
     bnd (lift (ok_or ResourceExhausted (checked_add (s_generation next) 1))) (\<lambda>generation.
     bnd (gets c_factory) (\<lambda>factory.
     let fresh = DeviceSnapshot_factory factory in
     thn (commit E (fresh\<lparr>s_epoch := epoch, s_generation := generation,
            s_firmware := (s_firmware fresh)\<lparr>fs_security_version := fs_security_version (s_firmware next)\<rparr>,
            s_clock_floor := s_clock_floor next, s_clock_valid := s_clock_valid next\<rparr>)) (
     thn (modify (\<lambda>c. c\<lparr>c_pairing_until := None, c_confirmation := None, c_relock_deadline := None\<rparr>)) (
       ret (completed st))))))"

definition execute_replace_issuer ::
  "('s, 'p) Env \<Rightarrow> SessionContext \<Rightarrow> bytes \<Rightarrow> OperationStatus \<Rightarrow> DeviceSnapshot \<Rightarrow> ('s, 'p, arm_result) ctl" where
  "execute_replace_issuer E context' issuer st next =
     bnd (lift (ok_or ResourceExhausted (checked_add (s_epoch next) 1))) (\<lambda>epoch.
     bnd (lift (ok_or ResourceExhausted (checked_add (s_generation next) 1))) (\<lambda>generation.
     bnd (audit_operation E Audit_Ownership st
            ((clear_domain next)\<lparr>s_owner := Some \<lparr>ow_issuer = issuer, ow_first_admin = sc_peer context'\<rparr>,
               s_epoch := epoch, s_generation := generation, s_policy_version := 0\<rparr>)) (\<lambda>next.
     thn (commit E next) (
     thn (modify (c_confirmation_update (\<lambda>_. None))) (
       ret (completed st))))))"

definition execute_rotate ::
  "('s, 'p) Env \<Rightarrow> bytes \<Rightarrow> ('s, 'p, arm_result) ctl" where
  "execute_rotate E b =
     bnd (observe_hardware E False) (\<lambda>observed.
     bnd (lift (ok_or ClockUntrusted observed)) (\<lambda>clock.
     bnd (gets c_state) (\<lambda>next.
     bnd (lift (ok_or NotProvisioned (s_owner next))) (\<lambda>owner.
     thn (guard_err (\<not> cr_vk_from_bytes (env_crypto E) (ow_issuer owner)) UntrustedKey) (
     bnd (lift (read_key_update (env_crypto E) (ow_issuer owner) (s_device_key next) b clock)) (\<lambda>update.
     bnd (plat (env_has_device_private_key E
            (dk_x25519_public_key (kr_key (ku_new_record update))))) (\<lambda>has_key.
     thn (guard_err (\<not> has_key) UntrustedKey) (
     bnd (lift (ok_or ResourceExhausted (checked_add (s_generation next) 1))) (\<lambda>generation.
       ret (Inl (next\<lparr>s_device_key := kr_key (ku_new_record update), s_generation := generation\<rparr>)))))))))))"

definition empty_firmware :: "u64 \<Rightarrow> FirmwareStatus" where
  "empty_firmware security_version =
     \<lparr>fs_phase = Firmware_Empty, fs_received = 0, fs_manifest = None,
      fs_security_version = security_version\<rparr>"

definition execute_firmware ::
  "('s, 'p) Env \<Rightarrow> Action \<Rightarrow> OperationStatus \<Rightarrow> DeviceSnapshot \<Rightarrow> ('s, 'p, arm_result) ctl" where
  "execute_firmware E action st next = (case action of
       FirmwareBegin b \<Rightarrow>
         bnd (manifest E b) (\<lambda>m.
         thn (boot E) (
         thn (plat_result (env_boot_begin E m b)) (
           ret (Inl (next\<lparr>s_firmware := \<lparr>fs_phase = Firmware_Receiving, fs_received = 0,
                              fs_manifest = Some m,
                              fs_security_version = fs_security_version (s_firmware next)\<rparr>,
                           s_signed_manifest := b\<rparr>)))))
     | FirmwareChunk offset data \<Rightarrow>
         if offset = fs_received (s_firmware next) then
           thn (boot E) (
           thn (plat_result (env_boot_write E offset data)) (
             ret (Inl (next\<lparr>s_firmware := (s_firmware next)\<lparr>
                   fs_received := offset + of_nat (length data)\<rparr>\<rparr>))))
         else ret (Inl next)
     | FirmwareFinish \<Rightarrow>
         bnd (lift (ok_or FirmwareInvalid (fs_manifest (s_firmware next)))) (\<lambda>m.
         thn (boot E) (
         bnd (plat_result (env_boot_image_hash E (fm_size m))) (\<lambda>hash.
         thn (guard_err (hash \<noteq> fm_sha256 m) FirmwareInvalid) (
           ret (Inl (next\<lparr>s_firmware := (s_firmware next)\<lparr>fs_phase := Firmware_Verified\<rparr>\<rparr>))))))
     | FirmwareActivate \<Rightarrow>
         bnd (lift (ok_or FirmwareInvalid (fs_manifest (s_firmware next)))) (\<lambda>m.
         thn (commit E (next\<lparr>s_firmware := (s_firmware next)\<lparr>fs_phase := Firmware_Trial\<rparr>\<rparr>)) (
         bnd (gets c_state) (\<lambda>state.
         thn (boot E) (
         thn (plat_result (env_boot_activate E m (s_signed_manifest state))) (
         bnd (gets c_state) (\<lambda>next. ret (Inl next)))))))
     | FirmwareAbort \<Rightarrow>
         bnd (audit_operation E Audit_Firmware st
                (next\<lparr>s_firmware := empty_firmware (fs_security_version (s_firmware next)),
                      s_signed_manifest := []\<rparr>)) (\<lambda>next.
         thn (commit E next) (
         thn (boot E) (
         thn (plat_result (env_boot_abort E)) (ret (Inr None)))))
     | _ \<Rightarrow> raise InvalidPayload)"

definition is_firmware_action :: "Action \<Rightarrow> bool" where
  "is_firmware_action a = (case a of FirmwareBegin _ \<Rightarrow> True | FirmwareChunk _ _ \<Rightarrow> True
     | FirmwareFinish \<Rightarrow> True | FirmwareActivate \<Rightarrow> True | FirmwareAbort \<Rightarrow> True | _ \<Rightarrow> False)"

definition execute_arm ::
  "('s, 'p) Env \<Rightarrow> SessionContext \<Rightarrow> Action \<Rightarrow> OperationStatus \<Rightarrow> u64 \<Rightarrow> ('s, 'p, arm_result) ctl" where
  "execute_arm E context' action st now =
     bnd (gets c_state) (\<lambda>next.
     if is_firmware_action action then execute_firmware E action st next
     else case action of
       Unlock \<Rightarrow> bnd (execute_actuation E Target_Unlock st) (\<lambda>reply. ret (Inr (Some reply)))
     | Lock \<Rightarrow> bnd (execute_actuation E Target_Lock st) (\<lambda>reply. ret (Inr (Some reply)))
     | SetConfig config \<Rightarrow> execute_config E config st now next
     | ApplyPolicy b \<Rightarrow> execute_policy E b st next
     | SetClock time \<Rightarrow> execute_clock E time st
     | Reboot \<Rightarrow> execute_reboot E st next
     | FactoryReset \<Rightarrow> execute_factory_reset E st next
     | ReplaceIssuer issuer \<Rightarrow> execute_replace_issuer E context' issuer st next
     | RotateDeviceKey b \<Rightarrow> execute_rotate E b
     | _ \<Rightarrow> raise InvalidPayload)"

definition execute ::
  "('s, 'p) Env \<Rightarrow> SessionContext \<Rightarrow> Command \<Rightarrow> OperationStatus \<Rightarrow> u64 \<Rightarrow> ('s, 'p, Reply option) ctl" where
  "execute E context' c st now =
     bnd (execute_arm E context' (cmd_action c) st now) (\<lambda>r.
     case r of
       Inr reply \<Rightarrow> ret reply
     | Inl next \<Rightarrow>
         bnd (if is_firmware_action (cmd_action c) then audit_operation E Audit_Firmware st next
              else ret next) (\<lambda>next.
         thn (commit E next) (ret None)))"

section \<open>Dispatch\<close>

definition replay :: "CredentialId \<Rightarrow> u64 \<Rightarrow> bytes \<Rightarrow> ('s, 'p, Reply) ctl" where
  "replay i seq digest =
     bnd (gets c_state) (\<lambda>state.
     bnd (lift (ok_or ResultUnavailable (find (operation_is i seq) (s_operations state)))) (\<lambda>previous.
     thn (guard_err (or_digest previous \<noteq> digest) Conflict) (
       ret (Reply_Operation (or_status previous)))))"

definition clears_domain :: "('s, 'p) Env \<Rightarrow> Action \<Rightarrow> ('s, 'p, bool) ctl" where
  "clears_domain E action = (case action of
       FactoryReset \<Rightarrow> ret True
     | ReplaceIssuer _ \<Rightarrow> ret True
     | ApplyPolicy b \<Rightarrow>
         bnd (gets c_state) (\<lambda>state.
         bnd (lift (ok_or NotProvisioned (s_owner state))) (\<lambda>owner.
         thn (guard_err (\<not> cr_vk_from_bytes (env_crypto E) (ow_issuer owner)) UntrustedKey) (
         bnd (lift (read_policy (env_crypto E) (ow_issuer owner) b)) (\<lambda>p.
           ret (p_epoch p > s_epoch state)))))
     | _ \<Rightarrow> ret False)"

definition unchanged_bolt :: "Action \<Rightarrow> HardwareState \<Rightarrow> bool" where
  "unchanged_bolt action sample = (case action of
       Unlock \<Rightarrow> hw_bolt sample = Known Unlocked
     | Lock \<Rightarrow> hw_bolt sample = Known Locked
     | _ \<Rightarrow> False)"

definition evictable :: "Active option \<Rightarrow> OperationRecord \<Rightarrow> bool" where
  "evictable active r \<longleftrightarrow>
     is_none_or (\<lambda>a. a_credential_id a \<noteq> os_credential_id (or_status r)
                      \<or> a_sequence a \<noteq> os_sequence (or_status r)) active
     \<and> os_phase (or_status r) \<notin> {Phase_Accepted, Phase_Running}"

definition consume_use :: "Grant \<Rightarrow> DeviceSnapshot \<Rightarrow> Error + DeviceSnapshot" where
  "consume_use grant next =
     (let i = g_credential_id grant; uses = get_or 0 (s_uses next) i in
      if is_some_and (\<lambda>limit. uses \<ge> limit) (g_max_uses grant) then Inl UsageExhausted
      else rbind (ok_or UsageExhausted (checked_add uses 1)) (\<lambda>used.
        Inr (next\<lparr>s_uses := fmupd i used (s_uses next)\<rparr>)))"

definition make_room :: "DeviceInfo \<Rightarrow> Active option \<Rightarrow> DeviceSnapshot \<Rightarrow> Error + DeviceSnapshot" where
  "make_room info active next =
     (if length (s_operations next) \<ge> unat (di_operation_capacity info) then
        rbind (ok_or ResourceExhausted (find_index (evictable active) (s_operations next))) (\<lambda>idx.
          Inr (next\<lparr>s_operations := remove_at idx (s_operations next)\<rparr>))
      else Inr next)"

definition accept ::
  "('s, 'p) Env \<Rightarrow> Grant \<Rightarrow> Command \<Rightarrow> u64 \<Rightarrow> bytes \<Rightarrow> OperationStatus \<Rightarrow> bool \<Rightarrow> u64 \<Rightarrow> ('s, 'p, unit) ctl" where
  "accept E grant c seq digest st no_change now =
     bnd (gets id) (\<lambda>ctl.
     let next = c_state ctl; i = g_credential_id grant; info = fi_info (c_factory ctl);
         consumes = (cmd_action c = Unlock \<and> \<not> no_change) in
     thn (guard_err
            ((fmlookup (s_watermarks next) i = None
                \<and> map_len (s_watermarks next) \<ge> unat (di_credential_capacity info))
             \<or> (fmlookup (s_bindings next) i = None
                \<and> map_len (s_bindings next) \<ge> unat (di_credential_capacity info))) ResourceExhausted) (
     let next = next\<lparr>s_watermarks := fmupd i seq (s_watermarks next),
           s_bindings := fmupd i (cr_sha256 (env_crypto E) (cmd_credential c)) (s_bindings next)\<rparr> in
     bnd (lift (if consumes then consume_use grant next else Inr next)) (\<lambda>next.
     bnd (lift (make_room info (c_active ctl) next)) (\<lambda>next.
     bnd (record_wall E (next\<lparr>s_operations := s_operations next @ [\<lparr>or_digest = digest, or_status = st\<rparr>]\<rparr>))
       (\<lambda>next.
     bnd (if consumes then schedule_relock next now else ret next) (\<lambda>next.
     bnd (if cmd_action c = Lock then
            thn (modify (c_relock_deadline_update (\<lambda>_. None))) (ret (next\<lparr>s_pending_relock := False\<rparr>))
          else ret next) (\<lambda>next.
     bnd (audit E Audit_Operation (Some i) (Some seq) 0 next) (\<lambda>next.
       commit E next))))))))"

definition perform ::
  "('s, 'p) Env \<Rightarrow> SessionContext \<Rightarrow> Command \<Rightarrow> Grant \<Rightarrow> u64 \<Rightarrow> bytes \<Rightarrow> OperationStatus \<Rightarrow> u64 \<Rightarrow> bool
     \<Rightarrow> ('s, 'p, Reply) ctl" where
  "perform E context' c grant seq digest st now clears =
     (if clears then
        bnd (execute E context' c st now) (\<lambda>reply. lift (ok_or InvalidState reply))
      else
        bnd (gets c_sample) (\<lambda>sample.
        let no_change = unchanged_bolt (cmd_action c) sample in
        thn (accept E grant c seq digest st no_change now) (
        if no_change then finish E st Phase_Completed Evidence_NoChange 0
        else bnd (attempt (execute E context' c st now)) (\<lambda>execution.
          case execution of
            Inr (Some reply) \<Rightarrow> ret reply
          | Inr None \<Rightarrow> finish E st Phase_Completed Evidence_None 0
          | Inl e \<Rightarrow>
              bnd (gets c_poisoned) (\<lambda>poisoned.
              if poisoned then raise e
              else finish E st Phase_Failed Evidence_None (Error_code e))))))"

definition accepted_status :: "Grant \<Rightarrow> u64 \<Rightarrow> Action \<Rightarrow> OperationStatus" where
  "accepted_status grant seq action =
     \<lparr>os_credential_id = g_credential_id grant, os_sequence = seq,
      os_opcode = Action_opcode action, os_phase = Phase_Accepted,
      os_evidence = Evidence_None, os_error = 0\<rparr>"

definition mutate ::
  "('s, 'p) Env \<Rightarrow> SessionContext \<Rightarrow> Command \<Rightarrow> Grant \<Rightarrow> u64 \<Rightarrow> bytes \<Rightarrow> u64 \<Rightarrow> ('s, 'p, Reply) ctl" where
  "mutate E context' c grant seq digest now =
     thn (preflight E grant c now digest (sc_peer context')) (
     bnd (clears_domain E (cmd_action c)) (\<lambda>clears.
       perform E context' c grant seq digest (accepted_status grant seq (cmd_action c)) now clears))"

definition dispatch_granted ::
  "('s, 'p) Env \<Rightarrow> SessionContext \<Rightarrow> Command \<Rightarrow> Grant \<Rightarrow> u64 \<Rightarrow> ('s, 'p, Reply) ctl" where
  "dispatch_granted E context' c grant now =
     (if \<not> Action_mutates (cmd_action c) then query E grant (cmd_action c)
      else
      bnd (lift (ok_or InvalidPayload (cmd_sequence c))) (\<lambda>seq.
      bnd (lift (encode_wire (env_crypto E) Command_value c)) (\<lambda>encoded.
      let digest = cr_sha256 (env_crypto E) encoded in
      bnd (gets c_state) (\<lambda>state.
      if seq \<le> get_or 0 (s_watermarks state) (g_credential_id grant)
      then replay (g_credential_id grant) seq digest
      else mutate E context' c grant seq digest now))))"

definition dispatch :: "('s, 'p) Env \<Rightarrow> SessionContext \<Rightarrow> Command \<Rightarrow> ('s, 'p, Reply) ctl" where
  "dispatch E context' c =
     bnd (attempt (hardware_changed E)) (\<lambda>r.
     thn (case r of Inl error \<Rightarrow> guard_err (error \<noteq> SensorConflict) error | Inr _ \<Rightarrow> ret ()) (
     bnd (now_ms E) (\<lambda>now.
     thn (lift (Command_validate c)) (
     thn (lift (Action_parse (Action_value (cmd_action c)))) (
     bnd (gets id) (\<lambda>ctl.
     thn (guard_err (Command_capability c AND di_capabilities (fi_info (c_factory ctl)) = 0)
            UnsupportedCapability) (
     thn (guard_err (sc_generation context' \<noteq> s_generation (c_state ctl)) InvalidState) (
     case cmd_action c of
       PairingStatus \<Rightarrow>
         thn (guard_err (s_owner (c_state ctl) \<noteq> None) AlreadyProvisioned) (
           ret (Reply_Pairing (s_epoch (c_state ctl)) (s_generation (c_state ctl))
                  (is_some_and (\<lambda>until. now < until) (c_pairing_until ctl))))
     | Claim setup_key issuer admin_credential \<Rightarrow>
         claim E context' setup_key issuer admin_credential now
     | _ \<Rightarrow>
         bnd (authorize E context' c) (\<lambda>grant.
           dispatch_granted E context' c grant now)))))))))"

definition handle ::
  "('s, 'p) Env \<Rightarrow> SessionContext \<Rightarrow> Command \<Rightarrow> ('s, 'p) DeviceController
     \<Rightarrow> Response \<times> ('s, 'p) DeviceController" where
  "handle E context' c ctl =
     (case dispatch E context' c ctl of
        (Inr reply, ctl) \<Rightarrow> (\<lparr>rsp_opcode = Action_opcode (cmd_action c), rsp_result = Inr reply\<rparr>, ctl)
      | (Inl e, ctl) \<Rightarrow>
          if \<not> c_poisoned ctl \<and> s_owner (c_state ctl) \<noteq> None then
            (case bnd (audit E Audit_Rejected None None (Error_code e) (c_state ctl)) (commit E) ctl of
               (Inr _, ctl) \<Rightarrow> (Response_rejected (cmd_action c) e, ctl)
             | (Inl _, ctl) \<Rightarrow> (Response_rejected (cmd_action c) StorageUnavailable, ctl))
          else (Response_rejected (cmd_action c) e, ctl))"

definition context_of :: "('s, 'p) DeviceController \<Rightarrow> SubjectKey \<Rightarrow> SessionContext" where
  "context_of c peer = \<lparr>sc_peer = peer, sc_generation = s_generation (c_state c)\<rparr>"

definition handle_local ::
  "('s, 'p) Env \<Rightarrow> SubjectKey \<Rightarrow> Command \<Rightarrow> ('s, 'p) DeviceController
     \<Rightarrow> Response \<times> ('s, 'p) DeviceController" where
  "handle_local E peer c ctl = handle E (context_of ctl peer) c ctl"

section \<open>Actuator callback\<close>

definition actuator_outcome ::
  "ActuatorResult \<Rightarrow> BoltState \<Rightarrow> HardwareState \<Rightarrow> Fault \<times> OperationPhase \<times> CompletionEvidence \<times> u32" where
  "actuator_outcome result expected sample = (case result of
       Result_Completed \<Rightarrow>
         if (case hw_bolt sample of Known b \<Rightarrow> b \<noteq> expected | _ \<Rightarrow> False)
         then (Fault_SensorConflict, Phase_Failed, Evidence_Sensor, Error_code SensorConflict)
         else (Fault_None, Phase_Completed,
               if hw_bolt sample = Known expected then Evidence_Sensor else Evidence_Driver, 0)
     | Result_Jammed \<Rightarrow> (Fault_Jammed, Phase_Failed, Evidence_None, Error_code Jammed)
     | Result_SensorConflict \<Rightarrow>
         (Fault_SensorConflict, Phase_Failed, Evidence_None, Error_code SensorConflict)
     | Result_Failed \<Rightarrow> (Fault_Driver, Phase_Failed, Evidence_None, Error_code ActuatorFailed))"

definition complete_actuation ::
  "('s, 'p) Env \<Rightarrow> Active \<Rightarrow> ActuatorResult \<Rightarrow> u64 \<Rightarrow> ('s, 'p, unit) ctl" where
  "complete_actuation E active result now =
     bnd (gets c_sample) (\<lambda>sample.
     thn (modify (c_last_idle_bolt_update (\<lambda>_. known_bolt (hw_bolt sample)))) (
     case actuator_outcome result
       (if a_target active = Target_Unlock then Unlocked else Locked) sample of
       (fault, phase, evidence, error) \<Rightarrow>
     thn (modify (c_fault_update (\<lambda>_. fault))) (
     bnd (gets c_state) (\<lambda>next.
     bnd (if phase = Phase_Completed \<and> a_target active = Target_Unlock
          then schedule_relock next now else ret next) (\<lambda>next.
     bnd (if a_target active = Target_Lock \<or> hw_bolt sample = Known Locked then
            thn (modify (c_relock_deadline_update (\<lambda>_. None)))
              (ret (next\<lparr>s_automatic_inflight := False, s_pending_relock := False\<rparr>))
          else ret next) (\<lambda>next.
     thn (commit E next) (
     bnd (gets c_state) (\<lambda>state.
     if a_automatic active then
       bnd (audit_automatic E phase evidence error state) (commit E)
     else
       bnd (lift (ok_or ResultUnavailable
              (find (operation_is (a_credential_id active) (a_sequence active)) (s_operations state)))) (\<lambda>r.
       thn (finish E (or_status r) phase evidence error) (ret ()))))))))))"

definition actuator_finished ::
  "('s, 'p) Env \<Rightarrow> ActuationId \<Rightarrow> ActuatorResult \<Rightarrow> ('s, 'p, unit) ctl" where
  "actuator_finished E i result =
     bnd (now_ms E) (\<lambda>now.
     bnd (gets c_active) (\<lambda>active.
     thn (guard_err (is_none_or (\<lambda>active. a_id active \<noteq> i) active) InvalidState) (
     thn (hardware_changed E) (
     bnd (gets c_active) (\<lambda>taken.
     thn (modify (c_active_update (\<lambda>_. None))) (
     case taken of None \<Rightarrow> ret () | Some active \<Rightarrow> complete_actuation E active result now))))))"

section \<open>Polling\<close>

definition poll_door :: "('s, 'p) Env \<Rightarrow> u64 \<Rightarrow> ('s, 'p, unit) ctl" where
  "poll_door E now =
     bnd (gets id) (\<lambda>c.
     let ajar = dc_door_ajar_ms (s_config (c_state c)) in
     if ajar > 0
        \<and> is_some_and (\<lambda>t. saturating_sub now t \<ge> ucast ajar) (c_door_open_since c)
        \<and> c_fault c \<noteq> Fault_DoorAjar
     then thn (modify (c_fault_update (\<lambda>_. Fault_DoorAjar))) (
          bnd (audit E Audit_Hardware None None (Error_code DoorOpen) (c_state c)) (commit E))
     else ret ())"

definition end_automatic ::
  "('s, 'p) Env \<Rightarrow> OperationPhase \<Rightarrow> CompletionEvidence \<Rightarrow> u32 \<Rightarrow> ('s, 'p, unit) ctl" where
  "end_automatic E phase evidence error =
     bnd (gets c_state) (\<lambda>next.
     bnd (audit_automatic E phase evidence error (next\<lparr>s_automatic_inflight := False\<rparr>)) (commit E))"

definition poll_relock :: "('s, 'p) Env \<Rightarrow> ('s, 'p, unit) ctl" where
  "poll_relock E =
     bnd (gets c_state) (\<lambda>next.
     bnd (audit_automatic E Phase_Accepted Evidence_None 0
            (next\<lparr>s_pending_relock := False, s_automatic_inflight := True\<rparr>)) (\<lambda>next.
     thn (commit E next) (
     thn (modify (c_relock_deadline_update (\<lambda>_. None))) (
     bnd (attempt (prepare_actuation E Target_Lock)) (\<lambda>prepared.
     case prepared of
       Inr None \<Rightarrow> end_automatic E Phase_Completed Evidence_Sensor 0
     | Inl error \<Rightarrow>
         bnd (gets c_poisoned) (\<lambda>poisoned.
         if poisoned then raise error
         else thn (end_automatic E Phase_Failed Evidence_None (Error_code error)) (raise error))
     | Inr (Some deadline) \<Rightarrow>
         thn (modify (\<lambda>c. c\<lparr>c_active := Some \<lparr>a_id = next_actuation_id (c_state c),
                a_credential_id = CredentialId (replicate 16 0), a_sequence = 0,
                a_target = Target_Lock, a_deadline = deadline, a_automatic = True\<rparr>\<rparr>)) (
         thn (modify (c_last_idle_bolt_update (\<lambda>_. None))) (
         bnd (gets id) (\<lambda>c.
         bnd (lift (ok_or InvalidState (c_active c))) (\<lambda>active.
         bnd (attempt (plat_result (env_start_action E (a_id active) Target_Lock
                (dc_release_ms (s_config (c_state c))) False))) (\<lambda>r.
         case r of
           Inl e \<Rightarrow> thn (modify (c_fault_update (\<lambda>_. Fault_Driver))) (raise e)
         | Inr _ \<Rightarrow> ret ()))))))))))"

definition relock_due :: "('s, 'p) DeviceController \<Rightarrow> u64 \<Rightarrow> bool" where
  "relock_due c now \<longleftrightarrow>
     c_active c = None
     \<and> fs_phase (s_firmware (c_state c)) \<noteq> Firmware_Trial
     \<and> s_pending_relock (c_state c)
     \<and> is_some_and (\<lambda>t. now \<ge> t) (c_relock_deadline c)
     \<and> is_ok (can_lock c)"

definition poll :: "('s, 'p) Env \<Rightarrow> ('s, 'p, unit) ctl" where
  "poll E =
     bnd (now_ms E) (\<lambda>now.
     thn (hardware_changed E) (
     thn (reconcile_boot E) (
     thn (poll_door E now) (
     bnd (gets id) (\<lambda>c. if relock_due c now then poll_relock E else ret ())))))"

end
