(* ===== verification/Legacy.thy ===== *)
theory Legacy
  imports Cose
begin

text \<open>
  \<^verbatim>\<open>crates/openlock-core/src/lib.rs\<close>: the version 2 authorization domain \<open>LockState\<close>, which a
  version 4 device migrates from. Its persistence (\<open>PersistentState\<close>) is a function that
  commits a snapshot to a store of any type; the actuator closure of
  \<open>authorize_and_consume\<close> is a function on the outside world that reports success.
\<close>

unbundle bit_operations_syntax

section \<open>State and operations\<close>

record LockSnapshot =
  l_epoch :: u64
  l_policy_version :: u64
  l_revoked :: "CredentialId fset"
  l_usage :: "(CredentialId, u32) fmap"

record 's LockState =
  k_lock_id :: LockId
  k_issuer :: bytes
  k_snapshot :: LockSnapshot
  k_storage :: 's
  k_poisoned :: bool

type_synonym 's lock_commit = "LockSnapshot \<Rightarrow> 's \<Rightarrow> (Error + unit) \<times> 's"

definition LockState_new :: "LockId \<Rightarrow> bytes \<Rightarrow> 's \<Rightarrow> 's LockState" where
  "LockState_new lock_id issuer storage =
     \<lparr>k_lock_id = lock_id, k_issuer = issuer,
      k_snapshot = \<lparr>l_epoch = 0, l_policy_version = 0, l_revoked = {||}, l_usage = fmempty\<rparr>,
      k_storage = storage, k_poisoned = False\<rparr>"

definition LockState_ensure_healthy :: "'s LockState \<Rightarrow> Error + unit" where
  "LockState_ensure_healthy k = reject_if (k_poisoned k) StorageUnavailable"

definition LockState_commit :: "'s lock_commit \<Rightarrow> LockSnapshot \<Rightarrow> ('s LockState, Error, unit) sm" where
  "LockState_commit commit next = (\<lambda>k.
     case commit next (k_storage k) of
       (Inl _, s) \<Rightarrow> (Inl StorageUnavailable, k\<lparr>k_storage := s, k_poisoned := True\<rparr>)
     | (Inr _, s) \<Rightarrow> (Inr (), k\<lparr>k_storage := s, k_snapshot := next\<rparr>))"

definition LockState_apply_policy ::
  "Crypto \<Rightarrow> 's lock_commit \<Rightarrow> PolicyUpdate \<Rightarrow> bytes \<Rightarrow> ('s LockState, Error, unit) sm" where
  "LockState_apply_policy cr commit update signature =
     bnd (gets id) (\<lambda>k.
     thn (lift (LockState_ensure_healthy k)) (
     thn (guard_err (p_lock_id update \<noteq> k_lock_id k
            \<or> p_epoch update < l_epoch (k_snapshot k)
            \<or> (p_epoch update = l_epoch (k_snapshot k)
                 \<and> p_version update \<le> l_policy_version (k_snapshot k))) StalePolicy) (
     thn (lift (verify_policy cr (k_issuer k) update signature)) (
     let next = k_snapshot k;
         next = (if p_epoch update > l_epoch next
                 then \<lparr>l_epoch = p_epoch update, l_policy_version = 0, l_revoked = {||}, l_usage = fmempty\<rparr>
                 else next) in
     LockState_commit commit (next\<lparr>l_policy_version := p_version update,
       l_revoked := l_revoked next |\<union>| p_revoked update\<rparr>)))))"

definition unmetered :: "Grant \<Rightarrow> Decision" where
  "unmetered grant = Authorized (if g_validity grant \<noteq> None then Timed else LongLived)"

definition LockState_authorize_with_rights ::
  "Crypto \<Rightarrow> 's LockState \<Rightarrow> Grant \<Rightarrow> bytes \<Rightarrow> SubjectKey \<Rightarrow> ClockSample option \<Rightarrow> u32 option \<Rightarrow> u32
     \<Rightarrow> Error + Decision" where
  "LockState_authorize_with_rights cr k grant signature subject_key now requested_use required_rights =
     rbind (LockState_ensure_healthy k) (\<lambda>_.
     if g_lock_id grant \<noteq> k_lock_id k then Inl WrongLock
     else if g_epoch grant \<noteq> l_epoch (k_snapshot k) then Inl StaleEpoch else
     rbind (verify_grant cr (k_issuer k) grant signature) (\<lambda>_.
     if g_subject_key grant \<noteq> subject_key then Inl BadSignature
     else if g_rights grant AND required_rights \<noteq> required_rights then Inl MissingRight
     else if g_credential_id grant |\<in>| l_revoked (k_snapshot k) then Inl Revoked else
     rbind (case g_validity grant of None \<Rightarrow> Inr () | Some validity \<Rightarrow>
              rbind (ok_or ClockUntrusted now) (\<lambda>sample.
              rbind (ClockSample_validate sample) (\<lambda>clock.
                reject_if (cs_lower clock < v_not_before validity
                           \<or> cs_upper clock \<ge> v_not_after validity) Expired))) (\<lambda>_.
     if required_rights AND RIGHTS_UNLOCK = 0 then
       (if requested_use \<noteq> None then Inl InvalidConsumption else Inr (unmetered grant))
     else
     let used = get_or 0 (l_usage (k_snapshot k)) (g_credential_id grant) in
     (case g_max_uses grant of
        Some limit \<Rightarrow>
          if used \<ge> limit then Inl UsageExhausted else
          rbind (ok_or InvalidConsumption requested_use) (\<lambda>sequence.
          if sequence < used then Inr (AlreadyConsumed used)
          else if sequence \<noteq> used then Inl InvalidConsumption
          else Inr (Authorized (Counted used limit)))
      | None \<Rightarrow>
          if requested_use \<noteq> None then Inl InvalidConsumption else Inr (unmetered grant)))))"

definition LockState_authorize ::
  "Crypto \<Rightarrow> 's LockState \<Rightarrow> Grant \<Rightarrow> bytes \<Rightarrow> SubjectKey \<Rightarrow> ClockSample option \<Rightarrow> u32 option
     \<Rightarrow> Error + Decision" where
  "LockState_authorize cr k grant signature subject_key now requested_use =
     LockState_authorize_with_rights cr k grant signature subject_key now requested_use RIGHTS_UNLOCK"

definition LockState_consume ::
  "'s lock_commit \<Rightarrow> Grant \<Rightarrow> Decision \<Rightarrow> ('s LockState, Error, unit) sm" where
  "LockState_consume commit grant decision =
     bnd (gets id) (\<lambda>k.
     thn (lift (LockState_ensure_healthy k)) (
     case decision of
       Authorized (Counted used limit) \<Rightarrow>
         thn (guard_err (g_max_uses grant \<noteq> Some limit) InvalidConsumption) (
         let next = k_snapshot k in
         thn (guard_err (get_or 0 (l_usage next) (g_credential_id grant) \<noteq> used) InvalidConsumption) (
         thn (guard_err (used \<ge> limit) UsageExhausted) (
           LockState_commit commit
             (next\<lparr>l_usage := fmupd (g_credential_id grant) (used + 1) (l_usage next)\<rparr>))))
     | _ \<Rightarrow> ret ()))"

definition credential_id :: "Crypto \<Rightarrow> bytes \<Rightarrow> CredentialId" where
  "credential_id cr b = CredentialId (take 16 (cr_sha256 cr b))"

definition authorize_and_consume ::
  "Crypto \<Rightarrow> 's lock_commit \<Rightarrow> Grant \<Rightarrow> bytes \<Rightarrow> SubjectKey \<Rightarrow> ClockSample option \<Rightarrow> u32 option
     \<Rightarrow> ('w \<Rightarrow> bool \<times> 'w) \<Rightarrow> ('s LockState \<times> 'w, Error, unit) sm" where
  "authorize_and_consume cr commit grant signature peer now use_number actuator = (\<lambda>(k, w).
     case LockState_authorize cr k grant signature peer now use_number of
       Inl e \<Rightarrow> (Inl e, (k, w))
     | Inr (AlreadyConsumed _) \<Rightarrow> (Inl InvalidConsumption, (k, w))
     | Inr decision \<Rightarrow>
         (case LockState_consume commit grant decision k of
            (Inl e, k) \<Rightarrow> (Inl e, (k, w))
          | (Inr _, k) \<Rightarrow>
              (case actuator w of (ok, w) \<Rightarrow> (if ok then Inr () else Inl ActuatorFailed, (k, w)))))"

end
