(* ===== verification/Device_Open.thy ===== *)
theory Device_Open
  imports Device_Run Legacy
begin

text \<open>
  The constructors of \<^verbatim>\<open>DeviceController\<close> in \<^verbatim>\<open>crates/openlock-core/src/device.rs\<close>. A constructor
  consumes a store and a platform; the model runs it on the pair of both, so that what a
  failing constructor leaves behind is visible, and returns the controller on success.
\<close>

unbundle bit_operations_syntax

type_synonym ('s, 'p) ctor = "('s \<times> 'p, Error, ('s, 'p) DeviceController) sm"

definition on_platform :: "('p \<Rightarrow> 'a \<times> 'p) \<Rightarrow> ('s \<times> 'p, Error, 'a) sm" where
  "on_platform f = (\<lambda>(s, p). case f p of (x, p) \<Rightarrow> (Inr x, (s, p)))"

definition quiesce :: "('s, 'p) Env \<Rightarrow> ('s \<times> 'p, Error, unit) sm" where
  "quiesce E = bnd (on_platform (env_stop_action E)) lift"

definition load :: "('s, 'p) Env \<Rightarrow> ('s \<times> 'p, Error, DeviceSnapshot option) sm" where
  "load E = bnd (gets fst) (\<lambda>s. lift (env_load E s))"

definition interrupted :: "OperationRecord \<Rightarrow> OperationRecord" where
  "interrupted r =
     (if os_phase (or_status r) \<in> {Phase_Accepted, Phase_Running}
      then r\<lparr>or_status := (or_status r)\<lparr>os_phase := Phase_Unknown,
                          os_error := Error_code ActuatorFailed\<rparr>\<rparr>
      else r)"

definition recovered_state :: "HardwareState \<Rightarrow> DeviceSnapshot \<Rightarrow> DeviceSnapshot" where
  "recovered_state sample state =
     state\<lparr>s_automatic_inflight := False,
           s_pending_relock := (s_pending_relock state \<and> hw_bolt sample \<noteq> Known Locked),
           s_operations := map interrupted (s_operations state)\<rparr>"

definition fresh_controller ::
  "FactoryIdentity \<Rightarrow> 's \<Rightarrow> 'p \<Rightarrow> DeviceSnapshot \<Rightarrow> HardwareState \<Rightarrow> u64 \<Rightarrow> ('s, 'p) DeviceController" where
  "fresh_controller factory storage platform state sample last_mono =
     \<lparr>c_factory = factory, c_storage = storage, c_platform = platform, c_state = state,
      c_poisoned = False, c_sample = sample, c_last_idle_bolt = known_bolt (hw_bolt sample),
      c_fault = Fault_None, c_active = None, c_last_mono = last_mono,
      c_relock_deadline = (if s_pending_relock state then Some last_mono else None),
      c_door_open_since = (if hw_door sample = Known Open then Some last_mono else None),
      c_pairing_until = None, c_pairing_failures = 0, c_confirmation = None\<rparr>"

definition recover :: "('s, 'p) Env \<Rightarrow> bool \<Rightarrow> HardwareState \<Rightarrow> ('s, 'p, unit) ctl" where
  "recover E interrupted_automatic sample =
     bnd (gets id) (\<lambda>c.
     thn (lift (validate_sample (fi_info (c_factory c)) sample)) (
     bnd (if interrupted_automatic then
            thn (modify (c_fault_update (\<lambda>_. Fault_Driver))) (
              audit_automatic E Phase_Unknown Evidence_None (Error_code ActuatorFailed) (c_state c))
          else ret (c_state c)) (\<lambda>recovered.
     thn (commit E recovered) (
     bnd (gets c_state) (\<lambda>state.
     thn (if fs_phase (s_firmware state) = Firmware_Confirmed then
            bnd (lift (ok_or StorageUnavailable (fs_manifest (s_firmware state)))) (\<lambda>m.
              modify (\<lambda>c. c\<lparr>c_factory := (c_factory c)\<lparr>fi_info :=
                (fi_info (c_factory c))\<lparr>di_firmware := fm_version m\<rparr>\<rparr>\<rparr>))
          else ret ()) (
       reconcile_boot E))))))"

definition on_controller ::
  "('s, 'p, unit) ctl \<Rightarrow> ('s, 'p) DeviceController \<Rightarrow> ('s, 'p) ctor" where
  "on_controller m c = (\<lambda>_. case m c of (r, c) \<Rightarrow>
     (rbind r (\<lambda>_. Inr c), (c_storage c, c_platform c)))"

definition open_stopped :: "('s, 'p) Env \<Rightarrow> FactoryIdentity \<Rightarrow> ('s, 'p) ctor" where
  "open_stopped E factory =
     thn (lift (DeviceInfo_validate (fi_info factory))) (
     bnd (load E) (\<lambda>loaded.
     bnd (lift (ok_or NotProvisioned loaded)) (\<lambda>state.
     thn (lift (DeviceSnapshot_validate (env_crypto E) factory state)) (
     bnd (if di_capabilities (fi_info factory) AND push_bit 13 0x3f \<noteq> 0
          then on_platform (env_bootloader E) else ret True) (\<lambda>supported.
     thn (guard_err (\<not> supported) InvalidConfig) (
     bnd (on_platform (env_sensors E)) (\<lambda>sample.
     bnd (on_platform (env_monotonic_ms E)) (\<lambda>last_mono.
     bnd (gets id) (\<lambda>(storage, platform).
       on_controller (recover E (s_automatic_inflight state) sample)
         (fresh_controller factory storage platform (recovered_state sample state) sample last_mono))))))))))"

definition create :: "('s, 'p) Env \<Rightarrow> FactoryIdentity \<Rightarrow> (DeviceSnapshot \<Rightarrow> DeviceSnapshot) \<Rightarrow> ('s, 'p) ctor" where
  "create E factory initial =
     thn (quiesce E) (
     thn (lift (DeviceInfo_validate (fi_info factory))) (
     bnd (load E) (\<lambda>existing.
     thn (guard_err (existing \<noteq> None) AlreadyProvisioned) (
     let state = initial (DeviceSnapshot_factory factory) in
     thn (lift (DeviceSnapshot_validate (env_crypto E) factory state)) (
     thn (\<lambda>(s, p). case env_commit E state s of (r, s) \<Rightarrow> (r, (s, p))) (
       open_stopped E factory))))))"

definition provision :: "('s, 'p) Env \<Rightarrow> FactoryIdentity \<Rightarrow> ('s, 'p) ctor" where
  "provision E factory = create E factory id"

definition migrate_legacy ::
  "('s, 'p) Env \<Rightarrow> FactoryIdentity \<Rightarrow> LockSnapshot \<Rightarrow> bytes \<Rightarrow> SubjectKey \<Rightarrow> ('s, 'p) ctor" where
  "migrate_legacy E factory legacy issuer first_admin =
     create E factory (\<lambda>state. state\<lparr>s_owner := Some \<lparr>ow_issuer = issuer, ow_first_admin = first_admin\<rparr>,
       s_epoch := l_epoch legacy, s_policy_version := l_policy_version legacy,
       s_revoked := l_revoked legacy, s_uses := l_usage legacy, s_generation := 1\<rparr>)"

definition Controller_open :: "('s, 'p) Env \<Rightarrow> FactoryIdentity \<Rightarrow> ('s, 'p) ctor" where
  "Controller_open E factory = thn (quiesce E) (open_stopped E factory)"

end
