(* ===== verification/Device_Laws.thy ===== *)
theory Device_Laws
  imports Device_Open "HOL-Library.Product_Lexorder"
begin

text \<open>
  The guarantee every method of the controller gives, on every path, error paths
  included. \<open>evolves S E\<close> relates the controller before and after: the factory identity is
  kept up to the reported firmware version; the durable snapshot moves along \<open>S\<close>; a
  poisoned controller no longer changes its snapshot or its store; a valid snapshot stays
  valid and in agreement with the store; the store never falls behind the state, also when a
  commit fails; and a drive in progress is either the one from
  before or carries an identifier that was not yet handed out. The locale
  \<open>controller_relation\<close> proves this for the inner methods for every relation \<open>S\<close> that
  contains the housekeeping steps (audit, clock and relock bookkeeping).
\<close>

unbundle bit_operations_syntax

section \<open>Weakest preconditions of the primitive calls\<close>

lemma wp_plat [simp]:
  "wp (plat f) Q c = (case f (c_platform c) of (x, p) \<Rightarrow> Q (Inr x) (c\<lparr>c_platform := p\<rparr>))"
  by (simp add: wp_def plat_def split: prod.split)

lemma wp_plat_result [simp]:
  "wp (plat_result f) Q c = (case f (c_platform c) of (r, p) \<Rightarrow> Q r (c\<lparr>c_platform := p\<rparr>))"
  by (simp add: wp_def plat_result_def split: prod.split)

lemma wp_store_result [simp]:
  "wp (store_result f) Q c = (case f (c_storage c) of (r, s) \<Rightarrow> Q r (c\<lparr>c_storage := s\<rparr>))"
  by (simp add: wp_def store_result_def split: prod.split)

lemma steps_wpI: "steps R m \<Longrightarrow> (\<And>r c'. R c c' \<Longrightarrow> Q r c') \<Longrightarrow> wp m Q c"
  by (rule wp_mono [OF steps_wp])

section \<open>Snapshots\<close>

text \<open>What housekeeping never touches: identity, ownership, authorization counters,
  configuration, firmware and keys.\<close>

definition core :: "DeviceSnapshot \<Rightarrow> DeviceSnapshot" where
  "core s = s\<lparr>s_operations := [], s_events := [], s_next_cursor := 0, s_clock_floor := None,
     s_clock_valid := True, s_pending_relock := False, s_automatic_inflight := False\<rparr>"

definition operation_key :: "OperationRecord \<Rightarrow> bytes \<times> CredentialId \<times> u64 \<times> u8" where
  "operation_key r = (or_digest r, os_credential_id (or_status r), os_sequence (or_status r),
     os_opcode (or_status r))"

definition snapshot_key :: "DeviceSnapshot \<Rightarrow> u64 \<times> u64" where
  "snapshot_key s = (s_generation s, s_next_cursor s)"

definition actuation_key :: "ActuationId \<Rightarrow> u64 \<times> u64" where
  "actuation_key i = (ai_generation i, ai_audit_cursor i)"

definition booked :: "DeviceSnapshot \<Rightarrow> DeviceSnapshot \<Rightarrow> bool" where
  "booked s s' \<longleftrightarrow> core s' = core s
     \<and> map operation_key (s_operations s') = map operation_key (s_operations s)
     \<and> s_next_cursor s \<le> s_next_cursor s'"

definition house :: "DeviceSnapshot \<Rightarrow> DeviceSnapshot \<Rightarrow> bool" where
  "house s s' \<longleftrightarrow> booked s s' \<and> \<not> option_less (s_clock_floor s') (s_clock_floor s)"

lemma core_update [simp]:
  "core (s\<lparr>s_operations := a\<rparr>) = core s" "core (s\<lparr>s_events := b\<rparr>) = core s"
  "core (s\<lparr>s_next_cursor := d\<rparr>) = core s" "core (s\<lparr>s_clock_floor := e\<rparr>) = core s"
  "core (s\<lparr>s_clock_valid := f\<rparr>) = core s" "core (s\<lparr>s_pending_relock := g\<rparr>) = core s"
  "core (s\<lparr>s_automatic_inflight := h\<rparr>) = core s"
  by (simp_all add: core_def)

lemma core_eqD:
  assumes "core s' = core s"
  shows "s_owner s' = s_owner s" "s_epoch s' = s_epoch s" "s_generation s' = s_generation s"
    "s_policy_version s' = s_policy_version s" "s_revoked s' = s_revoked s" "s_uses s' = s_uses s"
    "s_watermarks s' = s_watermarks s" "s_bindings s' = s_bindings s" "s_config s' = s_config s"
    "s_firmware s' = s_firmware s" "s_signed_manifest s' = s_signed_manifest s"
    "s_device_key s' = s_device_key s" "s_lock_id s' = s_lock_id s" "s_format s' = s_format s"
  using assms by (cases s; cases s'; simp add: core_def)+

lemma booked_refl [simp]: "booked s s"
  by (simp add: booked_def)

lemma booked_trans: "booked a b \<Longrightarrow> booked b c \<Longrightarrow> booked a c"
  by (auto simp: booked_def)

lemma booked_update [simp]:
  "booked a (s\<lparr>s_events := b\<rparr>) = booked a s" "booked a (s\<lparr>s_clock_floor := e\<rparr>) = booked a s"
  "booked a (s\<lparr>s_clock_valid := f\<rparr>) = booked a s"
  "booked a (s\<lparr>s_pending_relock := g\<rparr>) = booked a s"
  "booked a (s\<lparr>s_automatic_inflight := h\<rparr>) = booked a s"
  "booked (s\<lparr>s_pending_relock := g\<rparr>) a = booked s a"
  "booked (s\<lparr>s_automatic_inflight := h\<rparr>) a = booked s a"
  by (simp_all add: booked_def)

lemma booked_operations:
  "(\<And>r. operation_key (f r) = operation_key r) \<Longrightarrow>
     booked a (s\<lparr>s_operations := update_first p f (s_operations s)\<rparr>) = booked a s"
proof -
  assume f: "\<And>r. operation_key (f r) = operation_key r"
  have "map operation_key (update_first p f xs) = map operation_key xs" for xs
    by (induction xs) (simp_all add: f)
  then show ?thesis by (simp add: booked_def)
qed

lemma operation_key_set_status [simp]: "operation_key (set_status p e r x) = operation_key x"
  by (simp add: operation_key_def set_status_def)

lemma house_refl [simp]: "house s s"
  by (simp add: house_def)

lemma house_trans: "house a b \<Longrightarrow> house b c \<Longrightarrow> house a c"
  by (auto simp: house_def intro: booked_trans dest: option_not_less_trans)

lemma house_key: "house s s' \<Longrightarrow> snapshot_key s \<le> snapshot_key s'"
  by (auto simp: house_def booked_def snapshot_key_def dest: core_eqD)

section \<open>Controllers\<close>

definition durable :: "('s, 'p) Env \<Rightarrow> ('s, 'p) DeviceController \<Rightarrow> bool" where
  "durable E c \<longleftrightarrow> DeviceSnapshot_validate (env_crypto E) (c_factory c) (c_state c) = Inr ()
     \<and> (c_poisoned c \<or> env_load E (c_storage c) = Inr (Some (c_state c)))"

text \<open>The documented promise of \<open>DeviceStorage\<close>: a commit that succeeds is what the next load
  returns.\<close>

definition storage_ok :: "('s, 'p) Env \<Rightarrow> bool" where
  "storage_ok E \<longleftrightarrow> (\<forall>n s s'. env_commit E n s = (Inr (), s') \<longrightarrow> env_load E s' = Inr (Some n))"

text \<open>The other documented promise: a commit is atomic, and one that fails may have taken effect. What
  a load finds afterwards, if it finds a snapshot, is the previous one or the new one.\<close>

definition storage_atomic :: "('s, 'p) Env \<Rightarrow> bool" where
  "storage_atomic E \<longleftrightarrow> (\<forall>n s e s' m. env_commit E n s = (Inl e, s') \<longrightarrow> env_load E s' = Inr (Some m) \<longrightarrow>
     env_load E s = Inr (Some m) \<or> m = n)"

text \<open>What the store holds after a method: the snapshot it held before, with the state unchanged,
  or one that the state may step to.\<close>

definition stored ::
  "(DeviceSnapshot \<Rightarrow> DeviceSnapshot \<Rightarrow> bool) \<Rightarrow> ('s, 'p) Env
     \<Rightarrow> ('s, 'p) DeviceController \<Rightarrow> ('s, 'p) DeviceController \<Rightarrow> bool" where
  "stored S E c c' \<longleftrightarrow> (\<forall>m. env_load E (c_storage c') = Inr (Some m) \<longrightarrow>
     env_load E (c_storage c) = Inr (Some m) \<and> c_state c' = c_state c \<or> S (c_state c') m)"

definition drives :: "('s, 'p) DeviceController \<Rightarrow> ('s, 'p) DeviceController \<Rightarrow> bool" where
  "drives c c' \<longleftrightarrow> (case c_active c' of None \<Rightarrow> True | Some a \<Rightarrow> c_active c = Some a
     \<or> (snapshot_key (c_state c) \<le> actuation_key (a_id a)
        \<and> actuation_key (a_id a) < snapshot_key (c_state c')))"

definition evolves ::
  "(DeviceSnapshot \<Rightarrow> DeviceSnapshot \<Rightarrow> bool) \<Rightarrow> ('s, 'p) Env
     \<Rightarrow> ('s, 'p) DeviceController \<Rightarrow> ('s, 'p) DeviceController \<Rightarrow> bool" where
  "evolves S E c c' \<longleftrightarrow> same_factory (c_factory c) (c_factory c')
     \<and> S (c_state c) (c_state c')
     \<and> (c_poisoned c \<longrightarrow> c_poisoned c' \<and> c_state c' = c_state c \<and> c_storage c' = c_storage c)
     \<and> (storage_ok E \<and> durable E c \<longrightarrow> durable E c')
     \<and> (storage_ok E \<and> storage_atomic E \<longrightarrow> stored S E c c')
     \<and> drives c c'"

text \<open>The result of an audit call on the snapshot \<open>s\<close> under construction.\<close>

definition audited :: "DeviceSnapshot \<Rightarrow> DeviceSnapshot \<Rightarrow> bool" where
  "audited s s' \<longleftrightarrow> core s' = core s \<and> s_operations s' = s_operations s
     \<and> checked_add (s_next_cursor s) 1 = Some (s_next_cursor s')
     \<and> s_clock_valid s' = s_clock_valid s \<and> s_pending_relock s' = s_pending_relock s
     \<and> s_automatic_inflight s' = s_automatic_inflight s"

lemma audited_less: "audited s s' \<Longrightarrow> s_next_cursor s < s_next_cursor s'"
  by (simp add: audited_def checked_add_one_less)

lemma audited_booked: "audited s s' \<Longrightarrow> booked a s \<Longrightarrow> booked a s'"
  using audited_less [of s s'] by (auto simp: audited_def booked_def)

lemma wall_wp: "(\<And>w p. Q (Inr w) (c\<lparr>c_platform := p\<rparr>)) \<Longrightarrow> wp (wall E) Q c"
proof -
  assume Q: "\<And>w p. Q (Inr w) (c\<lparr>c_platform := p\<rparr>)"
  from Q [of _ "c_platform c"] have "Q (Inr w) c" for w by simp
  with Q show ?thesis by (auto simp: wall_def split: prod.split)
qed

lemma record_wall_wp:
  assumes "\<And>p f. Q (Inr (s\<lparr>s_clock_floor := f\<rparr>)) (c\<lparr>c_platform := p\<rparr>)"
  shows "wp (record_wall E s) Q c"
proof -
  from assms [of "s_clock_floor s"] have "Q (Inr s) (c\<lparr>c_platform := p\<rparr>)" for p by simp
  with assms show ?thesis by (auto simp: record_wall_def intro!: wall_wp split: option.split)
qed

lemma audit_wp:
  assumes err: "\<And>p. Q (Inl ResourceExhausted) (c\<lparr>c_platform := p\<rparr>)"
    and ok: "\<And>p s'. audited s s' \<Longrightarrow> Q (Inr s') (c\<lparr>c_platform := p\<rparr>)"
  shows "wp (audit E kind i seq code s) Q c"
proof (cases "checked_add (s_next_cursor s) 1")
  case None
  with err show ?thesis by (auto simp: audit_def intro!: record_wall_wp)
next
  case (Some n)
  then show ?thesis
    by (auto simp: audit_def Let_def audited_def intro!: record_wall_wp wall_wp ok)
qed

lemma audit_booked_wp:
  assumes "booked a s" "\<And>p. Q (Inl ResourceExhausted) (c\<lparr>c_platform := p\<rparr>)"
    and "\<And>p s'. booked a s' \<Longrightarrow> Q (Inr s') (c\<lparr>c_platform := p\<rparr>)"
  shows "wp (audit E kind i seq code s) Q c"
  using assms by (auto intro!: audit_wp dest: audited_booked)

lemma audit_automatic_wp:
  assumes "\<And>p. Q (Inl ResourceExhausted) (c\<lparr>c_platform := p\<rparr>)"
    and "\<And>p s'. audited s s' \<Longrightarrow> Q (Inr s') (c\<lparr>c_platform := p\<rparr>)"
  shows "wp (audit_automatic E phase evidence error s) Q c"
  unfolding audit_automatic_def wp_bnd
  by (intro audit_wp) (use assms in \<open>auto simp: audited_def\<close>)

lemma audit_automatic_booked_wp:
  assumes "booked a s" "\<And>p. Q (Inl ResourceExhausted) (c\<lparr>c_platform := p\<rparr>)"
    and "\<And>p s'. booked a s' \<Longrightarrow> Q (Inr s') (c\<lparr>c_platform := p\<rparr>)"
  shows "wp (audit_automatic E phase evidence error s) Q c"
  using assms by (auto intro!: audit_automatic_wp dest: audited_booked)

lemma evolves_volatile [simp]:
  "evolves S E a (c\<lparr>c_platform := x1\<rparr>) = evolves S E a c"
  "evolves S E a (c\<lparr>c_sample := x2\<rparr>) = evolves S E a c"
  "evolves S E a (c\<lparr>c_last_idle_bolt := x3\<rparr>) = evolves S E a c"
  "evolves S E a (c\<lparr>c_fault := x4\<rparr>) = evolves S E a c"
  "evolves S E a (c\<lparr>c_last_mono := x5\<rparr>) = evolves S E a c"
  "evolves S E a (c\<lparr>c_relock_deadline := x6\<rparr>) = evolves S E a c"
  "evolves S E a (c\<lparr>c_door_open_since := x7\<rparr>) = evolves S E a c"
  "evolves S E a (c\<lparr>c_pairing_until := x8\<rparr>) = evolves S E a c"
  "evolves S E a (c\<lparr>c_pairing_failures := x9\<rparr>) = evolves S E a c"
  "evolves S E a (c\<lparr>c_confirmation := x10\<rparr>) = evolves S E a c"
  by (simp_all add: evolves_def durable_def stored_def drives_def split: option.split)

lemma evolves_stopped: "evolves S E a c \<Longrightarrow> evolves S E a (c\<lparr>c_active := None\<rparr>)"
  by (simp add: evolves_def durable_def stored_def drives_def)

lemma evolves_poisoned: "evolves S E a c \<Longrightarrow> evolves S E a (c\<lparr>c_poisoned := True\<rparr>)"
  by (simp add: evolves_def durable_def stored_def drives_def split: option.splits)

lemma evolves_firmware:
  "evolves S E a c \<Longrightarrow>
     evolves S E a (c\<lparr>c_factory := (c_factory c)\<lparr>fi_info := (fi_info (c_factory c))\<lparr>di_firmware := v\<rparr>\<rparr>\<rparr>)"
  by (auto simp: evolves_def durable_def stored_def drives_def DeviceSnapshot_validate_firmware
      intro: same_factory_trans split: option.splits)

section \<open>The guarantee of the inner methods\<close>

locale controller_relation =
  fixes S :: "DeviceSnapshot \<Rightarrow> DeviceSnapshot \<Rightarrow> bool"
  assumes S_house: "house s s' \<Longrightarrow> S s s'"
    and S_trans: "S s s' \<Longrightarrow> S s' s'' \<Longrightarrow> S s s''"
    and S_key: "S s s' \<Longrightarrow> snapshot_key s \<le> snapshot_key s'"
begin

lemma evolves_refl: "evolves S E c c"
  by (simp add: evolves_def stored_def drives_def S_house split: option.split)

lemma evolves_trans: "evolves S E a b \<Longrightarrow> evolves S E b c \<Longrightarrow> evolves S E a c"
proof -
  assume ab: "evolves S E a b" and bc: "evolves S E b c"
  then have k: "snapshot_key (c_state a) \<le> snapshot_key (c_state b)"
    "snapshot_key (c_state b) \<le> snapshot_key (c_state c)"
    by (auto simp: evolves_def dest: S_key)
  with ab bc have "drives a c"
    unfolding evolves_def drives_def
    by (auto split: option.splits dest: order_trans less_le_trans)
  moreover have "stored S E a c" if "stored S E a b" "stored S E b c"
    using that by (auto simp: stored_def)
  ultimately show ?thesis
    using ab bc unfolding evolves_def by (auto intro: same_factory_trans S_trans)
qed

end

sublocale controller_relation \<subseteq> cr: step_relation "evolves S E" for E
  by unfold_locales (auto intro: evolves_refl evolves_trans)

context controller_relation
begin

lemma stop_poisoned_action_steps: "steps (evolves S E) (stop_poisoned_action E)"
  by (rule stepsI) (auto simp: stop_poisoned_action_def evolves_refl intro!: evolves_stopped
      split: prod.split)

lemma evolves_stepsI:
  "steps (evolves S E) m \<Longrightarrow> evolves S E a c \<Longrightarrow> (\<And>r c'. evolves S E a c' \<Longrightarrow> Q r c') \<Longrightarrow> wp m Q c"
  by (erule steps_wpI) (blast intro: evolves_trans)

lemma poison_wp:
  assumes "evolves S E a c" "\<And>r c'. evolves S E a c' \<Longrightarrow> Q r c'"
  shows "wp (poison E) Q c"
  using assms by (auto simp: poison_def evolves_poisoned
      intro!: evolves_stepsI [OF stop_poisoned_action_steps, of E a])

lemma commit_wp:
  assumes c: "evolves S E a c"
    and n: "\<lbrakk>\<not> option_less (s_clock_floor n) (s_clock_floor (c_state c));
        DeviceSnapshot_validate (env_crypto E) (c_factory c) n = Inr ()\<rbrakk> \<Longrightarrow> S (c_state c) n"
    and ok: "\<And>s. \<lbrakk>evolves S E a (c\<lparr>c_storage := s, c_state := n\<rparr>); \<not> c_poisoned c;
        DeviceSnapshot_validate (env_crypto E) (c_factory c) n = Inr ();
        \<not> option_less (s_clock_floor n) (s_clock_floor (c_state c))\<rbrakk>
        \<Longrightarrow> Q (Inr ()) (c\<lparr>c_storage := s, c_state := n\<rparr>)"
    and err: "\<And>e c'. evolves S E a c' \<Longrightarrow> Q (Inl e) c'"
  shows "wp (commit E n) Q c"
proof (cases "c_poisoned c \<or> option_less (s_clock_floor n) (s_clock_floor (c_state c))
    \<or> DeviceSnapshot_validate (env_crypto E) (c_factory c) n \<noteq> Inr ()")
  case True
  with c err show ?thesis
    by (cases "DeviceSnapshot_validate (env_crypto E) (c_factory c) n") (auto simp: commit_def)
next
  case False
  obtain r s where rs: "env_commit E n (c_storage c) = (r, s)" by (cases "env_commit E n (c_storage c)")
  show ?thesis
  proof (cases r)
    case (Inl e)
    have "stored S E c (c\<lparr>c_storage := s, c_poisoned := True\<rparr>)" if "storage_atomic E"
      using that False Inl rs n by (fastforce simp: stored_def storage_atomic_def)
    then have "evolves S E c (c\<lparr>c_storage := s, c_poisoned := True\<rparr>)"
      using False by (auto simp: evolves_def durable_def drives_def S_house split: option.split)
    then have "evolves S E a (c\<lparr>c_storage := s, c_poisoned := True\<rparr>)"
      using c evolves_trans by blast
    then show ?thesis
      using False Inl rs err by (auto simp: commit_def poison_def
          intro!: steps_wpI [OF stop_poisoned_action_steps] split: sum.split intro: evolves_trans)
  next
    case (Inr u)
    with False rs n have "evolves S E c (c\<lparr>c_storage := s, c_state := n\<rparr>)"
      by (auto simp: evolves_def durable_def stored_def drives_def storage_ok_def S_house split: option.split)
    with c have "evolves S E a (c\<lparr>c_storage := s, c_state := n\<rparr>)" by (rule evolves_trans)
    with False Inr rs ok show ?thesis by (auto simp: commit_def)
  qed
qed

lemma now_ms_wp:
  assumes "evolves S E a c"
    and "\<And>t p. Q (Inr t) (c\<lparr>c_platform := p, c_last_mono := t\<rparr>)"
    and "\<And>e c'. evolves S E a c' \<Longrightarrow> Q (Inl e) c'"
  shows "wp (now_ms E) Q c"
  using assms by (auto simp: now_ms_def intro!: poison_wp [of E a]
      evolves_stepsI [OF stop_poisoned_action_steps, of E a] split: prod.split sum.split)

lemma refresh_clock_steps: "steps (evolves S E) (refresh_clock E)"
  by (rule stepsI) (auto simp: refresh_clock_def evolves_refl house_def intro!: commit_wp S_house
      split: prod.split option.split)

lemma schedule_relock_wp:
  assumes "\<And>d b. Q (Inr (n\<lparr>s_pending_relock := b\<rparr>)) (c\<lparr>c_relock_deadline := d\<rparr>)"
  shows "wp (schedule_relock n t) Q c"
proof -
  from assms [of "s_pending_relock n" "c_relock_deadline c"] have "Q (Inr n) c" by simp
  with assms show ?thesis
    by (auto simp: schedule_relock_def split: AutoRelock.split)
qed

lemma fail_operation_wp:
  assumes "\<And>e p. Q (Inl e) (c\<lparr>c_platform := p\<rparr>)"
    and "\<And>p s'. booked s s' \<Longrightarrow> Q (Inr s') (c\<lparr>c_platform := p\<rparr>)"
  shows "wp (fail_operation E active code s) Q c"
proof -
  from assms(1) [of _ "c_platform c"] have "Q (Inl e) c" for e by simp
  with assms show ?thesis
    by (auto simp: fail_operation_def booked_operations
        intro!: audit_automatic_wp audit_wp dest!: audited_booked [of _ _ s])
qed

lemma stop_unsafe_action_steps: "steps (evolves S E) (stop_unsafe_action E t)"
proof (rule stepsI)
  fix c
  show "wp (stop_unsafe_action E t) (\<lambda>r. evolves S E c) c"
    using evolves_refl [of E c]
    by (auto simp: stop_unsafe_action_def evolves_stopped evolves_poisoned house_def Let_def
        intro!: fail_operation_wp commit_wp [of E c] S_house split: prod.split option.split)
qed

lemma stop_blind_drive_wp:
  assumes c: "evolves S E a c" and s: "s = c_state c"
    and err: "\<And>e c'. evolves S E a c' \<Longrightarrow> Q (Inl e) c'"
    and ok: "\<And>s' c'. evolves S E a c' \<Longrightarrow> booked (c_state c') s' \<Longrightarrow> Q (Inr s') c'"
  shows "wp (stop_blind_drive E act s) Q c"
  using assms
  by (auto simp: stop_blind_drive_def evolves_stopped evolves_poisoned Let_def
      intro!: fail_operation_wp split: prod.split option.split)

lemma observe_sensor_fault_steps: "steps (evolves S E) (observe_sensor_fault E b)"
proof (rule stepsI)
  fix c
  show "wp (observe_sensor_fault E b) (\<lambda>r. evolves S E c) c"
    using evolves_refl [of E c]
    by (auto simp: observe_sensor_fault_def house_def
        intro!: stop_blind_drive_wp [of E c] commit_wp [of E c] S_house audit_booked_wp
        evolves_stepsI [OF refresh_clock_steps, of E c] split: sum.split)
qed

lemma door_changed_wp:
  assumes Q: "\<And>f d t. Q (Inr ()) (c\<lparr>c_fault := f, c_door_open_since := d, c_relock_deadline := t\<rparr>)"
  shows "wp (door_changed sample now next) Q c"
proof -
  from Q [where t = "c_relock_deadline c"]
  have 1: "Q (Inr ()) (c\<lparr>c_fault := f, c_door_open_since := d\<rparr>)" for f d by simp
  from 1 [where f = "c_fault c"] have 2: "Q (Inr ()) (c\<lparr>c_door_open_since := d\<rparr>)" for d by simp
  from Q [where f = "c_fault c"]
  have "Q (Inr ()) (c\<lparr>c_door_open_since := d, c_relock_deadline := t\<rparr>)" for d t by simp
  with Q 1 2 show ?thesis by (simp add: door_changed_def split: AutoRelock.split)
qed

lemma observe_transition_steps:
  "steps (evolves S E) (observe_transition E t sample old idle prev clock locked)"
proof (rule stepsI)
  fix c
  show "wp (observe_transition E t sample old idle prev clock locked) (\<lambda>r. evolves S E c) c"
    using evolves_refl [of E c]
    by (auto simp: observe_transition_def house_def Let_def
        intro!: commit_wp [of E c] S_house audit_booked_wp [of "c_state c"] schedule_relock_wp door_changed_wp
        split: sum.split)
qed

lemma now_ms_steps: "steps (evolves S E) (now_ms E)"
  by (rule stepsI) (auto intro!: now_ms_wp simp: evolves_refl)

lemma plat_steps: "steps (evolves S E) (plat f)"
  by (rule stepsI) (auto simp: evolves_refl split: prod.split)

lemma plat_result_steps: "steps (evolves S E) (plat_result f)"
  by (rule stepsI) (auto simp: evolves_refl split: prod.split)

lemma observe_hardware_steps: "steps (evolves S E) (observe_hardware E b)"
  unfolding observe_hardware_def Let_def
  by (intro cr.monad_steps now_ms_steps plat_steps observe_sensor_fault_steps stop_unsafe_action_steps
      refresh_clock_steps observe_transition_steps cr.modify_step)
    (auto simp: evolves_refl intro!: cr.ret_step cr.modify_step split: Reading.split)

lemma hardware_changed_steps: "steps (evolves S E) (hardware_changed E)"
  by (simp add: hardware_changed_def cr.thn_step cr.ret_step observe_hardware_steps)

lemma authorize_steps: "steps (evolves S E) (authorize E x cmd)"
  by (auto simp: authorize_def intro!: cr.monad_steps observe_hardware_steps split: option.split)

lemma wall_steps: "steps (evolves S E) (wall E)"
  by (rule stepsI) (auto intro!: wall_wp simp: evolves_refl)

lemma boot_steps: "steps (evolves S E) (boot E)"
  by (auto simp: boot_def intro!: cr.monad_steps plat_steps)

lemma finish_steps: "steps (evolves S E) (finish E st phase evidence error)"
proof (rule stepsI)
  fix c
  show "wp (finish E st phase evidence error) (\<lambda>r. evolves S E c) c"
    using evolves_refl [of E c]
    by (auto simp: finish_def house_def Let_def booked_operations
        intro!: commit_wp [of E c] S_house audit_booked_wp [of "c_state c"] split: sum.split)
qed

lemma prepare_actuation_wp:
  assumes "evolves S E a c"
    and "\<And>e c'. evolves S E a c' \<Longrightarrow> Q (Inl e) c'"
    and "\<And>r p t s b. Q (Inr r) (c\<lparr>c_last_mono := t, c_platform := p, c_sample := s, c_last_idle_bolt := b\<rparr>)"
  shows "wp (prepare_actuation E target) Q c"
proof -
  from assms(3) [where s = "c_sample c" and b = "c_last_idle_bolt c"]
  have "Q (Inr r) (c\<lparr>c_last_mono := t, c_platform := p\<rparr>)" for r p t by simp
  with assms show ?thesis
    by (auto simp: prepare_actuation_def Let_def intro!: now_ms_wp [of E a] split: prod.split sum.split)
qed

lemma prepare_actuation_steps: "steps (evolves S E) (prepare_actuation E target)"
  by (rule stepsI) (auto intro!: prepare_actuation_wp simp: evolves_refl)

end

end
