(* ===== verification/Device_Guarantee.thy ===== *)
theory Device_Guarantee
  imports Device_Laws
begin

text \<open>
  The guarantee of the whole controller. \<open>snap_le\<close> is how a durable snapshot may evolve over
  any operation: the clock floor never falls; the pair of generation and audit cursor
  never falls; the pair of epoch and policy version never falls; the firmware security
  version never falls; and within one epoch the watermarks, the use counters and the
  revoked set only grow and the owner is kept. The theory proves \<open>evolves snap_le\<close> for every
  public method and closes it over runs of the device.
\<close>

unbundle bit_operations_syntax

section \<open>How snapshots evolve\<close>

definition domain_le :: "DeviceSnapshot \<Rightarrow> DeviceSnapshot \<Rightarrow> bool" where
  "domain_le s s' \<longleftrightarrow>
     (\<forall>i. get_or 0 (s_watermarks s) i \<le> get_or 0 (s_watermarks s') i)
     \<and> (\<forall>i. get_or 0 (s_uses s) i \<le> get_or 0 (s_uses s') i)
     \<and> s_revoked s |\<subseteq>| s_revoked s'
     \<and> (s_owner s \<noteq> None \<longrightarrow> s_owner s' = s_owner s)"

text \<open>A candidate image always has a higher security version than the confirmed one.\<close>

definition firmware_fresh :: "FirmwareStatus \<Rightarrow> bool" where
  "firmware_fresh fw \<longleftrightarrow> fs_phase fw \<in> {Firmware_Empty, Firmware_Confirmed}
     \<or> (\<exists>m. fs_manifest fw = Some m \<and> fs_security_version fw < fm_security_version m)"

definition snap_pre :: "DeviceSnapshot \<Rightarrow> DeviceSnapshot \<Rightarrow> bool" where
  "snap_pre s s' \<longleftrightarrow> snapshot_key s \<le> snapshot_key s'
     \<and> (s_epoch s, s_policy_version s) \<le> (s_epoch s', s_policy_version s')
     \<and> (firmware_fresh (s_firmware s) \<longrightarrow>
          fs_security_version (s_firmware s) \<le> fs_security_version (s_firmware s'))
     \<and> (s_epoch s' = s_epoch s \<longrightarrow> domain_le s s')"

definition snap_le :: "DeviceSnapshot \<Rightarrow> DeviceSnapshot \<Rightarrow> bool" where
  "snap_le s s' \<longleftrightarrow> snap_pre s s'
     \<and> \<not> option_less (s_clock_floor s') (s_clock_floor s)
     \<and> (firmware_fresh (s_firmware s) \<longrightarrow> firmware_fresh (s_firmware s'))"

lemma validate_firmware_fresh:
  "DeviceSnapshot_validate cr f s = Inr () \<Longrightarrow> firmware_fresh (s_firmware s)"
  by (auto simp: DeviceSnapshot_validate_iff firmware_validate_def firmware_fresh_def Let_def
      result_Inr_iffs not_le split: if_splits)

lemma domain_le_refl [simp]: "domain_le s s"
  by (simp add: domain_le_def)

lemma domain_le_trans: "domain_le a b \<Longrightarrow> domain_le b c \<Longrightarrow> domain_le a c"
  unfolding domain_le_def by (fastforce intro: order_trans)

lemma snap_pre_refl [simp]: "snap_pre s s"
  by (simp add: snap_pre_def)

lemma snap_le_trans: "snap_le a b \<Longrightarrow> snap_le b c \<Longrightarrow> snap_le a c"
proof -
  assume ab: "snap_le a b" and bc: "snap_le b c"
  then have pre: "snap_pre a b" "snap_pre b c" by (simp_all add: snap_le_def)
  then have key: "snapshot_key a \<le> snapshot_key c"
    and pol: "(s_epoch a, s_policy_version a) \<le> (s_epoch c, s_policy_version c)"
    unfolding snap_pre_def by (blast intro: order_trans)+
  from pre have ep: "s_epoch a \<le> s_epoch b" "s_epoch b \<le> s_epoch c"
    unfolding snap_pre_def by (simp_all add: less_eq_prod_def less_imp_le split: if_splits) auto
  have "domain_le a c" if "s_epoch c = s_epoch a"
  proof -
    from that ep have "s_epoch b = s_epoch a" "s_epoch c = s_epoch b" by auto
    with pre show ?thesis unfolding snap_pre_def by (blast intro: domain_le_trans)
  qed
  moreover have "\<not> option_less (s_clock_floor c) (s_clock_floor a)"
    using ab bc option_not_less_trans unfolding snap_le_def by blast
  moreover have "firmware_fresh (s_firmware a) \<longrightarrow> firmware_fresh (s_firmware c) \<and>
      fs_security_version (s_firmware a) \<le> fs_security_version (s_firmware c)"
    using ab bc unfolding snap_le_def snap_pre_def by (blast intro: order_trans)
  ultimately show ?thesis
    using key pol unfolding snap_le_def snap_pre_def by blast
qed

lemma snap_pre_booked:
  assumes pre: "snap_pre s n" and "booked n n'"
  shows "snap_pre s n'"
proof -
  from assms(2) have core: "core n' = core n" and "s_next_cursor n \<le> s_next_cursor n'"
    by (simp_all add: booked_def)
  then have "snapshot_key n \<le> snapshot_key n'" by (simp add: snapshot_key_def core_eqD [OF core])
  with pre show ?thesis
    by (simp add: snap_pre_def domain_le_def core_eqD [OF core] del: less_eq_prod_simp)
      (blast intro: order_trans)
qed

lemma snap_pre_audited: "audited n n' \<Longrightarrow> snap_pre s n \<Longrightarrow> snap_pre s n'"
  using audited_booked [of n n' n] snap_pre_booked by auto

lemma snap_le_house: "house s s' \<Longrightarrow> snap_le s s'"
  using snap_pre_booked [of s s s'] core_eqD [of s' s] by (simp add: house_def snap_le_def booked_def)

lemma snap_le_key: "snap_le s s' \<Longrightarrow> snapshot_key s \<le> snapshot_key s'"
  by (simp add: snap_le_def snap_pre_def)

lemma snap_le_commit:
  "snap_pre s n \<Longrightarrow> \<not> option_less (s_clock_floor n) (s_clock_floor s) \<Longrightarrow>
     DeviceSnapshot_validate cr f n = Inr () \<Longrightarrow> snap_le s n"
  by (simp add: snap_le_def validate_firmware_fresh)

interpretation hs: controller_relation house
  by unfold_locales (auto intro: house_trans house_key)

interpretation sl: controller_relation snap_le
  by unfold_locales (auto intro: snap_le_house snap_le_trans snap_le_key)

lemma evolves_house: "evolves house E a c \<Longrightarrow> evolves snap_le E a c"
  by (auto simp: evolves_def stored_def snap_le_house)

lemma evolves_coreD: "evolves house E a c \<Longrightarrow> core (c_state c) = core (c_state a)"
  by (simp add: evolves_def house_def booked_def)

section \<open>Requests that only observe\<close>

context controller_relation
begin

lemma busy_steps: "steps (evolves S E) busy"
  by (auto simp: busy_def intro!: cr.monad_steps)

lemma manifest_steps: "steps (evolves S E) (manifest E b)"
  by (auto simp: manifest_def intro!: cr.monad_steps)

lemma status_steps: "steps (evolves S E) (status E)"
  by (auto simp: status_def Let_def intro!: cr.monad_steps wall_steps)

lemma query_steps: "steps (evolves S E) (query E g action)"
  unfolding query_def
  by (intro cr.bnd_step cr.gets_step) (auto intro!: cr.monad_steps status_steps split: Action.split)

lemma take_confirmation_steps: "steps (evolves S E) (take_confirmation digest peer t)"
  unfolding take_confirmation_def
  by (intro cr.monad_steps cr.modify_step) (simp add: evolves_refl)

lemma preflight_steps: "steps (evolves S E) (preflight E grant cmd t digest peer)"
proof -
  have admin: "steps (evolves S E) (preflight_admin E action t digest peer)" for action
    by (auto simp: preflight_admin_def intro!: cr.monad_steps busy_steps take_confirmation_steps
        boot_steps plat_result_steps split: Action.split)
  have "steps (evolves S E) (preflight_action E clock action t digest peer)" for clock action
    unfolding preflight_action_def
    by (intro cr.bnd_step cr.gets_step) (auto simp: preflight_actuate_def preflight_config_def
        preflight_chunk_def preflight_policy_def Let_def intro!: cr.monad_steps busy_steps
        admin manifest_steps boot_steps plat_result_steps split: Action.split)
  then show ?thesis
    by (auto simp: preflight_def intro!: cr.monad_steps observe_hardware_steps split: option.split)
qed

lemma replay_steps: "steps (evolves S E) (replay i seq digest)"
  by (auto simp: replay_def intro!: cr.monad_steps)

lemma clears_domain_steps: "steps (evolves S E) (clears_domain E action)"
  by (auto simp: clears_domain_def intro!: cr.monad_steps split: Action.split)

lemma open_pairing_window_steps: "steps (evolves S E) (open_pairing_window E)"
  unfolding open_pairing_window_def
  by (intro cr.monad_steps now_ms_steps cr.modify_step) (simp add: evolves_refl)

lemma confirm_physical_steps: "steps (evolves S E) (confirm_physical E x cmd)"
  unfolding confirm_physical_def
  by (intro cr.monad_steps now_ms_steps authorize_steps cr.modify_step) (simp add: evolves_refl)

lemma poll_door_steps: "steps (evolves S E) (poll_door E t)"
proof (rule stepsI)
  fix c
  show "wp (poll_door E t) (\<lambda>r. evolves S E c) c"
    using evolves_refl [of E c]
    by (auto simp: poll_door_def house_def Let_def
        intro!: commit_wp [of E c] S_house audit_booked_wp [of "c_state c"])
qed

lemma end_automatic_steps: "steps (evolves S E) (end_automatic E phase evidence error)"
proof (rule stepsI)
  fix c
  show "wp (end_automatic E phase evidence error) (\<lambda>r. evolves S E c) c"
    using evolves_refl [of E c]
    by (auto simp: end_automatic_def house_def
        intro!: commit_wp [of E c] S_house audit_automatic_booked_wp [of "c_state c"])
qed

end

section \<open>Requests that change durable state\<close>

lemma snap_pre_confirmed:
  "fs_phase (s_firmware s) = Firmware_Trial \<Longrightarrow> fs_manifest (s_firmware s) = Some m \<Longrightarrow>
     snap_pre s (s\<lparr>s_firmware := (s_firmware s)\<lparr>fs_security_version := fm_security_version m,
       fs_phase := Firmware_Confirmed\<rparr>\<rparr>)"
  by (auto simp: snap_pre_def snapshot_key_def firmware_fresh_def domain_le_def)

lemma snap_pre_firmware:
  "fs_security_version fw = fs_security_version (s_firmware s) \<Longrightarrow>
     snap_pre s (s\<lparr>s_firmware := fw\<rparr>) \<and> snap_pre s (s\<lparr>s_firmware := fw, s_signed_manifest := b\<rparr>)"
  by (simp add: snap_pre_def snapshot_key_def domain_le_def)

lemma snap_pre_claimed:
  "checked_add (s_generation s) 1 = Some g \<Longrightarrow> s_owner s = None \<Longrightarrow>
     snap_pre s (s\<lparr>s_owner := ow, s_generation := g, s_bindings := b, s_clock_floor := f\<rparr>)"
  by (drule checked_add_one_less) (simp add: snap_pre_def snapshot_key_def domain_le_def)

lemma reconcile_boot_evolves: "steps (evolves snap_le E) (reconcile_boot E)"
proof (rule stepsI)
  fix c
  show "wp (reconcile_boot E) (\<lambda>r. evolves snap_le E c) c"
    using sl.evolves_refl [of E c]
    by (auto simp: reconcile_boot_def boot_def evolves_firmware result_Inr_iffs snap_pre_confirmed
        snap_pre_firmware intro!: sl.commit_wp [of E c] audit_wp
        dest!: snap_pre_audited [where s = "c_state c"] intro: snap_le_commit split: prod.split sum.split)
qed

lemma claim_steps: "steps (evolves snap_le E) (claim E x key issuer admin t)"
proof (rule stepsI)
  fix c
  show "wp (claim E x key issuer admin t) (\<lambda>r. evolves snap_le E c) c"
    using sl.evolves_refl [of E c]
    by (auto simp: claim_def Let_def result_Inr_iffs snap_pre_claimed
        intro!: sl.commit_wp [of E c] audit_wp record_wall_wp
        dest!: snap_pre_audited [where s = "c_state c"] intro: snap_le_commit split: prod.split sum.split)
qed

section \<open>Acceptance of a command\<close>

text \<open>What \<open>accept\<close> leaves alone.\<close>

definition frame :: "DeviceSnapshot \<Rightarrow> DeviceSnapshot" where
  "frame s = (core s)\<lparr>s_uses := fmempty, s_watermarks := fmempty, s_bindings := fmempty\<rparr>"

definition uses_step :: "Grant \<Rightarrow> bool \<Rightarrow> (CredentialId, u32) fmap \<Rightarrow> (CredentialId, u32) fmap \<Rightarrow> bool" where
  "uses_step grant consumes m m' \<longleftrightarrow>
     (if consumes then \<exists>u. checked_add (get_or 0 m (g_credential_id grant)) 1 = Some u
        \<and> m' = fmupd (g_credential_id grant) u m
        \<and> (\<forall>limit. g_max_uses grant = Some limit \<longrightarrow> get_or 0 m (g_credential_id grant) < limit)
      else m' = m)"

definition accepts ::
  "Crypto \<Rightarrow> Grant \<Rightarrow> Command \<Rightarrow> u64 \<Rightarrow> bytes \<Rightarrow> OperationStatus \<Rightarrow> bool \<Rightarrow> DeviceSnapshot \<Rightarrow> DeviceSnapshot \<Rightarrow> bool" where
  "accepts cr grant cmd seq digest st no_change s s' \<longleftrightarrow>
     frame s' = frame s
     \<and> s_watermarks s' = fmupd (g_credential_id grant) seq (s_watermarks s)
     \<and> s_bindings s' = fmupd (g_credential_id grant) (cr_sha256 cr (cmd_credential cmd)) (s_bindings s)
     \<and> uses_step grant (cmd_action cmd = Unlock \<and> \<not> no_change) (s_uses s) (s_uses s')
     \<and> s_operations s' \<noteq> [] \<and> last (s_operations s') = \<lparr>or_digest = digest, or_status = st\<rparr>
     \<and> s_next_cursor s \<le> s_next_cursor s'"

lemma frame_eqD:
  assumes "frame s' = frame s"
  shows "s_owner s' = s_owner s" "s_epoch s' = s_epoch s" "s_generation s' = s_generation s"
    "s_policy_version s' = s_policy_version s" "s_revoked s' = s_revoked s" "s_config s' = s_config s"
    "s_firmware s' = s_firmware s" "s_signed_manifest s' = s_signed_manifest s"
    "s_device_key s' = s_device_key s" "s_lock_id s' = s_lock_id s"
  using assms by (cases s; cases s'; simp add: frame_def core_def)+

lemma frame_core: "core s' = core s \<Longrightarrow> frame s' = frame s"
  by (simp add: frame_def)

lemma frame_update [simp]:
  "frame (s\<lparr>s_uses := a\<rparr>) = frame s" "frame (s\<lparr>s_watermarks := b\<rparr>) = frame s"
  "frame (s\<lparr>s_bindings := d\<rparr>) = frame s" "frame (s\<lparr>s_operations := e\<rparr>) = frame s"
  "frame (s\<lparr>s_clock_floor := f\<rparr>) = frame s" "frame (s\<lparr>s_pending_relock := g\<rparr>) = frame s"
  by (simp_all add: frame_def core_def)

lemma accepts_audited:
  assumes aud: "audited n n'" and acc: "accepts cr grant cmd seq digest st nc s n"
  shows "accepts cr grant cmd seq digest st nc s n'" and "s_next_cursor s < s_next_cursor n'"
proof -
  from aud have core: "core n' = core n" and "s_operations n' = s_operations n"
    by (simp_all add: audited_def)
  moreover from acc have "s_next_cursor s \<le> s_next_cursor n" by (simp add: accepts_def)
  with audited_less [OF aud] show less: "s_next_cursor s < s_next_cursor n'" by simp
  ultimately show "accepts cr grant cmd seq digest st nc s n'"
    using acc by (simp add: accepts_def frame_core [OF core] core_eqD [OF core])
qed

lemma accepts_update [simp]:
  "accepts cr grant cmd seq digest st nc s (n\<lparr>s_clock_floor := f\<rparr>) = accepts cr grant cmd seq digest st nc s n"
  "accepts cr grant cmd seq digest st nc s (n\<lparr>s_pending_relock := b\<rparr>) = accepts cr grant cmd seq digest st nc s n"
  by (simp_all add: accepts_def)

lemma uses_step_le: "uses_step grant b m m' \<Longrightarrow> get_or 0 m i \<le> get_or 0 m' i"
  by (auto simp: uses_step_def dest: checked_add_le split: if_splits)

lemma accepts_snap_pre:
  assumes acc: "accepts cr grant cmd seq digest st nc s n"
    and seq: "get_or 0 (s_watermarks s) (g_credential_id grant) < seq"
  shows "snap_pre s n"
proof -
  from acc have frame: "frame n = frame s" by (simp add: accepts_def)
  have "domain_le s n"
    using acc seq uses_step_le by (auto simp: domain_le_def accepts_def frame_eqD [OF frame])
  with acc show ?thesis
    by (simp add: snap_pre_def snapshot_key_def accepts_def frame_eqD [OF frame])
qed

lemma consume_use_Inr:
  "consume_use grant s = Inr n \<longleftrightarrow> (\<exists>m. uses_step grant True (s_uses s) m \<and> n = s\<lparr>s_uses := m\<rparr>)"
  by (auto simp: consume_use_def uses_step_def Let_def result_Inr_iffs is_some_and_def not_le
      split: option.splits if_splits)

lemma make_room_Inr: "make_room info active s = Inr n \<Longrightarrow> \<exists>ops. n = s\<lparr>s_operations := ops\<rparr>"
  unfolding make_room_def
  by (cases s) (auto simp: result_Inr_iffs split: if_splits)

definition accepted ::
  "('s, 'p) Env \<Rightarrow> Grant \<Rightarrow> Command \<Rightarrow> u64 \<Rightarrow> bytes \<Rightarrow> OperationStatus \<Rightarrow> bool
     \<Rightarrow> ('s, 'p) DeviceController \<Rightarrow> ('s, 'p) DeviceController \<Rightarrow> bool" where
  "accepted E grant cmd seq digest st no_change c c' \<longleftrightarrow>
     accepts (env_crypto E) grant cmd seq digest st no_change (c_state c) (c_state c')
     \<and> s_next_cursor (c_state c) < s_next_cursor (c_state c')
     \<and> c_sample c' = c_sample c \<and> c_active c' = c_active c \<and> c_factory c' = c_factory c
     \<and> \<not> c_poisoned c'"

lemma accept_wp:
  assumes c: "evolves snap_le E a c"
    and seq: "get_or 0 (s_watermarks (c_state c)) (g_credential_id grant) < seq"
    and err: "\<And>e c'. evolves snap_le E a c' \<Longrightarrow> Q (Inl e) c'"
    and ok: "\<And>c'. evolves snap_le E a c' \<Longrightarrow> accepted E grant cmd seq digest st no_change c c' \<Longrightarrow> Q (Inr ()) c'"
  shows "wp (accept E grant cmd seq digest st no_change t) Q c"
proof -
  let ?acc = "accepts (env_crypto E) grant cmd seq digest st no_change (c_state c)"
  have tail: "wp (bnd (audit E Audit_Operation i j k n) (commit E)) Q (c\<lparr>c_platform := p, c_relock_deadline := d\<rparr>)"
    if n: "?acc n" for i j k n p d
    using c accepts_audited [OF _ n] accepts_snap_pre [OF accepts_audited(1) [OF _ n] seq]
    by (auto intro!: audit_wp sl.commit_wp [of E a] err ok snap_le_commit simp: accepted_def)
  note tail1 = tail [unfolded wp_bnd]
  have tail2: "wp (audit E Audit_Operation i j k n)
      (\<lambda>r c'. case r of Inl e \<Rightarrow> Q (Inl e) c' | Inr x \<Rightarrow> wp (commit E x) Q c') (c\<lparr>c_platform := p\<rparr>)"
    if "?acc n" for i j k n p
    using tail1 [OF that, where d = "c_relock_deadline c"] by simp
  have acc: "?acc (n\<lparr>s_operations := s_operations n @ [\<lparr>or_digest = digest, or_status = st\<rparr>]\<rparr>)"
    if "(if cmd_action cmd = Unlock \<and> \<not> no_change then consume_use grant m else Inr m) = Inr m'"
      "m = c_state c\<lparr>s_watermarks := fmupd (g_credential_id grant) seq (s_watermarks (c_state c)),
        s_bindings := fmupd (g_credential_id grant) (cr_sha256 (env_crypto E) (cmd_credential cmd))
          (s_bindings (c_state c))\<rparr>" "make_room info active m' = Inr n" for m m' n info active
  proof -
    from make_room_Inr [OF that(3)] obtain ops where n: "n = m'\<lparr>s_operations := ops\<rparr>" by blast
    from that(1) obtain us where "m' = m\<lparr>s_uses := us\<rparr>"
      "uses_step grant (cmd_action cmd = Unlock \<and> \<not> no_change) (s_uses m) us"
      by (cases m) (auto simp: consume_use_Inr uses_step_def split: if_splits)
    with n that(2) show ?thesis by (simp add: accepts_def)
  qed
  have rest: "wp (bnd (record_wall E n) (\<lambda>n.
      bnd (if b then schedule_relock n t else ret n) (\<lambda>n.
      bnd (if b' then thn (modify (c_relock_deadline_update (\<lambda>_. None))) (ret (n\<lparr>s_pending_relock := False\<rparr>))
           else ret n) (\<lambda>n. bnd (audit E Audit_Operation i j k n) (commit E))))) Q c"
    if "?acc n" for n b b' i j k
    using that by (auto intro!: record_wall_wp sl.schedule_relock_wp tail1 tail2)
  have use: "wp (bnd (lift r) (\<lambda>n. K n)) Q c" if "\<And>n. r = Inr n \<Longrightarrow> wp (K n) Q c" for r K
    using that c err by (cases r) auto
  show ?thesis
    unfolding accept_def Let_def wp_bnd [of "gets id"] wp_gets sum.case id_apply
      wp_thn [of "guard_err b e" for b e] wp_guard_err
    by (rule if_bool_eq_conj [THEN iffD2], intro conjI impI err c use rest acc [OF _ refl])
qed

end
