(* ===== verification/Device_Steps.thy ===== *)
theory Device_Steps
  imports Device_Guarantee
begin

text \<open>
  The guarantee \<open>evolves snap_le\<close> for the execution of every action, for \<open>dispatch\<close> and \<open>handle\<close>,
  for the actuator callback and for \<open>poll\<close>, and the transition system of a device: one step
  is one call of a public method, or a change of the platform from outside.
\<close>

unbundle bit_operations_syntax

section \<open>Starting a drive\<close>

text \<open>The audit cursor has advanced since \<open>a\<close>, so the next identifier is fresh.\<close>

definition advanced :: "('s, 'p) DeviceController \<Rightarrow> ('s, 'p) DeviceController \<Rightarrow> bool" where
  "advanced a c \<longleftrightarrow> snapshot_key (c_state a) < snapshot_key (c_state c) \<and> s_next_cursor (c_state c) \<noteq> 0"

lemma word_pred_less: "(n :: 'w::len word) \<noteq> 0 \<Longrightarrow> n - 1 < n"
  by (metis word_not_simps(1) measure_unat unat_0_iff word_less_nat_alt)

lemma word_less_pred: "(m :: 'w::len word) < n \<Longrightarrow> m \<le> n - 1"
  by (simp add: word_le_sub1 word_less_nat_alt word_le_nat_alt unat_sub_if_size unat_eq_0 gr_implies_not_zero)

lemma next_actuation_id_fresh:
  assumes "advanced a c"
  shows "snapshot_key (c_state a) \<le> actuation_key (next_actuation_id (c_state c))"
    and "actuation_key (next_actuation_id (c_state c)) < snapshot_key (c_state c)"
  using assms word_less_pred word_pred_less
  by (auto simp: advanced_def snapshot_key_def actuation_key_def next_actuation_id_def)

lemma evolves_start:
  assumes "evolves S E a c" "advanced a c" "a_id act = next_actuation_id (c_state c)"
  shows "evolves S E a (c\<lparr>c_active := Some act\<rparr>)"
  using assms next_actuation_id_fresh [OF assms(2)]
  by (simp add: evolves_def durable_def stored_def drives_def)

lemma advanced_volatile [simp]:
  "advanced a (c\<lparr>c_platform := x1\<rparr>) = advanced a c" "advanced a (c\<lparr>c_sample := x2\<rparr>) = advanced a c"
  "advanced a (c\<lparr>c_last_mono := x3\<rparr>) = advanced a c"
  "advanced a (c\<lparr>c_last_idle_bolt := x4\<rparr>) = advanced a c"
  "advanced a (c\<lparr>c_relock_deadline := x5\<rparr>) = advanced a c"
  by (simp_all add: advanced_def)

lemma execute_actuation_wp:
  assumes "evolves snap_le E a c" "advanced a c" "\<And>r c'. evolves snap_le E a c' \<Longrightarrow> Q r c'"
  shows "wp (execute_actuation E target st) Q c"
  using assms
  by (auto simp: execute_actuation_def intro!: sl.prepare_actuation_wp [of E a] evolves_start
      sl.evolves_stepsI [OF sl.finish_steps, of E a] split: option.split prod.split)

section \<open>Execution of an action\<close>

text \<open>A policy that \<open>preflight\<close> has let pass is newer than the device's.\<close>

definition policy_fresh :: "Crypto \<Rightarrow> Action \<Rightarrow> DeviceSnapshot \<Rightarrow> bool" where
  "policy_fresh cr action s \<longleftrightarrow> (\<forall>b ow p. action = ApplyPolicy b \<longrightarrow> s_owner s = Some ow \<longrightarrow>
     read_policy cr (ow_issuer ow) b = Inr p \<longrightarrow>
     (s_epoch s, s_policy_version s) < (p_epoch p, p_version p))"

definition arm_ok ::
  "('s, 'p) Env \<Rightarrow> ('s, 'p) DeviceController \<Rightarrow> Error + arm_result \<Rightarrow> ('s, 'p) DeviceController \<Rightarrow> bool" where
  "arm_ok E a r c \<longleftrightarrow> evolves snap_le E a c \<and> (\<forall>n. r = Inr (Inl n) \<longrightarrow> snap_pre (c_state c) n)"

lemma arm_ok_simps [simp]:
  "arm_ok E a (Inl e) c = evolves snap_le E a c"
  "arm_ok E a (Inr (Inr x)) c = evolves snap_le E a c"
  "arm_ok E a (Inr (Inl n)) c \<longleftrightarrow> evolves snap_le E a c \<and> snap_pre (c_state c) n"
  "arm_ok E a (Inr (completed st)) c = evolves snap_le E a c"
  by (auto simp: arm_ok_def completed_def)

lemma snap_pre_updates [simp]:
  "snap_pre s (n\<lparr>s_config := x1\<rparr>) = snap_pre s n" "snap_pre s (n\<lparr>s_pending_relock := x2\<rparr>) = snap_pre s n"
  "snap_pre s (n\<lparr>s_clock_floor := x3\<rparr>) = snap_pre s n" "snap_pre s (n\<lparr>s_clock_valid := x4\<rparr>) = snap_pre s n"
  "snap_pre (s\<lparr>s_clock_floor := x5\<rparr>) n = snap_pre s n" "snap_pre (s\<lparr>s_clock_valid := x6\<rparr>) n = snap_pre s n"
  by (simp_all add: snap_pre_def snapshot_key_def domain_le_def)

lemma snap_pre_generation:
  "checked_add (s_generation s) 1 = Some g \<Longrightarrow> snap_pre s (s\<lparr>s_device_key := k, s_generation := g\<rparr>)"
  by (drule checked_add_one_less) (simp add: snap_pre_def snapshot_key_def domain_le_def)

lemma snap_pre_new_epoch:
  "s_epoch s < s_epoch n \<Longrightarrow> s_generation s < s_generation n \<Longrightarrow>
     fs_security_version (s_firmware n) = fs_security_version (s_firmware s) \<Longrightarrow> snap_pre s n"
  by (auto simp: snap_pre_def snapshot_key_def)

lemma audit_operation_wp:
  assumes "\<And>p. Q (Inl ResourceExhausted) (c\<lparr>c_platform := p\<rparr>)"
    and "\<And>p s'. (\<And>x. snap_pre x s \<Longrightarrow> snap_pre x s') \<Longrightarrow> Q (Inr s') (c\<lparr>c_platform := p\<rparr>)"
  shows "wp (audit_operation E kind st s) Q c"
  unfolding audit_operation_def using assms by (auto intro!: audit_wp dest: snap_pre_audited)

lemma execute_config_wp:
  assumes "evolves snap_le E a c"
  shows "wp (execute_config E config st t (c_state c)) (arm_ok E a) c"
  using assms
  by (auto simp: execute_config_def Let_def intro!: audit_operation_wp sl.schedule_relock_wp)

lemma execute_reboot_wp:
  assumes "evolves snap_le E a c"
  shows "wp (execute_reboot E st (c_state c)) (arm_ok E a) c"
  using assms
  by (auto simp: execute_reboot_def intro!: audit_operation_wp split: prod.split sum.split)

lemma execute_policy_wp:
  assumes c: "evolves snap_le E a c" and fresh: "policy_fresh (env_crypto E) (ApplyPolicy b) (c_state c)"
  shows "wp (execute_policy E b st (c_state c)) (arm_ok E a) c"
proof -
  have new: "snap_pre (c_state c) ((clear_domain (c_state c))\<lparr>s_epoch := e, s_generation := g,
      s_policy_version := v, s_revoked := r\<rparr>)"
    if "s_epoch (c_state c) < e" "checked_add (s_generation (c_state c)) 1 = Some g" for e g v r
    using that by (intro snap_pre_new_epoch) (auto simp: clear_domain_def dest: checked_add_one_less)
  have same: "snap_pre (c_state c) (c_state c\<lparr>s_policy_version := p_version p,
      s_revoked := s_revoked (c_state c) |\<union>| p_revoked p\<rparr>)"
    if "\<not> s_epoch (c_state c) < p_epoch p" "s_owner (c_state c) = Some ow"
      "read_policy (env_crypto E) (ow_issuer ow) b = Inr p" for p ow
    using that fresh by (auto simp: policy_fresh_def snap_pre_def snapshot_key_def domain_le_def)
  show ?thesis
    using c by (auto simp: execute_policy_def Let_def result_Inr_iffs clear_domain_def [symmetric] same new
        intro!: audit_operation_wp sl.commit_wp [of E a] intro: snap_le_commit split: sum.split)
qed

lemma execute_clock_wp:
  assumes "evolves snap_le E a c"
  shows "wp (execute_clock E time st) (arm_ok E a) c"
  using assms
  by (auto simp: execute_clock_def intro!: audit_operation_wp sl.commit_wp [of E a]
      sl.evolves_stepsI [OF sl.observe_hardware_steps, of E a] intro: snap_le_commit
      split: prod.split sum.split)

lemma execute_factory_reset_wp:
  assumes "evolves snap_le E a c"
  shows "wp (execute_factory_reset E st (c_state c)) (arm_ok E a) c"
  using assms
  by (auto simp: execute_factory_reset_def Let_def result_Inr_iffs DeviceSnapshot_factory_def
      intro!: sl.commit_wp [of E a] snap_le_commit snap_pre_new_epoch
      dest: checked_add_one_less split: sum.split)

lemma execute_replace_issuer_wp:
  assumes c: "evolves snap_le E a c"
  shows "wp (execute_replace_issuer E x issuer st (c_state c)) (arm_ok E a) c"
proof -
  have "snap_pre (c_state c) ((clear_domain (c_state c))\<lparr>s_owner := ow, s_epoch := e, s_generation := g,
      s_policy_version := 0\<rparr>)"
    if "checked_add (s_epoch (c_state c)) 1 = Some e" "checked_add (s_generation (c_state c)) 1 = Some g"
    for e g ow
    using that by (intro snap_pre_new_epoch) (auto simp: clear_domain_def dest: checked_add_one_less)
  with c show ?thesis
    by (auto simp: execute_replace_issuer_def result_Inr_iffs
        intro!: audit_operation_wp sl.commit_wp [of E a] intro: snap_le_commit split: sum.split)
qed

lemma execute_rotate_wp:
  assumes "evolves snap_le E a c"
  shows "wp (execute_rotate E b) (arm_ok E a) c"
  using assms
  by (auto simp: execute_rotate_def result_Inr_iffs snap_pre_generation
      intro!: sl.evolves_stepsI [OF sl.observe_hardware_steps, of E a] split: prod.split sum.split)

lemma execute_firmware_wp:
  assumes c: "evolves snap_le E a c"
  shows "wp (execute_firmware E action st (c_state c)) (arm_ok E a) c"
proof (cases action)
  case (FirmwareBegin b)
  with c show ?thesis
    by (auto simp: execute_firmware_def manifest_def boot_def snap_pre_firmware split: prod.split sum.split)
next
  case (FirmwareChunk off d)
  with c show ?thesis
    by (auto simp: execute_firmware_def boot_def snap_pre_firmware split: prod.split sum.split)
next
  case FirmwareFinish
  with c show ?thesis
    by (auto simp: execute_firmware_def boot_def snap_pre_firmware split: prod.split sum.split)
next
  case FirmwareActivate
  with c show ?thesis
    by (auto simp: execute_firmware_def boot_def snap_pre_firmware intro!: sl.commit_wp [of E a] snap_le_commit
        split: prod.split sum.split)
next
  case FirmwareAbort
  with c show ?thesis
    by (auto simp: execute_firmware_def boot_def snap_pre_firmware empty_firmware_def
        intro!: audit_operation_wp sl.commit_wp [of E a] intro: snap_le_commit split: prod.split sum.split)
qed (use c in \<open>simp_all add: execute_firmware_def\<close>)

definition actuates :: "Action \<Rightarrow> bool" where
  "actuates action \<longleftrightarrow> action = Unlock \<or> action = Lock"

lemma execute_arm_wp:
  assumes c: "evolves snap_le E a c" and adv: "actuates action \<Longrightarrow> advanced a c"
    and fresh: "policy_fresh (env_crypto E) action (c_state c)"
  shows "wp (execute_arm E x action st t) (arm_ok E a) c"
proof -
  note arms = execute_firmware_wp [OF c] execute_config_wp [OF c] execute_clock_wp [OF c]
    execute_reboot_wp [OF c] execute_factory_reset_wp [OF c] execute_replace_issuer_wp [OF c]
    execute_rotate_wp [OF c]
  show ?thesis
    using c adv fresh
    by (cases action) (simp_all add: execute_arm_def is_firmware_action_def arms actuates_def
        execute_policy_wp execute_actuation_wp split: sum.split)
qed

lemma execute_wp:
  assumes c: "evolves snap_le E a c" and "actuates (cmd_action cmd) \<Longrightarrow> advanced a c"
    and "policy_fresh (env_crypto E) (cmd_action cmd) (c_state c)"
  shows "wp (execute E x cmd st t) (\<lambda>r. evolves snap_le E a) c"
  unfolding execute_def wp_bnd [of "execute_arm E x (cmd_action cmd) st t"]
  by (intro wp_mono [OF execute_arm_wp [OF assms]])
    (auto intro!: audit_operation_wp sl.commit_wp [of E a] intro: snap_le_commit split: sum.split)

section \<open>Dispatch\<close>

lemma wp_bnd_any:
  "(\<And>e c'. Q (Inl e) c') \<Longrightarrow> (\<And>x c'. wp (k x) Q c') \<Longrightarrow> wp (bnd m k) Q c"
  by (auto intro!: wpI split: sum.split)

lemma preflight_fresh:
  "wp (preflight E grant cmd t digest peer)
     (\<lambda>r c'. r = Inr () \<longrightarrow> policy_fresh (env_crypto E) (cmd_action cmd) (c_state c')) c"
proof (cases "\<exists>b. cmd_action cmd = ApplyPolicy b")
  case True
  then obtain b where b: "cmd_action cmd = ApplyPolicy b" by blast
  have "wp (preflight_policy E b)
      (\<lambda>r c'. r = Inr () \<longrightarrow> policy_fresh (env_crypto E) (ApplyPolicy b) (c_state c')) c'" for c'
    by (auto simp: preflight_policy_def policy_fresh_def result_Inr_iffs split: sum.split)
  then show ?thesis
    unfolding preflight_def thn_def
    by (intro wp_bnd_any) (auto simp: b preflight_action_def)
next
  case False
  then show ?thesis by (intro wpI) (auto simp: policy_fresh_def)
qed

lemma preflight_wp:
  assumes "evolves house E c c" and "\<And>e c'. evolves house E c c' \<Longrightarrow> Q (Inl e) c'"
    and "\<And>c'. evolves house E c c' \<Longrightarrow> policy_fresh (env_crypto E) (cmd_action cmd) (c_state c') \<Longrightarrow>
      Q (Inr ()) c'"
  shows "wp (preflight E grant cmd t digest peer) Q c"
proof (rule wp_mono [OF wp_conj [OF preflight_fresh hs.evolves_stepsI [OF hs.preflight_steps]]])
  fix r :: "Error + unit" and c'
  assume "(r = Inr () \<longrightarrow> policy_fresh (env_crypto E) (cmd_action cmd) (c_state c')) \<and> evolves house E c c'"
  with assms show "Q r c'" by (cases r) auto
qed (auto intro: assms(1))

lemma frame_policy_fresh: "frame s' = frame s \<Longrightarrow> policy_fresh cr action s \<Longrightarrow> policy_fresh cr action s'"
  by (simp add: policy_fresh_def frame_eqD [of s' s])

lemma clears_domain_wp:
  assumes "\<And>e. Q (Inl e) c" "\<And>b. (actuates action \<Longrightarrow> \<not> b) \<Longrightarrow> Q (Inr b) c"
  shows "wp (clears_domain E action) Q c"
  using assms by (cases action) (auto simp: clears_domain_def actuates_def split: sum.split)

lemma accepted_advanced:
  assumes "accepted E grant cmd seq digest st nc c c'" "evolves snap_le E a c"
  shows "advanced a c'"
proof -
  from assms(1) have "frame (c_state c') = frame (c_state c)" "s_next_cursor (c_state c) < s_next_cursor (c_state c')"
    by (auto simp: accepted_def accepts_def)
  then have "snapshot_key (c_state c) < snapshot_key (c_state c')" "s_next_cursor (c_state c') \<noteq> 0"
    by (auto simp: snapshot_key_def dest: frame_eqD)
  with assms(2) show ?thesis
    by (auto simp: advanced_def evolves_def dest: snap_le_key)
qed

lemma perform_wp:
  assumes seq: "get_or 0 (s_watermarks (c_state c)) (g_credential_id grant) < seq"
    and ev: "evolves snap_le E a c"
    and fresh: "policy_fresh (env_crypto E) (cmd_action cmd) (c_state c)"
    and clears: "actuates (cmd_action cmd) \<Longrightarrow> \<not> clears"
  shows "wp (perform E x cmd grant seq digest st t clears) (\<lambda>r. evolves snap_le E a) c"
proof (cases clears)
  case True
  with ev fresh clears have "wp (execute E x cmd st t) (\<lambda>r. evolves snap_le E a) c"
    by (intro execute_wp) auto
  with True show ?thesis by (auto simp: perform_def elim!: wp_mono split: sum.split)
next
  case False
  have exec: "wp (execute E x cmd st t) (\<lambda>r. evolves snap_le E a) c2"
    if "evolves snap_le E a c2" "accepted E grant cmd seq digest st nc c c2" for c2 nc
    using that accepted_advanced [OF that(2) ev] fresh
    by (intro execute_wp) (auto simp: accepted_def accepts_def intro: frame_policy_fresh)
  have fin: "wp (finish E st ph evd e) (\<lambda>r. evolves snap_le E a) c2" if "evolves snap_le E a c2" for c2 ph evd e
    using that by (rule sl.evolves_stepsI [OF sl.finish_steps])
  from False ev seq show ?thesis
    by (auto simp: perform_def Let_def intro!: accept_wp [of E a] fin wp_mono [OF exec] split: sum.split option.split)
qed

lemma mutate_wp:
  assumes "get_or 0 (s_watermarks (c_state c)) (g_credential_id grant) < seq"
  shows "wp (mutate E x cmd grant seq digest t) (\<lambda>r. evolves snap_le E c) c"
proof -
  have "get_or 0 (s_watermarks (c_state c')) (g_credential_id grant) < seq" if "evolves house E c c'" for c'
    using assms core_eqD [OF evolves_coreD [OF that]] by simp
  then show ?thesis
    unfolding mutate_def
    by (auto simp: hs.evolves_refl evolves_house intro!: preflight_wp clears_domain_wp perform_wp)
qed

lemma dispatch_granted_evolves: "steps (evolves snap_le E) (dispatch_granted E x cmd grant t)"
proof (rule stepsI)
  fix c
  show "wp (dispatch_granted E x cmd grant t) (\<lambda>r. evolves snap_le E c) c"
    using sl.evolves_refl [of E c]
    by (auto simp: dispatch_granted_def Let_def not_le intro!: mutate_wp
        sl.evolves_stepsI [OF sl.query_steps, of E c] sl.evolves_stepsI [OF sl.replay_steps, of E c]
        split: sum.split)
qed

lemma dispatch_evolves: "steps (evolves snap_le E) (dispatch E x cmd)"
  unfolding dispatch_def
  by (intro sl.cr.monad_steps sl.hardware_changed_steps sl.now_ms_steps)
    (auto intro!: sl.cr.monad_steps claim_steps sl.authorize_steps dispatch_granted_evolves split: Action.split)

lemma handle_evolves:
  assumes "handle E x cmd c = (rsp, c')"
  shows "evolves snap_le E c c'"
proof -
  obtain r d where rd: "dispatch E x cmd c = (r, d)" by (cases "dispatch E x cmd c")
  then have cd: "evolves snap_le E c d" using stepsD [OF dispatch_evolves] by blast
  have "wp (bnd (audit E Audit_Rejected None None code (c_state d)) (commit E)) (\<lambda>r. evolves snap_le E c) d" for code
    using cd by (auto simp: house_def intro!: sl.commit_wp [of E c] audit_booked_wp [of "c_state d"] snap_le_house)
  from wpD [OF this] cd show ?thesis
    using assms rd by (auto simp: handle_def split: sum.splits if_splits prod.splits)
qed

section \<open>Actuator callback and polling\<close>

lemma complete_actuation_steps: "steps (evolves snap_le E) (complete_actuation E active result t)"
proof (rule stepsI)
  fix c
  show "wp (complete_actuation E active result t) (\<lambda>r. evolves snap_le E c) c"
    using sl.evolves_refl [of E c]
    by (auto simp: complete_actuation_def house_def
        intro!: sl.commit_wp [of E c] sl.schedule_relock_wp audit_automatic_booked_wp snap_le_house
        sl.evolves_stepsI [OF sl.finish_steps, of E c] split: prod.split sum.split)
qed

lemma actuator_finished_evolves: "steps (evolves snap_le E) (actuator_finished E i result)"
  unfolding actuator_finished_def
  by (intro sl.cr.monad_steps sl.now_ms_steps sl.hardware_changed_steps complete_actuation_steps sl.cr.modify_step)
    (simp add: evolves_stopped sl.evolves_refl)

lemma audited_advanced:
  assumes "audited (c_state c\<lparr>s_pending_relock := b, s_automatic_inflight := b'\<rparr>) n"
  shows "advanced c (c\<lparr>c_storage := st, c_state := n\<rparr>)"
  using assms audited_less [OF assms]
  by (auto simp: advanced_def snapshot_key_def audited_def dest: core_eqD)

lemma evolves_platform_inner [simp]:
  "evolves S E a (c\<lparr>c_platform := p, c_storage := s, c_state := n\<rparr>)
     = evolves S E a (c\<lparr>c_storage := s, c_state := n\<rparr>)"
  by (simp add: evolves_def durable_def stored_def drives_def split: option.split)

lemma poll_relock_steps: "steps (evolves snap_le E) (poll_relock E)"
proof (rule stepsI)
  fix c
  show "wp (poll_relock E) (\<lambda>r. evolves snap_le E c) c"
    using sl.evolves_refl [of E c]
    by (auto simp: poll_relock_def house_def audited_advanced
        intro!: sl.commit_wp [of E c] audit_automatic_wp snap_le_house sl.prepare_actuation_wp [of E c]
        sl.evolves_stepsI [OF sl.end_automatic_steps, of E c] evolves_start
        dest: audited_booked [where a = "c_state c"] split: prod.split sum.split option.split)
qed

lemma poll_evolves: "steps (evolves snap_le E) (poll E)"
  unfolding poll_def
  by (intro sl.cr.monad_steps sl.now_ms_steps sl.hardware_changed_steps reconcile_boot_evolves
      sl.poll_door_steps poll_relock_steps)

section \<open>Runs of a device\<close>

inductive device_step ::
  "('s, 'p) Env \<Rightarrow> ('s, 'p) DeviceController \<Rightarrow> ('s, 'p) DeviceController \<Rightarrow> bool" for E where
  step_handle: "handle E x cmd c = (rsp, c') \<Longrightarrow> device_step E c c'"
| step_pairing: "open_pairing_window E c = (r, c') \<Longrightarrow> device_step E c c'"
| step_confirm: "confirm_physical E x cmd c = (r, c') \<Longrightarrow> device_step E c c'"
| step_hardware: "hardware_changed E c = (r, c') \<Longrightarrow> device_step E c c'"
| step_finished: "actuator_finished E i result c = (r, c') \<Longrightarrow> device_step E c c'"
| step_poll: "poll E c = (r, c') \<Longrightarrow> device_step E c c'"
| step_platform: "device_step E c (c\<lparr>c_platform := p\<rparr>)"

inductive_cases device_stepE: "device_step E c c'"

definition runs :: "('s, 'p) Env \<Rightarrow> ('s, 'p) DeviceController \<Rightarrow> ('s, 'p) DeviceController \<Rightarrow> bool" where
  "runs E = (device_step E)\<^sup>*\<^sup>*"

lemma device_step_evolves: "device_step E c c' \<Longrightarrow> evolves snap_le E c c'"
  by (induction rule: device_step.induct)
    (auto simp: sl.evolves_refl handle_evolves
      dest: stepsD [OF sl.open_pairing_window_steps] stepsD [OF sl.confirm_physical_steps]
        stepsD [OF sl.hardware_changed_steps] stepsD [OF actuator_finished_evolves] stepsD [OF poll_evolves])

lemma runs_evolves: "runs E c c' \<Longrightarrow> evolves snap_le E c c'"
  unfolding runs_def
  by (induction rule: rtranclp_induct)
    (auto simp: sl.evolves_refl intro: sl.evolves_trans device_step_evolves)

end
