(* ===== verification/Ref_Cbor.thy ===== *)
theory Ref_Cbor
  imports Externals
begin

text \<open>
  An RFC 8949 writer and reader for the value type of \<^verbatim>\<open>ciborium\<close>, in the shape the sources
  call it: the writer emits minimal heads and definite lengths; the reader takes a limit
  on nested containers and returns the unread input. It interprets the contract
  \<open>cbor_laws\<close> and is the CBOR part of the concrete environment in which the witnesses of the
  development are evaluated.
\<close>

section \<open>Heads\<close>

fun be_bytes :: "nat \<Rightarrow> nat \<Rightarrow> bytes" where
  "be_bytes 0 n = []"
| "be_bytes (Suc k) n = be_bytes k (n div 256) @ [of_nat (n mod 256)]"

definition be_nat :: "bytes \<Rightarrow> nat" where
  "be_nat bs = foldl (\<lambda>a b. a * 256 + unat b) 0 bs"

lemma length_be_bytes [simp]: "length (be_bytes k n) = k"
  by (induction k arbitrary: n) auto

lemma unat_of_nat_byte: "unat (of_nat (n mod 256) :: u8) = n mod 256"
  by (simp add: unsigned_of_nat take_bit_nat_eq_self)

lemma be_nat_be_bytes: "n < 256 ^ k \<Longrightarrow> be_nat (be_bytes k n) = n"
proof (induction k arbitrary: n)
  case (Suc k)
  then have "n div 256 < 256 ^ k" by (simp add: less_mult_imp_div_less mult.commute)
  with Suc.IH have "be_nat (be_bytes k (n div 256)) = n div 256" by blast
  then show ?case by (simp add: be_nat_def unat_of_nat_byte)
qed (simp add: be_nat_def)

text \<open>Major type and argument; the argument is written in the shortest form.\<close>

definition head :: "nat \<Rightarrow> nat \<Rightarrow> bytes" where
  "head major n =
     (let tag = \<lambda>info. of_nat (major * 32 + info) in
      if n < 24 then [tag n]
      else if n < 256 then tag 24 # be_bytes 1 n
      else if n < 65536 then tag 25 # be_bytes 2 n
      else if n < 4294967296 then tag 26 # be_bytes 4 n
      else tag 27 # be_bytes 8 n)"

definition take_nat :: "nat \<Rightarrow> bytes \<Rightarrow> (nat \<times> bytes) option" where
  "take_nat k bs = (if length bs < k then None else Some (be_nat (take k bs), drop k bs))"

definition read_head :: "bytes \<Rightarrow> (nat \<times> nat \<times> nat \<times> bytes) option" where
  "read_head bs = (case bs of [] \<Rightarrow> None
     | b # rest \<Rightarrow>
         let major = unat b div 32; info = unat b mod 32 in
         if info < 24 then Some (major, info, info, rest)
         else if info < 28 then
           map_option (\<lambda>(n, rest). (major, info, n, rest)) (take_nat (2 ^ (info - 24)) rest)
         else None)"

lemma take_nat_be: "n < 256 ^ k \<Longrightarrow> take_nat k (be_bytes k n @ rest) = Some (n, rest)"
  by (simp add: take_nat_def be_nat_be_bytes)

lemma unat_tag: "major < 8 \<Longrightarrow> info < 32 \<Longrightarrow> unat (of_nat (major * 32 + info) :: u8) = major * 32 + info"
  by (simp add: unsigned_of_nat take_bit_nat_eq_self del: of_nat_add of_nat_mult)

lemma read_head_tag:
  "major < 8 \<Longrightarrow> info < 32 \<Longrightarrow> read_head (of_nat (major * 32 + info) # rest) =
     (if info < 24 then Some (major, info, info, rest)
      else if info < 28 then
        map_option (\<lambda>(n, rest). (major, info, n, rest)) (take_nat (2 ^ (info - 24)) rest)
      else None)"
  using unat_tag [of major info] by (simp add: read_head_def Let_def del: of_nat_add of_nat_mult)

lemma read_head_head:
  assumes "major < 8" "n < 2 ^ 64"
  shows "\<exists>info. read_head (head major n @ rest) = Some (major, info, n, rest)"
proof -
  have b: "n < 256 \<Longrightarrow> n < 256 ^ 1" "n < 65536 \<Longrightarrow> n < 256 ^ 2" "n < 4294967296 \<Longrightarrow> n < 256 ^ 4" "n < 256 ^ 8"
    using assms(2) by simp_all
  show ?thesis
    using assms b read_head_tag [of major n] read_head_tag [of major 24] read_head_tag [of major 25]
      read_head_tag [of major 26] read_head_tag [of major 27]
      take_nat_be [of n 1 rest] take_nat_be [of n 2 rest] take_nat_be [of n 4 rest] take_nat_be [of n 8 rest]
    by (simp add: head_def Let_def del: be_bytes.simps power_Suc of_nat_add of_nat_mult)
qed

section \<open>Values\<close>

fun put_value :: "Value \<Rightarrow> bytes" where
  "put_value (V_Integer n) = (if n \<ge> 0 then head 0 (nat n) else head 1 (nat (- 1 - n)))"
| "put_value (V_Bytes b) = head 2 (length b) @ b"
| "put_value (V_Text s) = head 3 (length s) @ map of_char s"
| "put_value (V_Array vs) = head 4 (length vs) @ concat (map put_value vs)"
| "put_value (V_Map kvs) = head 5 (length kvs) @ concat (map (\<lambda>(k, v). put_value k @ put_value v) kvs)"
| "put_value (V_Tag t v) = head 6 (unat t) @ put_value v"
| "put_value (V_Bool b) = [if b then 0xf5 else 0xf4]"
| "put_value V_Null = [0xf6]"
| "put_value (V_Float w) = 0xfb # be_bytes 8 (unat w)"

definition split_at :: "nat \<Rightarrow> bytes \<Rightarrow> (bytes \<times> bytes) option" where
  "split_at n bs = (if length bs < n then None else Some (take n bs, drop n bs))"

fun pairs :: "Value list \<Rightarrow> (Value \<times> Value) list" where
  "pairs (k # v # rest) = (k, v) # pairs rest"
| "pairs _ = []"

definition read_simple :: "nat \<Rightarrow> nat \<Rightarrow> Value option" where
  "read_simple info n =
     (if info = 20 then Some (V_Bool False) else if info = 21 then Some (V_Bool True)
      else if info = 22 then Some V_Null else if info = 27 then Some (V_Float (of_nat n)) else None)"

definition read_text :: "bytes \<Rightarrow> string option" where
  "read_text b = (if utf8_valid b then Some (map (\<lambda>c. char_of (unat c)) b) else None)"

fun read_value :: "nat \<Rightarrow> bytes \<Rightarrow> (Value \<times> bytes) option"
  and read_items :: "nat \<Rightarrow> nat \<Rightarrow> bytes \<Rightarrow> (Value list \<times> bytes) option" where
  "read_value d bs = (case read_head bs of None \<Rightarrow> None
     | Some (major, info, n, rest) \<Rightarrow>
         if major = 0 then Some (V_Integer (int n), rest)
         else if major = 1 then Some (V_Integer (- 1 - int n), rest)
         else if major = 2 then map_option (\<lambda>(b, r). (V_Bytes b, r)) (split_at n rest)
         else if major = 3 then Option.bind (split_at n rest) (\<lambda>(b, r). map_option (\<lambda>s. (V_Text s, r)) (read_text b))
         else if major = 7 then map_option (\<lambda>v. (v, rest)) (read_simple info n)
         else (case d of 0 \<Rightarrow> None
           | Suc d' \<Rightarrow>
               if major = 4 then map_option (\<lambda>(vs, r). (V_Array vs, r)) (read_items d' n rest)
               else if major = 5 then
                 map_option (\<lambda>(vs, r). (V_Map (pairs vs), r)) (read_items d' (2 * n) rest)
               else map_option (\<lambda>(v, r). (V_Tag (of_nat n) v, r)) (read_value d' rest)))"
| "read_items d 0 bs = Some ([], bs)"
| "read_items d (Suc n) bs = (case read_value d bs of None \<Rightarrow> None
     | Some (v, rest) \<Rightarrow> map_option (\<lambda>(vs, r). (v # vs, r)) (read_items d n rest))"

section \<open>The reader inverts the writer\<close>

lemma split_at_append [simp]: "split_at (length b) (b @ rest) = Some (b, rest)"
  by (simp add: split_at_def)

lemma split_at_map [simp]: "split_at (length s) (map f s @ rest) = Some (map f s, rest)"
  using split_at_append [of "map f s" rest] by simp

lemma char_of_byte: "char_of (unat (of_char c :: u8)) = c"
proof -
  have "unat (of_char c :: u8) = take_bit 8 (of_char c)"
    using unsigned_of_nat [of "of_char c", where 'a = nat and 'b = 8] by (simp add: of_nat_of_char)
  also have "\<dots> = of_char c" by (simp add: take_bit_eq_mod)
  finally show ?thesis by simp
qed

lemma char_of_bytes [simp]: "map ((\<lambda>c. char_of (unat c)) \<circ> (of_char :: char \<Rightarrow> u8)) s = s"
  by (induction s) (simp_all add: char_of_byte)

lemma read_text_string [simp]: "utf8_string s \<Longrightarrow> read_text (map of_char s) = Some s"
  by (simp add: read_text_def utf8_string_def)

lemma read_items_concat:
  "(\<And>v rest. v \<in> set vs \<Longrightarrow> read_value d (f v @ rest) = Some (v, rest)) \<Longrightarrow>
     read_items d (length vs) (concat (map f vs) @ rest) = Some (vs, rest)"
  by (induction vs) (auto simp del: read_value.simps)

definition flatten :: "(Value \<times> Value) list \<Rightarrow> Value list" where
  "flatten kvs = concat (map (\<lambda>(k, v). [k, v]) kvs)"

lemma flatten_simps [simp]: "flatten [] = []" "flatten ((k, v) # kvs) = k # v # flatten kvs"
  by (simp_all add: flatten_def)

lemma pairs_flatten [simp]: "pairs (flatten kvs) = kvs"
  by (induction kvs) auto

lemma length_flatten [simp]: "length (flatten kvs) = 2 * length kvs"
  by (induction kvs) auto

lemma concat_flatten: "concat (map (\<lambda>(k, v). f k @ f v) kvs) = concat (map f (flatten kvs))"
  by (induction kvs) auto

lemma read_put: "plain d v \<Longrightarrow> read_value d (put_value v @ rest) = Some (v, rest)"
proof (induction d v arbitrary: rest rule: plain.induct)
  case (1 d n)
  show ?case
  proof (cases "n \<ge> 0")
    case True
    with 1 have "nat n < 2 ^ 64" by (simp add: cbor_int_def)
    with read_head_head [of 0 "nat n" rest] True show ?thesis by (auto simp del: power_numeral)
  next
    case False
    with 1 have "nat (- 1 - n) < 2 ^ 64" by (simp add: cbor_int_def)
    with read_head_head [of 1 "nat (- 1 - n)" rest] False show ?thesis by (auto simp del: power_numeral)
  qed
next
  case (2 d b)
  with read_head_head [of 2 "length b" "b @ rest"] show ?case by auto
next
  case (3 d s)
  with read_head_head [of 3 "length s" "map of_char s @ rest"] show ?case by auto
next
  case (4 d)
  show ?case by (simp add: read_head_def read_simple_def)
next
  case (5 d vs)
  then have "read_items d (length vs) (concat (map put_value vs) @ rest) = Some (vs, rest)"
    by (intro read_items_concat) (auto simp: list_all_iff simp del: read_value.simps)
  with 5 read_head_head [of 4 "length vs" "concat (map put_value vs) @ rest"] show ?case by auto
next
  case (6 d kvs)
  have "read_value d (put_value v @ r) = Some (v, r)" if "v \<in> set (flatten kvs)" for v r
  proof -
    from that obtain k w where "(k, w) \<in> set kvs" "v = k \<or> v = w" by (auto simp: flatten_def)
    with 6 show ?thesis by (fastforce simp: list_all_iff simp del: read_value.simps)
  qed
  from read_items_concat [of "flatten kvs", OF this]
  have "read_items d (2 * length kvs) (concat (map put_value (flatten kvs)) @ rest) = Some (flatten kvs, rest)"
    by simp
  with 6 read_head_head [of 5 "length kvs" "concat (map put_value (flatten kvs)) @ rest"]
  show ?case by (auto simp: concat_flatten)
qed auto

definition into_writer :: "Value \<Rightarrow> bytes option" where
  "into_writer v = Some (put_value v)"

definition from_reader :: "bytes \<Rightarrow> (Value \<times> bytes) option" where
  "from_reader bs = read_value 16 bs"

interpretation rfc8949: cbor_laws into_writer from_reader
proof
  fix v
  assume "wire_value v"
  then have "plain 16 v" by (auto simp: wire_value_def intro: plain_mono)
  then show "\<exists>b. into_writer v = Some b \<and> (\<forall>rest. from_reader (b @ rest) = Some (v, rest))"
    by (simp add: into_writer_def from_reader_def read_put del: read_value.simps)
qed

end
