(* ===== verification/Example_Env.thy ===== *)
theory Example_Env
  imports Device_Steps Ref_Cbor
begin

text \<open>
  A concrete environment for the theorems with hypotheses: the RFC 8949 codec of
  \<open>Ref_Cbor\<close>, a deterministic stand-in for the signature scheme and the hash that satisfies
  \<open>ed25519_ok\<close>, a store that keeps the last committed snapshot, and a platform with fixed
  clocks and sensors that logs the drives it starts.
\<close>

section \<open>Cryptography\<close>

definition ex_sign :: "bytes \<Rightarrow> bytes \<Rightarrow> bytes" where
  "ex_sign key m = take 64 (key @ m @ replicate 64 0)"

definition ex_crypto :: Crypto where
  "ex_crypto = \<lparr>cr_into_writer = into_writer, cr_from_reader = from_reader,
     cr_vk_from_bytes = (\<lambda>k. True), cr_signature_from_slice = (\<lambda>s. length s = 64),
     cr_verify_strict = (\<lambda>k m s. s = ex_sign k m), cr_sign = ex_sign,
     cr_verifying_key = (\<lambda>k. k), cr_sha256 = (\<lambda>m. take 32 (m @ replicate 32 0)),
     cr_contributory = (\<lambda>k. True), cr_x25519_public = (\<lambda>k. k)\<rparr>"

lemma ex_crypto_fields [simp]:
  "cr_vk_from_bytes ex_crypto k" "cr_verifying_key ex_crypto k = k" "cr_contributory ex_crypto k"
  by (simp_all add: ex_crypto_def)

lemma ex_crypto_cbor_ok [simp]: "cbor_ok ex_crypto"
  by (rule rfc8949.cbor_ok_fields) (simp_all add: ex_crypto_def)

lemma length_ex_sign [simp]: "length (ex_sign key m) = 64"
  unfolding ex_sign_def length_take length_append length_replicate by arith

lemma ex_crypto_ed25519_ok [simp]: "ed25519_ok ex_crypto"
  by (simp add: ed25519_ok_def ex_crypto_def)

text \<open>An upper bound on the encoded length, and the success of signing small values.\<close>

fun value_size :: "Value \<Rightarrow> nat" where
  "value_size (V_Bytes b) = 9 + length b"
| "value_size (V_Text s) = 9 + length s"
| "value_size (V_Array vs) = 9 + sum_list (map value_size vs)"
| "value_size (V_Map kvs) = 9 + sum_list (map (\<lambda>(k, v). value_size k + value_size v) kvs)"
| "value_size (V_Tag t v) = 9 + value_size v"
| "value_size _ = 9"

lemma value_size_protocol [simp]:
  "value_size (cuint n) = 9" "value_size (cbytes b) = 9 + length b"
  "value_size (carray vs) = 9 + sum_list (map value_size vs)"
  by (simp_all add: cuint_def cbytes_def carray_def)

lemma length_head: "length (head m n) \<le> 9"
  by (simp add: head_def Let_def del: be_bytes.simps)

lemma length_put_value: "length (put_value v) \<le> value_size v"
proof (induction v rule: value_size.induct)
  case (3 vs)
  then have "sum_list (map (length \<circ> put_value) vs) \<le> sum_list (map value_size vs)"
    by (intro sum_list_mono) auto
  with length_head [of 4 "length vs"] show ?case by (simp add: length_concat)
next
  case (4 kvs)
  then have "sum_list (map (length \<circ> (\<lambda>(k, v). put_value k @ put_value v)) kvs)
      \<le> sum_list (map (\<lambda>(k, v). value_size k + value_size v) kvs)"
    by (intro sum_list_mono) (fastforce intro: add_mono)
  with length_head [of 5 "length kvs"] show ?case by (simp add: length_concat)
qed (use length_head in \<open>auto simp: add_mono\<close>)

lemma ex_cencode: "value_size v \<le> 4096 \<Longrightarrow> cencode ex_crypto v = Inr (put_value v)"
  using length_put_value [of v]
  by (simp add: cencode_def encode_limit_def ex_crypto_def into_writer_def MAX_OBJECT_SIZE_def)


lemma ex_sign_object:
  assumes "value_size v + length kind \<le> 3900"
  shows "\<exists>b. sign_object ex_crypto key kind v = Inr b \<and> length b \<le> value_size v + 160"
proof -
  let ?p = "put_value v" and ?h = "put_value cose_protected"
  have h: "length ?h \<le> 36" using length_put_value [of cose_protected] by (simp add: cose_protected_def)
  have p: "length ?p \<le> value_size v" by (rule length_put_value)
  let ?s = "ex_sign key (put_value (cose_structure kind ?h ?p))"
  let ?o = "carray [cbytes ?h, V_Map [], cbytes ?p, cbytes ?s]"
  have "cencode ex_crypto (cose_structure kind ?h ?p) = Inr (put_value (cose_structure kind ?h ?p))"
    using h p assms by (intro ex_cencode) (simp add: cose_structure_def)
  moreover have o: "value_size ?o \<le> value_size v + 160" using h p by simp
  moreover from o have "cencode ex_crypto ?o = Inr (put_value ?o)" using assms by (intro ex_cencode) simp
  moreover have "cr_sign ex_crypto = ex_sign" by (simp add: ex_crypto_def)
  ultimately have "sign_object ex_crypto key kind v = Inr (put_value ?o)"
    using assms by (simp add: sign_object_def ex_cencode cose_protected_def)
  with o length_put_value [of ?o] show ?thesis by auto
qed

section \<open>A device\<close>

definition ex_key :: bytes where "ex_key = replicate 32 5"
definition ex_peer :: SubjectKey where "ex_peer = SubjectKey (replicate 32 3)"
definition ex_lock :: LockId where "ex_lock = LockId (replicate 16 1)"
definition ex_credential_id :: CredentialId where "ex_credential_id = CredentialId (replicate 16 2)"

definition ex_grant :: Grant where
  "ex_grant = \<lparr>g_credential_id = ex_credential_id, g_lock_id = ex_lock, g_subject_key = ex_peer,
     g_rights = KNOWN_RIGHTS, g_epoch = 0, g_validity = None, g_max_uses = Some 2\<rparr>"

definition ex_credential :: bytes where
  "ex_credential = projr (sign_grant ex_crypto ex_key ex_grant)"

definition ex_device_key :: DeviceKey where
  "ex_device_key = \<lparr>dk_device_id = ex_lock, dk_key_id = 1, dk_key_version = 1,
     dk_x25519_public_key = replicate 32 9, dk_rotation_public_key = replicate 32 8,
     dk_capabilities = KNOWN_CAPABILITIES\<rparr>"

definition ex_info :: DeviceInfo where
  "ex_info = \<lparr>di_lock_id = ex_lock, di_model = ''m'', di_hardware = ''h'', di_firmware = ''f'',
     di_capabilities = KNOWN_CAPABILITIES, di_actuator = Motor, di_bolt_sensor = True,
     di_door_sensor = True, di_privacy_sensor = False, di_battery_sensor = False,
     di_safe_lock_without_door = False, di_hold_open = False, di_max_release_ms = 1000,
     di_max_action_ms = 20000, di_max_delay_ms = 60000, di_log_capacity = 4,
     di_operation_capacity = 3, di_credential_capacity = 5, di_max_image_size = 1000,
     di_max_chunk_size = 64\<rparr>"

definition ex_factory :: FactoryIdentity where
  "ex_factory = \<lparr>fi_info = ex_info, fi_setup_key_hash = cr_sha256 ex_crypto [4, 2],
     fi_firmware_root = ex_key, fi_device_key = ex_device_key\<rparr>"

text \<open>The store is the last committed snapshot; the platform is the list of drives it started.\<close>

definition ex_sample :: HardwareState where
  "ex_sample = \<lparr>hw_bolt = Known Locked, hw_door = Known Closed, hw_privacy = Unsupported,
     hw_battery_percent = Unsupported\<rparr>"

type_synonym ex_platform = "(ActuationId \<times> ActionTarget) list"

definition ex_env :: "(DeviceSnapshot option, ex_platform) Env" where
  "ex_env = \<lparr>env_crypto = ex_crypto, env_load = Inr, env_commit = (\<lambda>n s. (Inr (), Some n)),
     env_monotonic_ms = (\<lambda>p. (1000, p)),
     env_wall_clock = (\<lambda>p. (Some \<lparr>cs_lower = 100, cs_upper = 101\<rparr>, p)),
     env_sensors = (\<lambda>p. (ex_sample, p)),
     env_start_action = (\<lambda>i target _ _ p. (Inr (), p @ [(i, target)])),
     env_stop_action = (\<lambda>p. (Inr (), p)), env_set_wall_clock = (\<lambda>_ p. (Inr (), p)),
     env_request_reboot = (\<lambda>p. (Inr (), p)), env_has_device_private_key = (\<lambda>_ p. (True, p)),
     env_bootloader = (\<lambda>p. (True, p)), env_boot_begin = (\<lambda>_ _ p. (Inr (), p)),
     env_boot_write = (\<lambda>_ _ p. (Inr (), p)), env_boot_read = (\<lambda>_ n p. (Inr (replicate n 0), p)),
     env_boot_image_hash = (\<lambda>_ p. (Inr (replicate 32 0), p)),
     env_boot_ready_to_activate = (\<lambda>p. (Inr (), p)), env_boot_activate = (\<lambda>_ _ p. (Inr (), p)),
     env_boot_outcome = (\<lambda>_ p. (Inr Boot_Pending, p)), env_boot_abort = (\<lambda>p. (Inr (), p))\<rparr>"

definition ex_state :: DeviceSnapshot where
  "ex_state = (DeviceSnapshot_factory ex_factory)\<lparr>s_owner := Some \<lparr>ow_issuer = ex_key,
     ow_first_admin = ex_peer\<rparr>, s_generation := 1, s_clock_floor := Some 100\<rparr>"

definition ex_controller :: "(DeviceSnapshot option, ex_platform) DeviceController" where
  "ex_controller = fresh_controller ex_factory (Some ex_state) [] ex_state ex_sample 1000"

definition ex_context :: SessionContext where
  "ex_context = \<lparr>sc_peer = ex_peer, sc_generation = 1\<rparr>"

definition ex_unlock :: Command where
  "ex_unlock = \<lparr>cmd_credential = ex_credential, cmd_sequence = Some 1, cmd_action = Unlock\<rparr>"

lemma ex_storage_ok [simp]: "storage_ok ex_env"
  by (simp add: storage_ok_def ex_env_def)

lemma ex_lengths [simp]:
  "length ex_key = 32" "length (subject_bytes ex_peer) = 32" "length (lock_bytes ex_lock) = 16"
  "length (cred_bytes ex_credential_id) = 16"
  by (simp_all add: ex_key_def ex_peer_def ex_lock_def ex_credential_id_def)

lemma ex_sign_grant: "sign_grant ex_crypto ex_key ex_grant = Inr ex_credential"
  and ex_credential_length: "length ex_credential \<le> 350"
proof -
  have size: "value_size (grant_value ex_grant) = 159"
    by (simp add: grant_value_def ex_grant_def)
  have k: "length GRANT = 17" by (simp add: GRANT_def ascii_def)
  have v: "validate_grant ex_grant = Inr ()"
    by (simp add: validate_grant_def ex_grant_def KNOWN_RIGHTS_def)
  from ex_sign_object [of "grant_value ex_grant" GRANT ex_key] size k
  obtain b where "sign_object ex_crypto ex_key GRANT (grant_value ex_grant) = Inr b" "length b \<le> 350"
    by auto
  with v show "sign_grant ex_crypto ex_key ex_grant = Inr ex_credential" "length ex_credential \<le> 350"
    by (simp_all add: sign_grant_def ex_credential_def)
qed

lemma ex_info_valid: "DeviceInfo_validate ex_info = Inr ()"
  by (simp add: DeviceInfo_validate_def ex_info_def KNOWN_CAPABILITIES_def)

lemma ex_device_key_valid: "validate_device_key ex_crypto ex_device_key = Inr ()"
  by (simp add: validate_device_key_def ex_device_key_def KNOWN_CAPABILITIES_def validate_public_def
      ex_crypto_def)

lemma ex_state_valid: "DeviceSnapshot_validate ex_crypto ex_factory ex_state = Inr ()"
proof -
  have "DeviceSnapshot_validate ex_crypto ex_factory (DeviceSnapshot_factory ex_factory) = Inr ()"
    using ex_info_valid ex_device_key_valid
    by (intro DeviceSnapshot_factory_valid)
      (simp_all add: ex_factory_def ex_info_def ex_device_key_def)
  then show ?thesis
    by (simp add: DeviceSnapshot_validate_iff ex_state_def operation_valid_def firmware_validate_def)
      (simp add: DeviceSnapshot_factory_def ex_crypto_def)
qed

lemma ex_durable: "durable ex_env ex_controller"
  using ex_state_valid
  by (simp add: durable_def ex_env_def ex_controller_def fresh_controller_def)

lemma ex_read_grant: "read_grant ex_crypto ex_key ex_credential = Inr ex_grant"
proof -
  have "Grant_wf ex_grant"
    by (simp add: Grant_wf_def validate_grant_def ex_grant_def KNOWN_RIGHTS_def CredentialId_wf_def
        LockId_wf_def SubjectKey_wf_def)
  with read_sign_grant [of ex_crypto ex_grant ex_key ex_credential] ex_sign_grant
  show ?thesis by simp
qed


lemmas call_defs = plat_def plat_result_def store_result_def Let_def

lemma ex_env_fields [simp]:
  "env_crypto ex_env = ex_crypto" "env_commit ex_env n s = (Inr (), Some n)"
  "env_load ex_env s = Inr s"
  "env_monotonic_ms ex_env p = (1000, p)"
  "env_wall_clock ex_env p = (Some \<lparr>cs_lower = 100, cs_upper = 101\<rparr>, p)"
  "env_sensors ex_env p = (ex_sample, p)"
  "env_start_action ex_env i target ms hold p = (Inr (), p @ [(i, target)])"
  "env_stop_action ex_env p = (Inr (), p)"
  by (simp_all add: ex_env_def)

lemma ex_info_fields [simp]:
  "di_lock_id ex_info = ex_lock" "di_capabilities ex_info = KNOWN_CAPABILITIES"
  "di_actuator ex_info = Motor" "di_bolt_sensor ex_info" "di_door_sensor ex_info"
  "\<not> di_privacy_sensor ex_info" "\<not> di_battery_sensor ex_info"
  "di_log_capacity ex_info = 4" "di_operation_capacity ex_info = 3"
  "di_credential_capacity ex_info = 5" "di_max_image_size ex_info = 1000"
  by (simp_all add: ex_info_def)

lemma ex_factory_fields [simp]:
  "fi_info ex_factory = ex_info" "fi_firmware_root ex_factory = ex_key"
  "fi_device_key ex_factory = ex_device_key"
  "fi_setup_key_hash ex_factory = cr_sha256 ex_crypto [4, 2]"
  by (simp_all add: ex_factory_def)

lemma ex_sample_fields [simp]:
  "hw_bolt ex_sample = Known Locked" "hw_door ex_sample = Known Closed"
  "hw_privacy ex_sample = Unsupported" "hw_battery_percent ex_sample = Unsupported"
  by (simp_all add: ex_sample_def)

lemma ex_state_fields [simp]:
  "s_format ex_state = 1" "s_lock_id ex_state = ex_lock"
  "s_owner ex_state = Some \<lparr>ow_issuer = ex_key, ow_first_admin = ex_peer\<rparr>"
  "s_epoch ex_state = 0" "s_generation ex_state = 1" "s_policy_version ex_state = 0"
  "s_revoked ex_state = {||}" "s_uses ex_state = fmempty" "s_watermarks ex_state = fmempty"
  "s_bindings ex_state = fmempty" "s_operations ex_state = []"
  "s_config ex_state = DeviceConfig_factory ex_info" "s_events ex_state = []"
  "s_next_cursor ex_state = 1" "s_clock_floor ex_state = Some 100" "s_clock_valid ex_state"
  "\<not> s_pending_relock ex_state" "\<not> s_automatic_inflight ex_state"
  "s_firmware ex_state = empty_firmware 0" "s_signed_manifest ex_state = []"
  "s_device_key ex_state = ex_device_key"
  by (simp_all add: ex_state_def DeviceSnapshot_factory_def empty_firmware_def)

lemma ex_controller_fields [simp]:
  "c_factory ex_controller = ex_factory" "c_storage ex_controller = Some ex_state"
  "c_platform ex_controller = []" "c_state ex_controller = ex_state"
  "\<not> c_poisoned ex_controller" "c_sample ex_controller = ex_sample"
  "c_last_idle_bolt ex_controller = Some Locked" "c_fault ex_controller = Fault_None"
  "c_active ex_controller = None" "c_last_mono ex_controller = 1000"
  "c_relock_deadline ex_controller = None" "c_pairing_until ex_controller = None"
  "c_confirmation ex_controller = None"
  by (simp_all add: ex_controller_def fresh_controller_def known_bolt_def)

lemma ex_controller_same [simp]:
  "ex_controller\<lparr>c_platform := []\<rparr> = ex_controller" "ex_controller\<lparr>c_last_mono := 1000\<rparr> = ex_controller"
  "ex_controller\<lparr>c_sample := ex_sample\<rparr> = ex_controller"
  "ex_controller\<lparr>c_last_idle_bolt := Some Locked\<rparr> = ex_controller"
  by (simp_all add: ex_controller_def fresh_controller_def known_bolt_def)

lemma ex_request_fields [simp]:
  "sc_peer ex_context = ex_peer" "sc_generation ex_context = 1"
  "cmd_credential ex_unlock = ex_credential" "cmd_sequence ex_unlock = Some 1"
  "cmd_action ex_unlock = Unlock"
  "g_credential_id ex_grant = ex_credential_id" "g_lock_id ex_grant = ex_lock"
  "g_subject_key ex_grant = ex_peer" "g_rights ex_grant = KNOWN_RIGHTS" "g_epoch ex_grant = 0"
  "g_validity ex_grant = None" "g_max_uses ex_grant = Some 2"
  by (simp_all add: ex_context_def ex_unlock_def ex_grant_def)

section \<open>An unlock request\<close>

lemma ex_observe:
  "observe_hardware ex_env b ex_controller
     = (Inr (Some \<lparr>cs_lower = 100, cs_upper = 101\<rparr>), ex_controller)"
  by (simp add: observe_hardware_def now_ms_def run_simps call_defs validate_sample_def
      reading_valid_def stop_unsafe_action_def refresh_clock_def option_filter_def is_ok_def)

lemma ex_credential_nonempty: "ex_credential \<noteq> []"
proof
  have "cr_from_reader ex_crypto [] = None"
    by (simp add: ex_crypto_def from_reader_def read_head_def)
  moreover assume "ex_credential = []"
  ultimately show False
    using ex_read_grant by (simp add: read_grant_def verify_object_def cdecode_def decode_limit_def)
qed

lemma ex_authorize: "authorize ex_env ex_context ex_unlock ex_controller = (Inr ex_grant, ex_controller)"
  using ex_read_grant
  by (simp add: authorize_def run_simps) (simp add: Action_right_def rights_defs)

lemma ex_encode:
  "encode_wire ex_crypto Command_value ex_unlock = Inr (put_value (Command_value ex_unlock))"
  using ex_credential_length
  by (simp add: encode_wire_def ex_cencode Command_value_def Option_value_def U64_value_def
      Action_value_def Action_args_def U8_value_def)

definition ex_digest :: bytes where
  "ex_digest = cr_sha256 ex_crypto (put_value (Command_value ex_unlock))"

lemma ex_dispatch:
  "dispatch ex_env ex_context ex_unlock ex_controller
     = mutate ex_env ex_context ex_unlock ex_grant 1 ex_digest 1000 ex_controller"
proof -
  have "Action_parse (Action_value Unlock) = Inr Unlock"
    by (simp add: Action_parse_iff Action_wf_def)
  moreover have "Command_validate ex_unlock = Inr ()"
    using ex_credential_length ex_credential_nonempty
    by (simp add: Command_validate_def MAX_OBJECT_SIZE_def credentialless_def Action_mutates_def)
  moreover have "Command_capability ex_unlock AND KNOWN_CAPABILITIES \<noteq> 0"
    by (simp add: Command_capability_def Action_opcode_def KNOWN_CAPABILITIES_def)
  ultimately show ?thesis
    by (simp add: dispatch_def dispatch_granted_def hardware_changed_def run_simps call_defs
        ex_observe ex_authorize ex_encode now_ms_def Action_mutates_def ex_digest_def)
qed

lemma ex_preflight:
  "preflight ex_env ex_grant ex_unlock t digest peer ex_controller = (Inr (), ex_controller)"
  by (simp add: preflight_def run_simps ex_observe preflight_action_def preflight_actuate_def busy_def
      check_unlock_privacy_def empty_firmware_def)

definition ex_event :: "u64 \<Rightarrow> OperationStatus \<Rightarrow> AuditEvent" where
  "ex_event cursor st = \<lparr>ae_cursor = cursor, ae_unix_seconds = Some 100, ae_kind = Audit_Operation,
     ae_credential_id = Some ex_credential_id, ae_sequence = Some 1, ae_code = 0, ae_hardware = None,
     ae_operation = Some st\<rparr>"

definition ex_status :: "OperationPhase \<Rightarrow> OperationStatus" where
  "ex_status phase = (accepted_status ex_grant 1 Unlock)\<lparr>os_phase := phase\<rparr>"

definition ex_accepted :: "DeviceSnapshot" where
  "ex_accepted = ex_state\<lparr>s_watermarks := fmupd ex_credential_id 1 fmempty,
       s_bindings := fmupd ex_credential_id (cr_sha256 ex_crypto ex_credential) fmempty,
       s_uses := fmupd ex_credential_id 1 fmempty,
       s_operations := [\<lparr>or_digest = ex_digest, or_status = ex_status Phase_Accepted\<rparr>],
       s_clock_floor := Some 100, s_next_cursor := 2,
       s_events := [ex_event 1 (ex_status Phase_Accepted)]\<rparr>"

definition ex_running :: DeviceSnapshot where
  "ex_running = ex_accepted\<lparr>
       s_operations := [\<lparr>or_digest = ex_digest, or_status = ex_status Phase_Running\<rparr>],
       s_clock_floor := Some 100, s_next_cursor := 3,
       s_events := [ex_event 1 (ex_status Phase_Accepted), ex_event 2 (ex_status Phase_Running)]\<rparr>"

lemma ex_cards [simp]: "fcard {|x|} = 1" "map_len (fmupd k v fmempty) = 1" "fcard {||} = 0"
  by (simp_all add: fcard_finsert_if fcard_fempty map_len_def)

lemma ex_config [simp]: "DeviceConfig_validate (DeviceConfig_factory ex_info) ex_info = Inr ()"
  by (rule DeviceConfig_factory_valid [OF ex_info_valid])

lemma ex_device_key_fields [simp]: "validate_device_key ex_crypto ex_device_key = Inr ()" "dk_device_id ex_device_key = ex_lock"
  by (simp_all add: ex_device_key_valid) (simp add: ex_device_key_def)

lemma firmware_validate_empty: "s_firmware s = empty_firmware n \<Longrightarrow> s_signed_manifest s = [] \<Longrightarrow> firmware_validate cr f s = Inr ()"
  by (simp add: firmware_validate_def empty_firmware_def)

lemma ex_accepted_valid: "DeviceSnapshot_validate ex_crypto ex_factory ex_accepted = Inr ()"
  by (simp add: DeviceSnapshot_validate_iff ex_accepted_def operation_valid_def
      firmware_validate_empty ex_status_def accepted_status_def ex_event_def Action_opcode_def)
    (simp add: empty_firmware_def word_le_nat_alt)

lemma ex_running_valid: "DeviceSnapshot_validate ex_crypto ex_factory ex_running = Inr ()"
  by (simp add: DeviceSnapshot_validate_iff ex_running_def ex_accepted_def operation_valid_def
      firmware_validate_empty ex_status_def accepted_status_def ex_event_def Action_opcode_def)
    (simp add: empty_firmware_def word_le_nat_alt)

lemma ex_status_fields [simp]:
  "os_credential_id (ex_status p) = ex_credential_id" "os_sequence (ex_status p) = 1"
  "accepted_status ex_grant 1 Unlock = ex_status Phase_Accepted"
  "set_status Phase_Running Evidence_None 0 \<lparr>or_digest = d, or_status = ex_status p\<rparr>
     = \<lparr>or_digest = d, or_status = ex_status Phase_Running\<rparr>"
  by (simp_all add: ex_status_def accepted_status_def set_status_def)

lemma ex_commit:
  "\<not> c_poisoned c \<Longrightarrow> c_factory c = ex_factory \<Longrightarrow>
    \<not> option_less (s_clock_floor n) (s_clock_floor (c_state c)) \<Longrightarrow>
    DeviceSnapshot_validate ex_crypto ex_factory n = Inr () \<Longrightarrow>
    commit ex_env n c = (Inr (), c\<lparr>c_storage := Some n, c_state := n\<rparr>)"
  by (simp add: commit_def run_simps call_defs is_ok_def)

lemmas eval_defs = is_ok_def record_wall_def wall_def option_filter_def call_defs
  schedule_relock_def audit_def run_simps checked_add_def

lemma ex_state_floor [simp]: "ex_state\<lparr>s_clock_floor := Some 100\<rparr> = ex_state"
  by (simp add: ex_state_def)

lemma ex_accept:
  "accept ex_env ex_grant ex_unlock 1 ex_digest (ex_status Phase_Accepted) False 1000 ex_controller
     = (Inr (), ex_controller\<lparr>c_storage := Some ex_accepted, c_state := ex_accepted\<rparr>)"
proof -
  have "accept ex_env ex_grant ex_unlock 1 ex_digest (ex_status Phase_Accepted) False 1000 ex_controller
     = commit ex_env ex_accepted ex_controller"
    by (simp add: accept_def consume_use_def make_room_def eval_defs DeviceConfig_factory_def
        ex_accepted_def ex_event_def)
  moreover have "s_clock_floor ex_accepted = Some 100" by (simp add: ex_accepted_def)
  ultimately show ?thesis using ex_accepted_valid by (simp add: ex_commit)
qed

definition ex_active :: Active where
  "ex_active = \<lparr>a_id = \<lparr>ai_generation = 1, ai_audit_cursor = 1\<rparr>, a_credential_id = ex_credential_id,
     a_sequence = 1, a_target = Target_Unlock, a_deadline = 11000, a_automatic = False\<rparr>"

abbreviation ex_ready :: "(DeviceSnapshot option, ex_platform) DeviceController" where
  "ex_ready \<equiv> ex_controller\<lparr>c_storage := Some ex_accepted, c_state := ex_accepted\<rparr>"

definition ex_started :: "(DeviceSnapshot option, ex_platform) DeviceController" where
  "ex_started = ex_ready\<lparr>c_sample := ex_sample\<lparr>hw_bolt := Unknown\<rparr>, c_active := Some ex_active,
     c_last_idle_bolt := None, c_platform := [(a_id ex_active, Target_Unlock)]\<rparr>"

definition ex_driving :: "(DeviceSnapshot option, ex_platform) DeviceController" where
  "ex_driving = ex_started\<lparr>c_storage := Some ex_running, c_state := ex_running\<rparr>"

lemma ex_prepare: "prepare_actuation ex_env Target_Unlock ex_ready = (Inr (Some 11000), ex_ready)"
  by (simp add: prepare_actuation_def run_simps now_ms_def call_defs validate_sample_def
      reading_valid_def check_unlock_privacy_def checked_add_def ex_accepted_def
      DeviceConfig_factory_def ex_info_def)

lemma ex_started_fields [simp]:
  "c_state ex_started = ex_accepted" "c_factory ex_started = ex_factory" "\<not> c_poisoned ex_started"
  "ex_started\<lparr>c_platform := c_platform ex_started\<rparr> = ex_started"
  by (simp_all add: ex_started_def)

lemma ex_snapshot_fields [simp]:
  "s_clock_floor ex_accepted = Some 100" "s_clock_floor ex_running = Some 100"
  "s_generation ex_accepted = 1" "s_next_cursor ex_accepted = 2" "s_clock_valid ex_accepted"
  "s_operations ex_accepted = [\<lparr>or_digest = ex_digest, or_status = ex_status Phase_Accepted\<rparr>]"
  "s_events ex_accepted = [ex_event 1 (ex_status Phase_Accepted)]"
  by (simp_all add: ex_accepted_def ex_running_def)

lemma ex_finish:
  "finish ex_env (ex_status Phase_Accepted) Phase_Running Evidence_None 0 ex_started
     = (Inr (Reply_Operation (ex_status Phase_Running)), ex_driving)"
proof -
  have "finish ex_env (ex_status Phase_Accepted) Phase_Running Evidence_None 0 ex_started
    = thn (commit ex_env ex_running) (ret (Reply_Operation (ex_status Phase_Running))) ex_started"
    by (simp add: finish_def eval_defs operation_is_def ex_running_def ex_event_def)
  then show ?thesis using ex_running_valid by (simp add: ex_commit run_simps ex_driving_def)
qed

lemma ex_execute:
  "execute ex_env ex_context ex_unlock (ex_status Phase_Accepted) 1000 ex_ready
   = (Inr (Some (Reply_Operation (ex_status Phase_Running))), ex_driving)"
  using ex_finish ex_prepare
  by (simp add: execute_def execute_arm_def is_firmware_action_def run_simps execute_actuation_def
      call_defs is_ok_def ex_active_def ex_started_def next_actuation_id_def)

lemma ex_unlock_handled:
  "handle ex_env ex_context ex_unlock ex_controller
     = (\<lparr>rsp_opcode = 0, rsp_result = Inr (Reply_Operation (ex_status Phase_Running))\<rparr>, ex_driving)"
  using ex_dispatch ex_preflight ex_accept ex_execute
  by (simp add: handle_def mutate_def perform_def clears_domain_def unchanged_bolt_def run_simps
      Action_opcode_def)

end
