(* ===== verification/Device_Props.thy ===== *)
theory Device_Props
  imports Device_Steps Example_Env
begin

text \<open>
  The properties of the device controller of \<^verbatim>\<open>crates/openlock-core/src/device.rs\<close> over runs: any
  sequence of requests, callbacks, polls and platform events, including the failing ones.
\<close>

unbundle bit_operations_syntax

lemma runs_handle: "runs E c (snd (handle E x cmd c))"
  unfolding runs_def by (intro r_into_rtranclp step_handle [OF prod.collapse [symmetric]])

lemma poisoned_now_ms:
  "c_poisoned c \<Longrightarrow> now_ms E c = (Inl StorageUnavailable, snd (stop_poisoned_action E c))"
  by (simp add: now_ms_def stop_poisoned_action_def run_simps call_defs split: prod.split sum.split)

lemma stop_poisoned_keeps [simp]: "c_poisoned (snd (stop_poisoned_action E c)) = c_poisoned c"
  by (simp add: stop_poisoned_action_def run_simps call_defs split: prod.split sum.split)

lemma optional_guard_iff:
  "(case m of None \<Rightarrow> ret () | Some b \<Rightarrow> guard_err (P b) e) c = (Inr u, c')
     \<longleftrightarrow> c' = c \<and> (case m of None \<Rightarrow> True | Some b \<Rightarrow> \<not> P b)"
  by (auto simp: run_Inr_iffs split: option.split)

text \<open>C1. Durability: in every state a device can reach from one whose snapshot is valid and
  equals what the store would load, through any sequence of requests, callbacks and polls,
  successful or failing, the snapshot is again valid and, unless the controller has
  poisoned itself, equals what the store would load.\<close>

theorem runs_durable:
  assumes "storage_ok E" and "durable E c" and "runs E c c'"
  shows "DeviceSnapshot_validate (env_crypto E) (c_factory c') (c_state c') = Inr ()
    \<and> (c_poisoned c' \<or> env_load E (c_storage c') = Inr (Some (c_state c')))"
  using runs_evolves [OF assms(3)] assms(1,2) by (simp add: evolves_def durable_def)

theorem runs_durable_witness:
  "let c' = snd (handle ex_env ex_context ex_unlock ex_controller) in
     runs ex_env ex_controller c' \<and> DeviceSnapshot_validate ex_crypto (c_factory c') (c_state c') = Inr ()"
  using runs_durable [OF ex_storage_ok ex_durable runs_handle [of ex_env ex_controller ex_context ex_unlock]]
    runs_handle [of ex_env ex_controller ex_context ex_unlock] by (simp add: Let_def)

text \<open>C2. No rollback: over every run the clock floor never falls, the pairs of epoch and
  policy version and of session generation and audit cursor never fall, the firmware
  security version of a valid snapshot never falls, and within an epoch no watermark and
  no use counter falls, no revocation is forgotten and the owner does not change.\<close>

theorem runs_no_rollback:
  assumes "runs E c c'" and "DeviceSnapshot_validate (env_crypto E) (c_factory c) (c_state c) = Inr ()"
  shows "\<not> option_less (s_clock_floor (c_state c')) (s_clock_floor (c_state c))
    \<and> (s_epoch (c_state c), s_policy_version (c_state c))
        \<le> (s_epoch (c_state c'), s_policy_version (c_state c'))
    \<and> (s_generation (c_state c), s_next_cursor (c_state c))
        \<le> (s_generation (c_state c'), s_next_cursor (c_state c'))
    \<and> fs_security_version (s_firmware (c_state c)) \<le> fs_security_version (s_firmware (c_state c'))
    \<and> (s_epoch (c_state c') = s_epoch (c_state c) \<longrightarrow>
        (\<forall>i. get_or 0 (s_watermarks (c_state c)) i \<le> get_or 0 (s_watermarks (c_state c')) i)
        \<and> (\<forall>i. get_or 0 (s_uses (c_state c)) i \<le> get_or 0 (s_uses (c_state c')) i)
        \<and> s_revoked (c_state c) |\<subseteq>| s_revoked (c_state c')
        \<and> (s_owner (c_state c) \<noteq> None \<longrightarrow> s_owner (c_state c') = s_owner (c_state c)))"
proof -
  from runs_evolves [OF assms(1)] have "snap_le (c_state c) (c_state c')"
    by (simp add: evolves_def)
  with validate_firmware_fresh [OF assms(2)] show ?thesis
    unfolding snap_le_def snap_pre_def domain_le_def snapshot_key_def by blast
qed

theorem runs_no_rollback_witness:
  "let c' = snd (handle ex_env ex_context ex_unlock ex_controller) in
     DeviceSnapshot_validate ex_crypto (c_factory ex_controller) (c_state ex_controller) = Inr ()
     \<and> runs ex_env ex_controller c'
     \<and> (0, 0) \<le> (s_epoch (c_state c'), s_policy_version (c_state c'))
     \<and> fs_security_version (s_firmware (c_state ex_controller))
         \<le> fs_security_version (s_firmware (c_state c'))"
  using runs_no_rollback [OF runs_handle [of ex_env ex_controller ex_context ex_unlock]]
    runs_handle [of ex_env ex_controller ex_context ex_unlock] ex_durable
  by (simp add: Let_def durable_def)

text \<open>C3. Identifiers of drives are never reused: starting from an idle controller, two
  drives in progress at two moments of a run are the same drive, or the later one has the
  larger pair of generation and audit cursor, so a stale completion callback cannot name
  it.\<close>

theorem drives_distinct:
  assumes "c_active c0 = None" and "runs E c0 c1" and "c_active c1 = Some a"
    and "runs E c1 c2" and "c_active c2 = Some b"
  shows "a = b \<or> (ai_generation (a_id a), ai_audit_cursor (a_id a))
                  < (ai_generation (a_id b), ai_audit_cursor (a_id b))"
proof -
  have "actuation_key (a_id a) < snapshot_key (c_state c1)"
    using runs_evolves [OF assms(2)] assms(1,3) by (simp add: evolves_def drives_def)
  moreover have "a = b \<or> snapshot_key (c_state c1) \<le> actuation_key (a_id b)"
    using runs_evolves [OF assms(4)] assms(3,5) by (auto simp: evolves_def drives_def)
  ultimately show ?thesis unfolding actuation_key_def by (blast intro: less_le_trans)
qed

theorem drives_distinct_witness:
  "c_active ex_controller = None \<and> runs ex_env ex_controller ex_driving \<and> runs ex_env ex_driving ex_driving
     \<and> c_active ex_driving = Some ex_active \<and> (ex_active = ex_active
        \<or> (ai_generation (a_id ex_active), ai_audit_cursor (a_id ex_active))
            < (ai_generation (a_id ex_active), ai_audit_cursor (a_id ex_active)))"
proof -
  have "runs ex_env ex_controller ex_driving"
    using runs_handle [of ex_env ex_controller ex_context ex_unlock] by (simp add: ex_unlock_handled)
  moreover have "runs ex_env ex_driving ex_driving" by (simp add: runs_def)
  moreover have "c_active ex_driving = Some ex_active" by (simp add: ex_driving_def ex_started_def)
  ultimately show ?thesis
    using drives_distinct [of ex_controller ex_env ex_driving ex_active ex_driving ex_active] by simp
qed

text \<open>C4. A poisoned controller is inert: every request is refused with
  \<open>StorageUnavailable\<close>, and all it does is retry the stop of a drive still in
  progress.\<close>

theorem poisoned_handle:
  assumes "c_poisoned c"
  shows "handle E x cmd c
    = (Response_rejected (cmd_action cmd) StorageUnavailable, snd (stop_poisoned_action E c))"
  using assms
  by (simp add: handle_def dispatch_def hardware_changed_def observe_hardware_def run_simps
      poisoned_now_ms)

theorem poisoned_handle_witness:
  "fst (handle ex_env ex_context ex_unlock (ex_controller\<lparr>c_poisoned := True\<rparr>))
     = Response_rejected Unlock StorageUnavailable"
  using poisoned_handle [of "ex_controller\<lparr>c_poisoned := True\<rparr>" ex_env ex_context ex_unlock]
  by (simp add: ex_unlock_def)

text \<open>C5. Authorization, exactly: a request is authorized with a grant if and only if the
  session is of the current generation, the device has an owner whose issuer key is valid,
  the credential verifies under that key as this grant, the grant names this lock, this
  peer and this epoch, carries every right the action needs and is not revoked, a bounded
  validity contains a trusted clock sample, and the credential is the one bound to the
  grant's identifier, if any is bound.\<close>

theorem authorize_iff:
  "authorize E x cmd c = (Inr g, c') \<longleftrightarrow>
     sc_generation x = s_generation (c_state c)
     \<and> (\<exists>owner. s_owner (c_state c) = Some owner \<and> cr_vk_from_bytes (env_crypto E) (ow_issuer owner)
          \<and> read_grant (env_crypto E) (ow_issuer owner) (cmd_credential cmd) = Inr g)
     \<and> g_lock_id g = s_lock_id (c_state c) \<and> g_subject_key g = sc_peer x
     \<and> g_epoch g = s_epoch (c_state c)
     \<and> g_rights g AND Action_right (cmd_action cmd) = Action_right (cmd_action cmd)
     \<and> g_credential_id g |\<notin>| s_revoked (c_state c)
     \<and> (case g_validity g of None \<Rightarrow> c' = c
        | Some v \<Rightarrow> (\<exists>now. observe_hardware E True c = (Inr (Some now), c')
            \<and> v_not_before v \<le> cs_lower now \<and> cs_upper now < v_not_after v))
     \<and> (case fmlookup (s_bindings (c_state c')) (g_credential_id g) of None \<Rightarrow> True
        | Some binding \<Rightarrow> binding = cr_sha256 (env_crypto E) (cmd_credential cmd))"
  by (cases "g_validity g"; cases "fmlookup (s_bindings (c_state c')) (g_credential_id g)")
    (auto simp: authorize_def run_Inr_iffs optional_guard_iff outside_def not_less not_le)

end
