(* ===== verification/Device_Frames.thy ===== *)
theory Device_Frames
  imports Device_Steps
begin

text \<open>
  What the inner methods of the device controller leave alone. The locales \<open>clock_relation\<close> and
  \<open>storing_relation\<close> are about the calls that read the wall clock and store a snapshot;
  \<open>bookkeeping_relation\<close> collects the relations between controllers that storing, auditing,
  clock and relock bookkeeping and stopping a drive respect; \<open>sampling_relation\<close> and
  \<open>observing_relation\<close> those that a whole observation of the hardware respects;
  \<open>requesting_relation\<close> those that every request, callback and poll respects.
\<close>

text \<open>A method in stages: as long as the stages move along \<open>R\<close>, it may fail, and only then.\<close>

context step_relation
begin

lemma stage_bnd:
  assumes "R c d" "steps R m" "\<And>e d'. R c d' \<Longrightarrow> Q (Inl e) d'" "\<And>y d'. m d = (Inr y, d') \<Longrightarrow> R c d' \<Longrightarrow> wp (k y) Q d'"
  shows "wp (bnd m k) Q d"
proof (rule wpI)
  fix r d'
  assume run: "bnd m k d = (r, d')"
  obtain q e where m: "m d = (q, e)" by fastforce
  with assms(1,2) have e: "R c e" using R_trans stepsD by metis
  show "Q r d'"
  proof (cases q)
    case (Inl x)
    with m run assms(3) [OF e] show ?thesis by (auto simp: run_simps)
  next
    case (Inr y)
    with m run wpD [OF assms(4) [OF _ e]] show ?thesis by (simp add: run_simps)
  qed
qed

lemma stage_thn:
  "R c d \<Longrightarrow> steps R m \<Longrightarrow> (\<And>e d'. R c d' \<Longrightarrow> Q (Inl e) d') \<Longrightarrow> (\<And>d'. R c d' \<Longrightarrow> wp n Q d') \<Longrightarrow> wp (thn m n) Q d"
  unfolding thn_def by (rule stage_bnd)

end

text \<open>Relations that reading the wall clock and the volatile bookkeeping respect.\<close>

locale clock_relation = step_relation R
  for R :: "('s, 'p) DeviceController \<Rightarrow> ('s, 'p) DeviceController \<Rightarrow> bool" and E :: "('s, 'p) Env" +
  assumes R_clock: "R c (c\<lparr>c_platform := snd (env_wall_clock E (c_platform c))\<rparr>)"
    and R_volatile: "R c (c_relock_deadline_update x1 c)" "R c (c_fault_update x2 c)"
      "R c (c_last_idle_bolt_update x3 c)" "R c (c_door_open_since_update x4 c)"
begin

lemma clock_steps:
  "steps R (plat (env_wall_clock E))" "steps R (modify (c_relock_deadline_update x1))"
  "steps R (modify (c_fault_update x2))" "steps R (modify (c_last_idle_bolt_update x3))"
  "steps R (modify (c_door_open_since_update x4))"
  using R_clock by (auto simp: steps_def plat_def modify_def R_volatile split: prod.split) (metis snd_conv)

lemma wall_steps: "steps R (wall E)"
  unfolding wall_def by (intro monad_steps clock_steps)

lemma record_wall_steps: "steps R (record_wall E s)"
  unfolding record_wall_def by (intro monad_steps wall_steps)

lemma audit_steps: "steps R (audit E kind i seq code s)"
  unfolding audit_def by (intro monad_steps wall_steps record_wall_steps)

lemma schedule_relock_steps: "steps R (schedule_relock s t)"
  unfolding schedule_relock_def
  by (cases "dc_auto_relock (s_config s)") (auto intro!: monad_steps clock_steps)

lemma fail_operation_steps: "steps R (fail_operation E a code s)"
  unfolding fail_operation_def audit_automatic_def by (intro monad_steps audit_steps)

lemma door_changed_steps: "steps R (door_changed sample t s)"
  unfolding door_changed_def
  by (intro monad_steps clock_steps) (auto intro!: monad_steps clock_steps split: AutoRelock.split)

end

text \<open>Those that storing a snapshot respects too.\<close>

locale storing_relation = clock_relation R E
  for R :: "('s, 'p) DeviceController \<Rightarrow> ('s, 'p) DeviceController \<Rightarrow> bool" and E :: "('s, 'p) Env" +
  assumes R_commit: "steps R (commit E n)"
begin

lemma refresh_clock_steps: "steps R (refresh_clock E)"
  unfolding refresh_clock_def by (intro monad_steps clock_steps R_commit)

lemma observe_transition_steps: "steps R (observe_transition E t sample old idle prev clock locked)"
  unfolding observe_transition_def
  by (intro monad_steps clock_steps audit_steps R_commit schedule_relock_steps door_changed_steps)

end

text \<open>Relations on controllers that the bookkeeping calls respect: they change only the store,
  the platform, the snapshot and the fields below, and drop a drive or poison.\<close>

locale bookkeeping_relation = step_relation R
  for R :: "('s, 'p) DeviceController \<Rightarrow> ('s, 'p) DeviceController \<Rightarrow> bool" +
  assumes R_update: "R c (c_platform_update x1 c)" "R c (c_storage_update x2 c)" "R c (c_state_update x3 c)"
    "R c (c_relock_deadline_update x4 c)" "R c (c_fault_update x5 c)" "R c (c_last_idle_bolt_update x6 c)"
    "R c (c_door_open_since_update x7 c)" "R c (c\<lparr>c_active := None\<rparr>)" "R c (c\<lparr>c_poisoned := True\<rparr>)"
begin

lemma prim_steps:
  "steps R (plat f)" "steps R (plat_result g)" "steps R (store_result h)"
  "steps R (modify (c_relock_deadline_update x1))" "steps R (modify (c_fault_update x2))"
  "steps R (modify (c_last_idle_bolt_update x3))" "steps R (modify (c_door_open_since_update x4))"
  "steps R (modify (c_state_update x5))" "steps R (modify (c_active_update (\<lambda>_. None)))"
  "steps R (modify (c_poisoned_update (\<lambda>_. True)))"
  by (rule stepsI, simp add: R_update split: prod.split)+

lemmas all_steps = monad_steps prim_steps

lemma poison_steps: "steps R (poison E)"
  unfolding poison_def stop_poisoned_action_def by (intro all_steps)

lemma commit_steps: "steps R (commit E n)"
  unfolding commit_def by (intro all_steps poison_steps)

end

sublocale bookkeeping_relation \<subseteq> storing_relation R E for E
  by unfold_locales (simp_all add: R_update commit_steps)

context bookkeeping_relation
begin

lemma stop_unsafe_action_steps: "steps R (stop_unsafe_action E t)"
  unfolding stop_unsafe_action_def by (intro all_steps fail_operation_steps commit_steps)

lemma stop_blind_drive_steps: "steps R (stop_blind_drive E a s)"
  unfolding stop_blind_drive_def by (intro all_steps fail_operation_steps)

end

text \<open>Relations that observing the hardware as a whole respects, given that reading the
  monotonic clock does.\<close>

locale sampling_relation = bookkeeping_relation R
  for R :: "('s, 'p) DeviceController \<Rightarrow> ('s, 'p) DeviceController \<Rightarrow> bool" +
  assumes R_sample: "R c (c_sample_update x1 c)" and R_now: "steps R (now_ms E)"
begin

lemma sample_steps:
  "steps R (modify (c_sample_update f))" "steps R (modify (\<lambda>c. c\<lparr>c_sample := h c\<rparr>))"
  by (rule stepsI, simp add: R_sample)+

lemma observe_sensor_fault_steps: "steps R (observe_sensor_fault E b)"
  unfolding observe_sensor_fault_def
  by (intro all_steps sample_steps stop_blind_drive_steps audit_steps commit_steps refresh_clock_steps)

lemma observe_hardware_steps: "steps R (observe_hardware E b)"
  unfolding observe_hardware_def Let_def
  by (intro all_steps sample_steps R_now observe_sensor_fault_steps stop_unsafe_action_steps
      refresh_clock_steps observe_transition_steps)
    (auto intro!: all_steps split: Reading.split)

lemma hardware_changed_steps: "steps R (hardware_changed E)"
  unfolding hardware_changed_def by (intro all_steps observe_hardware_steps)

lemma authorize_steps: "steps R (authorize E x cmd)"
  unfolding authorize_def by (intro all_steps observe_hardware_steps)

end

text \<open>Relations that do not see the reading of the monotonic clock.\<close>

locale observing_relation = bookkeeping_relation R
  for R :: "('s, 'p) DeviceController \<Rightarrow> ('s, 'p) DeviceController \<Rightarrow> bool" +
  assumes R_observe: "R c (c_sample_update x1 c)" "R c (c_last_mono_update x2 c)"
begin

lemma now_ms_steps: "steps R (now_ms E)"
proof -
  have "steps R (modify (c_last_mono_update g))" for g by (rule stepsI) (simp add: R_observe)
  then show ?thesis
    unfolding now_ms_def stop_poisoned_action_def by (intro all_steps poison_steps)
qed

end

sublocale observing_relation \<subseteq> sampling_relation R
  by unfold_locales (simp_all add: R_observe now_ms_steps)

text \<open>
  Relations that every call respects but opening the pairing window, confirming in person and
  claiming: a request may also start a drive, drop a confirmation and close the window, and a
  confirmed image changes the reported firmware version.
\<close>

locale requesting_relation = sampling_relation R
  for R :: "('s, 'p) DeviceController \<Rightarrow> ('s, 'p) DeviceController \<Rightarrow> bool" +
  assumes R_request: "R c (c_active_update x1 c)" "R c (c\<lparr>c_confirmation := None\<rparr>)"
    "R c (c\<lparr>c_pairing_until := None, c_confirmation := None, c_relock_deadline := None\<rparr>)"
    "R c (c\<lparr>c_factory := (c_factory c)\<lparr>fi_info := (fi_info (c_factory c))\<lparr>di_firmware := v\<rparr>\<rparr>\<rparr>)"
begin

lemma request_steps:
  "steps R (modify (c_active_update f))" "steps R (modify (\<lambda>c. c\<lparr>c_active := g c\<rparr>))"
  "steps R (modify (c_confirmation_update (\<lambda>_. None)))"
  "steps R (modify (\<lambda>c. c\<lparr>c_pairing_until := None, c_confirmation := None, c_relock_deadline := None\<rparr>))"
  "steps R (modify (\<lambda>c. c\<lparr>c_factory := (c_factory c)\<lparr>fi_info := (fi_info (c_factory c))\<lparr>di_firmware := v\<rparr>\<rparr>\<rparr>))"
  "steps R (modify (\<lambda>c. c\<lparr>c_sample := h c, c_last_idle_bolt := k c\<rparr>))"
  "steps R (modify (\<lambda>c. if b c then c\<lparr>c_sample := h c\<rparr> else c))"
  by (rule stepsI, auto simp: R_request R_refl R_sample intro: R_trans [OF R_sample R_update(6)])+

lemmas work_steps = all_steps request_steps R_now observe_hardware_steps audit_steps commit_steps
  schedule_relock_steps

lemma boot_steps: "steps R (boot E)"
  unfolding boot_def by (intro work_steps)

lemma manifest_steps: "steps R (manifest E b)"
  unfolding manifest_def by (intro work_steps)

lemma query_steps: "steps R (query E g action)"
  unfolding query_def status_def
  by (rule bnd_step [OF gets_step]) (cases action; simp; intro work_steps wall_steps)

lemma preflight_steps: "steps R (preflight E g cmd t digest peer)"
proof -
  have admin: "steps R (preflight_admin E action t digest peer)" for action
    unfolding preflight_admin_def busy_def take_confirmation_def
    by (cases action; simp only: Action.case; intro work_steps boot_steps)
  have "steps R (preflight_action E clock action t digest peer)" for clock action
    unfolding preflight_action_def
    by (rule bnd_step [OF gets_step])
      (cases action; simp add: admin preflight_actuate_def preflight_config_def busy_def preflight_chunk_def
        preflight_policy_def Let_def; intro work_steps manifest_steps boot_steps)
  then show ?thesis unfolding preflight_def by (intro work_steps)
qed

lemma finish_steps: "steps R (finish E st phase evidence error)"
  unfolding finish_def by (intro work_steps)

lemma prepare_actuation_steps: "steps R (prepare_actuation E target)"
  unfolding prepare_actuation_def by (intro work_steps)

lemma execute_actuation_steps: "steps R (execute_actuation E target st)"
  unfolding execute_actuation_def by (intro work_steps prepare_actuation_steps finish_steps)

lemma execute_firmware_steps: "steps R (execute_firmware E action st s)"
  unfolding execute_firmware_def audit_operation_def
  by (cases action; simp only: Action.case; intro work_steps boot_steps manifest_steps)

lemma execute_steps: "steps R (execute E x cmd st t)"
proof -
  note defs = execute_config_def execute_policy_def execute_clock_def execute_reboot_def execute_factory_reset_def
    execute_replace_issuer_def execute_rotate_def audit_operation_def Let_def
  have "steps R (execute_arm E x action st t)" for action
    unfolding execute_arm_def
    by (rule bnd_step [OF gets_step])
      (cases action; simp only: Action.case is_firmware_action_def if_True if_False defs;
        intro work_steps execute_actuation_steps execute_firmware_steps)
  then show ?thesis unfolding execute_def audit_operation_def by (intro work_steps)
qed

lemma accept_steps: "steps R (accept E g cmd seq digest st nc t)"
  unfolding accept_def record_wall_def by (intro work_steps wall_steps)

lemma perform_steps: "steps R (perform E x cmd g seq digest st t clears)"
  unfolding perform_def by (intro work_steps execute_steps accept_steps finish_steps)

lemma clears_domain_steps: "steps R (clears_domain E action)"
  unfolding clears_domain_def by (cases action; simp; intro work_steps)

lemma dispatch_granted_steps: "steps R (dispatch_granted E x cmd g t)"
  unfolding dispatch_granted_def mutate_def replay_def
  by (intro work_steps query_steps preflight_steps clears_domain_steps perform_steps)

lemma actuator_finished_steps: "steps R (actuator_finished E i result)"
proof -
  have "steps R (complete_actuation E active result t)" for active t
    unfolding complete_actuation_def audit_automatic_def
    by (intro work_steps finish_steps) (auto split: prod.split intro!: work_steps finish_steps)
  then show ?thesis unfolding actuator_finished_def by (intro work_steps hardware_changed_steps)
qed

lemma reconcile_boot_steps: "steps R (reconcile_boot E)"
  unfolding reconcile_boot_def by (intro work_steps boot_steps)

lemma poll_steps: "steps R (poll E)"
  unfolding poll_def poll_door_def poll_relock_def end_automatic_def audit_automatic_def
  by (intro work_steps hardware_changed_steps reconcile_boot_steps prepare_actuation_steps)

lemma dispatch_steps:
  assumes "\<And>key issuer admin t. cmd_action cmd = Claim key issuer admin \<Longrightarrow> steps R (claim E x key issuer admin t)"
  shows "steps R (dispatch E x cmd)"
  unfolding dispatch_def
  by (intro work_steps hardware_changed_steps; cases "cmd_action cmd"; simp add: assms;
      intro work_steps authorize_steps dispatch_granted_steps)

lemma handle_step:
  assumes "\<And>key issuer admin t. cmd_action cmd = Claim key issuer admin \<Longrightarrow> steps R (claim E x key issuer admin t)"
    and "handle E x cmd c = (rsp, c')"
  shows "R c c'"
proof -
  obtain r d where rd: "dispatch E x cmd c = (r, d)" by (cases "dispatch E x cmd c")
  then have "R c d" using stepsD [OF dispatch_steps [OF assms(1)]] by blast
  moreover have "R d d'" if "bnd (audit E Audit_Rejected None None code (c_state d)) (commit E) d = (q, d')" for code q d'
    using stepsD [OF bnd_step [OF audit_steps commit_steps] that] .
  ultimately show ?thesis
    using assms(2) rd by (auto simp: handle_def split: sum.splits if_splits prod.splits intro: R_trans)
qed

end

end
