(* ===== verification/Request_Props.thy ===== *)
theory Request_Props
  imports Device_Frames Example_Env
begin

text \<open>
  Properties of single requests to the device controller of \<^verbatim>\<open>crates/openlock-core/src/device.rs\<close>:
  replay protection, acceptance before performance, and claiming.
\<close>

unbundle bit_operations_syntax

section \<open>Exact results of the shared calls\<close>

lemma commit_Inr_iff:
  "commit E n c = (Inr u, c') \<longleftrightarrow> \<not> c_poisoned c \<and> \<not> option_less (s_clock_floor n) (s_clock_floor (c_state c))
     \<and> DeviceSnapshot_validate (env_crypto E) (c_factory c) n = Inr ()
     \<and> (\<exists>s. env_commit E n (c_storage c) = (Inr (), s) \<and> c' = c\<lparr>c_storage := s, c_state := n\<rparr>)"
  by (auto simp: commit_def run_simps store_result_def is_ok_def split: prod.splits sum.splits)

lemma audit_Inr:
  assumes "audit E kind i seq code s c = (Inr s', c')"
  shows "audited s s' \<and> (\<exists>p. c' = c\<lparr>c_platform := p\<rparr>)"
proof -
  have "wp (audit E kind i seq code s)
      (\<lambda>r c'. \<forall>s'. r = Inr s' \<longrightarrow> audited s s' \<and> (\<exists>p. c' = c\<lparr>c_platform := p\<rparr>)) c"
    by (rule audit_wp) auto
  from wpD [OF this assms] show ?thesis by simp
qed

lemma audit_keeps:
  assumes "audit E kind i seq code s c = (Inr s', c')"
  shows "(\<exists>p. c' = c\<lparr>c_platform := p\<rparr>) \<and> s_owner s' = s_owner s \<and> s_epoch s' = s_epoch s
    \<and> s_generation s' = s_generation s \<and> s_bindings s' = s_bindings s"
proof -
  from audit_Inr [OF assms] have core: "core s' = core s" and "\<exists>p. c' = c\<lparr>c_platform := p\<rparr>"
    by (simp_all add: audited_def)
  then show ?thesis by (simp add: core_eqD [OF core])
qed

lemma record_wall_Inr:
  assumes "record_wall E s c = (Inr s', c')"
  shows "(\<exists>f. s' = s\<lparr>s_clock_floor := f\<rparr>) \<and> (\<exists>p. c' = c\<lparr>c_platform := p\<rparr>)"
proof -
  have "wp (record_wall E s) (\<lambda>r c'. \<forall>s'. r = Inr s' \<longrightarrow>
      (\<exists>f. s' = s\<lparr>s_clock_floor := f\<rparr>) \<and> (\<exists>p. c' = c\<lparr>c_platform := p\<rparr>)) c"
    by (rule record_wall_wp) blast
  from wpD [OF this assms] show ?thesis by simp
qed

lemma ex_replay:
  "s_operations ex_running = [\<lparr>or_digest = ex_digest, or_status = ex_status Phase_Running\<rparr>]"
  "get_or 0 (s_watermarks ex_running) ex_credential_id = 1"
  "c_state ex_driving = ex_running"
  by (simp_all add: ex_running_def ex_accepted_def ex_driving_def)

text \<open>Observing the example hardware at rest changes nothing.\<close>

lemma ex_observe_rest:
  assumes "c_active d = None" "\<not> c_poisoned d" "c_last_mono d = 1000" "c_sample d = ex_sample"
    "c_factory d = ex_factory" "c_last_idle_bolt d = Some Locked"
    "s_clock_valid (c_state d)" "s_clock_floor (c_state d) = Some 100" "\<not> s_pending_relock (c_state d)"
  shows "observe_hardware ex_env b d = (Inr (Some \<lparr>cs_lower = 100, cs_upper = 101\<rparr>), d)"
    and "now_ms ex_env d = (Inr 1000, d)"
  using assms
  by (cases d; simp add: observe_hardware_def now_ms_def run_simps call_defs validate_sample_def
      reading_valid_def stop_unsafe_action_def refresh_clock_def option_filter_def is_ok_def)+

section \<open>Replay and acceptance\<close>

text \<open>C10. At most once: once a credential's watermark has reached a sequence number, then
  after any further run within the epoch a mutating command with that number, or a lower
  one, changes nothing at all. It is answered with the recorded status of that very
  command, with \<open>Conflict\<close> if the recorded command was a different one, and with
  \<open>ResultUnavailable\<close> if the record is gone.\<close>

theorem replay_at_most_once:
  assumes "Action_mutates (cmd_action cmd)" and "cmd_sequence cmd = Some seq"
    and "encode_wire (env_crypto E) Command_value cmd = Inr encoded"
    and "seq \<le> get_or 0 (s_watermarks (c_state c)) (g_credential_id g)"
    and "runs E c c'" and "s_epoch (c_state c') = s_epoch (c_state c)"
  shows "dispatch_granted E x cmd g t c' =
    ((case find (operation_is (g_credential_id g) seq) (s_operations (c_state c')) of
        None \<Rightarrow> Inl ResultUnavailable
      | Some r \<Rightarrow> if or_digest r = cr_sha256 (env_crypto E) encoded
                  then Inr (Reply_Operation (or_status r)) else Inl Conflict), c')"
proof -
  from runs_evolves [OF assms(5)] assms(6)
  have "get_or 0 (s_watermarks (c_state c)) i \<le> get_or 0 (s_watermarks (c_state c')) i" for i
    by (simp add: evolves_def snap_le_def snap_pre_def domain_le_def)
  with assms(4) have "seq \<le> get_or 0 (s_watermarks (c_state c')) (g_credential_id g)"
    by (blast intro: order_trans)
  with assms(1-3) show ?thesis
    by (simp add: dispatch_granted_def replay_def run_simps Let_def ok_or_def split: option.split)
qed

theorem replay_at_most_once_witness:
  "dispatch_granted ex_env ex_context ex_unlock ex_grant 1000 ex_driving
     = (Inr (Reply_Operation (ex_status Phase_Running)), ex_driving)"
  using replay_at_most_once [of ex_unlock 1 ex_env "put_value (Command_value ex_unlock)" ex_driving
      ex_grant ex_driving ex_context 1000]
  by (simp add: ex_encode ex_replay runs_def Action_mutates_def operation_is_def ex_digest_def)

text \<open>The platform was only asked for the wall time.\<close>

definition wall_reads :: "('s, 'p) Env \<Rightarrow> 'p \<Rightarrow> 'p \<Rightarrow> bool" where
  "wall_reads E p q \<longleftrightarrow> (\<exists>n. q = ((\<lambda>p. snd (env_wall_clock E p)) ^^ n) p)"

lemma wall_reads_refl [simp]: "wall_reads E p p"
  unfolding wall_reads_def by (rule exI [of _ 0]) simp

lemma wall_reads_step: "wall_reads E p (snd (env_wall_clock E p))"
  unfolding wall_reads_def by (rule exI [of _ 1]) simp

lemma wall_reads_trans: "wall_reads E p q \<Longrightarrow> wall_reads E q r \<Longrightarrow> wall_reads E p r"
  unfolding wall_reads_def by (metis comp_apply funpow_add)

definition only_reads :: "('s, 'p) Env \<Rightarrow> ('s, 'p) DeviceController \<Rightarrow> ('s, 'p) DeviceController \<Rightarrow> bool" where
  "only_reads E c c' \<longleftrightarrow> wall_reads E (c_platform c) (c_platform c') \<and> c_state c' = c_state c
     \<and> c_storage c' = c_storage c \<and> c_active c' = c_active c \<and> c_sample c' = c_sample c"

interpretation orr: clock_relation "only_reads E" E for E
  by unfold_locales (auto simp: only_reads_def wall_reads_step intro: wall_reads_trans)

lemma commit_Inl_state: "commit E n c = (Inl e, c') \<Longrightarrow> c_state c' = c_state c"
proof -
  have "wp (commit E n) (\<lambda>r c'. \<forall>e. r = Inl e \<longrightarrow> c_state c' = c_state c) c"
    by (auto simp: commit_def poison_def stop_poisoned_action_def split: prod.split sum.split)
  then show "commit E n c = (Inl e, c') \<Longrightarrow> c_state c' = c_state c" by (auto dest: wpD)
qed

text \<open>A method that reads, reads, and then commits: it fails with the old snapshot, or it only
  read before it committed.\<close>

definition reads_then_commits ::
  "('s, 'p) Env \<Rightarrow> ('s, 'p) DeviceController \<Rightarrow> Error + unit \<Rightarrow> ('s, 'p) DeviceController \<Rightarrow> bool" where
  "reads_then_commits E c r c' \<longleftrightarrow> (case r of Inl e \<Rightarrow> c_state c' = c_state c
     | Inr _ \<Rightarrow> wall_reads E (c_platform c) (c_platform c'))"

lemma reads_commit: "only_reads E c d \<Longrightarrow> wp (commit E n) (reads_then_commits E c) d"
  by (intro wpI) (auto simp: reads_then_commits_def commit_Inr_iff only_reads_def dest: commit_Inl_state split: sum.split)

lemma accept_reads: "wp (accept E g cmd seq digest st nc t) (reads_then_commits E c) c"
proof -
  have err: "reads_then_commits E c (Inl e) d" if "only_reads E c d" for e d
    using that by (simp add: reads_then_commits_def only_reads_def)
  show ?thesis
    unfolding accept_def Let_def
    by (intro orr.stage_bnd [of E c] orr.stage_thn [of E c] orr.R_refl reads_commit orr.monad_steps orr.record_wall_steps
        orr.audit_steps orr.schedule_relock_steps orr.clock_steps err; assumption?)
qed

text \<open>What acceptance has put on record, in the store.\<close>

definition recorded ::
  "('s, 'p) Env \<Rightarrow> Grant \<Rightarrow> Command \<Rightarrow> u64 \<Rightarrow> bytes \<Rightarrow> OperationStatus \<Rightarrow> bool
     \<Rightarrow> ('s, 'p) DeviceController \<Rightarrow> ('s, 'p) DeviceController \<Rightarrow> bool" where
  "recorded E g cmd seq digest st no_change c d \<longleftrightarrow>
    env_load E (c_storage d) = Inr (Some (c_state d))
    \<and> s_watermarks (c_state d) = fmupd (g_credential_id g) seq (s_watermarks (c_state c))
    \<and> s_bindings (c_state d) = fmupd (g_credential_id g) (cr_sha256 (env_crypto E) (cmd_credential cmd))
        (s_bindings (c_state c))
    \<and> (if cmd_action cmd = Unlock \<and> \<not> no_change
       then s_uses (c_state d) = fmupd (g_credential_id g)
              (get_or 0 (s_uses (c_state c)) (g_credential_id g) + 1) (s_uses (c_state c))
         \<and> (case g_max_uses g of None \<Rightarrow> True
            | Some limit \<Rightarrow> get_or 0 (s_uses (c_state c)) (g_credential_id g) < limit)
       else s_uses (c_state d) = s_uses (c_state c))
    \<and> last (s_operations (c_state d)) = \<lparr>or_digest = digest, or_status = st\<rparr>
    \<and> s_owner (c_state d) = s_owner (c_state c) \<and> s_epoch (c_state d) = s_epoch (c_state c)
    \<and> s_revoked (c_state d) = s_revoked (c_state c) \<and> s_config (c_state d) = s_config (c_state c)
    \<and> s_firmware (c_state d) = s_firmware (c_state c)
    \<and> s_device_key (c_state d) = s_device_key (c_state c)"

lemma accept_recorded:
  assumes "storage_ok E" and "durable E c"
    and "get_or 0 (s_watermarks (c_state c)) (g_credential_id g) < seq"
    and "accept E g cmd seq digest st no_change t c = (Inr (), d)"
  shows "recorded E g cmd seq digest st no_change c d"
proof -
  have "wp (accept E g cmd seq digest st no_change t)
      (\<lambda>r c'. r = Inr () \<longrightarrow> evolves snap_le E c c' \<and> accepted E g cmd seq digest st no_change c c') c"
    by (rule accept_wp [of E c]) (auto simp: sl.evolves_refl assms(3))
  from wpD [OF this assms(4)] have ev: "evolves snap_le E c d"
    and acc: "accepted E g cmd seq digest st no_change c d" by auto
  then have load: "env_load E (c_storage d) = Inr (Some (c_state d))"
    using assms(1,2) by (simp add: evolves_def durable_def accepted_def)
  from acc have frame: "frame (c_state d) = frame (c_state c)"
    by (simp add: accepted_def accepts_def)
  from acc show ?thesis
    unfolding accepted_def accepts_def uses_step_def recorded_def
    using load by (auto simp: frame_eqD [OF frame] checked_add_Some_iff split: option.split if_splits)
qed

text \<open>C11. Nothing is performed before it is on record: a command that does not open a new epoch is
  performed in two steps. First it is accepted. If that fails, the command ends there with
  that error and the snapshot it found. If it succeeds, the platform has only been asked for
  the wall time, and the store already holds the raised watermark of the credential, its
  binding, one more use if it is an unlock that moves the bolt, which is possible only below
  the limit of the grant, and the record of the operation, while ownership, epoch,
  revocations, configuration, firmware and keys are untouched. Only from that state is it
  executed, and its end is put on record; a command that changes nothing is just finished.\<close>

theorem performed_after_recorded:
  assumes "storage_ok E" and "durable E c"
    and "get_or 0 (s_watermarks (c_state c)) (g_credential_id g) < seq"
    and "perform E x cmd g seq digest st t False c = (r, c')"
  shows "let no_change = unchanged_bolt (cmd_action cmd) (c_sample c) in
    case accept E g cmd seq digest st no_change t c of
      (Inl e, d) \<Rightarrow> r = Inl e \<and> c' = d \<and> c_state d = c_state c
    | (Inr _, d) \<Rightarrow> recorded E g cmd seq digest st no_change c d \<and> wall_reads E (c_platform c) (c_platform d)
        \<and> (if no_change then finish E st Phase_Completed Evidence_NoChange 0 d = (r, c')
           else case execute E x cmd st t d of
               (Inr (Some reply), d') \<Rightarrow> r = Inr reply \<and> c' = d'
             | (Inr None, d') \<Rightarrow> finish E st Phase_Completed Evidence_None 0 d' = (r, c')
             | (Inl e, d') \<Rightarrow>
                 if c_poisoned d' then r = Inl e \<and> c' = d'
                 else finish E st Phase_Failed Evidence_None (Error_code e) d' = (r, c'))"
proof -
  define nc where "nc = unchanged_bolt (cmd_action cmd) (c_sample c)"
  obtain q d where q: "accept E g cmd seq digest st nc t c = (q, d)" by fastforce
  note reads = wpD [OF accept_reads q]
  have run: "perform E x cmd g seq digest st t False c = (case q of Inl e \<Rightarrow> (Inl e, d) | Inr _ \<Rightarrow>
      (if nc then finish E st Phase_Completed Evidence_NoChange 0 d
       else case execute E x cmd st t d of
           (Inr (Some reply), d') \<Rightarrow> (Inr reply, d')
         | (Inr None, d') \<Rightarrow> finish E st Phase_Completed Evidence_None 0 d'
         | (Inl e, d') \<Rightarrow> if c_poisoned d' then (Inl e, d')
             else finish E st Phase_Failed Evidence_None (Error_code e) d'))"
    using q by (auto simp: perform_def Let_def nc_def [symmetric] run_simps split: sum.split prod.split option.split)
  show ?thesis
  proof (cases q)
    case (Inl e)
    with reads run assms(4) q show ?thesis by (simp add: nc_def [symmetric] reads_then_commits_def)
  next
    case (Inr u)
    with q have acc: "accept E g cmd seq digest st nc t c = (Inr (), d)" by simp
    from accept_recorded [OF assms(1-3) acc] reads Inr run assms(4) acc show ?thesis
      by (auto simp: nc_def [symmetric] reads_then_commits_def split: sum.splits prod.splits option.splits if_splits)
  qed
qed

theorem performed_after_recorded_witness:
  "\<exists>d. accept ex_env ex_grant ex_unlock 1 ex_digest (ex_status Phase_Accepted) False 1000 ex_controller = (Inr (), d)
     \<and> s_uses (c_state d) = fmupd ex_credential_id 1 fmempty
     \<and> s_watermarks (c_state d) = fmupd ex_credential_id 1 fmempty
     \<and> env_load ex_env (c_storage d) = Inr (Some (c_state d))"
proof -
  obtain r c' where p: "perform ex_env ex_context ex_unlock ex_grant 1 ex_digest (ex_status Phase_Accepted) 1000 False ex_controller
      = (r, c')" by fastforce
  from performed_after_recorded [OF ex_storage_ok ex_durable _ p] ex_accept show ?thesis
    by (simp add: recorded_def unchanged_bolt_def word_less_nat_alt)
qed

section \<open>Claiming\<close>

definition ex_unclaimed :: "(DeviceSnapshot option, ex_platform) DeviceController" where
  "ex_unclaimed = ex_controller\<lparr>c_state := ex_state\<lparr>s_owner := None\<rparr>, c_pairing_until := Some 5000,
     c_pairing_failures := 0\<rparr>"

text \<open>C13. Claiming: a claim that succeeds was made on a device without owner, inside an open
  pairing window with fewer than five failures, with the setup key, and with an admin
  grant for this lock, this peer and this epoch that carries all rights without use limit
  or expiry and is signed by the claimed issuer. It makes the issuer and the peer the
  owner, binds the admin credential, starts the next session generation within the same
  epoch, which both are the reply, and closes the window.\<close>

theorem claim_sound:
  assumes "claim E x key issuer admin t c = (Inr reply, c')"
  shows "s_owner (c_state c) = None \<and> (\<exists>until. c_pairing_until c = Some until \<and> t < until)
    \<and> c_pairing_failures c < 5 \<and> cr_sha256 (env_crypto E) key = fi_setup_key_hash (c_factory c)
    \<and> (\<exists>g. read_grant (env_crypto E) issuer admin = Inr g \<and> g_lock_id g = s_lock_id (c_state c)
          \<and> g_subject_key g = sc_peer x \<and> g_epoch g = s_epoch (c_state c) \<and> g_rights g = KNOWN_RIGHTS
          \<and> g_max_uses g = None \<and> g_validity g = None
          \<and> s_bindings (c_state c') = fmupd (g_credential_id g) (cr_sha256 (env_crypto E) admin)
              (s_bindings (c_state c)))
    \<and> s_owner (c_state c') = Some \<lparr>ow_issuer = issuer, ow_first_admin = sc_peer x\<rparr>
    \<and> checked_add (s_generation (c_state c)) 1 = Some (s_generation (c_state c'))
    \<and> s_epoch (c_state c') = s_epoch (c_state c)
    \<and> reply = Reply_Claimed (s_epoch (c_state c')) (s_generation (c_state c'))
    \<and> c_pairing_until c' = None \<and> c_confirmation c' = None"
  using assms
  by (auto simp: claim_def run_Inr_iffs commit_Inr_iff is_none_or_def not_le Let_def
      split: option.splits if_splits dest!: audit_keeps record_wall_Inr)


definition ex_admin_grant :: Grant where "ex_admin_grant = ex_grant\<lparr>g_max_uses := None\<rparr>"

definition ex_admin :: bytes where
  "ex_admin = projr (sign_grant ex_crypto ex_key ex_admin_grant)"

lemma ex_read_admin: "read_grant ex_crypto ex_key ex_admin = Inr ex_admin_grant"
proof -
  have "value_size (grant_value ex_admin_grant) = 159"
    by (simp add: grant_value_def ex_admin_grant_def)
  moreover have "length GRANT = 17" by (simp add: GRANT_def ascii_def)
  moreover have wf: "Grant_wf ex_admin_grant"
    by (simp add: Grant_wf_def validate_grant_def ex_admin_grant_def KNOWN_RIGHTS_def
        CredentialId_wf_def LockId_wf_def SubjectKey_wf_def)
  ultimately obtain b where "sign_grant ex_crypto ex_key ex_admin_grant = Inr b"
    using ex_sign_object [of "grant_value ex_admin_grant" GRANT ex_key]
    by (auto simp: sign_grant_def Grant_wf_def)
  with read_sign_grant [of ex_crypto ex_admin_grant ex_key b] wf show ?thesis
    by (simp add: ex_admin_def)
qed

lemma ex_claim:
  "\<exists>c'. claim ex_env ex_context [4, 2] ex_key ex_admin 1000 ex_unclaimed = (Inr (Reply_Claimed 0 2), c')"
  using ex_read_admin
  apply (simp add: claim_def run_simps ex_unclaimed_def eval_defs ex_admin_grant_def)
  apply (subst ex_commit)
  apply (simp_all add: DeviceSnapshot_validate_iff firmware_validate_empty run_simps)
  apply (simp add: empty_firmware_def word_le_nat_alt)
  done

theorem claim_sound_witness:
  "\<exists>c'. claim ex_env ex_context [4, 2] ex_key ex_admin 1000 ex_unclaimed = (Inr (Reply_Claimed 0 2), c')
     \<and> s_owner (c_state c') = Some \<lparr>ow_issuer = ex_key, ow_first_admin = ex_peer\<rparr> \<and> c_pairing_until c' = None"
proof -
  from ex_claim obtain c' where
    "claim ex_env ex_context [4, 2] ex_key ex_admin 1000 ex_unclaimed = (Inr (Reply_Claimed 0 2), c')" ..
  with claim_sound [OF this] show ?thesis by simp
qed

end
