(* ===== verification/Drive_Props.thy ===== *)
theory Drive_Props
  imports Request_Props Device_Frames
begin

text \<open>
  Safety of the actuator in \<^verbatim>\<open>crates/openlock-core/src/device.rs\<close>: a drive in progress is
  re-checked against the interlocks by every observation of the hardware and stopped when
  they no longer hold, and a completion callback acts only on the drive it names. The
  platform is part of the state, so the calls made to it are part of the statements.
\<close>

unbundle bit_operations_syntax

section \<open>What follows a stop, and what leaves a drive alone\<close>

definition idle_reads :: "('s, 'p) Env \<Rightarrow> ('s, 'p) DeviceController \<Rightarrow> ('s, 'p) DeviceController \<Rightarrow> bool" where
  "idle_reads E c c' \<longleftrightarrow> (c_active c = None \<longrightarrow>
     c_active c' = None \<and> wall_reads E (c_platform c) (c_platform c'))"

definition keeps_drive :: "('s, 'p) Env \<Rightarrow> ('s, 'p) DeviceController \<Rightarrow> ('s, 'p) DeviceController \<Rightarrow> bool" where
  "keeps_drive E c c' \<longleftrightarrow> (c_poisoned c \<longrightarrow> c_poisoned c')
     \<and> (c_poisoned c' \<or> c_active c' = c_active c \<and> wall_reads E (c_platform c) (c_platform c'))"

lemma idle_commit: "steps (idle_reads E) (commit E n)"
  by (rule stepsI) (auto simp: commit_def poison_def stop_poisoned_action_def idle_reads_def split: prod.split sum.split)

lemma keeps_commit: "steps (keeps_drive E) (commit E n)"
  by (rule stepsI) (auto simp: commit_def poison_def stop_poisoned_action_def keeps_drive_def split: prod.split sum.split)

interpretation ir: storing_relation "idle_reads E" E for E
  by unfold_locales (auto simp: idle_reads_def wall_reads_step idle_commit intro: wall_reads_trans)

interpretation kd: storing_relation "keeps_drive E" E for E
  by unfold_locales (auto simp: keeps_drive_def wall_reads_step keeps_commit intro: wall_reads_trans)

section \<open>Interlocks while driving\<close>

text \<open>A drive is in danger when the sample is not one the device can produce, when the bolt is
  being driven out and the sample does not permit locking, or when it is overdue.\<close>

definition endangered :: "DeviceInfo \<Rightarrow> Active \<Rightarrow> u64 \<Rightarrow> HardwareState \<Rightarrow> bool" where
  "endangered i a t sample \<longleftrightarrow> validate_sample i sample \<noteq> Inr ()
     \<or> (a_target a = Target_Lock \<and> can_lock_sample i sample \<noteq> Inr ())
     \<or> a_deadline a \<le> t"

text \<open>How the danger must end: stopped, with nothing but the wall time asked afterwards, or, when
  the actuator cannot be stopped, poisoned.\<close>

definition drive_stopped ::
  "('s, 'p) Env \<Rightarrow> Active \<Rightarrow> 'p \<Rightarrow> (Error + 'r) \<Rightarrow> ('s, 'p) DeviceController \<Rightarrow> bool" where
  "drive_stopped E a q r c' \<longleftrightarrow> (case env_stop_action E q of
       (Inr _, s) \<Rightarrow> c_active c' = None \<and> wall_reads E s (c_platform c')
     | (Inl _, s) \<Rightarrow> c_poisoned c' \<and> c_active c' = Some a \<and> c_platform c' = s \<and> r = Inl ActuatorFailed)"

definition at_rest :: "('s, 'p) Env \<Rightarrow> 'p \<Rightarrow> ('s, 'p) DeviceController \<Rightarrow> bool" where
  "at_rest E s c \<longleftrightarrow> c_active c = None \<and> wall_reads E s (c_platform c)"

lemma at_rest_update [simp]:
  "at_rest E s (c_relock_deadline_update f c) = at_rest E s c" "at_rest E s (c_fault_update g c) = at_rest E s c"
  "at_rest E s (c_last_idle_bolt_update h c) = at_rest E s c"
  "at_rest E s (c\<lparr>c_platform := s, c_active := None\<rparr>)"
  by (simp_all add: at_rest_def)

lemma at_rest_wp:
  "steps (idle_reads E) m \<Longrightarrow> at_rest E s d \<Longrightarrow> (\<And>r d'. at_rest E s d' \<Longrightarrow> Q r d') \<Longrightarrow> wp m Q d"
  by (erule steps_wpI) (auto simp: at_rest_def idle_reads_def intro: wall_reads_trans)

lemma drive_stopped_rest: "env_stop_action E q = (Inr u, s) \<Longrightarrow> at_rest E s c' \<Longrightarrow> drive_stopped E a q r c'"
  by (simp add: drive_stopped_def at_rest_def)

lemma stop_unsafe_stops:
  assumes "c_active c = Some a" "unsafe_reason c a t = Some e" "c_platform c = q" "steps (idle_reads E) m"
  shows "wp (thn (stop_unsafe_action E t) m) (drive_stopped E a q) c"
proof (cases "env_stop_action E q")
  case (Pair stopped s)
  show ?thesis
  proof (cases stopped)
    case (Inl err)
    with Pair assms show ?thesis by (auto simp: stop_unsafe_action_def is_ok_def drive_stopped_def)
  next
    case (Inr u)
    with Pair assms drive_stopped_rest [of E q u s] show ?thesis
      by (auto simp: stop_unsafe_action_def is_ok_def Let_def
          intro!: at_rest_wp [where s = s, OF ir.fail_operation_steps] at_rest_wp [where s = s, OF idle_commit] at_rest_wp [where s = s, OF assms(4)]
          split: sum.split)
  qed
qed

lemma sensor_fault_stops:
  assumes "c_active c = Some a" "c_platform c = q"
  shows "wp (observe_sensor_fault E allow) (drive_stopped E a q) c"
proof (cases "env_stop_action E q")
  case (Pair stopped s)
  show ?thesis
  proof (cases stopped)
    case (Inl err)
    with Pair assms show ?thesis
      by (auto simp: observe_sensor_fault_def stop_blind_drive_def is_ok_def drive_stopped_def)
  next
    case (Inr u)
    with Pair assms drive_stopped_rest [of E q u s] show ?thesis
      by (auto simp: observe_sensor_fault_def stop_blind_drive_def is_ok_def Let_def
          intro!: at_rest_wp [where s = s, OF ir.fail_operation_steps] at_rest_wp [where s = s, OF idle_commit]
            at_rest_wp [where s = s, OF ir.audit_steps] at_rest_wp [where s = s, OF ir.refresh_clock_steps]
          split: sum.split)
  qed
qed

text \<open>What \<open>observe_hardware\<close> does after the interlocks have been checked.\<close>

definition observe_rest ::
  "('s, 'p) Env \<Rightarrow> u64 \<Rightarrow> HardwareState \<Rightarrow> HardwareState \<Rightarrow> bool \<Rightarrow> BoltState option \<Rightarrow> ('s, 'p, ClockSample option) ctl" where
  "observe_rest E t sample old idle prev =
     bnd (refresh_clock E) (\<lambda>clock.
     thn (if idle then (case hw_bolt sample of
              Known bolt \<Rightarrow> modify (c_last_idle_bolt_update (\<lambda>_. Some bolt)) | _ \<Rightarrow> ret ())
          else ret ()) (
     bnd (gets id) (\<lambda>c.
     let confirmed_locked = hw_bolt sample = Known Locked
           \<and> \<not> is_some_and (\<lambda>a. a_target a = Target_Unlock) (c_active c) in
     if sample = old \<and> \<not> (confirmed_locked \<and> s_pending_relock (c_state c)) then ret clock
     else observe_transition E t sample old idle prev clock confirmed_locked)))"

lemma observe_rest_steps: "storing_relation R E \<Longrightarrow> steps R (observe_rest E t sample old idle prev)"
proof -
  assume R: "storing_relation R E"
  then have c: "clock_relation R E" by (rule storing_relation.axioms)
  then have s: "step_relation R" by (rule clock_relation.axioms)
  show ?thesis
    unfolding observe_rest_def Let_def
    by (intro step_relation.monad_steps [OF s] storing_relation.refresh_clock_steps [OF R]
        storing_relation.observe_transition_steps [OF R])
      (auto intro!: step_relation.monad_steps [OF s] clock_relation.clock_steps [OF c] split: Reading.split)
qed

lemma observe_hardware_run:
  assumes "\<not> c_poisoned c" "env_monotonic_ms E (c_platform c) = (t, p)" "c_last_mono c \<le> t"
    "env_sensors E p = (sample, q)"
  shows "observe_hardware E allow c =
    (let d = c\<lparr>c_last_mono := t, c_platform := q\<rparr> in
     if validate_sample (fi_info (c_factory c)) sample \<noteq> Inr () then observe_sensor_fault E allow d
     else thn (stop_unsafe_action E t)
       (observe_rest E t sample (c_sample c) (c_active c = None) (c_last_idle_bolt c)) (d\<lparr>c_sample := sample\<rparr>))"
proof -
  have "now_ms E c = (Inr t, c\<lparr>c_platform := p, c_last_mono := t\<rparr>)"
    using assms by (simp add: now_ms_def run_simps plat_def leD)
  with assms(4) show ?thesis
    by (cases "validate_sample (fi_info (c_factory c)) sample")
      (simp_all add: observe_hardware_def run_simps plat_def observe_rest_def Let_def is_ok_def)
qed

text \<open>C14. Interlocks while driving: when the hardware is observed during a drive, and the monotonic
  clock has not run backwards, then the drive is stopped if it is in danger: if the sensors
  report something the device cannot have, if the bolt is being driven out and the new
  sample does not permit locking, in particular if the door is not seen closed, or if the
  drive has reached its deadline. It is stopped by the call of the actuator made directly
  after the reading of the sensors; if that call fails, the controller is poisoned and still
  has the drive on record. A drive that is not in danger is kept, unless the store fails.\<close>

theorem observe_hardware_interlock:
  assumes "\<not> c_poisoned c" and "c_active c = Some a"
    and "env_monotonic_ms E (c_platform c) = (t, p)" and "c_last_mono c \<le> t"
    and "env_sensors E p = (sample, q)"
    and "observe_hardware E allow c = (r, c')"
  shows "if endangered (fi_info (c_factory c)) a t sample then drive_stopped E a q r c'
    else c_poisoned c' \<or> c_active c' = Some a \<and> wall_reads E q (c_platform c')"
proof -
  let ?d = "c\<lparr>c_last_mono := t, c_platform := q\<rparr>"
  note run = observe_hardware_run [OF assms(1,3-5), of allow, unfolded assms(6) Let_def]
  show ?thesis
  proof (cases "validate_sample (fi_info (c_factory c)) sample = Inr ()")
    case False
    with run wpD [OF sensor_fault_stops [of ?d a q E allow]] assms(2) show ?thesis
      by (simp add: endangered_def)
  next
    case True
    let ?rest = "observe_rest E t sample (c_sample c) (c_active c = None) (c_last_idle_bolt c)"
    from True run have run: "thn (stop_unsafe_action E t) ?rest (?d\<lparr>c_sample := sample\<rparr>) = (r, c')" by simp
    have reason: "unsafe_reason (?d\<lparr>c_sample := sample\<rparr>) a t = None \<longleftrightarrow> \<not> endangered (fi_info (c_factory c)) a t sample"
      using True by (auto simp: unsafe_reason_def can_lock_def endangered_def split: sum.split)
    show ?thesis
    proof (cases "endangered (fi_info (c_factory c)) a t sample")
      case danger: True
      with reason obtain e where "unsafe_reason (?d\<lparr>c_sample := sample\<rparr>) a t = Some e" by auto
      from wpD [OF stop_unsafe_stops [OF _ this _ observe_rest_steps [OF ir.storing_relation_axioms], of q E], OF _ _ run]
      show ?thesis using assms(2) danger by simp
    next
      case False
      with reason run assms(2) have "?rest (?d\<lparr>c_sample := sample\<rparr>) = (r, c')"
        by (simp add: stop_unsafe_action_def run_simps)
      from stepsD [OF observe_rest_steps [OF kd.storing_relation_axioms] this] False assms(1,2) show ?thesis
        by (auto simp: keeps_drive_def)
    qed
  qed
qed

text \<open>A device that drives the bolt out while the door opens; a stopped platform forgets its drive.\<close>

definition ex_locking :: "(DeviceSnapshot option, ex_platform) DeviceController" where
  "ex_locking = ex_driving\<lparr>c_active := Some (ex_active\<lparr>a_target := Target_Lock\<rparr>)\<rparr>"

definition ex_opening_env :: "(DeviceSnapshot option, ex_platform) Env" where
  "ex_opening_env = ex_env\<lparr>env_sensors := (\<lambda>p. (ex_sample\<lparr>hw_bolt := Unknown, hw_door := Known Open\<rparr>, p)),
     env_stop_action := (\<lambda>p. (Inr (), []))\<rparr>"

lemma ex_wall_reads: "wall_reads ex_opening_env p q \<Longrightarrow> q = p"
proof -
  assume "wall_reads ex_opening_env p q"
  then obtain n where "q = ((\<lambda>p. snd (env_wall_clock ex_opening_env p)) ^^ n) p" by (auto simp: wall_reads_def)
  moreover have "((\<lambda>p. snd (env_wall_clock ex_opening_env p)) ^^ n) p = p"
    by (induction n) (simp_all add: ex_opening_env_def)
  ultimately show "q = p" by simp
qed

theorem observe_hardware_interlock_witness:
  "c_platform ex_locking \<noteq> [] \<and> endangered ex_info (ex_active\<lparr>a_target := Target_Lock\<rparr>) 1000
       (fst (env_sensors ex_opening_env (c_platform ex_locking)))
   \<and> (case observe_hardware ex_opening_env False ex_locking of (r, c') \<Rightarrow> c_active c' = None \<and> c_platform c' = [])"
proof -
  have c: "\<not> c_poisoned ex_locking" "c_active ex_locking = Some (ex_active\<lparr>a_target := Target_Lock\<rparr>)"
    "c_last_mono ex_locking \<le> 1000" "c_factory ex_locking = ex_factory" "c_platform ex_locking \<noteq> []"
    by (simp_all add: ex_locking_def ex_driving_def ex_started_def)
  have e: "env_monotonic_ms ex_opening_env p = (1000, p)"
    "env_sensors ex_opening_env p = (ex_sample\<lparr>hw_bolt := Unknown, hw_door := Known Open\<rparr>, p)"
    "env_stop_action ex_opening_env p = (Inr (), [])" for p
    by (simp_all add: ex_opening_env_def)
  have danger: "endangered ex_info (ex_active\<lparr>a_target := Target_Lock\<rparr>) 1000
      (ex_sample\<lparr>hw_bolt := Unknown, hw_door := Known Open\<rparr>)"
    by (simp add: endangered_def can_lock_sample_def)
  obtain r c' where o: "observe_hardware ex_opening_env False ex_locking = (r, c')" by fastforce
  from observe_hardware_interlock [OF c(1,2) e(1) c(3) e(2) o] danger
  show ?thesis by (auto simp: c e o drive_stopped_def dest: ex_wall_reads)
qed

text \<open>C15. Stale callbacks: a completion callback that does not name the drive in progress
  fails and leaves snapshot, store, sample, fault and drive as they were; only a controller
  that poisons itself because its monotonic clock ran backwards may stop the drive.\<close>

theorem stale_callback:
  assumes "\<forall>a. c_active c = Some a \<longrightarrow> a_id a \<noteq> i"
  shows "case actuator_finished E i result c of (r, c') \<Rightarrow> r \<noteq> Inr () \<and> c_state c' = c_state c
    \<and> c_storage c' = c_storage c \<and> c_sample c' = c_sample c \<and> c_fault c' = c_fault c
    \<and> (c_active c' = c_active c \<or> c_poisoned c')"
proof -
  have "wp (actuator_finished E i result) (\<lambda>r c'. r \<noteq> Inr () \<and> c_state c' = c_state c
      \<and> c_storage c' = c_storage c \<and> c_sample c' = c_sample c \<and> c_fault c' = c_fault c
      \<and> (c_active c' = c_active c \<or> c_poisoned c')) c"
    using assms
    by (auto simp: actuator_finished_def now_ms_def poison_def stop_poisoned_action_def
        is_none_or_def split: prod.split option.split)
  then show ?thesis by (simp add: wp_def)
qed

theorem stale_callback_witness:
  "map_option a_id (c_active ex_driving) \<noteq> Some \<lparr>ai_generation = 1, ai_audit_cursor = 7\<rparr>
   \<and> c_state (snd (actuator_finished ex_env \<lparr>ai_generation = 1, ai_audit_cursor = 7\<rparr> Result_Completed ex_driving))
       = ex_running"
proof -
  have a: "\<forall>a. c_active ex_driving = Some a \<longrightarrow> a_id a \<noteq> \<lparr>ai_generation = 1, ai_audit_cursor = 7\<rparr>"
    by (simp add: ex_driving_def ex_started_def ex_active_def)
  from stale_callback [OF a, of ex_env Result_Completed] a show ?thesis
    by (auto simp: ex_driving_def case_prod_unfold)
qed

end
