(* ===== verification/No_Drive.thy ===== *)
theory No_Drive
  imports Drive_Props
begin

text \<open>
  When the controller of \<^verbatim>\<open>crates/openlock-core/src/device.rs\<close> does not call \<open>start_action\<close>. A
  method that gives the same result in two environments that differ only in
  \<open>env_start_action\<close> has not called it; the platform is part of the result. The first
  section shows this for every method but the two that drive.
\<close>

unbundle bit_operations_syntax

section \<open>Methods that never start a drive\<close>

named_theorems silent \<open>methods that do not depend on the function that starts a drive\<close>

lemma silent_env [silent]:
  "env_crypto (E\<lparr>env_start_action := f\<rparr>) = env_crypto E"
  "env_load (E\<lparr>env_start_action := f\<rparr>) = env_load E"
  "env_commit (E\<lparr>env_start_action := f\<rparr>) = env_commit E"
  "env_monotonic_ms (E\<lparr>env_start_action := f\<rparr>) = env_monotonic_ms E"
  "env_wall_clock (E\<lparr>env_start_action := f\<rparr>) = env_wall_clock E"
  "env_sensors (E\<lparr>env_start_action := f\<rparr>) = env_sensors E"
  "env_stop_action (E\<lparr>env_start_action := f\<rparr>) = env_stop_action E"
  "env_set_wall_clock (E\<lparr>env_start_action := f\<rparr>) = env_set_wall_clock E"
  "env_request_reboot (E\<lparr>env_start_action := f\<rparr>) = env_request_reboot E"
  "env_has_device_private_key (E\<lparr>env_start_action := f\<rparr>) = env_has_device_private_key E"
  "env_bootloader (E\<lparr>env_start_action := f\<rparr>) = env_bootloader E"
  "env_boot_begin (E\<lparr>env_start_action := f\<rparr>) = env_boot_begin E"
  "env_boot_write (E\<lparr>env_start_action := f\<rparr>) = env_boot_write E"
  "env_boot_read (E\<lparr>env_start_action := f\<rparr>) = env_boot_read E"
  "env_boot_image_hash (E\<lparr>env_start_action := f\<rparr>) = env_boot_image_hash E"
  "env_boot_ready_to_activate (E\<lparr>env_start_action := f\<rparr>) = env_boot_ready_to_activate E"
  "env_boot_activate (E\<lparr>env_start_action := f\<rparr>) = env_boot_activate E"
  "env_boot_outcome (E\<lparr>env_start_action := f\<rparr>) = env_boot_outcome E"
  "env_boot_abort (E\<lparr>env_start_action := f\<rparr>) = env_boot_abort E"
  by simp_all

lemma silent_core [silent]:
  "stop_poisoned_action (E\<lparr>env_start_action := f\<rparr>) = stop_poisoned_action E"
  "poison (E\<lparr>env_start_action := f\<rparr>) = poison E"
  "commit (E\<lparr>env_start_action := f\<rparr>) = commit E"
  "now_ms (E\<lparr>env_start_action := f\<rparr>) = now_ms E"
  "refresh_clock (E\<lparr>env_start_action := f\<rparr>) = refresh_clock E"
  "wall (E\<lparr>env_start_action := f\<rparr>) = wall E"
  "record_wall (E\<lparr>env_start_action := f\<rparr>) = record_wall E"
  "audit (E\<lparr>env_start_action := f\<rparr>) = audit E"
  "audit_automatic (E\<lparr>env_start_action := f\<rparr>) = audit_automatic E"
  "fail_operation (E\<lparr>env_start_action := f\<rparr>) = fail_operation E"
  by (rule ext | simp only: stop_poisoned_action_def poison_def commit_def now_ms_def refresh_clock_def wall_def record_wall_def audit_def audit_automatic_def fail_operation_def silent)+

lemma silent_observe [silent]:
  "stop_unsafe_action (E\<lparr>env_start_action := f\<rparr>) = stop_unsafe_action E"
  "stop_blind_drive (E\<lparr>env_start_action := f\<rparr>) = stop_blind_drive E"
  "observe_sensor_fault (E\<lparr>env_start_action := f\<rparr>) = observe_sensor_fault E"
  "observe_transition (E\<lparr>env_start_action := f\<rparr>) = observe_transition E"
  "observe_hardware (E\<lparr>env_start_action := f\<rparr>) = observe_hardware E"
  "hardware_changed (E\<lparr>env_start_action := f\<rparr>) = hardware_changed E"
  "authorize (E\<lparr>env_start_action := f\<rparr>) = authorize E"
  by (rule ext | simp only: stop_unsafe_action_def stop_blind_drive_def observe_sensor_fault_def observe_transition_def observe_hardware_def hardware_changed_def authorize_def silent)+

lemma silent_requests [silent]:
  "open_pairing_window (E\<lparr>env_start_action := f\<rparr>) = open_pairing_window E"
  "confirm_physical (E\<lparr>env_start_action := f\<rparr>) = confirm_physical E"
  "claim (E\<lparr>env_start_action := f\<rparr>) = claim E"
  "status (E\<lparr>env_start_action := f\<rparr>) = status E"
  "query (E\<lparr>env_start_action := f\<rparr>) = query E"
  "boot (E\<lparr>env_start_action := f\<rparr>) = boot E"
  "manifest (E\<lparr>env_start_action := f\<rparr>) = manifest E"
  "reconcile_boot (E\<lparr>env_start_action := f\<rparr>) = reconcile_boot E"
  by (rule ext | simp only: open_pairing_window_def confirm_physical_def claim_def status_def query_def boot_def manifest_def reconcile_boot_def silent)+

lemma silent_preflight [silent]:
  "preflight_admin (E\<lparr>env_start_action := f\<rparr>) = preflight_admin E"
  "preflight_chunk (E\<lparr>env_start_action := f\<rparr>) = preflight_chunk E"
  "preflight_policy (E\<lparr>env_start_action := f\<rparr>) = preflight_policy E"
  "preflight_action (E\<lparr>env_start_action := f\<rparr>) = preflight_action E"
  "preflight (E\<lparr>env_start_action := f\<rparr>) = preflight E"
  by (rule ext | simp only: preflight_admin_def preflight_chunk_def preflight_policy_def preflight_action_def preflight_def silent)+

lemma silent_execute [silent]:
  "prepare_actuation (E\<lparr>env_start_action := f\<rparr>) = prepare_actuation E"
  "finish (E\<lparr>env_start_action := f\<rparr>) = finish E"
  "audit_operation (E\<lparr>env_start_action := f\<rparr>) = audit_operation E"
  "execute_config (E\<lparr>env_start_action := f\<rparr>) = execute_config E"
  "execute_policy (E\<lparr>env_start_action := f\<rparr>) = execute_policy E"
  "execute_clock (E\<lparr>env_start_action := f\<rparr>) = execute_clock E"
  "execute_reboot (E\<lparr>env_start_action := f\<rparr>) = execute_reboot E"
  "execute_factory_reset (E\<lparr>env_start_action := f\<rparr>) = execute_factory_reset E"
  "execute_replace_issuer (E\<lparr>env_start_action := f\<rparr>) = execute_replace_issuer E"
  "execute_rotate (E\<lparr>env_start_action := f\<rparr>) = execute_rotate E"
  "execute_firmware (E\<lparr>env_start_action := f\<rparr>) = execute_firmware E"
  "clears_domain (E\<lparr>env_start_action := f\<rparr>) = clears_domain E"
  "accept (E\<lparr>env_start_action := f\<rparr>) = accept E"
  by (rule ext | simp only: prepare_actuation_def finish_def audit_operation_def execute_config_def execute_policy_def execute_clock_def execute_reboot_def execute_factory_reset_def execute_replace_issuer_def execute_rotate_def execute_firmware_def clears_domain_def accept_def silent)+

lemma silent_callbacks [silent]:
  "complete_actuation (E\<lparr>env_start_action := f\<rparr>) = complete_actuation E"
  "actuator_finished (E\<lparr>env_start_action := f\<rparr>) = actuator_finished E"
  "poll_door (E\<lparr>env_start_action := f\<rparr>) = poll_door E"
  "end_automatic (E\<lparr>env_start_action := f\<rparr>) = end_automatic E"
  by (rule ext | simp only: complete_actuation_def actuator_finished_def poll_door_def end_automatic_def silent)+

section \<open>From a method to a request\<close>

lemma bnd_run_cong: "(\<And>x d. m c = (Inr x, d) \<Longrightarrow> k x d = k' x d) \<Longrightarrow> bnd m k c = bnd m k' c"
  by (simp add: run_simps split: prod.split sum.split)

lemma thn_run_cong: "(\<And>x d. m c = (Inr x, d) \<Longrightarrow> n d = n' d) \<Longrightarrow> thn m n c = thn m n' c"
  by (simp add: run_simps split: prod.split sum.split)

lemma inv_bnd:
  assumes "steps (\<lambda>c c'. I c \<longrightarrow> I c') m" "I c" "\<And>x d. m c = (Inr x, d) \<Longrightarrow> I d \<Longrightarrow> k x d = k' x d"
  shows "bnd m k c = bnd m k' c"
  using assms by (intro bnd_run_cong) (auto dest: stepsD)

lemma inv_thn:
  "steps (\<lambda>c c'. I c \<longrightarrow> I c') m \<Longrightarrow> I c \<Longrightarrow> (\<And>d. I d \<Longrightarrow> n d = n' d) \<Longrightarrow> thn m n c = thn m n' c"
  unfolding thn_def by (rule inv_bnd)

lemma execute_silent:
  assumes "\<And>target. actuates (cmd_action cmd) \<Longrightarrow>
      execute_actuation (E\<lparr>env_start_action := f\<rparr>) target st c = execute_actuation E target st c"
  shows "execute (E\<lparr>env_start_action := f\<rparr>) x cmd st t c = execute E x cmd st t c"
proof -
  have "execute_arm (E\<lparr>env_start_action := f\<rparr>) x (cmd_action cmd) st t c = execute_arm E x (cmd_action cmd) st t c"
    using assms by (cases "cmd_action cmd")
      (simp_all add: execute_arm_def actuates_def is_firmware_action_def silent run_simps)
  then show ?thesis unfolding execute_def silent by (simp add: run_simps)
qed

lemma perform_silent:
  assumes "clears \<Longrightarrow> execute (E\<lparr>env_start_action := f\<rparr>) x cmd st t c = execute E x cmd st t c"
    and "\<And>u d. accept E g cmd seq digest st (unchanged_bolt (cmd_action cmd) (c_sample c)) t c = (Inr u, d) \<Longrightarrow>
      execute (E\<lparr>env_start_action := f\<rparr>) x cmd st t d = execute E x cmd st t d"
  shows "perform (E\<lparr>env_start_action := f\<rparr>) x cmd g seq digest st t clears c = perform E x cmd g seq digest st t clears c"
proof (cases clears)
  case True
  with assms(1) show ?thesis by (simp add: perform_def run_simps)
next
  case False
  obtain r d where "accept E g cmd seq digest st (unchanged_bolt (cmd_action cmd) (c_sample c)) t c = (r, d)" by fastforce
  with False assms(2) show ?thesis
    unfolding perform_def Let_def silent by (cases r) (simp_all add: run_simps)
qed

lemma handle_silent:
  assumes R: "requesting_relation (\<lambda>c c'. I c \<longrightarrow> I c')" and "I c"
    and perform: "\<And>g seq digest t c clears d. clears_domain E (cmd_action cmd) c = (Inr clears, d) \<Longrightarrow> I d \<Longrightarrow>
      perform (E\<lparr>env_start_action := f\<rparr>) x cmd g seq digest (accepted_status g seq (cmd_action cmd)) t clears d
        = perform E x cmd g seq digest (accepted_status g seq (cmd_action cmd)) t clears d"
  shows "handle (E\<lparr>env_start_action := f\<rparr>) x cmd c = handle E x cmd c"
proof -
  from R have S: "sampling_relation (\<lambda>c c'. I c \<longrightarrow> I c')" by (rule requesting_relation.axioms)
  note monad = step_relation.monad_steps [OF bookkeeping_relation.axioms(1) [OF sampling_relation.axioms(1) [OF S]]]
  have "mutate (E\<lparr>env_start_action := f\<rparr>) x cmd g seq digest t c = mutate E x cmd g seq digest t c" if "I c" for g seq digest t c
    unfolding mutate_def silent
    by (intro inv_thn [of I] inv_bnd [of I] perform requesting_relation.preflight_steps [OF R]
        requesting_relation.clears_domain_steps [OF R] that)
  then have granted: "dispatch_granted (E\<lparr>env_start_action := f\<rparr>) x cmd g t c = dispatch_granted E x cmd g t c" if "I c" for g t c
    using that unfolding dispatch_granted_def Let_def silent by (simp add: run_simps split: sum.split)
  have "dispatch (E\<lparr>env_start_action := f\<rparr>) x cmd c = dispatch E x cmd c"
    unfolding dispatch_def silent
    by (intro inv_bnd [of I] inv_thn [of I] monad sampling_relation.hardware_changed_steps [OF S] sampling_relation.R_now [OF S]
        \<open>I c\<close>; cases "cmd_action cmd"; simp only: Action.case;
        intro inv_bnd [of I] inv_thn [of I] sampling_relation.authorize_steps [OF S] granted refl)
  then show ?thesis by (simp only: handle_def silent)
qed

lemma clears_domain_actuates: "clears_domain E action c = (Inr True, d) \<Longrightarrow> \<not> actuates action"
  by (cases action) (auto simp: clears_domain_def actuates_def run_Inr_iffs)

text \<open>The facts about the device that never change: all it reports of itself but the firmware version.\<close>

definition device_is :: "DeviceInfo \<Rightarrow> ('s, 'p) DeviceController \<Rightarrow> bool" where
  "device_is i c \<longleftrightarrow> (fi_info (c_factory c))\<lparr>di_firmware := []\<rparr> = i\<lparr>di_firmware := []\<rparr>"

interpretation dv: observing_relation "\<lambda>c c'. device_is i c \<longrightarrow> device_is i c'" for i
  by unfold_locales (auto simp: device_is_def)

interpretation dv: requesting_relation "\<lambda>c c'. device_is i c \<longrightarrow> device_is i c'" for i
  by unfold_locales (auto simp: device_is_def)

interpretation av: requesting_relation "\<lambda>c c'. True \<longrightarrow> True"
  by unfold_locales (auto simp: steps_def)

section \<open>When no drive is started\<close>

text \<open>
  The sensors never permit the target. For driving the bolt out: the door is never seen
  closed, on a device that has a door sensor or that may not lock without one. For driving
  it in: the privacy latch is never seen open, on a device that has a privacy sensor.
\<close>

definition blocked :: "('s, 'p) Env \<Rightarrow> DeviceInfo \<Rightarrow> ActionTarget \<Rightarrow> bool" where
  "blocked E i target \<longleftrightarrow> (case target of
       Target_Lock \<Rightarrow> (di_door_sensor i \<or> \<not> di_safe_lock_without_door i)
         \<and> (\<forall>p. hw_door (fst (env_sensors E p)) \<noteq> Known Closed)
     | Target_Unlock \<Rightarrow> di_privacy_sensor i \<and> (\<forall>p. hw_privacy (fst (env_sensors E p)) \<noteq> Known False))"

lemma device_is_flags:
  assumes "device_is i c"
  shows "di_door_sensor (fi_info (c_factory c)) = di_door_sensor i"
    "di_privacy_sensor (fi_info (c_factory c)) = di_privacy_sensor i"
    "di_safe_lock_without_door (fi_info (c_factory c)) = di_safe_lock_without_door i"
  using assms unfolding device_is_def by (cases i; cases "fi_info (c_factory c)"; simp)+

lemma blocked_sample:
  assumes "blocked E i target" "device_is i c" "env_sensors E p = (s, q)"
    "validate_sample (fi_info (c_factory c)) s = Inr ()"
  shows "if target = Target_Lock then can_lock_sample (fi_info (c_factory c)) s \<noteq> Inr () else check_unlock_privacy s \<noteq> Inr ()"
proof -
  have s: "fst (env_sensors E p) = s" using assms(3) by simp
  from assms(4) have v: "reading_valid (hw_door s) (di_door_sensor i)" "reading_valid (hw_privacy s) (di_privacy_sensor i)"
    by (auto simp: validate_sample_def device_is_flags [OF assms(2)] split: if_splits)
  show ?thesis
  proof (cases target)
    case Target_Lock
    with assms(1) s have "di_door_sensor i \<or> \<not> di_safe_lock_without_door i" "hw_door s \<noteq> Known Closed"
      by (auto simp: blocked_def)
    with v(1) Target_Lock show ?thesis
      by (cases "hw_door s") (auto simp: can_lock_sample_def reading_valid_def device_is_flags [OF assms(2)] split: DoorState.splits)
  next
    case Target_Unlock
    with assms(1) s have "di_privacy_sensor i" "hw_privacy s \<noteq> Known False" by (auto simp: blocked_def)
    with v(2) Target_Unlock show ?thesis
      by (cases "hw_privacy s") (auto simp: check_unlock_privacy_def reading_valid_def)
  qed
qed

lemma blocked_prepare:
  assumes "blocked E i target" "device_is i c"
  shows "prepare_actuation E target c \<noteq> (Inr (Some d), c')"
proof
  assume run: "prepare_actuation E target c = (Inr (Some d), c')"
  then obtain t b where now: "now_ms E c = (Inr t, b)" by (auto simp: prepare_actuation_def run_Inr_iffs)
  with assms(2) have b: "device_is i b" using stepsD [OF dv.R_now] by blast
  obtain s q where s: "env_sensors E (c_platform b) = (s, q)" by fastforce
  with now run have "validate_sample (fi_info (c_factory b)) s = Inr ()"
    and "if target = Target_Lock then can_lock_sample (fi_info (c_factory b)) s = Inr () else check_unlock_privacy s = Inr ()"
    by (auto simp: prepare_actuation_def run_Inr_iffs plat_def Let_def result_Inr_iffs split: if_splits)
  with blocked_sample [OF assms(1) b s] show False by (auto split: if_splits)
qed

definition agrees ::
  "('s, 'p) Env \<Rightarrow> (ActuationId \<Rightarrow> ActionTarget \<Rightarrow> u32 \<Rightarrow> bool \<Rightarrow> 'p \<Rightarrow> (Error + unit) \<times> 'p)
     \<Rightarrow> ActionTarget \<Rightarrow> bool" where
  "agrees E f target \<longleftrightarrow> (\<forall>i ms hold. f i target ms hold = env_start_action E i target ms hold)"

lemma agrees_start:
  "agrees E f target \<Longrightarrow> env_start_action (E\<lparr>env_start_action := f\<rparr>) i target ms hold = env_start_action E i target ms hold"
  by (simp add: agrees_def)

lemma execute_actuation_silent:
  assumes "blocked E i target \<or> agrees E f target" "device_is i c"
  shows "execute_actuation (E\<lparr>env_start_action := f\<rparr>) target st c = execute_actuation E target st c"
proof (cases "blocked E i target")
  case True
  then show ?thesis
    unfolding execute_actuation_def silent
    using assms(2) by (intro bnd_run_cong) (auto dest: blocked_prepare split: option.split)
next
  case False
  with assms(1) have start: "env_start_action (E\<lparr>env_start_action := f\<rparr>) k target ms hold
      = env_start_action E k target ms hold" for k ms hold
    by (simp only: agrees_start simp_thms)
  show ?thesis by (simp only: execute_actuation_def silent start)
qed

lemma poll_relock_silent:
  assumes "blocked E i Target_Lock \<or> agrees E f Target_Lock" "device_is i c"
  shows "poll_relock (E\<lparr>env_start_action := f\<rparr>) c = poll_relock E c"
proof (cases "blocked E i Target_Lock")
  case True
  have never: "prepare_actuation E Target_Lock d \<noteq> (Inr (Some deadline), d')" if "device_is i d" for d deadline d'
    using True that by (rule blocked_prepare)
  show ?thesis
    unfolding poll_relock_def silent
    by (intro inv_bnd [of "device_is i"] inv_thn [of "device_is i"] dv.work_steps dv.prepare_actuation_steps assms(2);
        auto simp: prim_Inr_iffs audit_automatic_def never intro!: dv.monad_steps dv.audit_steps split: option.split sum.split)
next
  case False
  with assms(1) have start: "env_start_action (E\<lparr>env_start_action := f\<rparr>) k Target_Lock ms hold
      = env_start_action E k Target_Lock ms hold" for k ms hold
    by (simp only: agrees_start simp_thms)
  show ?thesis by (simp only: poll_relock_def silent start)
qed

text \<open>C16. Interlocks before driving: on a device with a door sensor, and on one without that is not
  declared safe to lock without, as long as the door is never seen closed no request and no
  poll starts a drive that extends the bolt. On a device with a privacy sensor, as long as
  the privacy latch is never seen open, none starts a drive that retracts it. What the start
  of a blocked drive would do has no influence on any result, state or platform effect.\<close>

theorem blocked_never_starts:
  assumes "blocked E (fi_info (c_factory c)) target" and "\<forall>other. other \<noteq> target \<longrightarrow> agrees E f other"
  shows "handle (E\<lparr>env_start_action := f\<rparr>) x cmd c = handle E x cmd c
    \<and> poll (E\<lparr>env_start_action := f\<rparr>) c = poll E c"
proof
  define i where "i = fi_info (c_factory c)"
  have c: "device_is i c" by (simp add: device_is_def i_def)
  have act: "blocked E i t \<or> agrees E f t" for t
    using assms by (cases "t = target") (auto simp: i_def)
  have exec: "execute (E\<lparr>env_start_action := f\<rparr>) x cmd st t d = execute E x cmd st t d" if "device_is i d" for st t d
    using act that by (intro execute_silent execute_actuation_silent)
  have "perform (E\<lparr>env_start_action := f\<rparr>) x cmd g seq digest st t clears d = perform E x cmd g seq digest st t clears d"
    if "device_is i d" for g seq digest st t clears d
    using that by (intro perform_silent exec) (auto dest: stepsD [OF dv.accept_steps [where i = i]])
  with c show "handle (E\<lparr>env_start_action := f\<rparr>) x cmd c = handle E x cmd c"
    by (intro handle_silent [OF dv.requesting_relation_axioms [of i]])
  show "poll (E\<lparr>env_start_action := f\<rparr>) c = poll E c"
    unfolding poll_def silent
    by (intro inv_bnd [of "device_is i"] inv_thn [of "device_is i"] dv.work_steps dv.hardware_changed_steps
        dv.reconcile_boot_steps c; simp add: poll_door_def dv.work_steps poll_relock_silent [OF act])
qed

definition ex_ajar_env :: "(DeviceSnapshot option, ex_platform) Env" where
  "ex_ajar_env = ex_env\<lparr>env_sensors := (\<lambda>p. (ex_sample\<lparr>hw_bolt := Known Unlocked, hw_door := Known Open\<rparr>, p))\<rparr>"

definition ex_no_lock ::
  "ActuationId \<Rightarrow> ActionTarget \<Rightarrow> u32 \<Rightarrow> bool \<Rightarrow> ex_platform \<Rightarrow> (Error + unit) \<times> ex_platform" where
  "ex_no_lock i target ms hold p =
     (if target = Target_Lock then (Inl ActuatorFailed, []) else (Inr (), p @ [(i, target)]))"

theorem blocked_never_starts_witness:
  "blocked ex_ajar_env ex_info Target_Lock \<and> agrees ex_ajar_env ex_no_lock Target_Unlock
   \<and> handle (ex_ajar_env\<lparr>env_start_action := ex_no_lock\<rparr>) ex_context (ex_unlock\<lparr>cmd_action := Lock\<rparr>) ex_controller
       = handle ex_ajar_env ex_context (ex_unlock\<lparr>cmd_action := Lock\<rparr>) ex_controller"
proof -
  have b: "blocked ex_ajar_env (fi_info (c_factory ex_controller)) Target_Lock" by (simp add: blocked_def ex_ajar_env_def)
  have a: "agrees ex_ajar_env ex_no_lock Target_Unlock"
    by (simp add: agrees_def ex_ajar_env_def ex_no_lock_def fun_eq_iff)
  have "other = Target_Unlock" if "other \<noteq> Target_Lock" for other using that by (cases other) auto
  with a have "\<forall>other. other \<noteq> Target_Lock \<longrightarrow> agrees ex_ajar_env ex_no_lock other" by blast
  from blocked_never_starts [OF b this] a b show ?thesis by simp
qed

text \<open>C17. Record before driving: if the store refuses every commit, no request and no poll
  starts a drive.\<close>

theorem commit_before_start:
  assumes "\<forall>n s. isl (fst (env_commit E n s))"
  shows "handle (E\<lparr>env_start_action := f\<rparr>) x cmd c = handle E x cmd c
    \<and> poll (E\<lparr>env_start_action := f\<rparr>) c = poll E c"
proof
  from assms have commit: "commit E n c \<noteq> (Inr u, d)" for n c u d
    by (auto simp: commit_Inr_iff) (metis fst_conv isl_def sum.simps(4))
  then have "accept E g cmd seq digest st b t c \<noteq> (Inr u, d)" for g seq digest st b t c u d
    unfolding accept_def Let_def run_Inr_iffs by blast
  then show "handle (E\<lparr>env_start_action := f\<rparr>) x cmd c = handle E x cmd c"
    by (intro handle_silent [OF av.requesting_relation_axioms] perform_silent execute_silent)
      (auto dest: clears_domain_actuates)
  have "poll_relock (E\<lparr>env_start_action := f\<rparr>) c = poll_relock E c" for c
    unfolding poll_relock_def silent by (intro bnd_run_cong thn_run_cong) (simp add: commit)
  then show "poll (E\<lparr>env_start_action := f\<rparr>) c = poll E c"
    unfolding poll_def silent by (intro bnd_run_cong thn_run_cong) simp
qed

theorem commit_before_start_witness:
  "let E = ex_env\<lparr>env_commit := (\<lambda>n s. (Inl StorageUnavailable, s))\<rparr> in
     (\<forall>n s. isl (fst (env_commit E n s)))
     \<and> handle (E\<lparr>env_start_action := ex_no_lock\<rparr>) ex_context ex_unlock ex_controller
         = handle E ex_context ex_unlock ex_controller"
proof -
  have a: "\<forall>n s. isl (fst (env_commit (ex_env\<lparr>env_commit := (\<lambda>n s. (Inl StorageUnavailable, s))\<rparr>) n s))"
    by simp
  from commit_before_start [OF a] a show ?thesis by (simp add: Let_def)
qed

text \<open>C18. Only lock and unlock drive: a request for any other action, configuration, key,
  firmware and ownership changes included, starts no drive.\<close>

theorem only_lock_and_unlock_drive:
  assumes "cmd_action cmd \<noteq> Unlock" and "cmd_action cmd \<noteq> Lock"
  shows "handle (E\<lparr>env_start_action := f\<rparr>) x cmd c = handle E x cmd c"
  using assms by (intro handle_silent [OF av.requesting_relation_axioms] perform_silent execute_silent)
    (simp_all add: actuates_def)

theorem only_lock_and_unlock_drive_witness:
  "handle (ex_env\<lparr>env_start_action := ex_no_lock\<rparr>) ex_context (ex_unlock\<lparr>cmd_action := Reboot\<rparr>) ex_controller
     = handle ex_env ex_context (ex_unlock\<lparr>cmd_action := Reboot\<rparr>) ex_controller"
  using only_lock_and_unlock_drive [of "ex_unlock\<lparr>cmd_action := Reboot\<rparr>"] by simp

end
