(* ===== verification/Pairing_Props.thy ===== *)
theory Pairing_Props
  imports Request_Props Device_Frames
begin

text \<open>
  The pairing window of the device controller of \<^verbatim>\<open>crates/openlock-core/src/device.rs\<close> while it
  stays open or closed: how often the setup key can be guessed in whatever sequence of
  requests, confirmations, observations, callbacks, polls and changes of the platform, with
  any peers and at any times. Only \<open>open_pairing_window\<close>, the gesture at the device, starts a
  new window.
\<close>

unbundle bit_operations_syntax

section \<open>Calls that do not raise an error\<close>

definition spares :: "Error \<Rightarrow> ('s, 'p, 'a) ctl \<Rightarrow> bool" where
  "spares e m \<longleftrightarrow> (\<forall>c. fst (m c) \<noteq> Inl e)"

lemma spares_prims:
  "spares e (ret x)" "e' \<noteq> e \<Longrightarrow> spares e (raise e')" "spares e (gets f)" "spares e (modify g)"
  "r \<noteq> Inl e \<Longrightarrow> spares e (lift r)" "e' \<noteq> e \<Longrightarrow> spares e (guard_err b e')" "spares e (attempt m)"
  "spares e (plat h)"
  by (auto simp: spares_def run_simps plat_def split: prod.split)

lemma spares_bnd: "spares e m \<Longrightarrow> (\<And>x. spares e (k x)) \<Longrightarrow> spares e (bnd m k)"
  unfolding spares_def by (auto simp: bnd_def split: prod.split sum.split) (metis fst_conv)

lemma spares_thn: "spares e m \<Longrightarrow> spares e n \<Longrightarrow> spares e (thn m n)"
  by (simp add: thn_def spares_bnd)

lemma spares_cases:
  "(b \<Longrightarrow> spares e m) \<Longrightarrow> (\<not> b \<Longrightarrow> spares e n) \<Longrightarrow> spares e (if b then m else n)"
  "(x = None \<Longrightarrow> spares e m) \<Longrightarrow> (\<And>y. x = Some y \<Longrightarrow> spares e (k y)) \<Longrightarrow>
     spares e (case x of None \<Rightarrow> m | Some y \<Rightarrow> k y)"
  "spares e (h v) \<Longrightarrow> spares e (let x = v in h x)"
  by (simp_all split: option.split)

lemmas spares_intros = spares_prims spares_bnd spares_thn spares_cases

lemma validate_spares: "DeviceSnapshot_validate cr f s \<noteq> Inl InvalidSetupKey"
  by (auto simp: DeviceSnapshot_validate_def firmware_validate_def rbind_def map_err_def reject_if_def Let_def
      split: sum.split option.split)

lemma ok_or_spares: "e' \<noteq> e \<Longrightarrow> ok_or e' m \<noteq> Inl e"
  by (cases m) (simp_all add: ok_or_def)

lemma stop_spares: "spares InvalidSetupKey (stop_poisoned_action E)" "spares InvalidSetupKey (poison E)"
  unfolding poison_def stop_poisoned_action_def by (intro spares_intros)+

lemma commit_spares: "spares InvalidSetupKey (commit E n)"
  unfolding commit_def by (intro spares_intros validate_spares stop_spares) simp_all

lemma audit_spares: "spares InvalidSetupKey (audit E kind i seq code s)"
  unfolding audit_def record_wall_def wall_def by (intro spares_intros ok_or_spares) simp_all

lemma refresh_clock_spares: "spares InvalidSetupKey (refresh_clock E)"
  unfolding refresh_clock_def by (intro spares_intros commit_spares)

lemma fail_operation_spares: "spares InvalidSetupKey (fail_operation E a code s)"
  unfolding fail_operation_def audit_automatic_def by (intro spares_intros audit_spares) simp_all

lemma now_ms_spares: "spares InvalidSetupKey (now_ms E)"
  unfolding now_ms_def by (intro spares_intros stop_spares) simp_all

lemma observe_sensor_fault_spares: "spares InvalidSetupKey (observe_sensor_fault E b)"
  unfolding observe_sensor_fault_def stop_blind_drive_def
  by (intro spares_intros audit_spares commit_spares refresh_clock_spares fail_operation_spares) simp_all

lemma observe_transition_spares:
  "spares InvalidSetupKey (observe_transition E t sample old idle prev clock locked)"
proof -
  have "spares InvalidSetupKey (schedule_relock s t)" "spares InvalidSetupKey (door_changed sample t s)" for s
    unfolding schedule_relock_def door_changed_def
    by (cases "dc_auto_relock (s_config s)"; simp only: AutoRelock.case; intro spares_intros)+
  then show ?thesis
    unfolding observe_transition_def by (intro spares_intros audit_spares commit_spares)
qed

lemma stop_unsafe_action_spares: "spares InvalidSetupKey (stop_unsafe_action E t)"
  unfolding stop_unsafe_action_def
  by (intro spares_intros ok_or_spares commit_spares fail_operation_spares) simp_all

lemma hardware_changed_spares: "spares InvalidSetupKey (hardware_changed E)"
  unfolding hardware_changed_def observe_hardware_def Let_def
  by (intro spares_intros now_ms_spares observe_sensor_fault_spares stop_unsafe_action_spares refresh_clock_spares
      observe_transition_spares)
    (auto intro!: spares_intros split: Reading.split)

lemma claim_parse_spares: "Action_parse (Action_value (Claim key issuer admin)) \<noteq> Inl InvalidSetupKey"
  by (auto simp: Action_parse_def Action_value_def Action_args_def Action_opcode_def Action_parse_fields_def carray_def
      U8_value_def cfixed_def cdata_def cbytes_def rbind_def split: sum.split)

section \<open>The count of wrong keys\<close>

definition keeps_pairing :: "('s, 'p) DeviceController \<Rightarrow> ('s, 'p) DeviceController \<Rightarrow> bool" where
  "keeps_pairing c c' \<longleftrightarrow> c_pairing_failures c' = c_pairing_failures c
     \<and> fi_setup_key_hash (c_factory c') = fi_setup_key_hash (c_factory c)"

interpretation kp: observing_relation keeps_pairing
  by unfold_locales (simp_all add: keeps_pairing_def)

interpretation kp: requesting_relation keeps_pairing
  by unfold_locales (simp_all add: keeps_pairing_def)

definition wrong_key :: "('s, 'p) Env \<Rightarrow> ('s, 'p) DeviceController \<Rightarrow> bytes \<Rightarrow> bool" where
  "wrong_key E c key \<longleftrightarrow> cr_sha256 (env_crypto E) key \<noteq> fi_setup_key_hash (c_factory c)"

lemma keeps_failures: "keeps_pairing c d \<Longrightarrow> c_pairing_failures d = c_pairing_failures c"
  by (simp add: keeps_pairing_def)

lemma claim_wrong_key:
  assumes "wrong_key E c key"
  shows "claim E x key issuer admin t c =
    (if s_owner (c_state c) \<noteq> None then (Inl AlreadyProvisioned, c)
     else if is_none_or (\<lambda>until. t \<ge> until) (c_pairing_until c) \<or> c_pairing_failures c \<ge> 5
     then (Inl PairingClosed, c)
     else (Inl InvalidSetupKey, c\<lparr>c_pairing_failures := c_pairing_failures c + 1,
       c_pairing_until := if c_pairing_failures c + 1 \<ge> 5 then None else c_pairing_until c\<rparr>))"
  using assms by (simp add: claim_def run_simps wrong_key_def)

lemma keeps_stepsI:
  "steps keeps_pairing m \<Longrightarrow> keeps_pairing c d \<Longrightarrow> (\<And>r d'. keeps_pairing c d' \<Longrightarrow> Q r d') \<Longrightarrow> wp m Q d"
  by (erule steps_wpI) (blast intro: kp.R_trans)

lemma claim_right_key:
  assumes "\<not> wrong_key E c key" "claim E x key issuer admin t c = (r, c')"
  shows "keeps_pairing c c'"
proof -
  have keep: "keeps_pairing c (c_pairing_until_update f d)" "keeps_pairing c (c_confirmation_update g d)"
    if "keeps_pairing c d" for f g d
    using that by (simp_all add: keeps_pairing_def)
  have "wp (claim E x key issuer admin t) (\<lambda>r. keeps_pairing c) c"
    using assms(1) kp.R_refl [of c] unfolding claim_def wrong_key_def
    by (auto simp: Let_def keep intro!: keeps_stepsI [OF kp.record_wall_steps] keeps_stepsI [OF kp.audit_steps]
        keeps_stepsI [OF kp.commit_steps] split: sum.split)
  from wpD [OF this assms(2)] show ?thesis .
qed

text \<open>A claim is refused for another reason before the key is looked at, or it is decided by \<open>claim\<close>.\<close>

definition decided ::
  "('s, 'p) Env \<Rightarrow> SessionContext \<Rightarrow> bytes \<Rightarrow> bytes \<Rightarrow> bytes \<Rightarrow> ('s, 'p) DeviceController
     \<Rightarrow> Error + Reply \<Rightarrow> ('s, 'p) DeviceController \<Rightarrow> bool" where
  "decided E x key issuer admin c r c' \<longleftrightarrow>
     (keeps_pairing c c' \<and> (\<exists>e. r = Inl e \<and> e \<noteq> InvalidSetupKey))
     \<or> (\<exists>t d. keeps_pairing c d \<and> claim E x key issuer admin t d = (r, c'))"

lemma decided_bnd:
  assumes "keeps_pairing c d" "steps keeps_pairing m" "spares InvalidSetupKey m"
    and "\<And>y d'. keeps_pairing c d' \<Longrightarrow> wp (k y) (decided E x key issuer admin c) d'"
  shows "wp (bnd m k) (decided E x key issuer admin c) d"
proof (rule wpI)
  fix r d'
  assume run: "bnd m k d = (r, d')"
  obtain q e where m: "m d = (q, e)" by fastforce
  with assms(1,2) have e: "keeps_pairing c e" using kp.R_trans stepsD by metis
  show "decided E x key issuer admin c r d'"
  proof (cases q)
    case (Inl err)
    from assms(3) m Inl have "err \<noteq> InvalidSetupKey" by (metis fst_conv spares_def)
    with m run e Inl show ?thesis by (auto simp: run_simps decided_def)
  next
    case (Inr y)
    with m run wpD [OF assms(4) [OF e]] show ?thesis by (simp add: run_simps)
  qed
qed

lemma decided_thn:
  "keeps_pairing c d \<Longrightarrow> steps keeps_pairing m \<Longrightarrow> spares InvalidSetupKey m \<Longrightarrow>
     (\<And>d'. keeps_pairing c d' \<Longrightarrow> wp n (decided E x key issuer admin c) d') \<Longrightarrow>
     wp (thn m n) (decided E x key issuer admin c) d"
  unfolding thn_def by (rule decided_bnd)

lemma wp_attempt_run: "m c = (q, d) \<Longrightarrow> wp (k q) Q d \<Longrightarrow> wp (bnd (attempt m) k) Q c"
  by (simp add: wp_def run_simps)

lemma dispatch_claim:
  assumes "cmd_action cmd = Claim key issuer admin" "dispatch E x cmd c = (r, c')"
  shows "decided E x key issuer admin c r c'"
proof -
  obtain q d where hw: "hardware_changed E c = (q, d)" by fastforce
  have d: "keeps_pairing c d" using stepsD [OF kp.hardware_changed_steps hw] .
  have q: "q \<noteq> Inl InvalidSetupKey" using hardware_changed_spares hw by (metis fst_conv spares_def)
  have fin: "wp (claim E x key issuer admin t) (decided E x key issuer admin c) d'" if "keeps_pairing c d'" for t d'
    using that by (intro wpI) (auto simp: decided_def)
  let ?checked = "case q of Inl error \<Rightarrow> guard_err (error \<noteq> SensorConflict) error | Inr _ \<Rightarrow> ret ()"
  have checked: "steps keeps_pairing ?checked" "spares InvalidSetupKey ?checked"
    using q by (auto intro!: kp.monad_steps spares_intros split: sum.split)
  have val: "Command_validate cmd \<noteq> Inl InvalidSetupKey" by (simp add: Command_validate_def)
  have "wp (dispatch E x cmd) (decided E x key issuer admin c) c"
    unfolding dispatch_def assms(1) Action.case
    by (rule wp_attempt_run [where m = "hardware_changed E", OF hw], rule decided_thn [OF d checked])
      (intro decided_thn decided_bnd fin kp.monad_steps kp.R_now spares_intros now_ms_spares val claim_parse_spares;
        (assumption | simp))
  from wpD [OF this assms(2)] show ?thesis .
qed

text \<open>A guess: a claim with a wrong key that is answered with \<open>InvalidSetupKey\<close>.\<close>

definition guessed :: "('s, 'p) Env \<Rightarrow> ('s, 'p) DeviceController \<Rightarrow> Command \<Rightarrow> Response \<Rightarrow> bool" where
  "guessed E c cmd rsp \<longleftrightarrow> (case cmd_action cmd of Claim key issuer admin \<Rightarrow> wrong_key E c key | _ \<Rightarrow> False)
     \<and> rsp_result rsp = Inl (Error_code InvalidSetupKey)"

lemma Error_code_setup: "Error_code e = 44 \<longleftrightarrow> e = InvalidSetupKey"
  by (cases e) simp_all

lemma keeps_wrong_key: "keeps_pairing c d \<Longrightarrow> wrong_key E d = wrong_key E c"
  by (simp add: keeps_pairing_def wrong_key_def fun_eq_iff)

lemma handle_rejected:
  assumes "dispatch E x cmd c = (Inl e, d)" "handle E x cmd c = (rsp, c')"
  shows "keeps_pairing d c' \<and> (\<exists>code. rsp_result rsp = Inl code \<and> code \<in> {Error_code e, Error_code StorageUnavailable}
    \<and> (s_owner (c_state d) = None \<longrightarrow> code = Error_code e))"
proof -
  have "keeps_pairing d d'" if "bnd (audit E Audit_Rejected None None code (c_state d)) (commit E) d = (q, d')" for code q d'
    using stepsD [OF kp.bnd_step [OF kp.audit_steps kp.commit_steps] that] .
  with assms kp.R_refl [of d] show ?thesis
    by (auto simp: handle_def Response_rejected_def split: sum.splits if_splits prod.splits)
qed

lemma failures_step: "(f :: u8) < 5 \<Longrightarrow> unat (f + 1) = unat f + 1"
  by (simp add: unat_word_ariths word_less_nat_alt)

lemma claim_counts:
  assumes "claim E x key issuer admin t d = (r, d')" "wrong_key E d key"
  shows "r = Inl InvalidSetupKey \<and> unat (c_pairing_failures d) < 5
      \<and> unat (c_pairing_failures d') = unat (c_pairing_failures d) + 1
      \<and> wrong_key E d' = wrong_key E d \<and> s_owner (c_state d') = None
    \<or> (\<exists>e. r = Inl e \<and> e \<noteq> InvalidSetupKey \<and> d' = d)"
  using assms(1) failures_step [of "c_pairing_failures d"] unfolding claim_wrong_key [OF assms(2)]
  by (auto simp: word_le_nat_alt word_less_nat_alt wrong_key_def split: if_splits)

lemma handle_counts:
  assumes "handle E x cmd c = (rsp, c')"
  shows "wrong_key E c' = wrong_key E c \<and>
    (if guessed E c cmd rsp
     then unat (c_pairing_failures c) < 5 \<and> unat (c_pairing_failures c') = unat (c_pairing_failures c) + 1
     else c_pairing_failures c' = c_pairing_failures c)"
proof (cases "\<exists>key issuer admin. cmd_action cmd = Claim key issuer admin")
  case False
  then have "keeps_pairing c c'" using kp.handle_step [OF _ assms] by blast
  moreover have "\<not> guessed E c cmd rsp" using False by (auto simp: guessed_def split: Action.splits)
  ultimately show ?thesis by (simp add: keeps_wrong_key keeps_failures)
next
  case True
  then obtain key issuer admin where cmd: "cmd_action cmd = Claim key issuer admin" by blast
  obtain r d where run: "dispatch E x cmd c = (r, d)" by fastforce
  have g: "guessed E c cmd rsp \<longleftrightarrow> wrong_key E c key \<and> rsp_result rsp = Inl (Error_code InvalidSetupKey)"
    by (simp add: guessed_def cmd)
  have quiet: ?thesis if "keeps_pairing c d" "r \<noteq> Inl InvalidSetupKey \<or> \<not> wrong_key E c key"
  proof (cases r)
    case (Inl e)
    note rej = handle_rejected [OF run [unfolded Inl] assms]
    then have "keeps_pairing c c'" using that(1) kp.R_trans by blast
    moreover have "\<not> guessed E c cmd rsp" using rej that(2) Inl by (auto simp: g Error_code_setup)
    ultimately show ?thesis by (simp add: keeps_wrong_key keeps_failures)
  next
    case (Inr reply)
    with run assms that(1) show ?thesis
      by (auto simp: handle_def g keeps_wrong_key keeps_failures)
  qed
  from dispatch_claim [OF cmd run] consider
    e where "keeps_pairing c d" "r = Inl e" "e \<noteq> InvalidSetupKey"
    | t b where "keeps_pairing c b" "claim E x key issuer admin t b = (r, d)"
    by (auto simp: decided_def)
  then show ?thesis
  proof cases
    case 1
    then show ?thesis by (intro quiet) simp_all
  next
    case (2 t b)
    note b = keeps_wrong_key [OF 2(1), of E]
    show ?thesis
    proof (cases "wrong_key E c key")
      case False
      then show ?thesis using 2 b claim_right_key [OF _ 2(2)] by (intro quiet) (auto intro: kp.R_trans)
    next
      case wrong: True
      with b have "wrong_key E b key" by simp
      from claim_counts [OF 2(2) this] show ?thesis
      proof (elim disjE exE conjE)
        fix e
        assume "r = Inl e" "e \<noteq> InvalidSetupKey" "d = b"
        then show ?thesis using 2(1) by (intro quiet) auto
      next
        assume r: "r = Inl InvalidSetupKey" and counts: "unat (c_pairing_failures b) < 5"
          "unat (c_pairing_failures d) = unat (c_pairing_failures b) + 1" "wrong_key E d = wrong_key E b"
          and owner: "s_owner (c_state d) = None"
        from handle_rejected [OF run [unfolded r] assms] owner have "keeps_pairing d c'"
          and "rsp_result rsp = Inl (Error_code InvalidSetupKey)" by auto
        with counts wrong b 2(1) keeps_wrong_key [of d c' E] show ?thesis by (simp add: g keeps_failures)
      qed
    qed
  qed
qed

section \<open>Guessing the setup key\<close>

text \<open>A run of the device during which the pairing window is not opened again, with the number of
  guesses in it.\<close>

inductive window_run ::
  "('s, 'p) Env \<Rightarrow> nat \<Rightarrow> ('s, 'p) DeviceController \<Rightarrow> ('s, 'p) DeviceController \<Rightarrow> bool" for E where
  window_start: "window_run E 0 c c"
| window_handle: "window_run E n c d \<Longrightarrow> handle E x cmd d = (rsp, d') \<Longrightarrow>
    window_run E (if guessed E d cmd rsp then n + 1 else n) c d'"
| window_confirm: "window_run E n c d \<Longrightarrow> confirm_physical E x cmd d = (r, d') \<Longrightarrow> window_run E n c d'"
| window_hardware: "window_run E n c d \<Longrightarrow> hardware_changed E d = (r, d') \<Longrightarrow> window_run E n c d'"
| window_finished: "window_run E n c d \<Longrightarrow> actuator_finished E i result d = (r, d') \<Longrightarrow> window_run E n c d'"
| window_poll: "window_run E n c d \<Longrightarrow> poll E d = (r, d') \<Longrightarrow> window_run E n c d'"
| window_platform: "window_run E n c d \<Longrightarrow> window_run E n c (d\<lparr>c_platform := p\<rparr>)"

lemma confirm_keeps: "steps keeps_pairing (confirm_physical E x cmd)"
  unfolding confirm_physical_def
  by (intro kp.work_steps kp.authorize_steps kp.modify_step) (simp add: keeps_pairing_def)

lemma window_run_counts:
  "window_run E n c d \<Longrightarrow> unat (c_pairing_failures d) = unat (c_pairing_failures c) + n
     \<and> (n = 0 \<or> unat (c_pairing_failures d) \<le> 5)"
proof (induction rule: window_run.induct)
  case (window_handle n c d x cmd rsp d')
  with handle_counts [OF window_handle.hyps(2)] show ?case by (auto split: if_splits)
next
  case (window_confirm n c d x cmd r d')
  with stepsD [OF confirm_keeps window_confirm.hyps(2)] show ?case by (auto simp: keeps_failures)
next
  case (window_hardware n c d r d')
  with stepsD [OF kp.hardware_changed_steps window_hardware.hyps(2)] show ?case by (auto simp: keeps_failures)
next
  case (window_finished n c d i result r d')
  with stepsD [OF kp.actuator_finished_steps window_finished.hyps(2)] show ?case by (auto simp: keeps_failures)
next
  case (window_poll n c d r d')
  with stepsD [OF kp.poll_steps window_poll.hyps(2)] show ?case by (auto simp: keeps_failures)
qed auto

lemma claim_closed:
  assumes "5 \<le> unat (c_pairing_failures c)" "cmd_action cmd = Claim key issuer admin"
  shows "\<exists>code. rsp_result (fst (handle E x cmd c)) = Inl code"
proof -
  obtain r d where run: "dispatch E x cmd c = (r, d)" by fastforce
  from dispatch_claim [OF assms(2) run] have "\<exists>e. r = Inl e"
  proof (cases "\<exists>t b. keeps_pairing c b \<and> claim E x key issuer admin t b = (r, d)")
    case True
    then obtain t b where b: "keeps_pairing c b" "claim E x key issuer admin t b = (r, d)" by blast
    with assms(1) have "c_pairing_failures b \<ge> 5" by (simp add: keeps_pairing_def word_le_nat_alt)
    with b(2) show ?thesis by (auto simp: claim_def run_simps split: if_splits)
  qed (auto simp: decided_def)
  then obtain e where "r = Inl e" ..
  with run handle_rejected [of E x cmd c e d] show ?thesis by (cases "handle E x cmd c") auto
qed

text \<open>C12. Brute force: in whatever sequence of requests, from any peers, at any times and mixed with
  anything else the device does, as long as the pairing window is not opened again at the
  device at most five setup keys, minus the failures already counted, are tried and found
  wrong. After that every claim is refused, even one with the right key.\<close>

theorem claims_brute_force:
  assumes "window_run E n c c'"
  shows "n \<le> 5 - unat (c_pairing_failures c)
    \<and> (5 \<le> unat (c_pairing_failures c) + n \<longrightarrow>
        (\<forall>x cmd key issuer admin. cmd_action cmd = Claim key issuer admin \<longrightarrow>
          (\<exists>code. rsp_result (fst (handle E x cmd c')) = Inl code)))"
  using window_run_counts [OF assms] claim_closed [of c' _ _ _ _ E] by auto

definition ex_guess :: Command where
  "ex_guess = \<lparr>cmd_credential = [], cmd_sequence = Some 1, cmd_action = Claim (replicate 32 7) ex_key []\<rparr>"

lemma ex_guess_key: "replicate 32 (7 :: u8) \<noteq> 4 # xs"
  by (auto dest: arg_cong [where f = hd])

lemma ex_guess_handled:
  "handle ex_env ex_context ex_guess (ex_unclaimed\<lparr>c_pairing_failures := 4\<rparr>) =
     (Response_rejected (cmd_action ex_guess) InvalidSetupKey,
      ex_unclaimed\<lparr>c_pairing_failures := 5, c_pairing_until := None\<rparr>)"
proof -
  let ?d = "ex_unclaimed\<lparr>c_pairing_failures := 4\<rparr>"
  note observed = ex_observe_rest [of ?d]
  have "Action_parse (Action_value (cmd_action ex_guess)) = Inr (cmd_action ex_guess)"
    by (simp add: Action_parse_iff Action_wf_def ex_guess_def ex_key_def)
  moreover have "Command_validate ex_guess = Inr ()"
    by (simp add: Command_validate_def ex_guess_def MAX_OBJECT_SIZE_def credentialless_def Action_mutates_def)
  moreover have "Command_capability ex_guess AND KNOWN_CAPABILITIES \<noteq> 0"
    by (simp add: Command_capability_def ex_guess_def Action_opcode_def KNOWN_CAPABILITIES_def)
  moreover have "wrong_key ex_env ?d (replicate 32 7)"
    by (simp add: wrong_key_def ex_unclaimed_def ex_crypto_def ex_guess_key)
  ultimately show ?thesis
    using observed by (simp add: handle_def dispatch_def hardware_changed_def run_simps ex_unclaimed_def ex_guess_def
        claim_wrong_key is_none_or_def word_le_nat_alt)
qed

theorem claims_brute_force_witness:
  "\<exists>c. window_run ex_env 1 (ex_unclaimed\<lparr>c_pairing_failures := 4\<rparr>) c
     \<and> (\<exists>code. rsp_result (fst (handle ex_env ex_context (ex_guess\<lparr>cmd_action := Claim [4, 2] ex_key []\<rparr>) c)) = Inl code)"
proof -
  let ?d = "ex_unclaimed\<lparr>c_pairing_failures := 4\<rparr>"
  have "guessed ex_env ?d ex_guess (Response_rejected (cmd_action ex_guess) InvalidSetupKey)"
    by (simp add: guessed_def wrong_key_def ex_guess_def ex_unclaimed_def ex_crypto_def Response_rejected_def ex_guess_key)
  with window_handle [OF window_start ex_guess_handled]
  have run: "window_run ex_env 1 ?d (ex_unclaimed\<lparr>c_pairing_failures := 5, c_pairing_until := None\<rparr>)" by simp
  from claims_brute_force [OF run] run show ?thesis
    by (intro exI [of _ "ex_unclaimed\<lparr>c_pairing_failures := 5, c_pairing_until := None\<rparr>"]) (simp add: ex_guess_def)
qed

end
