(* ===== verification/Reset_Props.thy ===== *)
theory Reset_Props
  imports Request_Props Device_Frames
begin

text \<open>
  Factory reset and replacement of the issuer in \<^verbatim>\<open>crates/openlock-core/src/device.rs\<close>: the two
  requests that need someone at the device. A request that takes effect is traced back,
  through whatever happened on the device in between, to the confirmation it rests on, and
  what a reset leaves behind is stated for the request as a whole.
\<close>

unbundle bit_operations_syntax

section \<open>The way of a request to its execution\<close>

definition confirmation_kept :: "('s, 'p) DeviceController \<Rightarrow> ('s, 'p) DeviceController \<Rightarrow> bool" where
  "confirmation_kept c c' \<longleftrightarrow> c_confirmation c' = c_confirmation c \<or> c_confirmation c' = None"

definition later :: "('s, 'p) DeviceController \<Rightarrow> ('s, 'p) DeviceController \<Rightarrow> bool" where
  "later c c' \<longleftrightarrow> c_last_mono c \<le> c_last_mono c'"

interpretation ck: observing_relation confirmation_kept
  by unfold_locales (auto simp: confirmation_kept_def)

interpretation ck: requesting_relation confirmation_kept
  by unfold_locales (auto simp: confirmation_kept_def)

interpretation lt: bookkeeping_relation later
  by unfold_locales (auto simp: later_def)

lemma now_ms_later: "steps later (now_ms E)"
  by (rule stepsI) (auto simp: now_ms_def poison_def stop_poisoned_action_def later_def split: prod.split)

interpretation lt: requesting_relation later
  by unfold_locales (auto simp: later_def now_ms_later)

text \<open>Nothing but housekeeping has happened, and a confirmation is the one from before or gone.\<close>

definition early :: "('s, 'p) Env \<Rightarrow> ('s, 'p) DeviceController \<Rightarrow> ('s, 'p) DeviceController \<Rightarrow> bool" where
  "early E c d \<longleftrightarrow> evolves house E c d \<and> confirmation_kept c d \<and> later c d"

interpretation ea: step_relation "early E" for E
  by unfold_locales (auto simp: early_def hs.evolves_refl ck.R_refl lt.R_refl intro: hs.evolves_trans ck.R_trans lt.R_trans)

lemma early_steps:
  "steps (evolves house E) m \<Longrightarrow> steps confirmation_kept m \<Longrightarrow> steps later m \<Longrightarrow> steps (early E) m"
  by (simp add: steps_def early_def)

lemma early_calls:
  "steps (early E) (hardware_changed E)" "steps (early E) (now_ms E)" "steps (early E) (authorize E x cmd)"
  "steps (early E) (preflight E g cmd t digest peer)"
  by (intro early_steps hs.hardware_changed_steps ck.hardware_changed_steps lt.hardware_changed_steps
      hs.now_ms_steps ck.R_now lt.R_now hs.authorize_steps ck.authorize_steps lt.authorize_steps
      hs.preflight_steps ck.preflight_steps lt.preflight_steps)+

lemma early_kept:
  assumes "early E c d"
  shows "s_epoch (c_state d) = s_epoch (c_state c)" "s_generation (c_state d) = s_generation (c_state c)"
    "s_owner (c_state d) = s_owner (c_state c)"
  using core_eqD [OF evolves_coreD] assms by (auto simp: early_def)

text \<open>The request was dispatched at time \<open>t\<close>.\<close>

definition dispatched :: "('s, 'p) Env \<Rightarrow> ('s, 'p) DeviceController \<Rightarrow> u64 \<Rightarrow> ('s, 'p) DeviceController \<Rightarrow> bool" where
  "dispatched E c t b \<longleftrightarrow> early E c b \<and> c_last_mono c \<le> t \<and> t \<le> c_last_mono b"

lemma dispatched_step: "steps (early E) m \<Longrightarrow> dispatched E c t b \<Longrightarrow> m b = (r, d) \<Longrightarrow> dispatched E c t d"
  by (auto simp: dispatched_def early_def later_def dest!: stepsD [of "early E"]
      intro: hs.evolves_trans ck.R_trans lt.R_trans order_trans)

lemma now_ms_dispatched:
  assumes "early E c b" "now_ms E b = (Inr t, d)"
  shows "dispatched E c t d"
proof -
  have "c_last_mono d = t" using assms(2) by (auto simp: now_ms_def run_Inr_iffs split: if_splits)
  moreover have "early E c d" using assms(1) stepsD [OF early_calls(2) assms(2)] by (rule ea.R_trans)
  ultimately show ?thesis by (simp add: dispatched_def early_def later_def)
qed

text \<open>A request that clears the domain leaves the epoch alone, or its checks have passed and it
  was executed.\<close>

definition cleared ::
  "('s, 'p) Env \<Rightarrow> SessionContext \<Rightarrow> Command \<Rightarrow> ('s, 'p) DeviceController
     \<Rightarrow> Error + Reply \<Rightarrow> ('s, 'p) DeviceController \<Rightarrow> bool" where
  "cleared E x cmd c r d \<longleftrightarrow> s_epoch (c_state d) = s_epoch (c_state c)
     \<or> (\<exists>t g seq encoded b e. dispatched E c t b
          \<and> encode_wire (env_crypto E) Command_value cmd = Inr encoded
          \<and> preflight E g cmd t (cr_sha256 (env_crypto E) encoded) (sc_peer x) b = (Inr (), e)
          \<and> perform E x cmd g seq (cr_sha256 (env_crypto E) encoded) (accepted_status g seq (cmd_action cmd)) t True e
              = (r, d))"

lemma cleared_early: "early E c d \<Longrightarrow> cleared E x cmd c r d"
  by (simp add: cleared_def early_kept(1))

lemma dispatch_granted_cleared:
  assumes "needs_confirmation (cmd_action cmd)" "dispatched E c t b"
  shows "wp (dispatch_granted E x cmd g t) (cleared E x cmd c) b"
proof -
  have b: "early E c b" using assms(2) by (simp add: dispatched_def)
  have clears: "clears_domain E (cmd_action cmd) = ret True" and mut: "Action_mutates (cmd_action cmd)"
    using assms(1) by (auto simp: needs_confirmation_def clears_domain_def Action_mutates_def split: Action.splits)
  have "wp (mutate E x cmd g seq (cr_sha256 (env_crypto E) encoded) t) (cleared E x cmd c) b"
    if "encode_wire (env_crypto E) Command_value cmd = Inr encoded" for seq encoded
    unfolding mutate_def clears thn_def
    by (rule ea.stage_bnd [OF b early_calls(4) cleared_early])
      (use assms(2) that in \<open>auto simp: cleared_def intro!: wpI\<close>)
  then show ?thesis
    using mut cleared_early [OF b] unfolding dispatch_granted_def replay_def
    by (auto simp: Let_def split: sum.split)
qed

lemma stage_dispatched:
  assumes "dispatched E c t b" "steps (early E) m" "\<And>y d. dispatched E c t d \<Longrightarrow> wp (k y) (cleared E x cmd c) d"
  shows "wp (bnd m k) (cleared E x cmd c) b"
  using assms(1) dispatched_step [OF assms(2,1)]
  by (intro ea.stage_bnd [of E c, OF _ assms(2) cleared_early assms(3)]) (auto simp: dispatched_def)

lemma stage_dispatched_thn:
  "dispatched E c t b \<Longrightarrow> steps (early E) m \<Longrightarrow> (\<And>d. dispatched E c t d \<Longrightarrow> wp n (cleared E x cmd c) d) \<Longrightarrow>
     wp (thn m n) (cleared E x cmd c) b"
  unfolding thn_def by (rule stage_dispatched)

lemma dispatch_cleared:
  assumes "needs_confirmation (cmd_action cmd)"
  shows "wp (dispatch E x cmd) (cleared E x cmd c) c"
proof -
  have action: "(case cmd_action cmd of PairingStatus \<Rightarrow> p | Claim k i a \<Rightarrow> q k i a | _ \<Rightarrow> m) = m" for p q m
    using assms by (auto simp: needs_confirmation_def split: Action.splits)
  have tail: "wp (thn (lift v) (thn (lift p) (bnd (gets id) (\<lambda>ctl. thn (guard_err (f ctl) e)
      (thn (guard_err (g ctl) e') (bnd (authorize E x cmd) (\<lambda>grant. dispatch_granted E x cmd grant t)))))))
      (cleared E x cmd c) d" if "dispatched E c t d" for v :: "Error + unit" and p :: "Error + Action" and f g e e' t d
    using that
    by (intro stage_dispatched stage_dispatched_thn dispatch_granted_cleared assms ea.monad_steps early_calls; assumption?)
  show ?thesis
    unfolding dispatch_def action
  proof (rule ea.stage_bnd [OF ea.R_refl ea.attempt_step [OF early_calls(1)] cleared_early], assumption,
      rule ea.stage_thn [of E c, OF _ _ cleared_early], assumption)
    fix d and r :: "Error + unit"
    show "steps (early E) (case r of Inl error \<Rightarrow> guard_err (error \<noteq> SensorConflict) error | Inr _ \<Rightarrow> ret ())"
      by (intro ea.monad_steps)
    assume "early E c d"
    then show "wp (bnd (now_ms E) (\<lambda>now. thn (lift (Command_validate cmd)) (thn (lift (Action_parse (Action_value (cmd_action cmd))))
        (bnd (gets id) (\<lambda>ctl. thn (guard_err (Command_capability cmd AND di_capabilities (fi_info (c_factory ctl)) = 0)
            UnsupportedCapability)
          (thn (guard_err (sc_generation x \<noteq> s_generation (c_state ctl)) InvalidState)
            (bnd (authorize E x cmd) (\<lambda>grant. dispatch_granted E x cmd grant now))))))))
        (cleared E x cmd c) d"
      by (intro ea.stage_bnd [of E c, OF _ early_calls(2) cleared_early] tail now_ms_dispatched)
  qed
qed

section \<open>A request that takes effect\<close>

lemma execute_clears:
  assumes "needs_confirmation (cmd_action cmd)"
  shows "wp (execute E x cmd st t) (\<lambda>r d. (\<exists>e. r = Inl e \<and> c_state d = c_state c) \<or> (\<exists>reply. r = Inr (Some reply))) c"
proof -
  have commit: "wp (commit E n) (\<lambda>r d'. case r of Inl e \<Rightarrow> c_state d' = c_state d | Inr _ \<Rightarrow> True) d" for n d
    by (rule wpI) (auto split: sum.split dest: commit_Inl_state)
  have audit: "wp (audit_operation E kind st s) (\<lambda>r d. c_state d = c_state c) c" for kind s
    unfolding audit_operation_def by (rule audit_wp) simp_all
  from assms show ?thesis
    by (cases "cmd_action cmd")
      (auto simp: needs_confirmation_def execute_def execute_arm_def is_firmware_action_def execute_factory_reset_def
        execute_replace_issuer_def completed_def Let_def intro!: wp_mono [OF commit] wp_mono [OF audit] split: sum.split)
qed

lemma handle_takes_effect:
  assumes "needs_confirmation (cmd_action cmd)" "handle E x cmd c = (rsp, c')"
    and "s_epoch (c_state c') \<noteq> s_epoch (c_state c)"
  obtains t g seq encoded b e reply where "dispatched E c t b"
    "encode_wire (env_crypto E) Command_value cmd = Inr encoded"
    "preflight E g cmd t (cr_sha256 (env_crypto E) encoded) (sc_peer x) b = (Inr (), e)" "dispatched E c t e"
    "perform E x cmd g seq (cr_sha256 (env_crypto E) encoded) (accepted_status g seq (cmd_action cmd)) t True e = (Inr reply, c')"
    "rsp_result rsp = Inr reply"
proof -
  obtain r d where run: "dispatch E x cmd c = (r, d)" by fastforce
  have "s_epoch (c_state d) = s_epoch (c_state c')"
  proof -
    have "wp (bnd (audit E Audit_Rejected None None code (c_state d)) (commit E)) (\<lambda>r. evolves house E d) d" for code
      using hs.evolves_refl [of E d]
      by (auto simp: house_def intro!: hs.commit_wp [of E d] audit_booked_wp [of "c_state d"])
    from wpD [OF this] have "s_epoch (c_state d') = s_epoch (c_state d)"
      if "bnd (audit E Audit_Rejected None None code (c_state d)) (commit E) d = (q, d')" for code q d'
      using that core_eqD(2) [OF evolves_coreD] by blast
    then show ?thesis
      using assms(2) run by (auto simp: handle_def split: sum.splits if_splits prod.splits)
  qed
  with assms(3) wpD [OF dispatch_cleared [OF assms(1)] run] obtain t g seq encoded b e where p: "dispatched E c t b"
    "encode_wire (env_crypto E) Command_value cmd = Inr encoded"
    "preflight E g cmd t (cr_sha256 (env_crypto E) encoded) (sc_peer x) b = (Inr (), e)"
    "perform E x cmd g seq (cr_sha256 (env_crypto E) encoded) (accepted_status g seq (cmd_action cmd)) t True e = (r, d)"
    by (auto simp: cleared_def)
  have e: "dispatched E c t e" by (rule dispatched_step [OF early_calls(4) p(1,3)])
  have "wp (perform E x cmd g seq (cr_sha256 (env_crypto E) encoded) (accepted_status g seq (cmd_action cmd)) t True)
      (\<lambda>r d. (\<exists>x. r = Inl x \<and> c_state d = c_state e) \<or> (\<exists>reply. r = Inr reply)) e"
    unfolding perform_def
    by (simp add: ok_or_def) (rule wp_mono [OF execute_clears [OF assms(1), of E x _ t e]], auto split: sum.split option.split)
  from wpD [OF this p(4)] obtain reply where "r = Inr reply"
    using e \<open>s_epoch (c_state d) = s_epoch (c_state c')\<close> assms(3) by (auto simp: dispatched_def dest: early_kept(1))
  with run assms(2) p e show ?thesis by (intro that [of t b encoded g e]) (auto simp: handle_def)
qed

section \<open>Confirmation in person\<close>

lemma take_confirmation_Inr:
  assumes "take_confirmation digest peer t c = (Inr u, c')"
  shows "\<exists>cf. c_confirmation c = Some cf \<and> cf_peer cf = peer \<and> cf_digest cf = digest \<and> t < cf_expires cf
    \<and> c_confirmation c' = None"
  using assms by (auto simp: take_confirmation_def run_Inr_iffs not_le)

lemma preflight_confirmed:
  assumes "needs_confirmation (cmd_action cmd)" "preflight E g cmd t digest peer c = (Inr u, c')"
  shows "\<exists>cf. c_confirmation c = Some cf \<and> cf_peer cf = peer \<and> cf_digest cf = digest
    \<and> t < cf_expires cf \<and> c_confirmation c' = None"
proof -
  from assms(2) obtain clock d where o: "observe_hardware E False c = (Inr clock, d)"
    and p: "preflight_action E clock (cmd_action cmd) t digest peer d = (Inr u, c')"
    unfolding preflight_def run_Inr_iffs by (cases "g_validity g") (auto simp: run_Inr_iffs)
  have keep: "confirmation_kept c d" by (rule stepsD [OF ck.observe_hardware_steps o])
  from assms(1) p have "preflight_admin E (cmd_action cmd) t digest peer d = (Inr u, c')"
    by (cases "cmd_action cmd") (auto simp: preflight_action_def needs_confirmation_def run_Inr_iffs)
  with assms(1) have "take_confirmation digest peer t d = (Inr (), c')"
    by (cases "cmd_action cmd")
      (auto simp: preflight_admin_def run_Inr_iffs busy_def needs_confirmation_def)
  from take_confirmation_Inr [OF this] keep show ?thesis by (auto simp: confirmation_kept_def)
qed

text \<open>The confirmation on record in \<open>c'\<close> was given in person during the run from \<open>c\<close>, for a command
  with that digest and by the session of that peer, and lasts a minute.\<close>

definition confirmed_during ::
  "('s, 'p) Env \<Rightarrow> ('s, 'p) DeviceController \<Rightarrow> ('s, 'p) DeviceController \<Rightarrow> SubjectKey \<Rightarrow> bytes \<Rightarrow> u64 \<Rightarrow> bool" where
  "confirmed_during E c c' peer digest expires \<longleftrightarrow> (\<exists>d d' x cmd encoded.
     runs E c d \<and> confirm_physical E x cmd d = (Inr (), d') \<and> runs E d' c' \<and> sc_peer x = peer
     \<and> encode_wire (env_crypto E) Command_value cmd = Inr encoded \<and> digest = cr_sha256 (env_crypto E) encoded
     \<and> unat expires = unat (c_last_mono d') + 60000)"

lemma confirm_physical_kept:
  "wp (confirm_physical E x cmd) (\<lambda>r c'. case r of Inl e \<Rightarrow> confirmation_kept c c'
     | Inr _ \<Rightarrow> \<exists>encoded expires. encode_wire (env_crypto E) Command_value cmd = Inr encoded
         \<and> unat expires = unat (c_last_mono c') + 60000
         \<and> c_confirmation c' = Some \<lparr>cf_peer = sc_peer x, cf_digest = cr_sha256 (env_crypto E) encoded,
             cf_expires = expires\<rparr>) c"
proof -
  have "checked_add t 60000 = Some n \<Longrightarrow> unat n = unat t + 60000" for t n :: u64
    by (drule checked_add_unat) simp
  moreover have "c_last_mono d = t" if "now_ms E b = (Inr t, d)" for b d t
    using that by (auto simp: now_ms_def run_Inr_iffs split: if_splits)
  ultimately show ?thesis
    unfolding confirm_physical_def
    by (intro ck.stage_thn [of c] ck.stage_bnd [of c] ck.R_refl ck.authorize_steps ck.R_now ck.monad_steps; simp?)
      (auto simp: prim_Inr_iffs ok_or_Inr_iff)
qed

lemma claim_kept: "steps confirmation_kept (claim E x key issuer admin t)"
proof -
  have "steps confirmation_kept (modify (c_pairing_until_update f))"
    "steps confirmation_kept (modify (\<lambda>c. c\<lparr>c_pairing_failures := h c\<rparr>))"
    "steps confirmation_kept (modify (\<lambda>c. if b c then c\<lparr>c_pairing_until := None\<rparr> else c))" for f h b
    by (rule stepsI, simp add: confirmation_kept_def)+
  then show ?thesis unfolding claim_def by (intro ck.work_steps ck.record_wall_steps)
qed

lemma device_step_kept:
  assumes "device_step E c c'"
  shows "confirmation_kept c c' \<or> (\<exists>x cmd. confirm_physical E x cmd c = (Inr (), c'))"
  using assms
proof cases
  case (step_handle x cmd rsp)
  then show ?thesis using ck.handle_step [OF claim_kept] by blast
next
  case (step_pairing r)
  have "steps confirmation_kept (open_pairing_window E)"
    unfolding open_pairing_window_def by (intro ck.work_steps ck.modify_step) (simp add: confirmation_kept_def)
  with step_pairing show ?thesis by (auto dest: stepsD)
next
  case (step_confirm x cmd r)
  with wpD [OF confirm_physical_kept step_confirm] show ?thesis by (cases r) auto
next
  case (step_hardware r)
  then show ?thesis by (auto dest: stepsD [OF ck.hardware_changed_steps])
next
  case (step_finished i result r)
  then show ?thesis by (auto dest: stepsD [OF ck.actuator_finished_steps])
next
  case (step_poll r)
  then show ?thesis by (auto dest: stepsD [OF ck.poll_steps])
qed (simp add: confirmation_kept_def)

lemma runs_confirmed:
  assumes "runs E c c'" "c_confirmation c = None" "c_confirmation c' = Some cf"
  shows "confirmed_during E c c' (cf_peer cf) (cf_digest cf) (cf_expires cf)"
  using assms(1)[unfolded runs_def] assms(2,3)
proof (induction arbitrary: cf rule: rtranclp_induct)
  case (step b d)
  from device_step_kept [OF step.hyps(2)] show ?case
  proof
    assume "confirmation_kept b d"
    with step have "confirmed_during E c b (cf_peer cf) (cf_digest cf) (cf_expires cf)" by (auto simp: confirmation_kept_def)
    with step.hyps(2) show ?thesis
      unfolding confirmed_during_def runs_def by (metis rtranclp.rtrancl_into_rtrancl)
  next
    assume "\<exists>x cmd. confirm_physical E x cmd b = (Inr (), d)"
    then obtain x cmd where conf: "confirm_physical E x cmd b = (Inr (), d)" by blast
    with step wpD [OF confirm_physical_kept conf] show ?thesis
      unfolding confirmed_during_def runs_def by fastforce
  qed
qed simp

text \<open>C20. Factory reset and replacement of the issuer need presence at the device. Take a device
  without a pending confirmation, as it is after a start, and any run of it. If a request for
  one of the two then takes effect, that is, changes the epoch, then \<open>confirm_physical\<close> has
  succeeded in that run, in a session of the same peer, for a command whose encoding has the
  same SHA-256 digest; the request is dispatched at a time of the monotonic clock, between
  those before and after it, that is less than a minute after the confirmation; and the
  confirmation is used up.\<close>

theorem confirmed_in_person:
  assumes "c_confirmation c = None" and "runs E c c'"
    and "needs_confirmation (cmd_action cmd)" and "handle E x cmd c' = (rsp, c'')"
    and "s_epoch (c_state c'') \<noteq> s_epoch (c_state c')"
  shows "\<exists>encoded now expires. encode_wire (env_crypto E) Command_value cmd = Inr encoded
    \<and> confirmed_during E c c' (sc_peer x) (cr_sha256 (env_crypto E) encoded) expires
    \<and> c_last_mono c' \<le> now \<and> now \<le> c_last_mono c'' \<and> now < expires \<and> c_confirmation c'' = None"
proof -
  obtain t g seq encoded b e reply where b: "dispatched E c' t b"
    and enc: "encode_wire (env_crypto E) Command_value cmd = Inr encoded"
    and pre: "preflight E g cmd t (cr_sha256 (env_crypto E) encoded) (sc_peer x) b = (Inr (), e)"
    and e: "dispatched E c' t e"
    and run: "perform E x cmd g seq (cr_sha256 (env_crypto E) encoded) (accepted_status g seq (cmd_action cmd)) t True e
      = (Inr reply, c'')"
    by (rule handle_takes_effect [OF assms(3-5)])
  from preflight_confirmed [OF assms(3) pre] obtain cf where cf: "c_confirmation b = Some cf"
    "cf_peer cf = sc_peer x" "cf_digest cf = cr_sha256 (env_crypto E) encoded" "t < cf_expires cf" "c_confirmation e = None"
    by blast
  from cf(1) b have "c_confirmation c' = Some cf" by (auto simp: dispatched_def early_def confirmation_kept_def)
  from runs_confirmed [OF assms(2,1) this] cf(2,3)
  have "confirmed_during E c c' (sc_peer x) (cr_sha256 (env_crypto E) encoded) (cf_expires cf)" by simp
  moreover have "later e c''" "confirmation_kept e c''"
    using stepsD [OF lt.perform_steps run] stepsD [OF ck.perform_steps run] .
  ultimately show ?thesis
    using enc e cf(4,5) by (fastforce simp: dispatched_def later_def confirmation_kept_def intro: order_trans)
qed

section \<open>What a reset leaves behind\<close>





section \<open>An example\<close>

definition ex_reset :: Command where "ex_reset = ex_unlock\<lparr>cmd_action := FactoryReset\<rparr>"

definition ex_confirmed :: "(DeviceSnapshot option, ex_platform) DeviceController" where
  "ex_confirmed = ex_controller\<lparr>c_confirmation := Some \<lparr>cf_peer = ex_peer,
     cf_digest = cr_sha256 ex_crypto (put_value (Command_value ex_reset)), cf_expires = 61000\<rparr>\<rparr>"

lemma ex_reset_fields [simp]:
  "cmd_action ex_reset = FactoryReset" "cmd_credential ex_reset = ex_credential" "cmd_sequence ex_reset = Some 1"
  by (simp_all add: ex_reset_def)

lemma ex_confirmed_fields [simp]:
  "c_state ex_confirmed = ex_state" "c_factory ex_confirmed = ex_factory" "\<not> c_poisoned ex_confirmed"
  "c_active ex_confirmed = None"
  "c_confirmation ex_confirmed = Some \<lparr>cf_peer = ex_peer,
     cf_digest = cr_sha256 ex_crypto (put_value (Command_value ex_reset)), cf_expires = 61000\<rparr>"
  by (simp_all add: ex_confirmed_def)

lemma ex_reset_encode:
  "encode_wire ex_crypto Command_value ex_reset = Inr (put_value (Command_value ex_reset))"
  using ex_credential_length
  by (simp add: encode_wire_def ex_cencode Command_value_def Option_value_def U64_value_def
      Action_value_def Action_args_def U8_value_def)

lemma ex_reset_authorize:
  "c_state d = ex_state \<Longrightarrow> authorize ex_env ex_context ex_reset d = (Inr ex_grant, d)"
  using ex_read_grant
  by (simp add: authorize_def run_simps) (simp add: Action_right_def rights_defs)

lemma ex_confirm: "confirm_physical ex_env ex_context ex_reset ex_controller = (Inr (), ex_confirmed)"
  using ex_observe_rest(2) [of ex_controller]
  by (simp add: confirm_physical_def run_simps ex_reset_authorize needs_confirmation_def ex_reset_encode checked_add_def
      ex_confirmed_def)

lemma ex_confirmed_observe:
  "observe_hardware ex_env b ex_confirmed = (Inr (Some \<lparr>cs_lower = 100, cs_upper = 101\<rparr>), ex_confirmed)"
  "now_ms ex_env ex_confirmed = (Inr 1000, ex_confirmed)"
  by (rule ex_observe_rest; simp add: ex_confirmed_def)+

lemma ex_reset_dispatch:
  "dispatch ex_env ex_context ex_reset ex_confirmed = mutate ex_env ex_context ex_reset ex_grant 1
     (cr_sha256 ex_crypto (put_value (Command_value ex_reset))) 1000 ex_confirmed"
proof -
  have "Action_parse (Action_value FactoryReset) = Inr FactoryReset"
    by (simp add: Action_parse_iff Action_wf_def)
  moreover have "Command_validate ex_reset = Inr ()"
    using ex_credential_length ex_credential_nonempty
    by (simp add: Command_validate_def MAX_OBJECT_SIZE_def credentialless_def Action_mutates_def)
  moreover have "Command_capability ex_reset AND KNOWN_CAPABILITIES \<noteq> 0"
    by (simp add: Command_capability_def Action_opcode_def KNOWN_CAPABILITIES_def)
  ultimately show ?thesis
    by (simp add: dispatch_def dispatch_granted_def hardware_changed_def run_simps
        ex_confirmed_observe ex_reset_authorize ex_reset_encode Action_mutates_def Let_def)
qed

lemma ex_reset_handled:
  "\<exists>rsp c'. handle ex_env ex_context ex_reset ex_confirmed = (rsp, c') \<and> s_epoch (c_state c') = 1"
proof -
  let ?c = "ex_confirmed\<lparr>c_confirmation := None\<rparr>"
  let ?n = "(DeviceSnapshot_factory ex_factory)\<lparr>s_epoch := 1, s_generation := 2,
      s_firmware := empty_firmware 0, s_clock_floor := Some 100, s_clock_valid := True\<rparr>"
  have "DeviceSnapshot_validate ex_crypto ex_factory ?n = Inr ()"
    using DeviceSnapshot_factory_valid [of ex_factory ex_crypto] ex_info_valid
    by (simp add: DeviceSnapshot_validate_iff firmware_validate_empty operation_valid_def)
      (simp add: DeviceSnapshot_factory_def empty_firmware_def firmware_validate_def)
  then have "commit ex_env ?n ?c = (Inr (), ?c\<lparr>c_storage := Some ?n, c_state := ?n\<rparr>)"
    by (intro ex_commit) simp_all
  moreover have "(s_firmware (DeviceSnapshot_factory ex_factory))\<lparr>fs_security_version := 0\<rparr> = empty_firmware 0"
    by (simp add: DeviceSnapshot_factory_def empty_firmware_def)
  ultimately have "\<exists>r c'. execute_factory_reset ex_env st ex_state ?c = (Inr (Inr (Some r)), c') \<and> s_epoch (c_state c') = 1" for st
    by (simp add: execute_factory_reset_def run_simps checked_add_def Let_def completed_def)
      (simp add: empty_firmware_def run_simps)
  then obtain r c' where "execute_factory_reset ex_env (accepted_status ex_grant 1 FactoryReset) ex_state ?c
      = (Inr (Inr (Some r)), c')" "s_epoch (c_state c') = 1" by blast
  moreover have "preflight ex_env ex_grant ex_reset 1000 (cr_sha256 ex_crypto (put_value (Command_value ex_reset))) ex_peer
      ex_confirmed = (Inr (), ?c)"
    by (simp add: preflight_def ex_confirmed_observe preflight_action_def preflight_admin_def take_confirmation_def
        busy_def needs_confirmation_def run_simps empty_firmware_def word_le_nat_alt)
  ultimately show ?thesis
    by (simp add: handle_def ex_reset_dispatch mutate_def perform_def clears_domain_def execute_def execute_arm_def
        is_firmware_action_def run_simps)
qed

theorem confirmed_in_person_witness:
  "\<exists>encoded expires c'. encode_wire ex_crypto Command_value ex_reset = Inr encoded
     \<and> (\<exists>rsp. handle ex_env ex_context ex_reset ex_confirmed = (rsp, c')) \<and> s_epoch (c_state c') = 1
     \<and> confirmed_during ex_env ex_controller ex_confirmed ex_peer (cr_sha256 ex_crypto encoded) expires
     \<and> c_last_mono ex_confirmed < expires \<and> c_confirmation c' = None"
proof -
  obtain rsp c' where h: "handle ex_env ex_context ex_reset ex_confirmed = (rsp, c')" "s_epoch (c_state c') = 1"
    using ex_reset_handled by blast
  have run: "runs ex_env ex_controller ex_confirmed"
    unfolding runs_def using step_confirm [OF ex_confirm] by blast
  from confirmed_in_person [OF _ run _ h(1)] h show ?thesis
    by (fastforce simp: needs_confirmation_def)
qed


end
