(* ===== verification/Admin_Props.thy ===== *)
theory Admin_Props
  imports Request_Props Device_Frames
begin

text \<open>
  Administrative requests to the device controller of \<^verbatim>\<open>crates/openlock-core/src/device.rs\<close>:
  reading the audit log and the reception of a firmware image.
\<close>

unbundle bit_operations_syntax

section \<open>Audit log\<close>

lemma saturating_add_one_less:
  "saturating_add (a :: 'w::len word) 1 < b \<longleftrightarrow> unat a + 1 < unat b"
proof (cases "checked_add a 1")
  case None
  then have "2 ^ LENGTH('w) \<le> unat a + 1" by (auto simp: checked_add_def split: if_splits)
  moreover have "unat b < 2 ^ LENGTH('w)" by (rule unsigned_less)
  ultimately have "\<not> unat a + 1 < unat b" by linarith
  moreover have "\<not> (- 1 :: 'w word) < b" by (simp add: not_less)
  ultimately show ?thesis using None by (simp add: saturating_add_def)
next
  case (Some n)
  with checked_add_unat [OF Some] show ?thesis by (simp add: saturating_add_def word_less_nat_alt)
qed

lemma events_split:
  assumes "events_valid n l es" and "es = xs @ ys" and "xs \<noteq> []"
  shows "filter (\<lambda>e. ae_cursor e > ae_cursor (last xs)) es = ys"
proof -
  from events_valid_sorted [OF assms(1)] have "sorted_wrt (\<lambda>a b. ae_cursor a < ae_cursor b) (xs @ ys)"
    by (simp add: assms(2))
  then have "\<forall>x\<in>set xs. \<forall>y\<in>set ys. ae_cursor x < ae_cursor y"
    and xs: "sorted_wrt (\<lambda>a b. ae_cursor a < ae_cursor b) xs"
    by (auto simp: sorted_wrt_append)
  moreover have "\<forall>x\<in>set xs. ae_cursor x \<le> ae_cursor (last xs)"
    using xs assms(3) by (induction xs) (auto split: if_splits dest: less_imp_le)
  ultimately show ?thesis
    using assms(2,3) by (auto simp: filter_empty_conv intro!: filter_True)
qed

lemma events_valid_filter:
  "events_valid n l es \<Longrightarrow> events_valid n l (filter (\<lambda>e. ae_cursor e > k) es)"
proof (induction es arbitrary: l)
  case (Cons e es)
  then have "events_valid n (ae_cursor e) (filter (\<lambda>e. ae_cursor e > k) es)" by simp
  moreover from Cons.prems have "l \<le> ae_cursor e" by auto
  ultimately show ?case using Cons.prems by (auto intro: events_valid_lower)
qed simp

text \<open>C19. Paging through the audit log: on a valid snapshot a page holds at most the
  requested number of events, the page followed by what a reader finds newer than the
  page's next cursor is exactly what is newer than the start, so no event is skipped or
  repeated, a page is empty only when nothing newer exists, and the gap flag is set
  exactly when an event directly after the start has been dropped from the log.\<close>

theorem read_log_pages:
  assumes "events_valid (s_next_cursor s) 0 (s_events s)" and "0 < limit"
  shows "let page = read_log s after limit in
    length (ap_events page) \<le> unat limit
    \<and> filter (\<lambda>e. ae_cursor e > after) (s_events s)
        = ap_events page @ filter (\<lambda>e. ae_cursor e > ap_next_cursor page) (s_events s)
    \<and> (ap_events page = [] \<longleftrightarrow> (\<forall>e\<in>set (s_events s). ae_cursor e \<le> after))
    \<and> (ap_gap page \<longleftrightarrow> unat after + 1
        < unat (case s_events s of [] \<Rightarrow> s_next_cursor s | e # _ \<Rightarrow> ae_cursor e))"
proof -
  let ?new = "filter (\<lambda>e. ae_cursor e > after) (s_events s)"
  let ?page = "take (unat limit) ?new"
  have lim: "unat limit \<noteq> 0" using assms(2) by (simp add: word_less_nat_alt)
  have rest: "?new = ?page @ filter (\<lambda>e. ae_cursor e > ae_cursor (last ?page)) (s_events s)" if "?page \<noteq> []"
  proof -
    have last: "ae_cursor (last ?page) > after"
      using last_in_set [OF that] by (auto dest: in_set_takeD)
    have "filter (\<lambda>e. ae_cursor e > ae_cursor (last ?page)) ?new = drop (unat limit) ?new"
      using events_valid_filter [OF assms(1)] that by (intro events_split [of _ _ _ ?page]) auto
    moreover from last have "filter (\<lambda>e. ae_cursor e > ae_cursor (last ?page)) ?new
        = filter (\<lambda>e. ae_cursor e > ae_cursor (last ?page)) (s_events s)"
      by (auto intro: filter_cong)
    ultimately show ?thesis by (metis append_take_drop_id)
  qed
  have "?new = []" if "?page = []" using that lim by simp
  moreover have "saturating_add after 1 < first \<longleftrightarrow> unat after + 1 < unat first" for first :: u64
    by (rule saturating_add_one_less)
  ultimately show ?thesis
    using rest lim by (auto simp: read_log_def Let_def filter_empty_conv not_less)
qed

theorem read_log_pages_witness:
  "events_valid (s_next_cursor ex_running) 0 (s_events ex_running)
   \<and> length (ap_events (read_log ex_running 0 1)) \<le> 1
   \<and> s_events ex_running = ap_events (read_log ex_running 0 1)
       @ filter (\<lambda>e. ae_cursor e > ap_next_cursor (read_log ex_running 0 1)) (s_events ex_running)"
proof -
  have v: "events_valid (s_next_cursor ex_running) 0 (s_events ex_running)"
    using ex_running_valid by (simp add: DeviceSnapshot_validate_iff)
  then have "filter (\<lambda>e. ae_cursor e > 0) (s_events ex_running) = s_events ex_running"
    using events_valid_sorted [OF v] by simp
  with read_log_pages [OF v, of 1 0] v show ?thesis by (simp add: Let_def)
qed

section \<open>Firmware reception\<close>

text \<open>C22. Reception of an image: a chunk that passes its checks and is executed either starts at the end
  of what has been received, and then the boot loader is told to write exactly these bytes
  there, once; or it lies inside, and then nothing is written, and the boot loader has
  returned exactly these bytes for this place. The count of received bytes becomes the larger
  of the old count and the end of the chunk, computed without wrap-around, so a repetition
  leaves it and the whole snapshot alone, and it stays within the size the signed manifest
  states.\<close>

theorem firmware_chunk_in_order:
  assumes "preflight_chunk E offset data c = (Inr u, c')"
    and "execute_firmware E (FirmwareChunk offset data) st (c_state c') c' = (Inr (Inl n), c'')"
  shows "offset \<le> fs_received (s_firmware (c_state c))
    \<and> unat (fs_received (s_firmware n))
        = max (unat (fs_received (s_firmware (c_state c)))) (unat offset + length data)
    \<and> (\<exists>m. fs_manifest (s_firmware n) = Some m \<and> unat offset + length data \<le> unat (fm_size m))
    \<and> fs_phase (s_firmware n) = Firmware_Receiving
    \<and> (if offset = fs_received (s_firmware (c_state c))
       then c' = c \<and> env_boot_write E offset data (snd (env_bootloader E (c_platform c))) = (Inr (), c_platform c'')
       else n = c_state c \<and> c'' = c'
         \<and> env_boot_read E offset (length data) (snd (env_bootloader E (c_platform c))) = (Inr data, c_platform c'))"
proof -
  let ?len = "of_nat (length data) :: u64"
  from assms(1) obtain m where m: "fs_manifest (s_firmware (c_state c)) = Some m"
    and rec: "fs_phase (s_firmware (c_state c)) = Firmware_Receiving"
    and len: "length data \<le> unat (di_max_chunk_size (fi_info (c_factory c)))"
    and e: "\<exists>e. checked_add offset ?len = Some e \<and> e \<le> fm_size m"
    and off: "offset \<le> fs_received (s_firmware (c_state c))"
    and inside: "offset < fs_received (s_firmware (c_state c)) \<longrightarrow>
      offset + ?len \<le> fs_received (s_firmware (c_state c))"
    and st: "c_state c' = c_state c"
    by (auto simp: preflight_chunk_def run_Inr_iffs Let_def is_none_or_def not_le not_less boot_def
        plat_def plat_result_def split: option.splits if_splits prod.splits)
  have "unat (di_max_chunk_size (fi_info (c_factory c))) < 2 ^ 32"
    by (rule less_le_trans [OF unsigned_less]) simp
  with len have "length data < 2 ^ 64" by simp
  then have ul: "unat ?len = length data" by (simp add: unsigned_of_nat take_bit_nat_eq_self)
  from e obtain last where last: "checked_add offset ?len = Some last" "last \<le> fm_size m" by blast
  then have eq: "last = offset + ?len" by (simp add: checked_add_Some_iff)
  from checked_add_unat [OF last(1)] last(2) ul
  have sum: "unat (offset + ?len) = unat offset + length data" "offset + ?len \<le> fm_size m"
    unfolding eq by simp_all
  from assms(2) st have n: "n = (if offset = fs_received (s_firmware (c_state c))
      then (c_state c)\<lparr>s_firmware := (s_firmware (c_state c))\<lparr>fs_received := offset + ?len\<rparr>\<rparr> else c_state c)"
    by (auto simp: execute_firmware_def run_Inr_iffs split: if_splits)
  have calls: "if offset = fs_received (s_firmware (c_state c))
      then c' = c \<and> env_boot_write E offset data (snd (env_bootloader E (c_platform c))) = (Inr (), c_platform c'')
      else c'' = c'
        \<and> env_boot_read E offset (length data) (snd (env_bootloader E (c_platform c))) = (Inr data, c_platform c')"
    using assms off st
    by (auto simp: preflight_chunk_def execute_firmware_def run_Inr_iffs Let_def boot_def
        plat_def plat_result_def split: if_splits prod.splits)
  have size: "unat offset + length data \<le> unat (fm_size m)"
    using sum(2) unfolding word_le_nat_alt sum(1) .
  show ?thesis
  proof (cases "offset = fs_received (s_firmware (c_state c))")
    case True
    with n have "fs_received (s_firmware n) = offset + ?len" by simp
    then have "unat (fs_received (s_firmware n)) = unat offset + length data" by (simp only: sum(1))
    with True n m rec size calls show ?thesis by (simp add: max_def)
  next
    case False
    with off have less: "offset < fs_received (s_firmware (c_state c))" by simp
    with inside have "offset + ?len \<le> fs_received (s_firmware (c_state c))" by simp
    then have "unat offset + length data \<le> unat (fs_received (s_firmware (c_state c)))"
      unfolding word_le_nat_alt sum(1) .
    with False less n m rec size off calls show ?thesis by (simp add: max_def)
  qed
qed

definition ex_receiving :: "(DeviceSnapshot option, ex_platform) DeviceController" where
  "ex_receiving = ex_controller\<lparr>c_state := ex_state\<lparr>s_firmware := \<lparr>fs_phase = Firmware_Receiving, fs_received = 4,
     fs_manifest = Some \<lparr>fm_model = ''m'', fm_hardware = ''h'', fm_version = ''g'', fm_size = 10,
       fm_sha256 = replicate 32 0, fm_security_version = 1\<rparr>, fs_security_version = 0\<rparr>\<rparr>\<rparr>"

theorem firmware_chunk_in_order_witness:
  "\<exists>n c''. preflight_chunk ex_env 4 [1, 2, 3] ex_receiving = (Inr (), ex_receiving)
     \<and> execute_firmware ex_env (FirmwareChunk 4 [1, 2, 3]) (ex_status Phase_Accepted)
           (c_state ex_receiving) ex_receiving = (Inr (Inl n), c'')
     \<and> unat (fs_received (s_firmware n)) = 7"
proof -
  have p: "preflight_chunk ex_env 4 [1, 2, 3] ex_receiving = (Inr (), ex_receiving)"
    by (simp add: preflight_chunk_def run_simps Let_def ex_receiving_def checked_add_def ex_info_def)
  obtain n c'' where e: "execute_firmware ex_env (FirmwareChunk 4 [1, 2, 3]) (ex_status Phase_Accepted)
      (c_state ex_receiving) ex_receiving = (Inr (Inl n), c'')"
    by (simp add: execute_firmware_def run_simps call_defs boot_def ex_receiving_def ex_env_def)
  from firmware_chunk_in_order [OF p e] p e show ?thesis by (simp add: ex_receiving_def)
qed

end
