(* ===== verification/Open_Props.thy ===== *)
theory Open_Props
  imports Request_Props
begin

text \<open>
  The constructors of the device controller of \<^verbatim>\<open>crates/openlock-core/src/device.rs\<close>: what
  \<open>open\<close> recovers after a crash or a restart, and that security state survives it.
\<close>

unbundle bit_operations_syntax

lemma audit_automatic_Inr:
  assumes "audit_automatic E phase evidence error s c = (Inr s', c')"
  shows "audited s s' \<and> (\<exists>p. c' = c\<lparr>c_platform := p\<rparr>)"
proof -
  have "wp (audit_automatic E phase evidence error s)
      (\<lambda>r c'. \<forall>s'. r = Inr s' \<longrightarrow> audited s s' \<and> (\<exists>p. c' = c\<lparr>c_platform := p\<rparr>)) c"
    by (rule audit_automatic_wp) auto
  from wpD [OF this assms] show ?thesis by simp
qed

text \<open>What only a drive, a session or a request changes.\<close>

definition idle_part :: "('s, 'p) DeviceController \<Rightarrow>
    bool \<times> OperationRecord list \<times> bool \<times> Active option \<times> u64 option \<times> Confirmation option" where
  "idle_part c = (c_poisoned c, s_operations (c_state c), s_automatic_inflight (c_state c), c_active c,
     c_pairing_until c, c_confirmation c)"

lemma reconcile_boot_idle:
  assumes "reconcile_boot E c = (Inr u, c')"
  shows "idle_part c' = idle_part c"
  using assms
  by (auto simp: reconcile_boot_def run_Inr_iffs commit_Inr_iff boot_def plat_def plat_result_def
      idle_part_def audited_def split: if_splits prod.splits dest!: audit_Inr)

lemma recover_cases:
  assumes "recover E ia sample c = (Inr u, c')"
  obtains n d s e where "audited (c_state c) n \<or> n = c_state c"
    and "\<exists>p fault. d = c\<lparr>c_fault := fault, c_platform := p\<rparr>" and "commit E n d = (Inr (), s)"
    and "e = s \<or> (\<exists>v. e = s\<lparr>c_factory := (c_factory s)\<lparr>fi_info := (fi_info (c_factory s))\<lparr>di_firmware := v\<rparr>\<rparr>\<rparr>)"
    and "reconcile_boot E e = (Inr u, c')"
proof -
  from assms obtain n d s e where n: "(if ia then thn (modify (c_fault_update (\<lambda>_. Fault_Driver)))
        (audit_automatic E Phase_Unknown Evidence_None (Error_code ActuatorFailed) (c_state c))
      else ret (c_state c)) c = (Inr n, d)"
    and s: "commit E n d = (Inr (), s)"
    and e: "e = s \<or> (\<exists>v. e = s\<lparr>c_factory := (c_factory s)\<lparr>fi_info := (fi_info (c_factory s))\<lparr>di_firmware := v\<rparr>\<rparr>\<rparr>)"
    and boot: "reconcile_boot E e = (Inr u, c')"
    by (auto simp: recover_def run_Inr_iffs split: if_splits)
  from n have "audited (c_state c) n \<or> n = c_state c"
    by (auto simp: run_Inr_iffs split: if_splits dest!: audit_automatic_Inr)
  moreover from n have "\<exists>p fault. d = c\<lparr>c_fault := fault, c_platform := p\<rparr>"
  proof (cases ia)
    case False
    with n have "d = c\<lparr>c_fault := c_fault c, c_platform := c_platform c\<rparr>" by (simp add: run_Inr_iffs)
    then show ?thesis by blast
  qed (auto simp: run_Inr_iffs dest!: audit_automatic_Inr)
  ultimately show ?thesis using s e boot that by blast
qed

lemma recover_Inr:
  assumes ok: "storage_ok E" and run: "recover E ia sample c = (Inr u, c')"
  shows "durable E c' \<and> snap_le (c_state c) (c_state c') \<and> idle_part c' = idle_part c"
proof -
  from run obtain n d s e where n: "audited (c_state c) n \<or> n = c_state c"
    and d: "\<exists>p fault. d = c\<lparr>c_fault := fault, c_platform := p\<rparr>" and com: "commit E n d = (Inr (), s)"
    and e: "e = s \<or> (\<exists>v. e = s\<lparr>c_factory := (c_factory s)\<lparr>fi_info := (fi_info (c_factory s))\<lparr>di_firmware := v\<rparr>\<rparr>\<rparr>)"
    and boot: "reconcile_boot E e = (Inr u, c')"
    by (rule recover_cases)
  from com d have dur: "durable E s" and st: "c_state s = n"
    and floor: "\<not> option_less (s_clock_floor n) (s_clock_floor (c_state c))"
    using ok by (auto simp: commit_Inr_iff durable_def storage_ok_def)
  have idle: "idle_part s = idle_part c"
    using com d n by (auto simp: commit_Inr_iff idle_part_def audited_def)
  have "booked (c_state c) n" using n audited_booked [of "c_state c" n "c_state c"] by auto
  with floor have le: "snap_le (c_state c) n" by (intro snap_le_house) (simp add: house_def)
  have "evolves snap_le E s e"
    using e sl.evolves_refl [of E s] evolves_firmware [of snap_le E s s] by auto
  moreover have "evolves snap_le E e c'" using stepsD [OF reconcile_boot_evolves boot] .
  ultimately have ev: "evolves snap_le E s c'" by (rule sl.evolves_trans)
  from e have "idle_part e = idle_part s" by (auto simp: idle_part_def)
  with reconcile_boot_idle [OF boot] idle have "idle_part c' = idle_part c" by simp
  with ev ok dur st le show ?thesis by (auto simp: evolves_def intro: snap_le_trans)
qed

lemma recovered_house: "house s (recovered_state sample s)"
proof -
  have "operation_key (interrupted r) = operation_key r" for r
    by (simp add: interrupted_def operation_key_def)
  then show ?thesis by (simp add: house_def booked_def recovered_state_def comp_def)
qed

lemma on_platform_Inr_iff:
  "on_platform g sp = (Inr x, sp') \<longleftrightarrow> (\<exists>q. g (snd sp) = (x, q) \<and> sp' = (fst sp, q))"
  by (auto simp: on_platform_def split: prod.splits)

lemma on_controller_Inr_iff:
  "on_controller m c sp = (Inr c', sp') \<longleftrightarrow> m c = (Inr (), c') \<and> sp' = (c_storage c', c_platform c')"
  by (auto simp: on_controller_def result_Inr_iffs split: prod.splits)

lemma open_cases:
  assumes "Controller_open E f (s, p) = (Inr c, sp)"
  obtains q state sample mono p' where
    "env_stop_action E p = (Inr (), q)" "env_load E s = Inr (Some state)"
    "DeviceSnapshot_validate (env_crypto E) f state = Inr ()"
    "recover E (s_automatic_inflight state) sample
       (fresh_controller f s p' (recovered_state sample state) sample mono) = (Inr (), c)"
  using assms
  by (auto simp: Controller_open_def open_stopped_def quiesce_def load_def run_Inr_iffs
      on_platform_Inr_iff on_controller_Inr_iff split: if_splits)

lemma recover_snap_le:
  assumes "storage_ok E"
    and "recover E ia sample (fresh_controller f s p (recovered_state sample state) sample t) = (Inr u, c)"
  shows "snap_le state (c_state c)"
  using recover_Inr [OF assms] snap_le_house [OF recovered_house] snap_le_trans
  by (simp add: fresh_controller_def) blast

text \<open>C23. Crash recovery: a controller that opens has stopped the actuator, found a valid
  snapshot in the store, and agrees with the store again. It is idle, healthy and without
  confirmation or pairing window; no operation is left accepted or running, no automatic
  lock is left in flight; and relative to the stored snapshot nothing is rolled back.\<close>

theorem open_recovers:
  assumes "storage_ok E" and "Controller_open E f (s, p) = (Inr c, sp)"
  shows "(\<exists>q state. env_stop_action E p = (Inr (), q) \<and> env_load E s = Inr (Some state)
      \<and> DeviceSnapshot_validate (env_crypto E) f state = Inr () \<and> snap_le state (c_state c))
    \<and> durable E c \<and> \<not> c_poisoned c \<and> c_active c = None \<and> c_pairing_until c = None \<and> c_confirmation c = None
    \<and> \<not> s_automatic_inflight (c_state c)
    \<and> (\<forall>r\<in>set (s_operations (c_state c)). os_phase (or_status r) \<notin> {Phase_Accepted, Phase_Running})"
proof -
  from assms(2) obtain q state sample mono p' where
    stop: "env_stop_action E p = (Inr (), q)" and load: "env_load E s = Inr (Some state)"
    and valid: "DeviceSnapshot_validate (env_crypto E) f state = Inr ()"
    and run: "recover E (s_automatic_inflight state) sample
        (fresh_controller f s p' (recovered_state sample state) sample mono) = (Inr (), c)"
    by (rule open_cases)
  from recover_Inr [OF assms(1) run] have "durable E c"
    and idle: "idle_part c = (False, map interrupted (s_operations state), False, None, None, None)"
    by (simp_all add: idle_part_def fresh_controller_def recovered_state_def)
  then show ?thesis
    using stop load valid recover_snap_le [OF assms(1) run] by (auto simp: idle_part_def interrupted_def)
qed

text \<open>The example device restarts while it drives.\<close>

definition ex_restarted :: DeviceSnapshot where
  "ex_restarted = recovered_state ex_sample ex_running"

lemma ex_restarted_valid: "DeviceSnapshot_validate ex_crypto ex_factory ex_restarted = Inr ()"
  by (simp add: DeviceSnapshot_validate_iff ex_restarted_def recovered_state_def interrupted_def
      ex_running_def ex_accepted_def operation_valid_def firmware_validate_empty ex_status_def
      accepted_status_def ex_event_def Action_opcode_def)
    (simp add: empty_firmware_def word_le_nat_alt)

lemma ex_reopen: "\<exists>c sp. Controller_open ex_env ex_factory (Some ex_running, []) = (Inr c, sp)"
proof -
  let ?c = "fresh_controller ex_factory (Some ex_running) ([] :: ex_platform) ex_restarted ex_sample 1000"
  have "commit ex_env ex_restarted ?c = (Inr (), ?c\<lparr>c_storage := Some ex_restarted, c_state := ex_restarted\<rparr>)"
    using ex_restarted_valid by (intro ex_commit) (simp_all add: fresh_controller_def)
  moreover have "fs_phase (s_firmware ex_restarted) = Firmware_Empty" "\<not> s_automatic_inflight ex_running"
    by (simp_all add: ex_restarted_def recovered_state_def ex_running_def ex_accepted_def empty_firmware_def)
  moreover have "c_state ?c = ex_restarted" "c_factory ?c = ex_factory" by (simp_all add: fresh_controller_def)
  moreover have "env_bootloader ex_env p = (True, p)" for p by (simp add: ex_env_def)
  ultimately show ?thesis
    using ex_running_valid ex_info_valid
    by (simp add: Controller_open_def open_stopped_def quiesce_def on_platform_def load_def run_simps
        recover_def on_controller_def reconcile_boot_def validate_sample_def reading_valid_def
        ex_restarted_def [symmetric])
qed

theorem open_recovers_witness:
  "\<exists>c sp. Controller_open ex_env ex_factory (Some ex_running, []) = (Inr c, sp) \<and> durable ex_env c
     \<and> c_active c = None \<and> list_all (\<lambda>r. os_phase (or_status r) \<noteq> Phase_Running) (s_operations (c_state c))"
proof -
  from ex_reopen obtain c sp where o: "Controller_open ex_env ex_factory (Some ex_running, []) = (Inr c, sp)"
    by blast
  from open_recovers [OF ex_storage_ok o] o show ?thesis by (auto simp: list_all_iff)
qed

text \<open>C24. No rollback across restarts: from any opened device, over any run that ends healthy,
  a restart and a further run, the clock floor, the epoch and policy version, and the
  generation and audit cursor never fall, and within the epoch watermarks and use counters
  only grow and revocations stay.\<close>

theorem restart_no_rollback:
  assumes "storage_ok E" and "durable E c" and "runs E c c1" and "\<not> c_poisoned c1"
    and "Controller_open E f (c_storage c1, p) = (Inr c2, sp)" and "runs E c2 c3"
  shows "\<not> option_less (s_clock_floor (c_state c3)) (s_clock_floor (c_state c))
    \<and> (s_epoch (c_state c), s_policy_version (c_state c)) \<le> (s_epoch (c_state c3), s_policy_version (c_state c3))
    \<and> (s_generation (c_state c), s_next_cursor (c_state c)) \<le> (s_generation (c_state c3), s_next_cursor (c_state c3))
    \<and> (s_epoch (c_state c3) = s_epoch (c_state c) \<longrightarrow>
        (\<forall>i. get_or 0 (s_watermarks (c_state c)) i \<le> get_or 0 (s_watermarks (c_state c3)) i)
        \<and> (\<forall>i. get_or 0 (s_uses (c_state c)) i \<le> get_or 0 (s_uses (c_state c3)) i)
        \<and> s_revoked (c_state c) |\<subseteq>| s_revoked (c_state c3))"
proof -
  have "snap_le (c_state c) (c_state c1)" and "snap_le (c_state c2) (c_state c3)"
    using runs_evolves [OF assms(3)] runs_evolves [OF assms(6)] by (simp_all add: evolves_def)
  moreover have "env_load E (c_storage c1) = Inr (Some (c_state c1))"
    using runs_evolves [OF assms(3)] assms(1,2,4) by (auto simp: evolves_def durable_def)
  with open_cases [OF assms(5)] recover_snap_le [OF assms(1)]
  have "snap_le (c_state c1) (c_state c2)" by (metis Inr_inject option.inject)
  ultimately have "snap_le (c_state c) (c_state c3)" using snap_le_trans by blast
  then show ?thesis unfolding snap_le_def snap_pre_def domain_le_def snapshot_key_def by blast
qed

theorem restart_no_rollback_witness:
  "\<exists>c2 sp. Controller_open ex_env ex_factory (Some ex_running, []) = (Inr c2, sp)
     \<and> (s_generation ex_state, s_next_cursor ex_state) \<le> (s_generation (c_state c2), s_next_cursor (c_state c2))"
proof -
  have run: "runs ex_env ex_controller ex_driving"
    unfolding runs_def using step_handle [OF ex_unlock_handled] by (rule r_into_rtranclp)
  have driving: "\<not> c_poisoned ex_driving" "c_storage ex_driving = Some ex_running"
    by (simp_all add: ex_driving_def ex_started_def)
  from ex_reopen obtain c2 sp where o: "Controller_open ex_env ex_factory (c_storage ex_driving, []) = (Inr c2, sp)"
    unfolding driving(2) by blast
  have "runs ex_env c2 c2" by (simp add: runs_def)
  from restart_no_rollback [OF ex_storage_ok ex_durable run driving(1) o this] o show ?thesis
    by (auto simp: driving(2))
qed

end
