(* ===== verification/Codec_Props.thy ===== *)
theory Codec_Props
  imports Example_Env
begin

text \<open>
  Properties of the wire format and of signed objects (\<^verbatim>\<open>crates/openlock-crypto\<close>): exact round
  trips of commands and responses, round trips and soundness of grants, policies and
  manifests, and separation of the signing domains.
\<close>

unbundle bit_operations_syntax

section \<open>Commands and responses\<close>

text \<open>Protocol values stay within the depth the decoder allows.\<close>

named_theorems fits \<open>values that the CBOR contract covers\<close>

definition Action_fits :: "Action \<Rightarrow> bool" where
  "Action_fits a = (case a of ApplyPolicy b \<Rightarrow> length b < 2 ^ 64 | RotateDeviceKey b \<Rightarrow> length b < 2 ^ 64
     | FirmwareBegin b \<Rightarrow> length b < 2 ^ 64 | Claim _ _ b \<Rightarrow> length b < 2 ^ 64 | _ \<Rightarrow> True)"

lemma plain_protocol [simp]:
  "plain d (cuint n)" "plain d (cbytes b) \<longleftrightarrow> length b < 2 ^ 64"
  "plain (numeral k) (carray vs) \<longleftrightarrow> length vs < 2 ^ 64 \<and> list_all (plain (pred_numeral k)) vs"
  by (simp_all add: cuint_def cbytes_def carray_def numeral_eq_Suc [of k])

lemma plain_leaves [fits]:
  "plain d (U64_value a)" "plain d (U32_value b)" "plain d (U8_value e)" "plain d (Bool_value f)"
  "plain d (BoltState_value g)" "plain d (DoorState_value h)" "plain d (ActuatorKind_value i)"
  "plain d (Fault_value j)" "plain d (CompletionEvidence_value k)" "plain d (OperationPhase_value l)"
  "plain d (AuditKind_value m)" "plain d (FirmwarePhase_value n)"
  "LockId_wf q \<Longrightarrow> plain d (LockId_value q)" "CredentialId_wf p \<Longrightarrow> plain d (CredentialId_value p)"
  "String_wf s \<Longrightarrow> plain d (String_value s)"
  by (simp_all add: U64_value_def U32_value_def U8_value_def Bool_value_def BoltState_value_def
      DoorState_value_def ActuatorKind_value_def Fault_value_def CompletionEvidence_value_def
      OperationPhase_value_def AuditKind_value_def FirmwarePhase_value_def LockId_value_def
      CredentialId_value_def String_value_def LockId_wf_def CredentialId_wf_def String_wf_def)

lemma plain_containers [fits]:
  "(\<And>x. r = Known x \<Longrightarrow> plain (pred_numeral k) (val x)) \<Longrightarrow> plain (numeral k) (Reading_value val r)"
  "(\<And>x. m = Some x \<Longrightarrow> plain e (w x)) \<Longrightarrow> plain e (Option_value w m)"
  by (auto simp: Reading_value_def Option_value_def split: Reading.split option.split)

lemma command_plain:
  assumes "Command_wf c" "Action_fits (cmd_action c)"
  shows "plain 14 (Command_value c)"
proof -
  have "Command_validate c = Inr ()" "Action_wf (cmd_action c)" using assms(1) by (simp_all add: Command_wf_def)
  then have "length (cmd_credential c) < 2 ^ 64"
    by (auto simp: Command_validate_def MAX_OBJECT_SIZE_def split: if_splits)
  moreover have "plain 13 (Action_value (cmd_action c))"
    using assms(2) \<open>Action_wf (cmd_action c)\<close>
    by (cases "cmd_action c")
      (simp_all add: Action_value_def Action_args_def Action_fits_def Action_wf_def fits
        DeviceConfig_value_def AutoRelock_value_def split: AutoRelock.split)
  ultimately show ?thesis
    by (simp add: Command_value_def fits)
qed

lemma command_fits: "Command_wf c \<Longrightarrow> Action_fits (cmd_action c) \<Longrightarrow> wire_value (Command_value c)"
  unfolding wire_value_def by (rule plain_mono [OF command_plain]) simp_all

lemma wire_exact:
  assumes "cbor_ok cr" "\<And>v. prs v = Inr x \<longleftrightarrow> good x \<and> v = val x" "good x \<Longrightarrow> wire_value (val x)"
  shows "decode_wire cr prs b = Inr x \<longleftrightarrow> good x \<and> encode_wire cr val x = Inr b"
proof
  assume "decode_wire cr prs b = Inr x"
  then obtain v where "cdecode cr b = Inr v" "prs v = Inr x"
    by (auto simp: decode_wire_def result_Inr_iffs)
  with assms(2) show "good x \<and> encode_wire cr val x = Inr b"
    by (auto simp: encode_wire_def dest: cdecode_canonical)
next
  assume "good x \<and> encode_wire cr val x = Inr b"
  with assms cdecode_cencode [of cr "val x" b] show "decode_wire cr prs b = Inr x"
    by (simp add: decode_wire_def encode_wire_def)
qed

text \<open>Commands on the wire: a byte string decodes to a command if and only if the command
  is well-formed and encodes to exactly that byte string. So encoding loses nothing, and no
  two byte strings decode to the same command.\<close>

lemma command_wire_exact:
  assumes "cbor_ok cr" and "Action_fits (cmd_action c)"
  shows "decode_wire cr Command_parse b = Inr c \<longleftrightarrow>
    Command_wf c \<and> encode_wire cr Command_value c = Inr b"
  by (rule wire_exact [where good = Command_wf]) (simp_all add: assms Command_parse_iff command_fits)

lemma command_wire_exact_example:
  "decode_wire ex_crypto Command_parse (put_value (Command_value ex_unlock)) = Inr ex_unlock"
proof -
  have "Command_wf ex_unlock"
    using ex_credential_length ex_credential_nonempty
    by (simp add: Command_wf_def Action_wf_def Command_validate_def MAX_OBJECT_SIZE_def
        credentialless_def Action_mutates_def)
  with command_wire_exact [of ex_crypto ex_unlock "put_value (Command_value ex_unlock)"] ex_encode
  show ?thesis by (simp add: Action_fits_def)
qed

lemma plain_status [fits]:
  assumes "OperationStatus_wf x"
  shows "plain 12 (OperationStatus_value x)" "plain 11 (OperationStatus_value x)" "plain 10 (OperationStatus_value x)"
    "plain 9 (OperationStatus_value x)"
  using assms by (simp_all add: OperationStatus_value_def OperationStatus_wf_def fits)

lemma plain_hardware [fits]: "plain 9 (HardwareState_value x)"
  by (simp add: HardwareState_value_def fits)

lemma plain_event [fits]: "AuditEvent_wf x \<Longrightarrow> plain 10 (AuditEvent_value x)"
  by (auto simp: AuditEvent_value_def AuditEvent_wf_def fits intro!: fits dest: option.pred_set [THEN fun_cong, THEN iffD1])

lemma response_plain:
  assumes "Response_wf r"
  shows "plain 14 (Response_value r)"
proof (cases "rsp_result r")
  case (Inr reply)
  with assms have wf: "Reply_wf reply" by (simp add: Response_wf_def)
  have "plain 13 (Reply_value reply)"
  proof (cases reply)
    case (Reply_Operation x)
    with wf show ?thesis by (simp add: Reply_value_def Reply_wf_def fits)
  next
    case (Reply_Status x)
    with wf show ?thesis
      by (auto simp: Reply_value_def Reply_wf_def LockStatus_value_def LockStatus_wf_def fits intro!: fits)
  next
    case (Reply_Info x)
    with wf show ?thesis by (simp add: Reply_value_def Reply_wf_def DeviceInfo_value_def DeviceInfo_wf_def fits)
  next
    case (Reply_Config x)
    then show ?thesis
      by (simp add: Reply_value_def DeviceConfig_value_def AutoRelock_value_def fits split: AutoRelock.split)
  next
    case (Reply_Audit x)
    with wf show ?thesis
      by (auto simp: Reply_value_def Reply_wf_def AuditPage_value_def AuditPage_wf_def list_all_iff fits)
  next
    case (Reply_Firmware x)
    with wf show ?thesis
      by (auto simp: Reply_value_def Reply_wf_def FirmwareStatus_value_def FirmwareStatus_wf_def
          FirmwareManifest_value_def FirmwareManifest_wf_def fits intro!: fits)
  qed (auto simp: Reply_value_def fits intro!: fits)
  with Inr show ?thesis by (simp add: Response_value_def fits)
qed (simp add: Response_value_def fits)

lemma response_fits: "Response_wf r \<Longrightarrow> wire_value (Response_value r)"
  unfolding wire_value_def by (rule plain_mono [OF response_plain]) simp_all

text \<open>Responses on the wire: a byte string decodes to a response if and only if the
  response is well-formed and encodes to exactly that byte string.\<close>

lemma response_wire_exact:
  assumes "cbor_ok cr"
  shows "decode_wire cr Response_parse b = Inr r \<longleftrightarrow>
    Response_wf r \<and> encode_wire cr Response_value r = Inr b"
  by (rule wire_exact [where good = Response_wf]) (simp_all add: assms Response_parse_iff response_fits)

lemma response_wire_exact_example:
  "decode_wire ex_crypto Response_parse (put_value (Response_value (Response_rejected Unlock Expired)))
     = Inr (Response_rejected Unlock Expired)"
proof -
  have "Response_wf (Response_rejected Unlock Expired)"
    by (simp add: Response_wf_def validate_response_def Response_rejected_def Action_opcode_def)
  moreover have "encode_wire ex_crypto Response_value (Response_rejected Unlock Expired)
      = Inr (put_value (Response_value (Response_rejected Unlock Expired)))"
    by (simp add: encode_wire_def ex_cencode Response_value_def Response_rejected_def U8_value_def U32_value_def)
  ultimately show ?thesis using response_wire_exact [of ex_crypto] by simp
qed

text \<open>C25. Messages on the wire: a byte string decodes to a given command, or to a given response, if
  and only if that message is well-formed and encodes to exactly that byte string. Well-formed
  means identifiers of their length, texts in UTF-8 of at most 64 bytes and the bounds that
  the decoder checks. The objects carried by the command are shorter than 2^64 bytes, which is
  what CBOR can express. So encoding loses nothing, and no two byte strings decode to the same
  message.\<close>

theorem messages_wire_exact:
  assumes "cbor_ok cr"
  shows "(Action_fits (cmd_action c) \<longrightarrow>
      (decode_wire cr Command_parse b = Inr c \<longleftrightarrow> Command_wf c \<and> encode_wire cr Command_value c = Inr b))
    \<and> (decode_wire cr Response_parse b = Inr r \<longleftrightarrow> Response_wf r \<and> encode_wire cr Response_value r = Inr b)"
  using command_wire_exact [OF assms] response_wire_exact [OF assms] by blast

theorem messages_wire_exact_witness:
  "Command_wf ex_unlock
   \<and> encode_wire ex_crypto Command_value ex_unlock = Inr (put_value (Command_value ex_unlock))"
  using messages_wire_exact [OF ex_crypto_cbor_ok, of ex_unlock "put_value (Command_value ex_unlock)"]
    command_wire_exact_example by (simp add: Action_fits_def)

section \<open>Signed objects\<close>

definition Policy_wf :: "PolicyUpdate \<Rightarrow> bool" where
  "Policy_wf p \<longleftrightarrow> LockId_wf (p_lock_id p) \<and> (\<forall>i. i |\<in>| p_revoked p \<longrightarrow> CredentialId_wf i)
     \<and> fcard (p_revoked p) < 2 ^ 64"

lemma policy_fits: "Policy_wf p \<Longrightarrow> wire_value (policy_value p)"
  by (auto simp: Policy_wf_def wire_value_def policy_value_def list_all_iff CredentialId_wf_def LockId_wf_def
      sorted_list_of_fset.rep_eq fcard.rep_eq)

text \<open>C26. Grants: a byte string reads as a grant under the verifying key of a signer
  whenever the signer made it for this grant; and whatever reads as a grant is the canonical
  object that carries a valid signature, under that key, of this grant in the grant
  domain.\<close>

theorem grant_signature_exact:
  assumes "cbor_ok cr" and "ed25519_ok cr"
  shows "(Grant_wf g \<and> sign_grant cr sk g = Inr cose \<longrightarrow> read_grant cr (cr_verifying_key cr sk) cose = Inr g)
    \<and> (read_grant cr key cose = Inr g \<longrightarrow> Grant_wf g \<and> (\<exists>header payload signature tbs.
        cencode cr cose_protected = Inr header \<and> cencode cr (grant_value g) = Inr payload
        \<and> cencode cr (cose_structure GRANT header payload) = Inr tbs
        \<and> cencode cr (carray [cbytes header, V_Map [], cbytes payload, cbytes signature]) = Inr cose
        \<and> cr_verify_strict cr key tbs signature))"
proof (intro conjI impI)
  assume "Grant_wf g \<and> sign_grant cr sk g = Inr cose"
  then show "read_grant cr (cr_verifying_key cr sk) cose = Inr g"
    using read_sign_grant [OF assms] by blast
next
  assume r: "read_grant cr key cose = Inr g"
  then show "Grant_wf g" by (rule read_grant_Inr)
  from verify_object_Inr [OF read_grant_Inr(2) [OF r]] show "\<exists>header payload signature tbs.
        cencode cr cose_protected = Inr header \<and> cencode cr (grant_value g) = Inr payload
        \<and> cencode cr (cose_structure GRANT header payload) = Inr tbs
        \<and> cencode cr (carray [cbytes header, V_Map [], cbytes payload, cbytes signature]) = Inr cose
        \<and> cr_verify_strict cr key tbs signature" by metis
qed

theorem grant_signature_exact_witness:
  "sign_grant ex_crypto ex_key ex_grant = Inr ex_credential
   \<and> read_grant ex_crypto (cr_verifying_key ex_crypto ex_key) ex_credential = Inr ex_grant"
proof -
  have "Grant_wf ex_grant"
    using ex_read_grant by (rule read_grant_Inr)
  with grant_signature_exact [OF ex_crypto_cbor_ok ex_crypto_ed25519_ok, of ex_grant ex_key ex_credential]
    ex_sign_grant show ?thesis by blast
qed

lemma read_sign_policy:
  assumes "cbor_ok cr" "ed25519_ok cr" "Policy_wf p" "sign_policy cr sk p = Inr b"
  shows "read_policy cr (cr_verifying_key cr sk) b = Inr p"
  using verify_sign_object [OF assms(1,2) policy_fits [OF assms(3)]] assms(3,4)
  by (simp add: sign_policy_def read_policy_def parse_policy_iff Policy_wf_def)

text \<open>Policies and firmware manifests: what a signer signs reads back as exactly the same
  policy, respectively manifest, under the signer's verifying key.\<close>

lemma policy_and_manifest_roundtrip:
  assumes "cbor_ok cr" and "ed25519_ok cr"
  shows "(Policy_wf p \<and> sign_policy cr sk p = Inr b \<longrightarrow> read_policy cr (cr_verifying_key cr sk) b = Inr p)
    \<and> (FirmwareManifest_wf m \<and> sign_manifest cr sk m = Inr b' \<longrightarrow>
         read_manifest cr (cr_verifying_key cr sk) b' = Inr m)"
proof (intro conjI impI)
  assume "Policy_wf p \<and> sign_policy cr sk p = Inr b"
  then show "read_policy cr (cr_verifying_key cr sk) b = Inr p"
    using read_sign_policy [OF assms] by blast
next
  assume m: "FirmwareManifest_wf m \<and> sign_manifest cr sk m = Inr b'"
  then have "wire_value (FirmwareManifest_value m)"
    by (simp add: wire_value_def FirmwareManifest_value_def FirmwareManifest_wf_def fits)
  with m show "read_manifest cr (cr_verifying_key cr sk) b' = Inr m"
    using verify_sign_object [OF assms]
    by (auto simp: sign_manifest_def read_manifest_def FirmwareManifest_parse_iff result_Inr_iffs)
qed

definition ex_policy :: PolicyUpdate where
  "ex_policy = \<lparr>p_lock_id = ex_lock, p_epoch = 0, p_version = 1, p_revoked = {||}\<rparr>"

lemma ex_policy_wf: "Policy_wf ex_policy"
  by (simp add: Policy_wf_def ex_policy_def LockId_wf_def)

lemma ex_sign_policy: "\<exists>b. sign_policy ex_crypto ex_key ex_policy = Inr b"
proof -
  have "value_size (policy_value ex_policy) = 85"
    by (simp add: policy_value_def ex_policy_def sorted_list_of_fset.rep_eq)
  then show ?thesis
    using ex_sign_object [of "policy_value ex_policy" POLICY ex_key]
    by (auto simp: sign_policy_def POLICY_def ascii_def)
qed

lemma policy_and_manifest_roundtrip_example:
  "\<exists>b. sign_policy ex_crypto ex_key ex_policy = Inr b
     \<and> read_policy ex_crypto (cr_verifying_key ex_crypto ex_key) b = Inr ex_policy"
  using ex_sign_policy ex_policy_wf
    policy_and_manifest_roundtrip [OF ex_crypto_cbor_ok ex_crypto_ed25519_ok, of ex_policy ex_key] by blast

text \<open>Separation of domains: the bytes that are signed determine the domain, the header and
  the payload, and the five domains differ. So a signature made for one kind of object never
  passes as a signature of another kind.\<close>

lemma signing_domains_separate:
  assumes "cbor_ok cr"
    and "cencode cr (cose_structure kind header payload) = Inr tbs"
    and "cencode cr (cose_structure kind' header' payload') = Inr tbs"
    and "list_all (\<lambda>b. length b < 2 ^ 64) [kind, header, payload, kind', header', payload']"
  shows "kind' = kind \<and> header' = header \<and> payload' = payload
    \<and> distinct [GRANT, POLICY, FIRMWARE_DOMAIN, DEVICE, UPDATE]"
proof -
  have "wire_value (cose_structure kind header payload)" "wire_value (cose_structure kind' header' payload')"
    using assms(4) by (simp_all add: wire_value_def cose_structure_def)
  with assms(1-3) have "cose_structure kind header payload = cose_structure kind' header' payload'"
    by (metis cdecode_cencode sum.inject(2))
  moreover have "distinct [GRANT, POLICY, FIRMWARE_DOMAIN, DEVICE, UPDATE]"
    by (simp add: GRANT_def POLICY_def FIRMWARE_DOMAIN_def DEVICE_def UPDATE_def ascii_def)
  ultimately show ?thesis by (simp add: cose_structure_def)
qed

lemma signing_domains_separate_example:
  "cencode ex_crypto (cose_structure GRANT [] []) = Inr (put_value (cose_structure GRANT [] []))
   \<and> GRANT \<noteq> POLICY"
proof -
  have "length GRANT = 17" by (simp add: GRANT_def ascii_def)
  then have e: "cencode ex_crypto (cose_structure GRANT [] []) = Inr (put_value (cose_structure GRANT [] []))"
    by (intro ex_cencode) (simp add: cose_structure_def)
  from signing_domains_separate [OF ex_crypto_cbor_ok e e] e \<open>length GRANT = 17\<close> show ?thesis by simp
qed

end
