(* ===== verification/Trust_Props.thy ===== *)
theory Trust_Props
  imports Codec_Props
begin

text \<open>
  Properties of device keys and of the client's trust store (\<^verbatim>\<open>crates/openlock-crypto/src/trust.rs\<close>):
  certified keys verify and only certified keys do, an accepted rotation is authorized by
  the issuer or by the old key, and over any sequence of operations the version of a stored
  key only grows.
\<close>

unbundle bit_operations_syntax

section \<open>Device key records\<close>

definition DeviceKey_wf :: "DeviceKey \<Rightarrow> bool" where
  "DeviceKey_wf k \<longleftrightarrow> LockId_wf (dk_device_id k) \<and> length (dk_x25519_public_key k) = 32
     \<and> length (dk_rotation_public_key k) = 32"

lemma device_key_fits: "DeviceKey_wf k \<Longrightarrow> wire_value (device_key_value k i)"
  by (simp add: DeviceKey_wf_def LockId_wf_def wire_value_def device_key_value_def)

lemma verify_device_key_iff:
  "verify_device_key cr issuer rec = Inr () \<longleftrightarrow> validate_device_key cr (kr_key rec) = Inr ()
     \<and> DeviceKey_wf (kr_key rec)
     \<and> verify_object cr issuer DEVICE (kr_signature rec)
         = Inr (device_key_value (kr_key rec) (kr_issuer_key_id rec))"
proof
  assume "verify_device_key cr issuer rec = Inr ()"
  then show "validate_device_key cr (kr_key rec) = Inr () \<and> DeviceKey_wf (kr_key rec)
     \<and> verify_object cr issuer DEVICE (kr_signature rec)
         = Inr (device_key_value (kr_key rec) (kr_issuer_key_id rec))"
    by (auto simp: verify_device_key_def result_Inr_iffs cbor_Inr_iffs length_eq_8 device_key_value_def
        DeviceKey_wf_def LockId_wf_def split: if_splits)
next
  assume "validate_device_key cr (kr_key rec) = Inr () \<and> DeviceKey_wf (kr_key rec)
     \<and> verify_object cr issuer DEVICE (kr_signature rec)
         = Inr (device_key_value (kr_key rec) (kr_issuer_key_id rec))"
  then show "verify_device_key cr issuer rec = Inr ()"
    by (simp add: verify_device_key_def device_key_value_def DeviceKey_wf_def LockId_wf_def)
qed

lemma verify_sign_device_key:
  assumes "cbor_ok cr" "ed25519_ok cr" "DeviceKey_wf k" "sign_device_key cr sk k i = Inr rec"
  shows "verify_device_key cr (cr_verifying_key cr sk) rec = Inr () \<and> kr_key rec = k"
proof -
  from assms(4) have v: "validate_device_key cr k = Inr ()"
    and s: "sign_object cr sk DEVICE (device_key_value k i) = Inr (kr_signature rec)"
    and r: "kr_key rec = k" "kr_issuer_key_id rec = i"
    by (auto simp: sign_device_key_def result_Inr_iffs)
  from verify_sign_object [OF assms(1,2) device_key_fits s] assms(3) v r show ?thesis
    by (simp add: verify_device_key_iff)
qed

text \<open>Device keys: a record that the issuer signs verifies under the issuer's key, and a
  record verifies only if the key is valid and its signature is one, in the device-key
  domain, of exactly this key and issuer key number.\<close>

lemma device_key_exact:
  assumes "cbor_ok cr" and "ed25519_ok cr"
  shows "(DeviceKey_wf k \<and> sign_device_key cr sk k i = Inr rec \<longrightarrow>
      verify_device_key cr (cr_verifying_key cr sk) rec = Inr () \<and> kr_key rec = k)
    \<and> (verify_device_key cr issuer rec' = Inr () \<longleftrightarrow> validate_device_key cr (kr_key rec') = Inr ()
        \<and> DeviceKey_wf (kr_key rec') \<and> verify_object cr issuer DEVICE (kr_signature rec')
            = Inr (device_key_value (kr_key rec') (kr_issuer_key_id rec')))"
  using verify_sign_device_key [OF assms] verify_device_key_iff by blast

lemma ex_device_key_wf: "DeviceKey_wf ex_device_key"
  by (simp add: DeviceKey_wf_def ex_device_key_def LockId_wf_def)

lemma ex_sign_device_key:
  assumes "DeviceKey_wf k" "validate_device_key ex_crypto k = Inr ()"
  shows "\<exists>rec. sign_device_key ex_crypto ex_key k i = Inr rec \<and> length (kr_signature rec) \<le> 400"
proof -
  have "value_size (device_key_value k i) \<le> 200"
    using assms(1) by (simp add: device_key_value_def DeviceKey_wf_def LockId_wf_def)
  with ex_sign_object [of "device_key_value k i" DEVICE ex_key]
  obtain b where "sign_object ex_crypto ex_key DEVICE (device_key_value k i) = Inr b" "length b \<le> 400"
    by (auto simp: DEVICE_def ascii_def)
  with assms(2) show ?thesis by (simp add: sign_device_key_def)
qed

lemma device_key_exact_example:
  "\<exists>rec. sign_device_key ex_crypto ex_key ex_device_key 3 = Inr rec
     \<and> verify_device_key ex_crypto (cr_verifying_key ex_crypto ex_key) rec = Inr ()"
  using device_key_exact [OF ex_crypto_cbor_ok ex_crypto_ed25519_ok, of ex_device_key ex_key 3]
    ex_device_key_wf ex_sign_device_key [OF ex_device_key_wf ex_device_key_valid, of 3] by metis

section \<open>Rotation\<close>

lemma key_update_fits: "DeviceKey_wf (kr_key (ku_new_record u)) \<Longrightarrow> wire_value (key_update_value u)"
  by (simp add: DeviceKey_wf_def LockId_wf_def wire_value_def device_key_value_def key_update_value_def
      split: option.split)

lemma key_update_roundtrip:
  assumes ok: "cbor_ok cr" "ed25519_ok cr"
    and sign: "sign_key_update cr sk u0 = Inr u" and enc: "encode_key_update cr u = Inr input"
    and root: "ku_issuer_key_id u \<noteq> None" and sizes: "length (ku_signature u) < 2 ^ 64"
      "length (kr_signature (ku_new_record u)) < 2 ^ 64"
    and new: "verify_device_key cr (cr_verifying_key cr sk) (ku_new_record u) = Inr ()"
    and old: "cr_vk_from_bytes cr (dk_rotation_public_key old)" "ku_old_key_id u = dk_key_id old"
      "dk_device_id (kr_key (ku_new_record u)) = dk_device_id old"
      "dk_key_version old < dk_key_version (kr_key (ku_new_record u))"
    and clock: "ClockSample_validate now = Inr c" "ku_not_before u \<le> cs_lower now" "cs_upper now < ku_retire_after u"
  shows "read_key_update cr (cr_verifying_key cr sk) old input now = Inr u"
proof -
  have wf: "DeviceKey_wf (kr_key (ku_new_record u))" using new by (simp add: verify_device_key_iff)
  from sign have val: "validate_key_update cr u = Inr ()"
    and s: "sign_object cr sk UPDATE (key_update_value u) = Inr (ku_signature u)"
    by (auto simp: sign_key_update_def result_Inr_iffs validate_key_update_def key_update_value_def)
  have v: "verify_object cr (cr_verifying_key cr sk) UPDATE (ku_signature u) = Inr (key_update_value u)"
    by (rule verify_sign_object [OF ok key_update_fits [OF wf] s])
  have d: "cdecode cr input = Inr (carray [cbytes (ku_signature u), cbytes (kr_signature (ku_new_record u))])"
    using enc sizes by (intro cdecode_cencode [OF ok(1)]) (simp_all add: encode_key_update_def wire_value_def)
  have lid: "LockId_parse (cbytes (lock_bytes (dk_device_id (kr_key (ku_new_record u)))))
      = Inr (dk_device_id (kr_key (ku_new_record u)))"
    using wf by (simp add: LockId_parse_def DeviceKey_wf_def LockId_wf_def)
  obtain i where i: "ku_issuer_key_id u = Some i" using root by blast
  obtain oid rec nb ra sg where u: "u = \<lparr>ku_old_key_id = oid, ku_new_record = rec, ku_not_before = nb,
      ku_retire_after = ra, ku_issuer_key_id = Some i, ku_signature = sg\<rparr>" using i by (cases u) auto
  obtain di ki kv xp rp cap ik rs where rec: "rec = \<lparr>kr_key = \<lparr>dk_device_id = di, dk_key_id = ki,
      dk_key_version = kv, dk_x25519_public_key = xp, dk_rotation_public_key = rp, dk_capabilities = cap\<rparr>,
      kr_issuer_key_id = ik, kr_signature = rs\<rparr>"
    by (metis DeviceKeyRecord.cases DeviceKey.cases)
  show ?thesis
    using v d lid wf val new old clock
    by (simp add: read_key_update_def u rec key_update_value_def device_key_value_def DeviceKey_wf_def
        optional_u32_def Let_def not_less not_le)
qed


text \<open>C27. Rotation on the device: an update is accepted only if it was signed, in the update
  domain, by the issuer when it names an issuer key and by the device's own old rotation key
  when it does not; it names the current key, the same device and a higher version, the
  trusted clock lies inside its window, and the new key is certified by the issuer.\<close>

theorem read_key_update_sound:
  assumes "read_key_update cr issuer old input now = Inr u"
  shows "verify_object cr (if ku_issuer_key_id u \<noteq> None then issuer else dk_rotation_public_key old)
      UPDATE (ku_signature u) = Inr (key_update_value u)
    \<and> ku_old_key_id u = dk_key_id old
    \<and> dk_device_id (kr_key (ku_new_record u)) = dk_device_id old
    \<and> dk_key_version old < dk_key_version (kr_key (ku_new_record u))
    \<and> ku_not_before u \<le> cs_lower now \<and> cs_upper now < ku_retire_after u
    \<and> verify_device_key cr issuer (ku_new_record u) = Inr ()"
proof -
  from assms obtain signature v root where
    v: "(case verify_object cr issuer UPDATE signature of
              Inr v \<Rightarrow> Inr (v, True)
            | Inl _ \<Rightarrow> rbind (verify_object cr (dk_rotation_public_key old) UPDATE signature)
                (\<lambda>v. Inr (v, False))) = Inr (v, root)"
    and u: "ku_signature u = signature" "root = (ku_issuer_key_id u \<noteq> None)" "key_update_value u = v"
      "verify_device_key cr issuer (ku_new_record u) = Inr ()"
      "ku_old_key_id u = dk_key_id old" "dk_device_id (kr_key (ku_new_record u)) = dk_device_id old"
      "\<not> dk_key_version (kr_key (ku_new_record u)) \<le> dk_key_version old"
      "\<not> cs_lower now < ku_not_before u" "\<not> cs_upper now \<ge> ku_retire_after u"
    by (auto simp: read_key_update_def result_Inr_iffs Let_def split: if_splits)
  from v u(2) have "verify_object cr (if ku_issuer_key_id u \<noteq> None then issuer else dk_rotation_public_key old)
      UPDATE signature = Inr v"
    by (auto simp: result_Inr_iffs split: sum.splits)
  with u show ?thesis by auto
qed

definition ex_update :: "DeviceKeyRecord \<Rightarrow> KeyUpdate" where
  "ex_update rec = \<lparr>ku_old_key_id = 1, ku_new_record = rec, ku_not_before = 50, ku_retire_after = 200,
     ku_issuer_key_id = Some 3, ku_signature = []\<rparr>"

lemma ex_rotation:
  "\<exists>u input. read_key_update ex_crypto ex_key ex_device_key input \<lparr>cs_lower = 100, cs_upper = 101\<rparr> = Inr u
     \<and> ku_issuer_key_id u = Some 3"
proof -
  let ?new = "ex_device_key\<lparr>dk_key_version := 2\<rparr>"
  have new: "DeviceKey_wf ?new" "validate_device_key ex_crypto ?new = Inr ()"
    using ex_device_key_wf
    by (simp_all add: DeviceKey_wf_def)
      (simp add: validate_device_key_def ex_device_key_def KNOWN_CAPABILITIES_def validate_public_def)
  from ex_sign_device_key [OF new, of 3] obtain rec where
    rec: "sign_device_key ex_crypto ex_key ?new 3 = Inr rec" "length (kr_signature rec) \<le> 400" by blast
  with verify_sign_device_key [OF ex_crypto_cbor_ok ex_crypto_ed25519_ok new(1), of ex_key 3]
  have v: "verify_device_key ex_crypto ex_key rec = Inr ()" and key: "kr_key rec = ?new" by auto
  have "value_size (key_update_value (ex_update rec)) \<le> 300"
    using new(1) by (simp add: key_update_value_def ex_update_def device_key_value_def key DeviceKey_wf_def LockId_wf_def)
  with ex_sign_object [of "key_update_value (ex_update rec)" UPDATE ex_key] obtain b where
    b: "sign_object ex_crypto ex_key UPDATE (key_update_value (ex_update rec)) = Inr b" "length b \<le> 500"
    by (auto simp: UPDATE_def ascii_def)
  let ?u = "(ex_update rec)\<lparr>ku_signature := b\<rparr>"
  have s: "sign_key_update ex_crypto ex_key (ex_update rec) = Inr ?u"
    using b new(2) by (simp add: sign_key_update_def validate_key_update_def ex_update_def key word_le_nat_alt)
  have "\<exists>input. encode_key_update ex_crypto ?u = Inr input"
    using b(2) rec(2) by (simp add: encode_key_update_def ex_cencode ex_update_def)
  then obtain input where e: "encode_key_update ex_crypto ?u = Inr input" by blast
  have "ClockSample_validate \<lparr>cs_lower = 100, cs_upper = 101\<rparr> = Inr \<lparr>cs_lower = 100, cs_upper = 101\<rparr>"
    by (simp add: ClockSample_validate_def)
  with key_update_roundtrip [OF ex_crypto_cbor_ok ex_crypto_ed25519_ok s e, of ex_device_key] b(2) rec(2) v key
  have "read_key_update ex_crypto ex_key ex_device_key input \<lparr>cs_lower = 100, cs_upper = 101\<rparr> = Inr ?u"
    by (simp add: ex_update_def) (simp add: ex_device_key_def word_less_nat_alt word_le_nat_alt)
  then show ?thesis by (auto simp: ex_update_def)
qed

theorem read_key_update_sound_witness:
  "\<exists>u input. read_key_update ex_crypto ex_key ex_device_key input \<lparr>cs_lower = 100, cs_upper = 101\<rparr> = Inr u
     \<and> verify_object ex_crypto ex_key UPDATE (ku_signature u) = Inr (key_update_value u)
     \<and> ku_not_before u \<le> 100"
proof -
  from ex_rotation obtain u input where
    r: "read_key_update ex_crypto ex_key ex_device_key input \<lparr>cs_lower = 100, cs_upper = 101\<rparr> = Inr u"
    and i: "ku_issuer_key_id u = Some 3" by blast
  from read_key_update_sound [OF r] r i show ?thesis by auto
qed

section \<open>The trust store\<close>

inductive trust_step :: "Crypto \<Rightarrow> 's trust_commit \<Rightarrow> 's TrustStore \<Rightarrow> 's TrustStore \<Rightarrow> bool" for cr store where
  "TrustStore_import cr store rec t = (r, t') \<Longrightarrow> trust_step cr store t t'"
| "TrustStore_pin cr store key t = (r, t') \<Longrightarrow> trust_step cr store t t'"
| "TrustStore_apply_update cr store update now t = (r, t') \<Longrightarrow> trust_step cr store t t'"

definition newer :: "TrustSnapshot \<Rightarrow> DeviceKeyRecord \<Rightarrow> bool" where
  "newer m rec \<longleftrightarrow> (\<forall>old. fmlookup m (dk_device_id (kr_key rec)) = Some old \<longrightarrow>
     dk_key_version (kr_key old) < dk_key_version (kr_key rec))"

definition trust_le :: "'s TrustStore \<Rightarrow> 's TrustStore \<Rightarrow> bool" where
  "trust_le t t' \<longleftrightarrow> ts_issuer t' = ts_issuer t \<and> (ts_poisoned t \<longrightarrow> t' = t)
     \<and> (\<forall>d old. fmlookup (ts_snapshot t) d = Some old \<longrightarrow> (\<exists>rec. fmlookup (ts_snapshot t') d = Some rec
          \<and> (rec = old \<or> dk_key_version (kr_key old) < dk_key_version (kr_key rec))))"

lemma trust_le_refl [simp]: "trust_le t t"
  by (simp add: trust_le_def)

lemma trust_le_trans: "trust_le a b \<Longrightarrow> trust_le b c \<Longrightarrow> trust_le a c"
proof -
  assume ab: "trust_le a b" and bc: "trust_le b c"
  have "\<exists>rec. fmlookup (ts_snapshot c) d = Some rec
      \<and> (rec = old \<or> dk_key_version (kr_key old) < dk_key_version (kr_key rec))"
    if "fmlookup (ts_snapshot a) d = Some old" for d old
  proof -
    from ab that obtain mid where mid: "fmlookup (ts_snapshot b) d = Some mid"
      "mid = old \<or> dk_key_version (kr_key old) < dk_key_version (kr_key mid)"
      unfolding trust_le_def by blast
    with bc obtain rec where "fmlookup (ts_snapshot c) d = Some rec"
      "rec = mid \<or> dk_key_version (kr_key mid) < dk_key_version (kr_key rec)"
      unfolding trust_le_def by blast
    with mid(2) show ?thesis by (auto intro: less_trans)
  qed
  with ab bc show ?thesis by (auto simp: trust_le_def)
qed

lemma TrustStore_commit_wp:
  assumes "\<not> ts_poisoned t" "newer (ts_snapshot t) rec"
  shows "wp (TrustStore_commit store (fmupd (dk_device_id (kr_key rec)) rec (ts_snapshot t))) (\<lambda>_. trust_le t) t"
  using assms by (auto simp: TrustStore_commit_def wp_def trust_le_def newer_def split: prod.split sum.split)

lemma trust_step_le:
  assumes "trust_step cr store t t'"
  shows "trust_le t t'"
  using assms
proof cases
  case (1 rec r)
  have "wp (TrustStore_import cr store rec) (\<lambda>_. trust_le t) t"
    by (auto simp: TrustStore_import_def TrustStore_ensure_healthy_def newer_def key_is_newer_def
        intro!: TrustStore_commit_wp split: sum.split option.splits)
  from wpD [OF this 1] show ?thesis .
next
  case (2 key r)
  have "wp (TrustStore_pin cr store key) (\<lambda>_. trust_le t) t"
    using TrustStore_commit_wp [of t "\<lparr>kr_key = key, kr_issuer_key_id = 0, kr_signature = []\<rparr>" store]
    by (auto simp: TrustStore_pin_def TrustStore_ensure_healthy_def newer_def key_is_newer_def
        split: sum.split option.splits)
  from wpD [OF this 2] show ?thesis .
next
  case (3 update now r)
  have "wp (TrustStore_apply_update cr store update now) (\<lambda>_. trust_le t) t"
    by (auto simp: TrustStore_apply_update_def TrustStore_ensure_healthy_def newer_def
        intro!: TrustStore_commit_wp split: sum.split option.splits)
  from wpD [OF this 3] show ?thesis .
qed

text \<open>C28. The trust store never goes back: over any sequence of imports, pins and updates,
  successful or not, every device that has a record keeps one, and the record is the same or
  carries a higher key version; and a store whose commit failed never changes and answers no
  lookup any more.\<close>

theorem trust_store_monotone:
  assumes "(trust_step cr store)\<^sup>*\<^sup>* t t'" and "fmlookup (ts_snapshot t) d = Some old"
  shows "(\<exists>rec. fmlookup (ts_snapshot t') d = Some rec
      \<and> (rec = old \<or> dk_key_version (kr_key old) < dk_key_version (kr_key rec)))
    \<and> (ts_poisoned t \<longrightarrow> t' = t \<and> TrustStore_get t' d = None)"
proof -
  from assms(1) have "trust_le t t'"
    by (induction rule: rtranclp_induct) (auto intro: trust_le_trans trust_step_le)
  with assms(2) show ?thesis by (auto simp: trust_le_def TrustStore_get_def)
qed

theorem trust_store_monotone_witness:
  "\<exists>t'. trust_step ex_crypto (\<lambda>m s. (Inr (), m)) \<lparr>ts_issuer = ex_key, ts_snapshot = fmupd ex_lock
       \<lparr>kr_key = ex_device_key, kr_issuer_key_id = 0, kr_signature = []\<rparr> fmempty, ts_storage = fmempty,
       ts_poisoned = False\<rparr> t'
     \<and> fmlookup (ts_snapshot t') ex_lock \<noteq> None"
proof -
  let ?t = "\<lparr>ts_issuer = ex_key, ts_snapshot = fmupd ex_lock
       \<lparr>kr_key = ex_device_key, kr_issuer_key_id = 0, kr_signature = []\<rparr> fmempty, ts_storage = fmempty,
       ts_poisoned = False\<rparr> :: TrustSnapshot TrustStore"
  let ?t' = "snd (TrustStore_pin ex_crypto (\<lambda>m s. (Inr (), m)) (ex_device_key\<lparr>dk_key_version := 2\<rparr>) ?t)"
  have s: "trust_step ex_crypto (\<lambda>m s. (Inr (), m)) ?t ?t'"
    by (rule trust_step.intros(2) [OF prod.collapse [symmetric]])
  then have "(trust_step ex_crypto (\<lambda>m s. (Inr (), m)))\<^sup>*\<^sup>* ?t ?t'" by blast
  from trust_store_monotone [OF this, of ex_lock] s show ?thesis by auto
qed

end
