(* ===== verification/Legacy_Props.thy ===== *)
theory Legacy_Props
  imports Codec_Props
begin

text \<open>
  Properties of the version 2 lock state (\<^verbatim>\<open>crates/openlock-core/src/lib.rs\<close>): use limits hold over
  any sequence of attempts, a use is spent before the actuator runs, and policies only move
  forward.
\<close>

unbundle bit_operations_syntax

definition used :: "'s LockState \<Rightarrow> CredentialId \<Rightarrow> u32" where
  "used k i = get_or 0 (l_usage (k_snapshot k)) i"

lemma authorize_Counted:
  assumes "LockState_authorize cr k g sig peer now n = Inr (Authorized (Counted u limit))"
  shows "g_max_uses g = Some limit \<and> u = used k (g_credential_id g) \<and> u < limit \<and> n = Some u \<and> \<not> k_poisoned k"
  using assms
  by (auto simp: LockState_authorize_def LockState_authorize_with_rights_def result_Inr_iffs Let_def
      used_def LockState_ensure_healthy_def unmetered_def split: if_splits option.splits)

lemma authorize_metered:
  assumes "LockState_authorize cr k g sig peer now n = Inr d" "g_max_uses g = Some limit"
  shows "(\<exists>u. d = Authorized (Counted u limit)) \<or> (\<exists>u. d = AlreadyConsumed u)"
  using assms
  by (auto simp: LockState_authorize_def LockState_authorize_with_rights_def result_Inr_iffs Let_def
      RIGHTS_UNLOCK_def split: if_splits option.splits)

lemma u32_Suc:
  assumes "(u :: u32) < limit"
  shows "unat (u + 1) = unat u + 1"
proof -
  have "unat limit < 2 ^ 32" by (rule less_le_trans [OF unsigned_less]) simp
  with assms show ?thesis by (simp add: unat_word_ariths word_less_nat_alt)
qed

text \<open>The snapshot with one more use of the grant.\<close>

definition one_more :: "Grant \<Rightarrow> 's LockState \<Rightarrow> LockSnapshot" where
  "one_more g k = (k_snapshot k)\<lparr>l_usage :=
     fmupd (g_credential_id g) (used k (g_credential_id g) + 1) (l_usage (k_snapshot k))\<rparr>"

lemma authorize_and_consume_cases:
  assumes "g_max_uses g = Some limit"
    and "authorize_and_consume cr store g sig peer now n act (k, w) = (r, (k', w'))"
  obtains (refused) e where "r = Inl e" "w' = w" "k' = k"
  | (unstored) e s where "r = Inl StorageUnavailable" "w' = w" "store (one_more g k) (k_storage k) = (Inl e, s)"
      "k' = k\<lparr>k_storage := s, k_poisoned := True\<rparr>"
  | (spent) s where "used k (g_credential_id g) < limit" "n = Some (used k (g_credential_id g))"
      "store (one_more g k) (k_storage k) = (Inr (), s)" "k' = k\<lparr>k_storage := s, k_snapshot := one_more g k\<rparr>"
      "w' = snd (act w)" "r = (if fst (act w) then Inr () else Inl ActuatorFailed)"
proof (cases "LockState_authorize cr k g sig peer now n")
  case (Inl e)
  with assms(2) show ?thesis by (intro refused) (auto simp: authorize_and_consume_def)
next
  case (Inr d)
  from authorize_metered [OF Inr assms(1)] show ?thesis
  proof (elim disjE exE)
    fix u assume d: "d = AlreadyConsumed u"
    with Inr assms(2) show ?thesis by (intro refused) (auto simp: authorize_and_consume_def)
  next
    fix u assume d: "d = Authorized (Counted u limit)"
    with Inr have f: "u = used k (g_credential_id g)" "u < limit" "n = Some u" "\<not> k_poisoned k"
      using authorize_Counted [of cr k g sig peer now n u limit] by auto
    obtain q s where q: "store (one_more g k) (k_storage k) = (q, s)" by fastforce
    have consume: "LockState_consume store g d k = (case q of
        Inl _ \<Rightarrow> (Inl StorageUnavailable, k\<lparr>k_storage := s, k_poisoned := True\<rparr>)
      | Inr _ \<Rightarrow> (Inr (), k\<lparr>k_storage := s, k_snapshot := one_more g k\<rparr>))"
      using d f q assms(1)
      by (auto simp: LockState_consume_def LockState_commit_def run_simps LockState_ensure_healthy_def used_def Let_def
          not_le one_more_def split: sum.split)
    show ?thesis
    proof (cases q)
      case (Inl e)
      with consume d Inr assms(2) q show ?thesis by (intro unstored) (auto simp: authorize_and_consume_def)
    next
      case (Inr u)
      with consume d \<open>LockState_authorize cr k g sig peer now n = Inr d\<close> assms(2) q f show ?thesis
        by (intro spent) (auto simp: authorize_and_consume_def split: prod.splits)
    qed
  qed
qed

text \<open>C29. A use is spent before the actuator runs. An attempt with a metered grant ends in one of three
  ways: it is refused with an error and changes nothing, neither in the lock state nor
  outside; or the store fails to take the snapshot with one more use, and then the lock state
  keeps its old snapshot, is poisoned, and nothing else has happened; or the counter was below
  the limit and at the number the request asked for, the store has taken the snapshot with one
  more use, which differs from the old one in that counter only, and then the actuator ran
  once.\<close>

theorem legacy_consume_before_actuation:
  assumes "g_max_uses g = Some limit"
    and "authorize_and_consume cr store g sig peer now n act (k, w) = (r, (k', w'))"
  shows "(\<exists>e. r = Inl e) \<and> w' = w \<and> k' = k
    \<or> (\<exists>e s. r = Inl StorageUnavailable \<and> w' = w \<and> store (one_more g k) (k_storage k) = (Inl e, s)
        \<and> k' = k\<lparr>k_storage := s, k_poisoned := True\<rparr>)
    \<or> (\<exists>s. used k (g_credential_id g) < limit \<and> n = Some (used k (g_credential_id g))
        \<and> store (one_more g k) (k_storage k) = (Inr (), s) \<and> k' = k\<lparr>k_storage := s, k_snapshot := one_more g k\<rparr>
        \<and> w' = snd (act w) \<and> r = (if fst (act w) then Inr () else Inl ActuatorFailed))"
  using assms by (cases rule: authorize_and_consume_cases) blast+

definition ex_legacy :: "LockSnapshot LockState" where
  "ex_legacy = LockState_new ex_lock ex_key \<lparr>l_epoch = 0, l_policy_version = 0, l_revoked = {||}, l_usage = fmempty\<rparr>"

definition ex_store :: "LockSnapshot lock_commit" where
  "ex_store n s = (Inr (), n)"

definition ex_count :: "nat \<Rightarrow> bool \<times> nat" where
  "ex_count w = (True, Suc w)"

lemma ex_legacy_authorize:
  "LockState_authorize ex_crypto ex_legacy ex_grant ex_credential ex_peer None (Some 0) = Inr (Authorized (Counted 0 2))"
  using ex_read_grant
  by (simp add: LockState_authorize_def LockState_authorize_with_rights_def verify_grant_def
      LockState_ensure_healthy_def ex_legacy_def LockState_new_def rights_defs Let_def word_le_nat_alt)

lemma ex_legacy_attempt:
  "\<exists>k'. authorize_and_consume ex_crypto ex_store ex_grant ex_credential ex_peer None (Some 0) ex_count (ex_legacy, 0)
     = (Inr (), (k', 1)) \<and> used k' ex_credential_id = 1"
  using ex_legacy_authorize
  by (simp add: authorize_and_consume_def LockState_consume_def LockState_commit_def run_simps
      LockState_ensure_healthy_def Let_def ex_store_def ex_count_def used_def word_le_nat_alt)
    (simp add: ex_legacy_def LockState_new_def run_simps ex_count_def)

theorem legacy_consume_before_actuation_witness:
  "\<exists>k'. authorize_and_consume ex_crypto ex_store ex_grant ex_credential ex_peer None (Some 0) ex_count (ex_legacy, 0)
     = (Inr (), (k', 1)) \<and> used ex_legacy ex_credential_id < 2"
proof -
  from ex_legacy_attempt obtain k' where
    a: "authorize_and_consume ex_crypto ex_store ex_grant ex_credential ex_peer None (Some 0) ex_count (ex_legacy, 0)
      = (Inr (), (k', 1))" by blast
  have "g_max_uses ex_grant = Some 2" by simp
  from legacy_consume_before_actuation [OF this a] a show ?thesis by auto
qed

text \<open>A sequence of attempts with one grant, each with its own signature bytes, peer, clock
  and use number; the world is the number of times the actuator ran.\<close>

fun attempts ::
  "Crypto \<Rightarrow> 's lock_commit \<Rightarrow> Grant \<Rightarrow> (bytes \<times> SubjectKey \<times> ClockSample option \<times> u32 option \<times> bool) list
     \<Rightarrow> 's LockState \<times> nat \<Rightarrow> 's LockState \<times> nat" where
  "attempts cr store g [] kw = kw"
| "attempts cr store g ((sig, peer, now, n, jams) # rest) kw =
     attempts cr store g rest
       (snd (authorize_and_consume cr store g sig peer now n (\<lambda>w. (\<not> jams, Suc w)) kw))"

text \<open>C30. Use limits: however often a metered grant is presented, with whatever use numbers,
  clocks and peers, and whether or not the actuator and the store work, the actuator runs at
  most as often as the grant has uses left.\<close>

theorem legacy_use_limit:
  assumes "g_max_uses g = Some limit" and "attempts cr store g xs (k, w) = (k', w')"
  shows "w' - w \<le> unat limit - unat (used k (g_credential_id g)) \<and> w \<le> w'"
  using assms(2)
proof (induction xs arbitrary: k w)
  case (Cons x xs)
  obtain sig peer now n jams where x: "x = (sig, peer, now, n, jams)" by (cases x)
  obtain r k1 w1 where s: "authorize_and_consume cr store g sig peer now n (\<lambda>w. (\<not> jams, Suc w)) (k, w) = (r, (k1, w1))"
    by (metis prod_cases3)
  from Cons.prems x s have "attempts cr store g xs (k1, w1) = (k', w')" by simp
  from assms(1) s Cons.IH [OF this] show ?case
    using u32_Suc [of "used k (g_credential_id g)" limit]
    by (cases rule: authorize_and_consume_cases) (auto simp: word_less_nat_alt used_def one_more_def)
qed simp

theorem legacy_use_limit_witness:
  "\<exists>k' w'. attempts ex_crypto ex_store ex_grant
      (replicate 7 (ex_credential, ex_peer, None, Some 0, False)) (ex_legacy, 0) = (k', w') \<and> w' \<le> 2"
proof -
  obtain k' w' where a: "attempts ex_crypto ex_store ex_grant
      (replicate 7 (ex_credential, ex_peer, None, Some 0, False)) (ex_legacy, 0) = (k', w')"
    by (metis surj_pair)
  have "g_max_uses ex_grant = Some 2" by simp
  from legacy_use_limit [OF this a] have "w' \<le> 2" by auto
  with a show ?thesis by blast
qed

lemma LockState_commit_Inr_iff:
  "LockState_commit store n k = (Inr u, k') \<longleftrightarrow>
     (\<exists>s. store n (k_storage k) = (Inr (), s) \<and> k' = k\<lparr>k_storage := s, k_snapshot := n\<rparr>)"
  by (auto simp: LockState_commit_def split: prod.splits sum.splits)

text \<open>Policies move forward: a policy that is applied is signed by the issuer for this lock
  and is strictly newer by epoch and version; it adds its revocations to those of its epoch,
  keeps the counters of its epoch, and a new epoch starts without either.\<close>

lemma legacy_policy_forward:
  assumes "LockState_apply_policy cr store p sig k = (Inr u, k')"
  shows "\<not> k_poisoned k \<and> read_policy cr (k_issuer k) sig = Inr p \<and> p_lock_id p = k_lock_id k
    \<and> (l_epoch (k_snapshot k) < p_epoch p
        \<or> l_epoch (k_snapshot k) = p_epoch p \<and> l_policy_version (k_snapshot k) < p_version p)
    \<and> l_epoch (k_snapshot k') = p_epoch p \<and> l_policy_version (k_snapshot k') = p_version p
    \<and> (if l_epoch (k_snapshot k) = p_epoch p
        then l_revoked (k_snapshot k') = l_revoked (k_snapshot k) |\<union>| p_revoked p
          \<and> l_usage (k_snapshot k') = l_usage (k_snapshot k)
        else l_revoked (k_snapshot k') = p_revoked p \<and> l_usage (k_snapshot k') = fmempty)
    \<and> store (k_snapshot k') (k_storage k) = (Inr (), k_storage k')"
proof -
  let ?n = "if p_epoch p > l_epoch (k_snapshot k)
    then \<lparr>l_epoch = p_epoch p, l_policy_version = 0, l_revoked = {||}, l_usage = fmempty\<rparr> else k_snapshot k"
  from assms have "\<not> k_poisoned k" and pol: "verify_policy cr (k_issuer k) p sig = Inr ()"
    and lock: "p_lock_id p = k_lock_id k" and ge: "l_epoch (k_snapshot k) \<le> p_epoch p"
    and ver: "p_epoch p = l_epoch (k_snapshot k) \<Longrightarrow> l_policy_version (k_snapshot k) < p_version p"
    and com: "LockState_commit store (?n\<lparr>l_policy_version := p_version p,
        l_revoked := l_revoked ?n |\<union>| p_revoked p\<rparr>) k = (Inr u, k')"
    unfolding LockState_apply_policy_def run_Inr_iffs Let_def LockState_ensure_healthy_def reject_if_Inr_iff
    by (simp_all add: not_less not_le)
  moreover from pol have "read_policy cr (k_issuer k) sig = Inr p"
    by (auto simp: verify_policy_def result_Inr_iffs split: if_splits)
  moreover have "l_epoch (k_snapshot k) < p_epoch p \<or> l_epoch (k_snapshot k) = p_epoch p" using ge by auto
  ultimately show ?thesis
    unfolding LockState_commit_Inr_iff by auto
qed

lemma legacy_policy_forward_example:
  "\<exists>b k'. LockState_apply_policy ex_crypto ex_store ex_policy b ex_legacy = (Inr (), k')
     \<and> l_policy_version (k_snapshot k') = 1"
proof -
  from ex_sign_policy obtain b where "sign_policy ex_crypto ex_key ex_policy = Inr b" by blast
  from read_sign_policy [OF ex_crypto_cbor_ok ex_crypto_ed25519_ok ex_policy_wf this]
  have "read_policy ex_crypto ex_key b = Inr ex_policy" by simp
  then have "\<exists>k'. LockState_apply_policy ex_crypto ex_store ex_policy b ex_legacy = (Inr (), k')"
    by (simp add: LockState_apply_policy_def run_simps LockState_ensure_healthy_def verify_policy_def
        LockState_commit_def ex_store_def ex_legacy_def LockState_new_def ex_policy_def Let_def)
  then obtain k' where a: "LockState_apply_policy ex_crypto ex_store ex_policy b ex_legacy = (Inr (), k')" by blast
  from legacy_policy_forward [OF a] a show ?thesis by (auto simp: ex_policy_def)
qed

end
