(* ===== verification/Issuer.thy ===== *)
theory Issuer
  imports Trust
begin

text \<open>
  The issuer of the owner (\<^verbatim>\<open>crates/openlock-issuer/src/lib.rs\<close>): it mints grants and policies, certifies
  device keys and signs their rotation, with the owner's signing key.
\<close>

record Issuer =
  is_key :: bytes

record IssueRequest =
  ir_credential_id :: CredentialId
  ir_lock_id :: LockId
  ir_subject_key :: SubjectKey
  ir_rights :: u32
  ir_epoch :: u64
  ir_validity :: "(u64 \<times> u64) option"
  ir_max_uses :: "u32 option"

definition from_signing_key :: "bytes \<Rightarrow> Issuer" where
  "from_signing_key key = \<lparr>is_key = key\<rparr>"

definition Issuer_verifying_key :: "Crypto \<Rightarrow> Issuer \<Rightarrow> bytes" where
  "Issuer_verifying_key cr i = cr_verifying_key cr (is_key i)"

definition Issuer_issue :: "Crypto \<Rightarrow> Issuer \<Rightarrow> IssueRequest \<Rightarrow> Error + Grant \<times> bytes" where
  "Issuer_issue cr i request =
     (let grant = \<lparr>g_credential_id = ir_credential_id request, g_lock_id = ir_lock_id request,
        g_subject_key = ir_subject_key request, g_rights = ir_rights request, g_epoch = ir_epoch request,
        g_validity = map_option (\<lambda>(not_before, not_after).
          \<lparr>v_not_before = not_before, v_not_after = not_after\<rparr>) (ir_validity request),
        g_max_uses = ir_max_uses request\<rparr> in
      rbind (sign_grant cr (is_key i) grant) (\<lambda>signed. Inr (grant, signed)))"

definition Issuer_revoke ::
  "Crypto \<Rightarrow> Issuer \<Rightarrow> LockId \<Rightarrow> u64 \<Rightarrow> u64 \<Rightarrow> CredentialId fset \<Rightarrow> Error + PolicyUpdate \<times> bytes" where
  "Issuer_revoke cr i lock_id epoch version revoked =
     (let update = \<lparr>p_lock_id = lock_id, p_epoch = epoch, p_version = version, p_revoked = revoked\<rparr> in
      rbind (sign_policy cr (is_key i) update) (\<lambda>signed. Inr (update, signed)))"

definition issue_device_key :: "Crypto \<Rightarrow> Issuer \<Rightarrow> DeviceKey \<Rightarrow> u32 \<Rightarrow> Error + DeviceKeyRecord" where
  "issue_device_key cr i key issuer_key_id = sign_device_key cr (is_key i) key issuer_key_id"

definition rotate_device_key :: "Crypto \<Rightarrow> Issuer \<Rightarrow> KeyUpdate \<Rightarrow> Error + KeyUpdate" where
  "rotate_device_key cr i update = sign_key_update cr (is_key i) update"

end
