(* ===== verification/Revocation.thy ===== *)
theory Revocation
  imports Device_Steps Issuer Codec_Props
begin

text \<open>
  The life of a credential across the issuer (\<^verbatim>\<open>crates/openlock-issuer/src/lib.rs\<close>) and the controller
  (\<^verbatim>\<open>crates/openlock-core/src/device.rs\<close>): what a policy update leaves behind when it reports completion,
  and that this is never undone.
\<close>

unbundle bit_operations_syntax

section \<open>What is revoked stays revoked\<close>

text \<open>A credential of the epoch \<open>e\<close> or before is dead in a snapshot of a later epoch, and in one
  of the same epoch that lists it as revoked.\<close>

definition dead :: "CredentialId fset \<Rightarrow> u64 \<Rightarrow> DeviceSnapshot \<Rightarrow> bool" where
  "dead revoked e s \<longleftrightarrow> e < s_epoch s \<or> s_epoch s = e \<and> revoked |\<subseteq>| s_revoked s"

lemma dead_snap_le:
  assumes "snap_le s s'" "dead revoked e s"
  shows "dead revoked e s'"
proof -
  from assms(1) have "(s_epoch s, s_policy_version s) \<le> (s_epoch s', s_policy_version s')"
    and d: "s_epoch s' = s_epoch s \<longrightarrow> s_revoked s |\<subseteq>| s_revoked s'"
    by (auto simp: snap_le_def snap_pre_def domain_le_def)
  then have "s_epoch s \<le> s_epoch s'" by (auto simp: less_eq_prod_def)
  with d assms(2) show ?thesis by (auto simp: dead_def)
qed

lemma dead_evolves: "evolves snap_le E c c' \<Longrightarrow> dead revoked e (c_state c) \<Longrightarrow> dead revoked e (c_state c')"
  using dead_snap_le by (auto simp: evolves_def)

lemma dead_authorize:
  assumes "dead revoked e (c_state c)" "authorize E x cmd c = (Inr g, c')"
  shows "\<not> (g_credential_id g |\<in>| revoked \<and> g_epoch g \<le> e)"
proof -
  from assms(2) have "g_epoch g = s_epoch (c_state c)" "g_credential_id g |\<notin>| s_revoked (c_state c)"
    by (auto simp: authorize_def run_Inr_iffs)
  with assms(1) show ?thesis by (auto simp: dead_def)
qed

section \<open>Executing a policy update\<close>

text \<open>The policy that the device reads is newer than its own.\<close>

definition applies :: "Crypto \<Rightarrow> bytes \<Rightarrow> PolicyUpdate \<Rightarrow> DeviceSnapshot \<Rightarrow> bool" where
  "applies cr b p s \<longleftrightarrow> (\<exists>owner. s_owner s = Some owner \<and> read_policy cr (ow_issuer owner) b = Inr p)
     \<and> s_epoch s \<le> p_epoch p"

abbreviation outdated :: "PolicyUpdate \<Rightarrow> DeviceSnapshot \<Rightarrow> bool" where
  "outdated p \<equiv> dead (p_revoked p) (p_epoch p)"

lemma commit_state: "wp (commit E n) (\<lambda>r c'. r = Inr () \<longrightarrow> c_state c' = n) c"
  by (rule wpI) (auto simp: commit_def run_Inr_iffs split: if_splits)

lemma outdated_core: "core s' = core s \<Longrightarrow> outdated p s' = outdated p s"
  by (simp add: dead_def core_eqD [of s' s])

lemma audit_outdated_wp:
  assumes "outdated p s" "\<And>q. Q (Inl ResourceExhausted) (c\<lparr>c_platform := q\<rparr>)"
    "\<And>q s'. outdated p s' \<Longrightarrow> Q (Inr s') (c\<lparr>c_platform := q\<rparr>)"
  shows "wp (audit_operation E kind st s) Q c"
proof -
  have "outdated p s'" if "audited s s'" for s'
    using that assms(1) outdated_core [of s' s p] by (simp add: audited_def)
  with assms(2,3) show ?thesis unfolding audit_operation_def by (auto intro!: audit_wp)
qed

definition left_outdated :: "PolicyUpdate \<Rightarrow> Error + arm_result \<Rightarrow> ('s, 'p) DeviceController \<Rightarrow> bool" where
  "left_outdated p r c \<longleftrightarrow> (\<forall>n. r = Inr (Inl n) \<longrightarrow> outdated p n) \<and> (\<forall>reply. r = Inr (Inr reply) \<longrightarrow> outdated p (c_state c))"

lemma left_outdated_simps [simp]:
  "left_outdated p (Inl e) c" "left_outdated p (Inr (Inl n)) c = outdated p n"
  "left_outdated p (Inr (completed st)) c = outdated p (c_state c)"
  by (simp_all add: left_outdated_def completed_def)

lemma execute_policy_outdated:
  assumes "applies (env_crypto E) b p (c_state c)"
  shows "wp (execute_policy E b st (c_state c)) (left_outdated p) c"
proof -
  have new: "outdated p (n\<lparr>s_policy_version := v, s_revoked := r |\<union>| p_revoked p\<rparr>)" if "s_epoch n = p_epoch p" for n v r
    using that by (simp add: dead_def)
  have com: "wp (commit E n) (\<lambda>r c'. r = Inr () \<longrightarrow> outdated p (c_state c')) c'" if "outdated p n" for n c'
    by (rule wp_mono [OF commit_state]) (use that in auto)
  from assms show ?thesis
    by (auto simp: execute_policy_def applies_def Let_def result_Inr_iffs intro!: audit_outdated_wp [where p = p] new com
        split: sum.split)
qed

lemma execute_outdated:
  assumes "cmd_action cmd = ApplyPolicy b" "applies (env_crypto E) b p (c_state c)"
  shows "wp (execute E x cmd st t) (\<lambda>r c'. \<forall>reply. r = Inr reply \<longrightarrow> outdated p (c_state c')) c"
proof -
  have arm: "wp (execute_arm E x (cmd_action cmd) st t) (left_outdated p) c"
    using assms execute_policy_outdated [OF assms(2)] by (simp add: execute_arm_def is_firmware_action_def)
  have com: "wp (commit E n) (\<lambda>r c'. r = Inr () \<longrightarrow> outdated p (c_state c')) c'" if "outdated p n" for n c'
    by (rule wp_mono [OF commit_state]) (use that in auto)
  show ?thesis
    unfolding execute_def wp_bnd [of "execute_arm E x (cmd_action cmd) st t"]
    by (intro wp_mono [OF arm])
      (auto simp: assms(1) is_firmware_action_def left_outdated_def intro!: com split: sum.split)
qed

lemma finish_phase:
  "wp (finish E st phase evidence e) (\<lambda>r c'. \<forall>os. r = Inr (Reply_Operation os) \<longrightarrow> os_phase os = phase) c"
  by (rule wpI) (auto simp: finish_def run_Inr_iffs Let_def set_status_def)

lemma applies_frame: "frame s' = frame s \<Longrightarrow> applies cr b p s' = applies cr b p s"
  by (simp add: applies_def frame_eqD [of s' s])

definition reports :: "PolicyUpdate \<Rightarrow> Error + Reply \<Rightarrow> ('s, 'p) DeviceController \<Rightarrow> bool" where
  "reports p r c \<longleftrightarrow> (\<forall>os. r = Inr (Reply_Operation os) \<and> os_phase os = Phase_Completed \<longrightarrow> outdated p (c_state c))"

lemma reports_Inl [simp]: "reports p (Inl e) c"
  by (simp add: reports_def)

lemma perform_outdated:
  assumes act: "cmd_action cmd = ApplyPolicy b" and app: "applies (env_crypto E) b p (c_state c)"
    and seq: "get_or 0 (s_watermarks (c_state c)) (g_credential_id grant) < seq"
  shows "wp (perform E x cmd grant seq digest st t clears) (reports p) c"
proof (cases clears)
  case True
  show ?thesis
    unfolding perform_def if_P [OF True] wp_bnd [of "execute E x cmd st t"]
    by (intro wp_mono [OF execute_outdated [OF act app]]) (auto simp: reports_def split: sum.split)
next
  case False
  have exec: "wp (execute E x cmd st t) (\<lambda>r c'. \<forall>reply. r = Inr reply \<longrightarrow> outdated p (c_state c')) c2"
    if "accepted E grant cmd seq digest st nc c c2" for c2 nc
  proof -
    from that have "frame (c_state c2) = frame (c_state c)" by (simp add: accepted_def accepts_def)
    from execute_outdated [OF act applies_frame [OF this, THEN iffD2, OF app]] show ?thesis .
  qed
  have fin: "wp (finish E st Phase_Completed Evidence_None 0) (\<lambda>r c'. outdated p (c_state c')) c2"
    if "outdated p (c_state c2)" for c2
    by (rule wp_mono [OF sl.evolves_stepsI [OF sl.finish_steps sl.evolves_refl]]) (rule dead_evolves [OF _ that])
  have nb: "unchanged_bolt (cmd_action cmd) sample = False" for sample by (simp add: act unchanged_bolt_def)
  show ?thesis
    unfolding perform_def if_not_P [OF False] nb Let_def
    by (auto simp: reports_def intro!: accept_wp [OF sl.evolves_refl seq] wp_mono [OF exec] wp_mono [OF fin] wp_mono [OF finish_phase [where phase = Phase_Failed]]
        split: sum.split option.split)
qed

section \<open>A completed request\<close>

lemma mutate_outdated:
  assumes act: "cmd_action cmd = ApplyPolicy b" and ow: "s_owner (c_state c) = Some owner"
    and read: "read_policy (env_crypto E) (ow_issuer owner) b = Inr p"
    and seq: "get_or 0 (s_watermarks (c_state c)) (g_credential_id grant) < seq"
  shows "wp (mutate E x cmd grant seq digest t) (reports p) c"
proof -
  have perf: "wp (perform E x cmd grant seq digest st t clears) (reports p) c'"
    if "evolves house E c c'" "policy_fresh (env_crypto E) (cmd_action cmd) (c_state c')" for c' st clears
  proof (rule perform_outdated [OF act])
    note core = core_eqD [OF evolves_coreD [OF that(1)]]
    from that(2) ow read have "(s_epoch (c_state c'), s_policy_version (c_state c')) < (p_epoch p, p_version p)"
      by (simp add: policy_fresh_def act core)
    then show "applies (env_crypto E) b p (c_state c')"
      using ow read by (auto simp: applies_def core less_prod_def less_imp_le)
    show "get_or 0 (s_watermarks (c_state c')) (g_credential_id grant) < seq" using seq by (simp add: core)
  qed
  show ?thesis
    unfolding mutate_def by (auto simp: hs.evolves_refl intro!: preflight_wp clears_domain_wp perf)
qed

lemma dispatch_cases:
  assumes act: "cmd_action cmd = ApplyPolicy b" and "dispatch E x cmd c = (Inr reply, c')"
    and ow: "s_owner (c_state c) = Some owner"
  obtains grant t d where "evolves house E c d" "dispatch_granted E x cmd grant t d = (Inr reply, c')"
    "read_grant (env_crypto E) (ow_issuer owner) (cmd_credential cmd) = Inr grant" "\<not> c_poisoned c"
proof -
  obtain r d1 where r: "hardware_changed E c = (r, d1)" by (cases "hardware_changed E c")
  with assms(1,2) obtain t d2 grant d3 where n: "now_ms E d1 = (Inr t, d2)"
    and a: "authorize E x cmd d2 = (Inr grant, d3)" and g: "dispatch_granted E x cmd grant t d3 = (Inr reply, c')"
    by (cases r) (auto simp: dispatch_def run_Inr_iffs)
  have ev: "evolves house E c d1" "evolves house E c d2" "evolves house E c d3"
    using r n a stepsD [OF hs.hardware_changed_steps] stepsD [OF hs.now_ms_steps] stepsD [OF hs.authorize_steps]
      hs.evolves_trans by metis+
  from n have "\<not> c_poisoned d1" by (auto simp: now_ms_def run_Inr_iffs split: if_splits)
  with ev(1) have "\<not> c_poisoned c" by (auto simp: evolves_def)
  moreover have "s_owner (c_state d2) = Some owner" using ow core_eqD [OF evolves_coreD [OF ev(2)]] by simp
  with a have "read_grant (env_crypto E) (ow_issuer owner) (cmd_credential cmd) = Inr grant"
    by (auto simp: authorize_def run_Inr_iffs result_Inr_iffs)
  ultimately show ?thesis using that ev(3) g by blast
qed

text \<open>The sequence of the request is new for the credential of the grant that it carries.\<close>

definition fresh_sequence :: "Crypto \<Rightarrow> Owner \<Rightarrow> Command \<Rightarrow> DeviceSnapshot \<Rightarrow> bool" where
  "fresh_sequence cr owner cmd s \<longleftrightarrow> (case (cmd_sequence cmd, read_grant cr (ow_issuer owner) (cmd_credential cmd)) of
     (Some seq, Inr grant) \<Rightarrow> get_or 0 (s_watermarks s) (g_credential_id grant) < seq | _ \<Rightarrow> False)"

lemma handle_outdated:
  assumes act: "cmd_action cmd = ApplyPolicy b" and seq: "fresh_sequence (env_crypto E) owner cmd (c_state c)"
    and ow: "s_owner (c_state c) = Some owner" and read: "read_policy (env_crypto E) (ow_issuer owner) b = Inr p"
    and h: "handle E x cmd c = (rsp, c')" "rsp_result rsp = Inr (Reply_Operation os)" "os_phase os = Phase_Completed"
  shows "outdated p (c_state c') \<and> \<not> c_poisoned c"
proof -
  from h have "dispatch E x cmd c = (Inr (Reply_Operation os), c')"
    by (auto simp: handle_def Response_rejected_def split: sum.splits prod.splits if_splits)
  from dispatch_cases [OF act this ow] obtain grant t d where d: "evolves house E c d"
    "dispatch_granted E x cmd grant t d = (Inr (Reply_Operation os), c')" and healthy: "\<not> c_poisoned c"
    and g: "read_grant (env_crypto E) (ow_issuer owner) (cmd_credential cmd) = Inr grant" .
  note core = core_eqD [OF evolves_coreD [OF d(1)]]
  from seq g obtain n where n: "cmd_sequence cmd = Some n" "get_or 0 (s_watermarks (c_state c)) (g_credential_id grant) < n"
    by (auto simp: fresh_sequence_def split: option.splits)
  with d(2) obtain digest where "mutate E x cmd grant n digest t d = (Inr (Reply_Operation os), c')"
    by (auto simp: dispatch_granted_def run_Inr_iffs act Action_mutates_def Let_def core not_less [symmetric] split: if_splits)
  from wpD [OF mutate_outdated [OF act _ read] this] ow n h(3) healthy show ?thesis by (simp add: core reports_def)
qed

end
