(* ===== verification/Lifecycle.thy ===== *)
theory Lifecycle
  imports Revocation Open_Props
begin

text \<open>
  The life of a device, with restarts, and of a credential: what the issuer issues, and that
  security state survives everything that can happen to a device, also when the store fails. On the example device the
  issuer issues the grant of the example and revokes it with a policy of a new epoch.
\<close>

unbundle bit_operations_syntax

section \<open>Restarts\<close>

text \<open>A life: methods of the controller and restarts, with any platform state, also after the
  controller has poisoned itself.\<close>

inductive lives :: "('s, 'p) Env \<Rightarrow> ('s, 'p) DeviceController \<Rightarrow> ('s, 'p) DeviceController \<Rightarrow> bool" for E c where
  lives_on: "lives E c c"
| lives_step: "lives E c d \<Longrightarrow> device_step E d d' \<Longrightarrow> lives E c d'"
| lives_restart: "lives E c d \<Longrightarrow> Controller_open E f (c_storage d, p) = (Inr d', sp) \<Longrightarrow> lives E c d'"

text \<open>The store holds nothing older than the state in memory. This is what a poisoned controller
  keeps: its store may be ahead of it by the commit that failed.\<close>

definition no_older :: "('s, 'p) Env \<Rightarrow> ('s, 'p) DeviceController \<Rightarrow> bool" where
  "no_older E c \<longleftrightarrow> (\<forall>m. env_load E (c_storage c) = Inr (Some m) \<longrightarrow> snap_le (c_state c) m)"

lemma durable_no_older: "durable E c \<Longrightarrow> \<not> c_poisoned c \<Longrightarrow> no_older E c"
  by (simp add: durable_def no_older_def snap_le_house)

lemma evolves_no_older:
  assumes "storage_ok E" "storage_atomic E" "evolves snap_le E c c'" "no_older E c"
  shows "no_older E c'"
  using assms by (auto simp: evolves_def stored_def no_older_def)

lemma restart_no_older:
  assumes ok: "storage_ok E" and d: "no_older E d"
    and "Controller_open E f (c_storage d, p) = (Inr d', sp)"
  shows "no_older E d' \<and> snap_le (c_state d) (c_state d')"
proof -
  from assms(3) obtain q state sample mono p' where load: "env_load E (c_storage d) = Inr (Some state)"
    and run: "recover E (s_automatic_inflight state) sample
      (fresh_controller f (c_storage d) p' (recovered_state sample state) sample mono) = (Inr (), d')"
    by (rule open_cases)
  from load d have "snap_le (c_state d) state" by (simp add: no_older_def)
  moreover have "\<not> c_poisoned d'" using recover_Inr [OF ok run] by (simp add: idle_part_def fresh_controller_def)
  ultimately show ?thesis
    using recover_Inr [OF ok run] recover_snap_le [OF ok run] by (blast intro: durable_no_older snap_le_trans)
qed

lemma lives_no_older:
  assumes "storage_ok E" "storage_atomic E" "no_older E c" "lives E c c'"
  shows "no_older E c' \<and> snap_le (c_state c) (c_state c')"
  using assms(4)
proof induction
  case lives_on
  show ?case using assms(3) by (simp add: snap_le_house)
next
  case (lives_step d d')
  with device_step_evolves [of E d d'] evolves_no_older [OF assms(1,2)] show ?case
    by (auto simp: evolves_def intro: snap_le_trans)
next
  case (lives_restart d f p d' sp)
  with restart_no_older [OF assms(1)] show ?case by (blast intro: snap_le_trans)
qed

section \<open>Issuing\<close>

definition issue_request :: "Grant \<Rightarrow> IssueRequest" where
  "issue_request g = \<lparr>ir_credential_id = g_credential_id g, ir_lock_id = g_lock_id g,
     ir_subject_key = g_subject_key g, ir_rights = g_rights g, ir_epoch = g_epoch g,
     ir_validity = map_option (\<lambda>v. (v_not_before v, v_not_after v)) (g_validity g), ir_max_uses = g_max_uses g\<rparr>"

lemma Issuer_issue_iff:
  "Issuer_issue cr i r = Inr (g, b) \<longleftrightarrow> r = issue_request g \<and> sign_grant cr (is_key i) g = Inr b"
proof -
  let ?g = "\<lparr>g_credential_id = ir_credential_id r, g_lock_id = ir_lock_id r,
    g_subject_key = ir_subject_key r, g_rights = ir_rights r, g_epoch = ir_epoch r,
    g_validity = map_option (\<lambda>(not_before, not_after). \<lparr>v_not_before = not_before, v_not_after = not_after\<rparr>) (ir_validity r),
    g_max_uses = ir_max_uses r\<rparr>"
  have "g = ?g \<longleftrightarrow> r = issue_request g"
    by (cases g; cases r; cases "g_validity g"; cases "ir_validity r") (auto simp: issue_request_def)
  then show ?thesis by (auto simp: Issuer_issue_def Let_def result_Inr_iffs)
qed

section \<open>The example\<close>

text \<open>A grant of the example device with a validity that contains its clock.\<close>

definition ex_timed_grant :: Grant where
  "ex_timed_grant = ex_grant\<lparr>g_validity := Some \<lparr>v_not_before = 90, v_not_after = 200\<rparr>\<rparr>"

lemma ex_timed_wf: "Grant_wf ex_timed_grant"
  by (simp add: Grant_wf_def validate_grant_def ex_timed_grant_def ex_grant_def KNOWN_RIGHTS_def CredentialId_wf_def
      LockId_wf_def SubjectKey_wf_def)

lemma ex_sign_timed: "\<exists>b. sign_grant ex_crypto ex_key ex_timed_grant = Inr b"
proof -
  have "value_size (grant_value ex_timed_grant) \<le> 300"
    by (simp add: grant_value_def ex_timed_grant_def ex_grant_def)
  moreover have "length GRANT = 17" by (simp add: GRANT_def ascii_def)
  moreover have "validate_grant ex_timed_grant = Inr ()" using ex_timed_wf by (simp add: Grant_wf_def)
  ultimately show ?thesis
    using ex_sign_object [of "grant_value ex_timed_grant" GRANT ex_key] by (auto simp: sign_grant_def)
qed

definition ex_issuer :: Issuer where "ex_issuer = from_signing_key ex_key"

lemma ex_issuer_key [simp]: "is_key ex_issuer = ex_key" "Issuer_verifying_key ex_crypto ex_issuer = ex_key"
  by (simp_all add: ex_issuer_def from_signing_key_def Issuer_verifying_key_def)

definition ex_revocation :: PolicyUpdate where
  "ex_revocation = \<lparr>p_lock_id = ex_lock, p_epoch = 1, p_version = 1, p_revoked = {|ex_credential_id|}\<rparr>"

definition ex_signed_policy :: bytes where
  "ex_signed_policy = projr (sign_policy ex_crypto ex_key ex_revocation)"

lemma ex_revocation_wf: "Policy_wf ex_revocation"
  by (simp add: Policy_wf_def ex_revocation_def LockId_wf_def CredentialId_wf_def)

lemma ex_revoke:
  "sign_policy ex_crypto ex_key ex_revocation = Inr ex_signed_policy" "length ex_signed_policy \<le> 300"
proof -
  have "value_size (policy_value ex_revocation) = 110"
    by (simp add: policy_value_def ex_revocation_def sorted_list_of_fset.rep_eq)
  then have "\<exists>b. sign_policy ex_crypto ex_key ex_revocation = Inr b \<and> length b \<le> 300"
    using ex_sign_object [of "policy_value ex_revocation" POLICY ex_key]
    by (auto simp: sign_policy_def POLICY_def ascii_def)
  then show "sign_policy ex_crypto ex_key ex_revocation = Inr ex_signed_policy" "length ex_signed_policy \<le> 300"
    by (auto simp: ex_signed_policy_def)
qed

lemma ex_read_policy: "read_policy ex_crypto ex_key ex_signed_policy = Inr ex_revocation"
  using read_sign_policy [OF ex_crypto_cbor_ok ex_crypto_ed25519_ok ex_revocation_wf ex_revoke(1)] by simp

definition ex_apply :: Command where
  "ex_apply = \<lparr>cmd_credential = ex_credential, cmd_sequence = Some 1, cmd_action = ApplyPolicy ex_signed_policy\<rparr>"

lemma ex_apply_fields [simp]:
  "cmd_credential ex_apply = ex_credential" "cmd_sequence ex_apply = Some 1"
  "cmd_action ex_apply = ApplyPolicy ex_signed_policy"
  by (simp_all add: ex_apply_def)

definition ex_apply_digest :: bytes where
  "ex_apply_digest = cr_sha256 ex_crypto (put_value (Command_value ex_apply))"

lemma ex_apply_dispatch:
  "dispatch ex_env ex_context ex_apply ex_controller
     = mutate ex_env ex_context ex_apply ex_grant 1 ex_apply_digest 1000 ex_controller"
proof -
  have "Action_parse (Action_value (ApplyPolicy ex_signed_policy)) = Inr (ApplyPolicy ex_signed_policy)"
    by (simp add: Action_parse_iff Action_wf_def)
  moreover have "Command_validate ex_apply = Inr ()"
    using ex_credential_length ex_credential_nonempty
    by (simp add: Command_validate_def MAX_OBJECT_SIZE_def credentialless_def Action_mutates_def)
  moreover have "Command_capability ex_apply AND KNOWN_CAPABILITIES \<noteq> 0"
    by (simp add: Command_capability_def Action_opcode_def KNOWN_CAPABILITIES_def)
  moreover have "authorize ex_env ex_context ex_apply ex_controller = (Inr ex_grant, ex_controller)"
    using ex_read_grant by (simp add: authorize_def run_simps) (simp add: Action_right_def rights_defs)
  moreover have "encode_wire ex_crypto Command_value ex_apply = Inr (put_value (Command_value ex_apply))"
    using ex_credential_length ex_revoke(2)
    by (simp add: encode_wire_def ex_cencode Command_value_def Option_value_def U64_value_def
        Action_value_def Action_args_def U8_value_def)
  ultimately show ?thesis
    by (simp add: dispatch_def dispatch_granted_def hardware_changed_def run_simps call_defs
        ex_observe now_ms_def Action_mutates_def ex_apply_digest_def)
qed

definition ex_revoked_state :: DeviceSnapshot where
  "ex_revoked_state = (clear_domain ex_state)\<lparr>s_epoch := 1, s_generation := 2, s_policy_version := 1,
     s_revoked := {|ex_credential_id|}, s_clock_floor := Some 100, s_next_cursor := 2,
     s_events := [\<lparr>ae_cursor = 1, ae_unix_seconds = Some 100, ae_kind = Audit_Policy,
       ae_credential_id = Some ex_credential_id, ae_sequence = Some 1, ae_code = 0, ae_hardware = None,
       ae_operation = None\<rparr>]\<rparr>"

lemma ex_revoked_valid: "DeviceSnapshot_validate ex_crypto ex_factory ex_revoked_state = Inr ()"
  by (simp add: DeviceSnapshot_validate_iff ex_revoked_state_def clear_domain_def operation_valid_def firmware_validate_empty)
    (simp add: empty_firmware_def word_le_nat_alt)

definition ex_after_revocation :: "(DeviceSnapshot option, ex_platform) DeviceController" where
  "ex_after_revocation = ex_controller\<lparr>c_storage := Some ex_revoked_state, c_state := ex_revoked_state\<rparr>"

lemma ex_apply_handled:
  "\<exists>os. handle ex_env ex_context ex_apply ex_controller
     = (\<lparr>rsp_opcode = Action_opcode (ApplyPolicy ex_signed_policy), rsp_result = Inr (Reply_Operation os)\<rparr>, ex_after_revocation)
   \<and> os_phase os = Phase_Completed"
proof -
  let ?st = "accepted_status ex_grant 1 (ApplyPolicy ex_signed_policy)"
  have p: "p_lock_id ex_revocation = ex_lock" "p_epoch ex_revocation = 1" "p_version ex_revocation = 1"
    "p_revoked ex_revocation = {|ex_credential_id|}" by (simp_all add: ex_revocation_def)
  have "preflight ex_env ex_grant ex_apply t digest peer ex_controller = (Inr (), ex_controller)" for t digest peer
    by (simp add: preflight_def run_simps ex_observe preflight_action_def preflight_policy_def ex_read_policy p)
  moreover have "execute_policy ex_env ex_signed_policy ?st ex_state ex_controller
      = (Inr (completed ?st), ex_after_revocation)"
  proof -
    have "execute_policy ex_env ex_signed_policy ?st ex_state ex_controller
      = thn (commit ex_env ex_revoked_state) (thn (modify (c_confirmation_update (\<lambda>_. None))) (ret (completed ?st))) ex_controller"
      by (simp add: execute_policy_def run_simps ex_read_policy p eval_defs audit_operation_def clear_domain_def
          accepted_status_def ex_revoked_state_def)
    moreover have "s_clock_floor ex_revoked_state = Some 100" by (simp add: ex_revoked_state_def)
    moreover have "ex_after_revocation\<lparr>c_confirmation := None\<rparr> = ex_after_revocation"
      by (simp add: ex_after_revocation_def ex_controller_def fresh_controller_def)
    ultimately show ?thesis
      using ex_revoked_valid by (simp add: ex_commit run_simps ex_after_revocation_def)
  qed
  ultimately show ?thesis
    by (simp add: handle_def ex_apply_dispatch mutate_def perform_def clears_domain_def run_simps ex_read_policy p
        execute_def execute_arm_def is_firmware_action_def completed_def)
qed

text \<open>The example device restarts after the revocation.\<close>

lemma ex_storage_atomic [simp]: "storage_atomic ex_env"
  by (simp add: storage_atomic_def)

lemma ex_reopen_revoked: "\<exists>c sp. Controller_open ex_env ex_factory (c_storage ex_after_revocation, []) = (Inr c, sp)"
proof -
  let ?s = "recovered_state ex_sample ex_revoked_state"
  let ?c = "fresh_controller ex_factory (Some ex_revoked_state) ([] :: ex_platform) ?s ex_sample 1000"
  have valid: "DeviceSnapshot_validate ex_crypto ex_factory ?s = Inr ()"
    by (simp add: DeviceSnapshot_validate_iff recovered_state_def ex_revoked_state_def clear_domain_def operation_valid_def
        firmware_validate_empty) (simp add: empty_firmware_def word_le_nat_alt)
  then have "commit ex_env ?s ?c = (Inr (), ?c\<lparr>c_storage := Some ?s, c_state := ?s\<rparr>)"
    by (intro ex_commit) (simp_all add: fresh_controller_def)
  moreover have "fs_phase (s_firmware ?s) = Firmware_Empty" "\<not> s_automatic_inflight ex_revoked_state"
    by (simp_all add: recovered_state_def ex_revoked_state_def clear_domain_def empty_firmware_def)
  moreover have "c_state ?c = ?s" "c_factory ?c = ex_factory" by (simp_all add: fresh_controller_def)
  moreover have "env_bootloader ex_env p = (True, p)" for p by (simp add: ex_env_def)
  moreover have "c_storage ex_after_revocation = Some ex_revoked_state" by (simp add: ex_after_revocation_def)
  ultimately show ?thesis
    using ex_revoked_valid ex_info_valid
    by (simp add: Controller_open_def open_stopped_def quiesce_def on_platform_def load_def run_simps
        recover_def on_controller_def reconcile_boot_def validate_sample_def reading_valid_def)
qed

end
