(* ===== verification/Frames.thy ===== *)
theory Frames
  imports Prelude
begin

text \<open>
  The transport extension point (\<^verbatim>\<open>crates/openlock-transport/src/lib.rs\<close>): the error type and
  the \<open>FrameCodec\<close> trait, as a locale. A codec splits a message into fragments and puts
  fragments together again; the contract is that what one end encodes the other end
  delivers, once, and is then ready for the next message. From it follows that a stream of
  messages arrives unchanged. Theories \<open>Ble\<close> and \<open>Nfc\<close> interpret it. The theory also holds
  slices in chunks and the byte orders of \<open>u16\<close> and \<open>u32\<close>.
\<close>

datatype TransportError =
    T_TooShort | T_InvalidLength | T_TooLarge | T_OutOfBounds | T_Conflict | T_Busy
  | T_Incomplete | T_InvalidNfc

section \<open>Chunks of a slice\<close>

text \<open>\<open>slice::chunks\<close>; the callers pass a positive size.\<close>

function chunks :: "nat \<Rightarrow> 'a list \<Rightarrow> 'a list list" where
  "chunks n xs = (if n = 0 \<or> xs = [] then [] else take n xs # chunks n (drop n xs))"
  by pat_completeness auto
termination
  by (relation "measure (length \<circ> snd)") auto

declare chunks.simps [simp del]

lemma chunks_Nil [simp]: "chunks n [] = []"
  by (simp add: chunks.simps)

lemma chunks_step: "0 < n \<Longrightarrow> xs \<noteq> [] \<Longrightarrow> chunks n xs = take n xs # chunks n (drop n xs)"
  by (subst chunks.simps) simp

lemma concat_chunks: "0 < n \<Longrightarrow> concat (chunks n xs) = xs"
  by (induction n xs rule: chunks.induct) (subst chunks.simps, auto)

lemma chunks_nonempty: "c \<in> set (chunks n xs) \<Longrightarrow> c \<noteq> [] \<and> length c \<le> n"
  by (induction n xs rule: chunks.induct) (subst (asm) (2) chunks.simps, auto split: if_splits)

lemma chunks_eq_Nil_iff: "0 < n \<Longrightarrow> chunks n xs = [] \<longleftrightarrow> xs = []"
  by (subst chunks.simps) simp

lemma length_chunks_bounds:
  "0 < n \<Longrightarrow> length xs \<le> length (chunks n xs) * n \<and> length (chunks n xs) * n < length xs + n"
proof (induction n xs rule: chunks.induct)
  case (1 n xs)
  show ?case
  proof (cases "xs = []")
    case False
    with 1 have "length (drop n xs) \<le> length (chunks n (drop n xs)) * n"
      "length (chunks n (drop n xs)) * n < length (drop n xs) + n" by simp_all
    with False 1(2) show ?thesis by (cases "n \<le> length xs") (auto simp: chunks_step)
  qed (use 1 in simp)
qed

lemma chunks_index_less:
  assumes "0 < n"
  shows "j < length (chunks n xs) \<longleftrightarrow> j * n < length xs"
proof
  assume "j < length (chunks n xs)"
  then have "Suc j * n \<le> length (chunks n xs) * n" by (intro mult_le_mono1) simp
  with length_chunks_bounds [OF assms, of xs] show "j * n < length xs" by simp
next
  assume "j * n < length xs"
  with length_chunks_bounds [OF assms, of xs] have "j * n < length (chunks n xs) * n" by linarith
  then show "j < length (chunks n xs)" by simp
qed

lemma chunks_nth: "j < length (chunks n xs) \<Longrightarrow> chunks n xs ! j = take n (drop (j * n) xs)"
proof (induction n xs arbitrary: j rule: chunks.induct)
  case (1 n xs)
  then have c: "n \<noteq> 0" "xs \<noteq> []" by (auto simp: chunks.simps [of n xs] split: if_splits)
  show ?case
  proof (cases j)
    case 0
    with c show ?thesis by (simp add: chunks_step)
  next
    case (Suc i)
    with 1 c show ?thesis by (simp add: chunks_step add.commute)
  qed
qed

section \<open>Byte orders\<close>

definition u16_to_le :: "u16 \<Rightarrow> bytes" where
  "u16_to_le n = [word_of_nat (unat n mod 256), word_of_nat (unat n div 256)]"

definition u16_from_le :: "u8 \<Rightarrow> u8 \<Rightarrow> u16" where
  "u16_from_le a b = word_of_nat (unat a + 256 * unat b)"

definition u16_to_be :: "u16 \<Rightarrow> bytes" where
  "u16_to_be n = [word_of_nat (unat n div 256), word_of_nat (unat n mod 256)]"

definition u16_from_be :: "u8 \<Rightarrow> u8 \<Rightarrow> u16" where
  "u16_from_be a b = word_of_nat (256 * unat a + unat b)"

definition u32_to_be :: "u32 \<Rightarrow> bytes" where
  "u32_to_be n = [word_of_nat (unat n div 2 ^ 24), word_of_nat (unat n div 2 ^ 16 mod 256),
     word_of_nat (unat n div 2 ^ 8 mod 256), word_of_nat (unat n mod 256)]"

definition u32_from_be :: "u8 \<Rightarrow> u8 \<Rightarrow> u8 \<Rightarrow> u8 \<Rightarrow> u32" where
  "u32_from_be a b c d = word_of_nat (2 ^ 24 * unat a + 2 ^ 16 * unat b + 2 ^ 8 * unat c + unat d)"

lemma unat_byte_of_nat: "k < 256 \<Longrightarrow> unat (word_of_nat k :: u8) = k"
  by (simp add: unat_of_nat)

lemma u16_byte_bounds: "unat (n :: u16) < 65536" "unat (n :: u16) div 256 < 256" "unat (n :: u16) mod 256 < 256"
  using unsigned_less [of n, where 'a = nat] by auto

lemma u32_byte_bounds: "unat (n :: u32) div 2 ^ 24 < 256"
  using unsigned_less [of n, where 'a = nat] by auto

lemma u16_le_roundtrip [simp]: "u16_from_le (u16_to_le n ! 0) (u16_to_le n ! Suc 0) = n"
  by (simp add: u16_from_le_def u16_to_le_def unat_byte_of_nat u16_byte_bounds)

lemma u16_be_roundtrip [simp]: "u16_from_be (u16_to_be n ! 0) (u16_to_be n ! Suc 0) = n"
  by (simp add: u16_from_be_def u16_to_be_def unat_byte_of_nat u16_byte_bounds)

lemma num_pow: "(2::nat) ^ 8 = 256" "(2::nat) ^ 16 = 65536" "(2::nat) ^ 24 = 16777216"
  by simp_all

lemma u32_be_roundtrip [simp]:
  "u32_from_be (u32_to_be n ! 0) (u32_to_be n ! Suc 0) (u32_to_be n ! 2) (u32_to_be n ! 3) = n"
proof -
  define k where "k = unat n"
  have d: "k div 2 ^ 16 = k div 256 div 256" "k div 2 ^ 24 = k div 256 div 256 div 256"
    by (simp_all add: div_mult2_eq [symmetric])
  have "k = 256 * (k div 256) + k mod 256"
    "k div 256 = 256 * (k div 256 div 256) + k div 256 mod 256"
    "k div 256 div 256 = 256 * (k div 256 div 256 div 256) + k div 256 div 256 mod 256" by simp_all
  then have "2 ^ 24 * (k div 2 ^ 24) + 2 ^ 16 * (k div 2 ^ 16 mod 256) + 2 ^ 8 * (k div 2 ^ 8 mod 256) + k mod 256 = k"
    unfolding d by (simp only: num_pow)
  moreover have "k div 2 ^ 24 < 256" using u32_byte_bounds [of n] by (simp only: k_def)
  ultimately show ?thesis
    unfolding u32_from_be_def u32_to_be_def k_def [symmetric]
    by (simp only: nth_Cons_0 nth_Cons_Suc numeral_2_eq_2 numeral_3_eq_3 unat_byte_of_nat mod_less_divisor
        zero_less_numeral) (simp add: k_def)
qed

lemma base_256: "x = d + q * 256 \<Longrightarrow> d < 256 \<Longrightarrow> x div 256 = q" "x = d + q * 256 \<Longrightarrow> d < 256 \<Longrightarrow> x mod 256 = d" for x :: nat
  by simp_all

lemma u32_be_inverse: "u32_to_be (u32_from_be a b c d) = [a, b, c, d]"
proof -
  have bd: "unat x < 256" for x :: u8 using unsigned_less [of x, where 'a = nat] by simp
  define k where "k = 16777216 * unat a + 65536 * unat b + 256 * unat c + unat d"
  have "k < 4294967296" unfolding k_def using bd [of a] bd [of b] bd [of c] bd [of d] by linarith
  then have n: "unat (u32_from_be a b c d) = k"
    unfolding u32_from_be_def num_pow k_def [symmetric] by (simp add: unat_of_nat)
  define q where "q = 65536 * unat a + 256 * unat b + unat c"
  define p where "p = 256 * unat a + unat b"
  have "k = unat d + q * 256" "q = unat c + p * 256" "p = unat b + unat a * 256"
    by (simp_all add: k_def q_def p_def)
  note digits = base_256 [OF this(1) bd] base_256 [OF this(2) bd] base_256 [OF this(3) bd]
  have "k div 65536 = k div 256 div 256" "k div 16777216 = k div 256 div 256 div 256"
    by (simp_all add: div_mult2_eq [symmetric])
  then show ?thesis by (simp add: u32_to_be_def n digits)
qed

lemma u16_le_bytes: obtains a b where "u16_to_le n = [a, b]" "u16_from_le a b = n"
  using u16_le_roundtrip [of n] by (simp add: u16_to_le_def)

lemma u16_be_bytes: obtains a b where "u16_to_be n = [a, b]" "u16_from_be a b = n"
  using u16_be_roundtrip [of n] by (simp add: u16_to_be_def)

lemma u32_be_bytes: obtains a b c d where "u32_to_be n = [a, b, c, d]" "u32_from_be a b c d = n"
  using u32_be_roundtrip [of n] by (simp add: u32_to_be_def numeral_2_eq_2 numeral_3_eq_3)

lemma length_orders [simp]: "length (u16_to_le n) = 2" "length (u16_to_be n) = 2" "length (u32_to_be m) = 4"
  by (simp_all add: u16_to_le_def u16_to_be_def u32_to_be_def)

lemma unat_u16_of_nat: "k \<le> 4096 \<Longrightarrow> unat (word_of_nat k :: u16) = k"
  by (simp add: unat_of_nat)

section \<open>Codecs\<close>

text \<open>Pushing a sequence of fragments: the messages that come out, up to the first error.\<close>

fun feed :: "('f \<Rightarrow> ('c, 'e, 'm option) sm) \<Rightarrow> 'f list \<Rightarrow> ('c, 'e, 'm list) sm" where
  "feed push [] = ret []"
| "feed push (f # fs) = bnd (push f) (\<lambda>m. bnd (feed push fs) (\<lambda>ms.
     ret (case m of None \<Rightarrow> ms | Some m \<Rightarrow> m # ms)))"

fun encode_all :: "('m \<Rightarrow> ('c, 'e, 'f list) sm) \<Rightarrow> 'm list \<Rightarrow> ('c, 'e, 'f list) sm" where
  "encode_all encode [] = ret []"
| "encode_all encode (m # ms) = bnd (encode m) (\<lambda>fs. bnd (encode_all encode ms) (\<lambda>gs. ret (fs @ gs)))"

lemma feed_append:
  "feed push fs c = (Inr ms, d) \<Longrightarrow> feed push gs d = (Inr ns, e) \<Longrightarrow> feed push (fs @ gs) c = (Inr (ms @ ns), e)"
proof (induction fs arbitrary: c ms)
  case (Cons f fs)
  then show ?case by (fastforce simp: run_Inr_iffs split: option.splits)
qed (simp add: run_simps)

locale frame_codec =
  fixes encode :: "bytes \<Rightarrow> ('c, TransportError, bytes list) sm"
    and push :: "bytes \<Rightarrow> ('c, TransportError, bytes option) sm"
    and linked :: "'c \<Rightarrow> 'c \<Rightarrow> bool"
    and ready :: "'c \<Rightarrow> bool"
    and sendable :: "bytes \<Rightarrow> bool"
  assumes encode_total: "linked tx rx \<Longrightarrow> sendable m \<Longrightarrow> \<exists>fs tx'. encode m tx = (Inr fs, tx')"
    and transfer: "linked tx rx \<Longrightarrow> ready rx \<Longrightarrow> encode m tx = (Inr fs, tx') \<Longrightarrow>
      \<exists>rx'. feed push fs rx = (Inr [m], rx') \<and> ready rx' \<and> linked tx' rx'"
begin

lemma stream:
  assumes "linked tx rx" "ready rx" "list_all sendable ms"
  shows "\<exists>fs tx' rx'. encode_all encode ms tx = (Inr fs, tx') \<and> feed push fs rx = (Inr ms, rx')
    \<and> ready rx' \<and> linked tx' rx'"
  using assms
proof (induction ms arbitrary: tx rx)
  case (Cons m ms)
  then obtain fs tx1 where e: "encode m tx = (Inr fs, tx1)" using encode_total by fastforce
  with transfer [OF Cons.prems(1,2) e] obtain rx1 where f: "feed push fs rx = (Inr [m], rx1)"
    and l: "ready rx1" "linked tx1 rx1" by blast
  from Cons.IH [OF l(2,1)] Cons.prems(3) obtain gs tx2 rx2 where
    r: "encode_all encode ms tx1 = (Inr gs, tx2)" "feed push gs rx1 = (Inr ms, rx2)" "ready rx2" "linked tx2 rx2"
    by auto
  from feed_append [OF f r(2)] e r show ?case by (auto simp: run_simps)
qed (simp add: run_simps)

end

end
