(* ===== verification/Ble.thy ===== *)
theory Ble
  imports Frames
begin

text \<open>
  Fragmentation for Bluetooth Low Energy (\<^verbatim>\<open>crates/openlock-transport-ble/src/lib.rs\<close>). A fragment
  carries the message number, its offset, the total length and its own length. The receiver
  keeps a buffer with one flag per byte, so fragments may come in any order and more than
  once. Shown are: the reassembly buffer implements a partial function from positions to
  bytes; all fragments of a message in any order, with duplicates, deliver the message;
  and the contract \<open>frame_codec\<close>.
\<close>

definition HEADER_SIZE :: nat where "HEADER_SIZE = 8"
definition MAX_FRAME_MESSAGE :: nat where "MAX_FRAME_MESSAGE = 4096"
definition DEFAULT_ATT_MTU :: nat where "DEFAULT_ATT_MTU = 23"
definition MIN_ATT_MTU :: nat where "MIN_ATT_MTU = DEFAULT_ATT_MTU"
definition MAX_ATTRIBUTE_VALUE :: nat where "MAX_ATTRIBUTE_VALUE = 512"

record FragmentHeader =
  f_message_id :: u16
  f_offset :: u16
  f_total :: u16

record BleCodec =
  b_att_mtu :: nat
  b_next_id :: u16
  b_message_id :: "u16 option"
  b_total :: nat
  b_bytes :: bytes
  b_received :: "bool list"

definition BleCodec_default :: BleCodec where
  "BleCodec_default = \<lparr>b_att_mtu = DEFAULT_ATT_MTU, b_next_id = 1, b_message_id = None, b_total = 0,
     b_bytes = [], b_received = []\<rparr>"

definition BleCodec_with_mtu :: "nat \<Rightarrow> TransportError + BleCodec" where
  "BleCodec_with_mtu att_mtu =
     (if att_mtu < MIN_ATT_MTU then Inl T_InvalidLength else Inr (BleCodec_default\<lparr>b_att_mtu := att_mtu\<rparr>))"

definition BleCodec_set_mtu :: "nat \<Rightarrow> (BleCodec, TransportError, unit) sm" where
  "BleCodec_set_mtu att_mtu =
     thn (guard_err (att_mtu < MIN_ATT_MTU) T_InvalidLength) (modify (b_att_mtu_update (\<lambda>_. att_mtu)))"

definition BleCodec_mtu :: "BleCodec \<Rightarrow> nat" where
  "BleCodec_mtu c = b_att_mtu c"

definition payload_capacity :: "BleCodec \<Rightarrow> nat" where
  "payload_capacity c = min (b_att_mtu c - 3) MAX_ATTRIBUTE_VALUE - HEADER_SIZE"

definition ble_frame :: "FragmentHeader \<Rightarrow> bytes \<Rightarrow> TransportError + bytes" where
  "ble_frame header payload =
     (if f_total header = 0 \<or> unat (f_total header) > MAX_FRAME_MESSAGE
         \<or> unat (f_offset header) + length payload > unat (f_total header) \<or> length payload > 65535
      then Inl T_OutOfBounds
      else Inr (u16_to_le (f_message_id header) @ u16_to_le (f_offset header) @ u16_to_le (f_total header)
        @ u16_to_le (word_of_nat (length payload)) @ payload))"

definition ble_parse :: "nat \<Rightarrow> bytes \<Rightarrow> TransportError + FragmentHeader \<times> bytes" where
  "ble_parse att_mtu frame =
     (if length frame < HEADER_SIZE then Inl T_TooShort
      else let h = \<lparr>f_message_id = u16_from_le (frame ! 0) (frame ! 1),
             f_offset = u16_from_le (frame ! 2) (frame ! 3),
             f_total = u16_from_le (frame ! 4) (frame ! 5)\<rparr>;
          payload = drop HEADER_SIZE frame;
          declared_len = unat (u16_from_le (frame ! 6) (frame ! 7)) in
        if declared_len = 0 \<or> declared_len \<noteq> length payload
            \<or> length payload > min (att_mtu - 3) MAX_ATTRIBUTE_VALUE - HEADER_SIZE
        then Inl T_InvalidLength
        else if f_total h = 0 \<or> unat (f_total h) > MAX_FRAME_MESSAGE
            \<or> unat (f_offset h) + length payload > unat (f_total h)
        then Inl T_OutOfBounds
        else Inr (h, payload))"

definition BleCodec_reset :: "BleCodec \<Rightarrow> BleCodec" where
  "BleCodec_reset c = c\<lparr>b_message_id := None, b_total := 0, b_bytes := [], b_received := []\<rparr>"

definition BleCodec_encode :: "bytes \<Rightarrow> (BleCodec, TransportError, bytes list) sm" where
  "BleCodec_encode message =
     thn (guard_err (message = [] \<or> length message > MAX_FRAME_MESSAGE) T_TooLarge) (
     bnd (gets b_next_id) (\<lambda>i.
     thn (modify (b_next_id_update (\<lambda>n. max (n + 1) 1))) (
     bnd (gets payload_capacity) (\<lambda>cap.
     let total = word_of_nat (length message) in
       lift (rmap (\<lambda>(k, p). ble_frame
                \<lparr>f_message_id = i, f_offset = word_of_nat (k * cap), f_total = total\<rparr> p)
              (List.enumerate 0 (chunks cap message)))))))"

text \<open>The loop over the payload: a byte that contradicts one already received stops it, with
  the bytes before it already stored.\<close>

fun ble_write :: "nat \<Rightarrow> bytes \<Rightarrow> (BleCodec, TransportError, unit) sm" where
  "ble_write at [] = ret ()"
| "ble_write at (byte # rest) = bnd (gets id) (\<lambda>c.
     thn (guard_err (b_received c ! at \<and> b_bytes c ! at \<noteq> byte) T_Conflict) (
     thn (modify (\<lambda>c. c\<lparr>b_bytes := (b_bytes c)[at := byte], b_received := (b_received c)[at := True]\<rparr>)) (
       ble_write (Suc at) rest)))"

text \<open>Storing an admitted payload and delivering the message when it is complete.\<close>

definition ble_store :: "nat \<Rightarrow> bytes \<Rightarrow> (BleCodec, TransportError, bytes option) sm" where
  "ble_store at payload =
     thn (ble_write at payload) (
     bnd (gets id) (\<lambda>c.
     if list_all (\<lambda>v. v) (b_received c) then
       thn (modify BleCodec_reset) (ret (Some (b_bytes c)))
     else ret None))"

definition BleCodec_push :: "bytes \<Rightarrow> (BleCodec, TransportError, bytes option) sm" where
  "BleCodec_push frame =
     bnd (gets b_att_mtu) (\<lambda>att_mtu.
     bnd (lift (ble_parse att_mtu frame)) (\<lambda>(h, payload).
     bnd (gets id) (\<lambda>c.
     thn (if b_message_id c = None then
            modify (\<lambda>c. c\<lparr>b_message_id := Some (f_message_id h), b_total := unat (f_total h),
              b_bytes := replicate (unat (f_total h)) 0, b_received := replicate (unat (f_total h)) False\<rparr>)
          else if b_message_id c \<noteq> Some (f_message_id h) then raise T_Busy
          else guard_err (b_total c \<noteq> unat (f_total h)) T_Conflict) (
       ble_store (unat (f_offset h)) payload))))"

section \<open>Fragments\<close>

lemma capacity_pos: "MIN_ATT_MTU \<le> b_att_mtu c \<Longrightarrow> 12 \<le> payload_capacity c"
  by (simp add: payload_capacity_def MIN_ATT_MTU_def DEFAULT_ATT_MTU_def MAX_ATTRIBUTE_VALUE_def HEADER_SIZE_def)

lemma capacity_le: "payload_capacity c \<le> 504"
  by (simp add: payload_capacity_def MAX_ATTRIBUTE_VALUE_def HEADER_SIZE_def)

lemma frame_length: "ble_frame h p = Inr f \<Longrightarrow> length f = HEADER_SIZE + length p"
  by (auto simp: ble_frame_def HEADER_SIZE_def split: if_splits)

lemma parse_frame:
  assumes "ble_frame h p = Inr f" "p \<noteq> []" "length p \<le> min (mtu - 3) MAX_ATTRIBUTE_VALUE - HEADER_SIZE"
  shows "ble_parse mtu f = Inr (h, p)"
proof -
  from assms(1) have f: "f = u16_to_le (f_message_id h) @ u16_to_le (f_offset h) @ u16_to_le (f_total h)
      @ u16_to_le (word_of_nat (length p)) @ p" and b: "f_total h \<noteq> 0" "unat (f_total h) \<le> MAX_FRAME_MESSAGE"
      "unat (f_offset h) + length p \<le> unat (f_total h)" by (auto simp: ble_frame_def split: if_splits)
  have len: "unat (word_of_nat (length p) :: u16) = length p"
    using b by (intro unat_u16_of_nat) (simp add: MAX_FRAME_MESSAGE_def)
  obtain a0 a1 where a: "u16_to_le (f_message_id h) = [a0, a1]" "u16_from_le a0 a1 = f_message_id h"
    by (rule u16_le_bytes)
  obtain b0 b1 where b': "u16_to_le (f_offset h) = [b0, b1]" "u16_from_le b0 b1 = f_offset h"
    by (rule u16_le_bytes)
  obtain c0 c1 where c: "u16_to_le (f_total h) = [c0, c1]" "u16_from_le c0 c1 = f_total h"
    by (rule u16_le_bytes)
  obtain d0 d1 where d: "u16_to_le (word_of_nat (length p)) = [d0, d1]" "u16_from_le d0 d1 = word_of_nat (length p)"
    by (rule u16_le_bytes)
  note w = a b' c d
  have f': "f = a0 # a1 # b0 # b1 # c0 # c1 # d0 # d1 # p" by (simp add: f w)
  have "h = \<lparr>f_message_id = u16_from_le (f ! 0) (f ! 1), f_offset = u16_from_le (f ! 2) (f ! 3),
      f_total = u16_from_le (f ! 4) (f ! 5)\<rparr>"
    "unat (u16_from_le (f ! 6) (f ! 7)) = length p" "drop HEADER_SIZE f = p" "length f = 8 + length p"
    by (simp_all add: f' w len HEADER_SIZE_def)
  with b assms(2,3) show ?thesis by (simp add: ble_parse_def HEADER_SIZE_def Let_def)
qed

lemma frame_ok:
  assumes "0 < cap" "cap \<le> 504" "length m \<le> MAX_FRAME_MESSAGE" "j * cap < length m"
  shows "\<exists>f. ble_frame \<lparr>f_message_id = i, f_offset = word_of_nat (j * cap), f_total = word_of_nat (length m)\<rparr>
      (take cap (drop (j * cap) m)) = Inr f"
proof -
  have "unat (word_of_nat (length m) :: u16) = length m" "unat (word_of_nat (j * cap) :: u16) = j * cap"
    using assms by (simp_all add: unat_u16_of_nat MAX_FRAME_MESSAGE_def del: of_nat_mult)
  moreover from this have "(word_of_nat (length m) :: u16) \<noteq> 0" using assms(4) by (metis not_less0 unat_0)
  ultimately show ?thesis using assms by (auto simp: ble_frame_def)
qed

definition ble_sendable :: "bytes \<Rightarrow> bool" where
  "ble_sendable m \<longleftrightarrow> m \<noteq> [] \<and> length m \<le> MAX_FRAME_MESSAGE"

lemma encode_Inr_iff:
  "BleCodec_encode m c = (Inr fs, c') \<longleftrightarrow> ble_sendable m
     \<and> c' = c\<lparr>b_next_id := max (b_next_id c + 1) 1\<rparr> \<and> length fs = length (chunks (payload_capacity c) m)
     \<and> (\<forall>j<length fs. ble_frame \<lparr>f_message_id = b_next_id c, f_offset = word_of_nat (j * payload_capacity c),
           f_total = word_of_nat (length m)\<rparr> (take (payload_capacity c) (drop (j * payload_capacity c) m)) = Inr (fs ! j))"
  by (auto simp: BleCodec_encode_def run_Inr_iffs rmap_Inr_iff list_all2_conv_all_nth nth_enumerate_eq
      chunks_nth payload_capacity_def Let_def ble_sendable_def not_less)

lemma encode_ble_total:
  assumes "MIN_ATT_MTU \<le> b_att_mtu c" "ble_sendable m"
  shows "\<exists>fs c'. BleCodec_encode m c = (Inr fs, c')"
proof -
  let ?n = "payload_capacity c" and ?h = "\<lambda>j. \<lparr>f_message_id = b_next_id c,
    f_offset = word_of_nat (j * payload_capacity c), f_total = word_of_nat (length m)\<rparr>"
  have cap: "0 < ?n" "?n \<le> 504" using capacity_pos [OF assms(1)] capacity_le by simp_all
  have "\<forall>j. \<exists>f. j < length (chunks ?n m) \<longrightarrow> ble_frame (?h j) (take ?n (drop (j * ?n) m)) = Inr f"
    using frame_ok [OF cap] assms(2) by (auto simp: chunks_index_less [OF cap(1)] ble_sendable_def)
  then obtain g where g: "j < length (chunks ?n m) \<Longrightarrow> ble_frame (?h j) (take ?n (drop (j * ?n) m)) = Inr (g j)" for j
    by metis
  have "BleCodec_encode m c = (Inr (map g [0..<length (chunks ?n m)]), c\<lparr>b_next_id := max (b_next_id c + 1) 1\<rparr>)"
    unfolding encode_Inr_iff using assms(2) g by simp
  then show ?thesis by blast
qed

section \<open>The buffer as a partial function\<close>

definition contents :: "BleCodec \<Rightarrow> nat \<rightharpoonup> u8" where
  "contents c k = (if k < b_total c \<and> b_received c ! k then Some (b_bytes c ! k) else None)"

definition placed :: "nat \<Rightarrow> bytes \<Rightarrow> nat \<rightharpoonup> u8" where
  "placed at p k = (if at \<le> k \<and> k < at + length p then Some (p ! (k - at)) else None)"

definition compatible :: "('k \<rightharpoonup> 'v) \<Rightarrow> ('k \<rightharpoonup> 'v) \<Rightarrow> bool" where
  "compatible f g \<longleftrightarrow> (\<forall>k x y. f k = Some x \<longrightarrow> g k = Some y \<longrightarrow> x = y)"

definition buffer_ok :: "BleCodec \<Rightarrow> bool" where
  "buffer_ok c \<longleftrightarrow> 0 < b_total c \<and> b_total c \<le> MAX_FRAME_MESSAGE \<and> length (b_bytes c) = b_total c
     \<and> length (b_received c) = b_total c"

definition Ble_wf :: "BleCodec \<Rightarrow> bool" where
  "Ble_wf c \<longleftrightarrow> MIN_ATT_MTU \<le> b_att_mtu c \<and> (b_message_id c \<noteq> None \<longrightarrow> buffer_ok c)"

type_synonym reassembly = "(u16 \<times> nat \<times> (nat \<rightharpoonup> u8)) option"

definition reassembly :: "BleCodec \<Rightarrow> reassembly" where
  "reassembly c = map_option (\<lambda>i. (i, b_total c, contents c)) (b_message_id c)"

lemma placed_Nil [simp]: "placed at [] = Map.empty"
  by (simp add: placed_def fun_eq_iff)

lemma placed_Cons: "placed at (x # p) = (placed (Suc at) p)(at \<mapsto> x)"
  by (auto simp: placed_def fun_eq_iff nth_Cons')

lemma placed_at [simp]: "k < Suc at \<Longrightarrow> placed (Suc at) p k = None"
  by (simp add: placed_def)

lemma contents_write:
  assumes "buffer_ok c" "at < b_total c"
  shows "contents (c\<lparr>b_bytes := (b_bytes c)[at := x], b_received := (b_received c)[at := True]\<rparr>)
    = (contents c)(at \<mapsto> x)"
  using assms by (auto simp: contents_def buffer_ok_def fun_eq_iff nth_list_update)

lemma ble_write_wp:
  assumes "buffer_ok c" "at + length p \<le> b_total c"
  shows "wp (ble_write at p) (\<lambda>r c'. buffer_ok c' \<and> b_att_mtu c' = b_att_mtu c \<and> b_next_id c' = b_next_id c
      \<and> b_message_id c' = b_message_id c \<and> b_total c' = b_total c
      \<and> (if compatible (contents c) (placed at p)
         then r = Inr () \<and> contents c' = contents c ++ placed at p
         else r = Inl T_Conflict \<and> contents c \<subseteq>\<^sub>m contents c' \<and> contents c' \<subseteq>\<^sub>m placed at p ++ contents c)) c"
  using assms
proof (induction p arbitrary: at c)
  case (Cons x p)
  let ?c = "c\<lparr>b_bytes := (b_bytes c)[at := x], b_received := (b_received c)[at := True]\<rparr>"
  have c: "contents ?c = (contents c)(at \<mapsto> x)" "buffer_ok ?c" "at < b_total c"
    using Cons.prems contents_write by (auto simp: buffer_ok_def)
  show ?case
  proof (cases "b_received c ! at \<and> b_bytes c ! at \<noteq> x")
    case True
    with c have "contents c at = Some (b_bytes c ! at)" "placed at (x # p) at = Some x" "b_bytes c ! at \<noteq> x"
      by (simp_all add: placed_Cons contents_def)
    then have "\<not> compatible (contents c) (placed at (x # p))" unfolding compatible_def by metis
    with True Cons.prems show ?thesis by simp
  next
    case False
    with c have at: "contents c at = None \<or> contents c at = Some x" by (auto simp: contents_def)
    have comp: "compatible ((contents c)(at \<mapsto> x)) (placed (Suc at) p) \<longleftrightarrow> compatible (contents c) (placed at (x # p))"
      using at by (auto simp: compatible_def placed_Cons)
    have add: "(contents c)(at \<mapsto> x) ++ placed (Suc at) p = contents c ++ placed at (x # p)"
      by (auto simp: placed_Cons map_add_def fun_eq_iff split: option.split)
    have le: "contents c \<subseteq>\<^sub>m (contents c)(at \<mapsto> x)"
      "placed (Suc at) p ++ (contents c)(at \<mapsto> x) = placed at (x # p) ++ contents c"
      using at by (auto simp: map_le_def placed_Cons map_add_def fun_eq_iff split: option.split)
    have "Suc at + length p \<le> b_total ?c" using Cons.prems by simp
    note ih = Cons.IH [OF c(2) this, unfolded c(1) comp add le(2)]
    let "wp _ ?Q _" = ?thesis
    have "wp (ble_write (Suc at) p) ?Q ?c"
      by (rule wp_mono [OF ih]) (auto intro: map_le_trans [OF le(1)] map_le_trans [OF le(1) [unfolded fun_upd_def]] split: if_splits)
    with False show ?thesis
      by (simp only: ble_write.simps wp_bnd wp_thn wp_gets wp_guard_err wp_modify sum.case id_apply if_False)
  qed
qed (simp add: compatible_def)

text \<open>The abstract step: the first fragment of a message opens a reassembly; a fragment of
  another message or of another length is refused; one that contradicts what is there is
  refused, and may leave some of its consistent bytes behind; any other fragment adds its
  bytes, and the last one delivers the message and closes the reassembly.\<close>

definition reassemble ::
  "FragmentHeader \<Rightarrow> bytes \<Rightarrow> reassembly \<Rightarrow> TransportError + bytes option \<Rightarrow> reassembly \<Rightarrow> bool" where
  "reassemble h p q r q' =
     (case (case q of None \<Rightarrow> (f_message_id h, unat (f_total h), Map.empty) | Some t \<Rightarrow> t) of (i, n, m) \<Rightarrow>
      let new = placed (unat (f_offset h)) p in
      if i \<noteq> f_message_id h then r = Inl T_Busy \<and> q' = q
      else if n \<noteq> unat (f_total h) then r = Inl T_Conflict \<and> q' = q
      else if \<not> compatible m new then
        r = Inl T_Conflict \<and> (\<exists>m'. q' = Some (i, n, m') \<and> m \<subseteq>\<^sub>m m' \<and> m' \<subseteq>\<^sub>m new ++ m)
      else if dom (m ++ new) = {..<n} then
        r = Inr (Some (map (the \<circ> (m ++ new)) [0..<n])) \<and> q' = None
      else r = Inr None \<and> q' = Some (i, n, m ++ new))"

lemma ble_parse_Inr:
  assumes "ble_parse mtu f = Inr (h, p)"
  shows "0 < unat (f_total h)" "unat (f_total h) \<le> MAX_FRAME_MESSAGE"
    "unat (f_offset h) + length p \<le> unat (f_total h)" "p \<noteq> []"
proof -
  have "f_total h \<noteq> 0 \<and> unat (f_total h) \<le> MAX_FRAME_MESSAGE \<and> unat (f_offset h) + length p \<le> unat (f_total h) \<and> p \<noteq> []"
    using assms unfolding ble_parse_def Let_def by (auto split: if_splits)
  then show "0 < unat (f_total h)" "unat (f_total h) \<le> MAX_FRAME_MESSAGE"
    "unat (f_offset h) + length p \<le> unat (f_total h)" "p \<noteq> []" by (auto simp: unat_gt_0)
qed

lemma dom_contents: "dom (contents c) = {k. k < b_total c \<and> b_received c ! k}"
  by (simp add: contents_def dom_def)

lemma complete_iff: "buffer_ok c \<Longrightarrow> list_all (\<lambda>v. v) (b_received c) \<longleftrightarrow> dom (contents c) = {..<b_total c}"
  unfolding dom_contents list_all_length by (auto simp: buffer_ok_def)

lemma complete_bytes:
  assumes "buffer_ok c" "dom (contents c) = {..<b_total c}"
  shows "map (the \<circ> contents c) [0..<b_total c] = b_bytes c"
proof (rule nth_equalityI)
  fix k assume "k < length (map (the \<circ> contents c) [0..<b_total c])"
  then have "k \<in> dom (contents c)" using assms(2) by simp
  then show "map (the \<circ> contents c) [0..<b_total c] ! k = b_bytes c ! k"
    by (auto simp: contents_def split: if_splits)
qed (use assms in \<open>simp add: buffer_ok_def\<close>)

lemma ble_store_wp:
  assumes "buffer_ok c" "b_message_id c = Some i" "MIN_ATT_MTU \<le> b_att_mtu c"
    and "unat (f_offset h) + length p \<le> b_total c" "f_message_id h = i" "unat (f_total h) = b_total c"
    and "q = Some (i, b_total c, contents c) \<or> q = None \<and> contents c = Map.empty"
  shows "wp (ble_store (unat (f_offset h)) p) (\<lambda>r c'. Ble_wf c' \<and> b_att_mtu c' = b_att_mtu c \<and> reassemble h p q r (reassembly c')) c"
proof -
  have q: "(case q of None \<Rightarrow> (f_message_id h, unat (f_total h), Map.empty) | Some t \<Rightarrow> t) = (i, b_total c, contents c)"
    using assms(5-7) by auto
  show ?thesis
    unfolding ble_store_def wp_thn using ble_write_wp [OF assms(1,4)]
    by (rule wp_mono) (use assms q in \<open>auto simp: complete_iff complete_bytes [symmetric] reassemble_def Let_def
      Ble_wf_def BleCodec_reset_def reassembly_def split: if_splits sum.splits\<close>)
qed

lemma push_refines:
  assumes "Ble_wf c"
  shows "wp (BleCodec_push f) (\<lambda>r c'. Ble_wf c' \<and> b_att_mtu c' = b_att_mtu c \<and>
    (case ble_parse (b_att_mtu c) f of Inl e \<Rightarrow> r = Inl e \<and> c' = c
     | Inr (h, p) \<Rightarrow> reassemble h p (reassembly c) r (reassembly c'))) c"
proof (cases "ble_parse (b_att_mtu c) f")
  case (Inr hp)
  obtain h p where hp: "hp = (h, p)" by (cases hp)
  note b = ble_parse_Inr [OF Inr [unfolded hp]]
  let ?c = "c\<lparr>b_message_id := Some (f_message_id h), b_total := unat (f_total h),
     b_bytes := replicate (unat (f_total h)) 0, b_received := replicate (unat (f_total h)) False\<rparr>"
  have mtu: "MIN_ATT_MTU \<le> b_att_mtu c" using assms by (simp add: Ble_wf_def)
  consider (start) "b_message_id c = None" | (busy) "b_message_id c \<noteq> None" "b_message_id c \<noteq> Some (f_message_id h)"
    | (other) "b_message_id c = Some (f_message_id h)" "b_total c \<noteq> unat (f_total h)"
    | (same) "b_message_id c = Some (f_message_id h)" "b_total c = unat (f_total h)" by blast
  then show ?thesis
  proof cases
    case start
    have "buffer_ok ?c" "contents ?c = Map.empty" using b by (auto simp: buffer_ok_def contents_def)
    with ble_store_wp [of ?c "f_message_id h" h p "reassembly c"] start b mtu Inr hp show ?thesis
      by (simp add: BleCodec_push_def reassembly_def)
  next
    case same
    then have "buffer_ok c" using assms by (simp add: Ble_wf_def)
    then have "wp (ble_store (unat (f_offset h)) p) (\<lambda>r c'. Ble_wf c' \<and> b_att_mtu c' = b_att_mtu c
        \<and> reassemble h p (reassembly c) r (reassembly c')) c"
      using same b(3) mtu by (intro ble_store_wp) (simp_all add: reassembly_def)
    with same Inr hp show ?thesis by (simp add: BleCodec_push_def)
  qed (use assms Inr hp in \<open>auto simp: BleCodec_push_def reassemble_def reassembly_def Let_def\<close>)
qed (use assms in \<open>simp add: BleCodec_push_def\<close>)

section \<open>Delivery in any order\<close>

text \<open>The fragments of a message cover it: position \<open>k\<close> lies in fragment \<open>k div cap\<close>. After the
  fragments with indices in \<open>J\<close> the buffer holds the message at their positions.\<close>

definition pieces :: "nat \<Rightarrow> bytes \<Rightarrow> nat set \<Rightarrow> nat \<rightharpoonup> u8" where
  "pieces cap m J k = (if k < length m \<and> k div cap \<in> J then Some (m ! k) else None)"

definition holding :: "u16 \<Rightarrow> nat \<Rightarrow> bytes \<Rightarrow> nat set \<Rightarrow> reassembly" where
  "holding i cap m J = (if J = {} then None else Some (i, length m, pieces cap m J))"

lemma pieces_empty [simp]: "pieces cap m {} = Map.empty"
  by (simp add: pieces_def fun_eq_iff)

lemma pieces_add: "pieces cap m J ++ pieces cap m {j} = pieces cap m (insert j J)"
  by (auto simp: pieces_def map_add_def fun_eq_iff)

lemma pieces_compatible: "compatible (pieces cap m J) (pieces cap m K)"
  by (auto simp: pieces_def compatible_def split: if_splits)

lemma pieces_all:
  assumes "dom (pieces cap m J) = {..<length m}"
  shows "map (the \<circ> pieces cap m J) [0..<length m] = m"
proof (rule nth_equalityI)
  fix k assume "k < length (map (the \<circ> pieces cap m J) [0..<length m])"
  moreover from this have "k \<in> dom (pieces cap m J)" using assms by simp
  ultimately show "map (the \<circ> pieces cap m J) [0..<length m] ! k = m ! k"
    by (auto simp: pieces_def split: if_splits)
qed simp

lemma piece_placed:
  assumes "0 < cap"
  shows "placed (j * cap) (take cap (drop (j * cap) m)) = pieces cap m {j}"
proof
  fix k
  define at where "at = j * cap"
  have "k div cap = j \<longleftrightarrow> at \<le> k \<and> k < at + cap"
    unfolding at_def using assms dividend_less_div_times [of cap k] div_times_less_eq_dividend [of k cap]
    by (auto simp: mult.commute intro!: div_nat_eqI)
  then show "placed (j * cap) (take cap (drop (j * cap) m)) k = pieces cap m {j} k"
    unfolding at_def [symmetric] placed_def pieces_def by auto
qed

lemma dom_pieces_iff:
  assumes "0 < cap" "J \<subseteq> {..<length (chunks cap m)}"
  shows "dom (pieces cap m J) = {..<length m} \<longleftrightarrow> J = {..<length (chunks cap m)}"
proof -
  have dom: "dom (pieces cap m J) = {k. k < length m \<and> k div cap \<in> J}" by (simp add: pieces_def dom_def)
  have idx: "k < length m \<Longrightarrow> k div cap < length (chunks cap m)" for k
    using chunks_index_less [OF assms(1), of "k div cap" m] by (meson div_times_less_eq_dividend le_less_trans)
  have "j * cap < length m \<and> j * cap div cap = j" if "j < length (chunks cap m)" for j
    using that assms(1) by (simp add: chunks_index_less [OF assms(1)])
  then have "{k. k < length m \<and> k div cap \<in> J} = {..<length m} \<Longrightarrow> {..<length (chunks cap m)} \<subseteq> J"
    by (metis (mono_tags, lifting) lessThan_iff mem_Collect_eq subsetI)
  with idx assms(2) show ?thesis unfolding dom by auto
qed

lemma push_piece:
  assumes wf: "Ble_wf c" and enc: "BleCodec_encode m tx = (Inr fs, tx')" and mtu: "b_att_mtu tx = b_att_mtu c"
    and J: "J \<subset> {..<length fs}" "j < length fs" and q: "reassembly c = holding (b_next_id tx) (payload_capacity tx) m J"
  shows "\<exists>c'. BleCodec_push (fs ! j) c = (Inr (if insert j J = {..<length fs} then Some m else None), c')
    \<and> Ble_wf c' \<and> b_att_mtu c' = b_att_mtu c
    \<and> reassembly c' = (if insert j J = {..<length fs} then None
        else holding (b_next_id tx) (payload_capacity tx) m (insert j J))"
proof -
  let ?n = "payload_capacity tx" and ?h = "\<lparr>f_message_id = b_next_id tx,
    f_offset = word_of_nat (j * payload_capacity tx), f_total = word_of_nat (length m)\<rparr>"
  let ?p = "take ?n (drop (j * ?n) m)" and ?full = "insert j J = {..<length fs}"
  have cap: "0 < ?n" using capacity_pos [of tx] wf mtu by (simp add: Ble_wf_def)
  from enc J have m: "length m \<le> 4096" and len: "length fs = length (chunks ?n m)" and f: "ble_frame ?h ?p = Inr (fs ! j)"
    by (auto simp: encode_Inr_iff ble_sendable_def MAX_FRAME_MESSAGE_def)
  have j: "j * ?n < length m" using J(2) len chunks_index_less [OF cap] by metis
  have h: "unat (f_total ?h) = length m" "unat (f_offset ?h) = j * ?n"
    using m j by (simp_all add: unat_u16_of_nat del: of_nat_mult)
  have parse: "ble_parse (b_att_mtu c) (fs ! j) = Inr (?h, ?p)"
    using j cap mtu by (intro parse_frame [OF f]) (auto simp: payload_capacity_def)
  have dom: "dom (pieces ?n m (insert j J)) = {..<length m} \<longleftrightarrow> ?full"
    using dom_pieces_iff [OF cap, of "insert j J" m] J len by auto
  obtain r c' where push: "BleCodec_push (fs ! j) c = (r, c')" by (cases "BleCodec_push (fs ! j) c")
  from wpD [OF push_refines [OF wf] push] parse q
  have wf': "Ble_wf c'" "b_att_mtu c' = b_att_mtu c"
    and r: "reassemble ?h ?p (holding (b_next_id tx) ?n m J) r (reassembly c')" by simp_all
  have start: "(case holding (b_next_id tx) ?n m J of None \<Rightarrow> (f_message_id ?h, unat (f_total ?h), Map.empty) | Some t \<Rightarrow> t)
      = (b_next_id tx, length m, pieces ?n m J)" using h by (simp add: holding_def)
  from r have "r = Inr (if ?full then Some m else None)
    \<and> reassembly c' = (if ?full then None else holding (b_next_id tx) ?n m (insert j J))"
    unfolding reassemble_def start unfolding prod.case h Let_def piece_placed [OF cap] pieces_add dom
    using pieces_compatible [of ?n m J "{j}"] pieces_all [of ?n m "insert j J"] dom
    by (cases ?full) (simp_all add: holding_def)
  with push wf' show ?thesis by blast
qed

lemma feed_pieces:
  assumes "BleCodec_encode m tx = (Inr fs, tx')" "b_att_mtu tx = b_att_mtu c" "Ble_wf c"
    and "reassembly c = holding (b_next_id tx) (payload_capacity tx) m J"
    and "js \<noteq> []" "J \<union> set js = {..<length fs}" "last js \<notin> J \<union> set (butlast js)"
  shows "\<exists>c'. feed BleCodec_push (map ((!) fs) js) c = (Inr [m], c') \<and> Ble_wf c' \<and> reassembly c' = None
    \<and> b_att_mtu c' = b_att_mtu c"
  using assms(2-)
proof (induction js arbitrary: J c)
  case (Cons j js)
  have j: "j < length fs" and J: "J \<subset> {..<length fs}"
    using Cons.prems(5,6) last_in_set [OF Cons.prems(4)] by auto
  from push_piece [OF Cons.prems(2) assms(1) Cons.prems(1) J j Cons.prems(3)] obtain c1 where
    c1: "BleCodec_push (fs ! j) c = (Inr (if insert j J = {..<length fs} then Some m else None), c1)"
      "Ble_wf c1" "b_att_mtu c1 = b_att_mtu c"
      "reassembly c1 = (if insert j J = {..<length fs} then None
        else holding (b_next_id tx) (payload_capacity tx) m (insert j J))" by blast
  show ?case
  proof (cases "js = []")
    case True
    with Cons.prems(5) c1 show ?thesis by (auto simp: run_simps)
  next
    case False
    with Cons.prems(5,6) have "last js \<notin> insert j J \<union> set (butlast js)" "insert j J \<union> set js = {..<length fs}" by auto
    moreover from this False have "insert j J \<noteq> {..<length fs}" using last_in_set [OF False] by blast
    ultimately show ?thesis
      using Cons.IH [of c1 "insert j J"] c1 Cons.prems(1) False by (auto simp: run_simps)
  qed
qed simp

lemma reassembly_None: "reassembly c = None \<longleftrightarrow> b_message_id c = None"
  by (simp add: reassembly_def)

interpretation ble: frame_codec BleCodec_encode BleCodec_push
  "\<lambda>tx rx :: BleCodec. b_att_mtu tx = b_att_mtu rx \<and> Ble_wf rx" "\<lambda>rx. b_message_id rx = None" ble_sendable
proof unfold_locales
  fix tx rx :: BleCodec and m assume "b_att_mtu tx = b_att_mtu rx \<and> Ble_wf rx" "ble_sendable m"
  then show "\<exists>fs tx'. BleCodec_encode m tx = (Inr fs, tx')"
    by (intro encode_ble_total) (simp_all add: Ble_wf_def)
next
  fix tx rx tx' :: BleCodec and m fs
  assume l: "b_att_mtu tx = b_att_mtu rx \<and> Ble_wf rx" "b_message_id rx = None" and e: "BleCodec_encode m tx = (Inr fs, tx')"
  have "0 < payload_capacity tx" using l capacity_pos [of tx] by (simp add: Ble_wf_def)
  then have "chunks (payload_capacity tx) m \<noteq> []" using e chunks_eq_Nil_iff by (auto simp: encode_Inr_iff ble_sendable_def)
  with e have "fs \<noteq> []" and mtu: "b_att_mtu tx' = b_att_mtu tx" by (auto simp: encode_Inr_iff)
  then have "last [0..<length fs] \<notin> {} \<union> set (butlast [0..<length fs])" by (cases "length fs") auto
  with feed_pieces [OF e, of rx "{}" "[0..<length fs]"] l \<open>fs \<noteq> []\<close> mtu
  show "\<exists>rx'. feed BleCodec_push fs rx = (Inr [m], rx') \<and> b_message_id rx' = None
      \<and> b_att_mtu tx' = b_att_mtu rx' \<and> Ble_wf rx'"
    by (force simp: map_nth holding_def reassembly_None atLeast0LessThan)
qed

section \<open>Properties\<close>

text \<open>C31. Reassembly, exactly: on a well-formed codec a fragment that does not parse changes
  nothing; any other one takes the abstract step on the partial message that the buffer
  represents, and the buffer, its flags and its length stay consistent.\<close>

theorem ble_push_refines:
  assumes "Ble_wf c" and "BleCodec_push f c = (r, c')"
  shows "Ble_wf c' \<and> (case ble_parse (b_att_mtu c) f of Inl e \<Rightarrow> r = Inl e \<and> c' = c
    | Inr (h, p) \<Rightarrow> reassemble h p (reassembly c) r (reassembly c'))"
  using wpD [OF push_refines [OF assms(1)] assms(2)] by blast

definition ex_fragment :: bytes where
  "ex_fragment = [1, 0, 0, 0, 2, 0, 1, 0, 9]"

lemma ex_default_wf: "Ble_wf BleCodec_default"
  by (simp add: Ble_wf_def BleCodec_default_def MIN_ATT_MTU_def)

lemma ex_fragment_parse:
  "ble_parse 23 ex_fragment = Inr (\<lparr>f_message_id = 1, f_offset = 0, f_total = 2\<rparr>, [9])"
  by code_simp

theorem ble_push_refines_witness:
  "\<exists>r c'. BleCodec_push ex_fragment BleCodec_default = (r, c') \<and> Ble_wf c'
     \<and> reassemble \<lparr>f_message_id = 1, f_offset = 0, f_total = 2\<rparr> [9] None r (reassembly c')"
proof -
  obtain r c' where p: "BleCodec_push ex_fragment BleCodec_default = (r, c')" by fastforce
  have "b_att_mtu BleCodec_default = 23" "reassembly BleCodec_default = None"
    by (simp_all add: BleCodec_default_def DEFAULT_ATT_MTU_def reassembly_def)
  with ble_push_refines [OF ex_default_wf p] p show ?thesis by (auto simp: ex_fragment_parse)
qed

text \<open>C32. Delivery: the fragments of a message fit the negotiated attribute size, and pushed
  in any order, any of them repeated, they deliver exactly that message with the fragment
  that completes it; the receiver is then free for the next message.\<close>

theorem ble_any_order:
  assumes "BleCodec_encode m tx = (Inr fs, tx')" and "Ble_wf rx" and "b_att_mtu tx = b_att_mtu rx"
    and "b_message_id rx = None" and "js \<noteq> []" and "set js = {..<length fs}" and "last js \<notin> set (butlast js)"
  shows "\<exists>rx'. feed BleCodec_push (map ((!) fs) js) rx = (Inr [m], rx') \<and> Ble_wf rx' \<and> b_message_id rx' = None
    \<and> list_all (\<lambda>f. length f \<le> min (b_att_mtu rx - 3) MAX_ATTRIBUTE_VALUE) fs"
proof -
  have cap: "HEADER_SIZE + payload_capacity tx = min (b_att_mtu rx - 3) MAX_ATTRIBUTE_VALUE"
    using assms(2,3) by (auto simp: payload_capacity_def HEADER_SIZE_def Ble_wf_def MIN_ATT_MTU_def
        DEFAULT_ATT_MTU_def MAX_ATTRIBUTE_VALUE_def min_def)
  have "length (fs ! j) \<le> min (b_att_mtu rx - 3) MAX_ATTRIBUTE_VALUE" if "j < length fs" for j
    using that assms(1) frame_length unfolding cap [symmetric] encode_Inr_iff by fastforce
  then have "list_all (\<lambda>f. length f \<le> min (b_att_mtu rx - 3) MAX_ATTRIBUTE_VALUE) fs"
    by (simp add: list_all_length)
  with feed_pieces [OF assms(1,3,2), of "{}" js] assms(4-) show ?thesis
    by (auto simp: holding_def reassembly_None)
qed

theorem ble_any_order_witness:
  "\<exists>fs tx' rx'. BleCodec_encode (replicate 30 7) BleCodec_default = (Inr fs, tx')
     \<and> feed BleCodec_push (map ((!) fs) [2, 0, 0, 1]) BleCodec_default = (Inr [replicate 30 7], rx')"
proof -
  have "ble_sendable (replicate 30 7)" by (simp add: ble_sendable_def MAX_FRAME_MESSAGE_def)
  moreover have "MIN_ATT_MTU \<le> b_att_mtu BleCodec_default" using ex_default_wf by (simp add: Ble_wf_def)
  ultimately obtain fs tx' where e: "BleCodec_encode (replicate 30 7) BleCodec_default = (Inr fs, tx')"
    using encode_ble_total by blast
  have "length (chunks (payload_capacity BleCodec_default) (replicate 30 (7 :: u8))) = 3" by code_simp
  with e have len: "length fs = 3" by (simp add: encode_Inr_iff)
  have js: "set [2, 0, 0, 1] = {..<length fs}" "[2, 0, 0, 1] \<noteq> ([] :: nat list)" unfolding len by auto
  have "last [2, 0, 0, 1] \<notin> set (butlast [2, 0, 0, 1 :: nat])" "b_message_id BleCodec_default = None"
    by (simp_all add: BleCodec_default_def)
  with ble_any_order [OF e ex_default_wf refl _ js(2,1)] e show ?thesis by blast
qed

end
