(* ===== verification/Nfc.thy ===== *)
theory Nfc
  imports Frames Trust
begin

text \<open>
  Near-field communication (\<^verbatim>\<open>crates/openlock-transport-nfc/src/lib.rs\<close>): the signed bootstrap
  record in an NDEF message, and the fragmentation of messages over ISO-DEP, with a
  sequence number that wraps around. The codec meets the contract \<open>frame_codec\<close>; unlike the
  Bluetooth codec it takes fragments only in order.

  Lengths and positions (\<open>usize\<close>) are natural numbers. The two checked additions of
  \<open>decode_ndef\<close> cannot overflow where \<open>usize\<close> has 64 bits; where it has 32, an overflow means
  that the end lies beyond any slice, which the comparison of lengths refuses with the
  same error.
\<close>

definition NDEF_MIME :: string where "NDEF_MIME = ''application/vnd.openlock.bootstrap+cbor''"
definition MAX_NDEF_RECORD :: nat where "MAX_NDEF_RECORD = MAX_OBJECT_SIZE"
definition MAX_APDU_PAYLOAD :: nat where "MAX_APDU_PAYLOAD = 240"

section \<open>Bootstrap records\<close>

definition bootstrap_value :: "DeviceKeyRecord \<Rightarrow> Value" where
  "bootstrap_value rec = (let key = kr_key rec in carray [
     cuint PROTOCOL_VERSION,
     cbytes (lock_bytes (dk_device_id key)),
     cuint (ucast (dk_key_id key)),
     cuint (ucast (dk_key_version key)),
     cbytes (dk_x25519_public_key key),
     cbytes (dk_rotation_public_key key),
     cuint (dk_capabilities key),
     cuint (ucast (kr_issuer_key_id rec)),
     cbytes (kr_signature rec)])"

definition encode_bootstrap :: "Crypto \<Rightarrow> DeviceKeyRecord \<Rightarrow> Error + bytes" where
  "encode_bootstrap cr rec = encode_limit cr (bootstrap_value rec) MAX_NDEF_RECORD"

definition decode_bootstrap :: "Crypto \<Rightarrow> bytes \<Rightarrow> bytes \<Rightarrow> Error + DeviceKeyRecord" where
  "decode_bootstrap cr bytes issuer =
     rbind (decode_limit cr bytes MAX_NDEF_RECORD) (\<lambda>value.
     rbind (cfields value 9) (\<lambda>f.
     rbind (number (f ! 0)) (\<lambda>version.
     if version \<noteq> PROTOCOL_VERSION then Inl UnsupportedVersion else
     rbind (cfixed 16 (f ! 1)) (\<lambda>device_id.
     rbind (u32_value (f ! 2)) (\<lambda>key_id.
     rbind (u32_value (f ! 3)) (\<lambda>key_version.
     rbind (cfixed 32 (f ! 4)) (\<lambda>x25519.
     rbind (cfixed 32 (f ! 5)) (\<lambda>rotation.
     rbind (number (f ! 6)) (\<lambda>capabilities.
     rbind (u32_value (f ! 7)) (\<lambda>issuer_key_id.
     rbind (cdata (f ! 8)) (\<lambda>signature.
     let rec = \<lparr>kr_key = \<lparr>dk_device_id = LockId device_id, dk_key_id = key_id, dk_key_version = key_version,
                  dk_x25519_public_key = x25519, dk_rotation_public_key = rotation,
                  dk_capabilities = capabilities\<rparr>,
                kr_issuer_key_id = issuer_key_id, kr_signature = signature\<rparr> in
     rbind (verify_device_key cr issuer rec) (\<lambda>_. Inr rec))))))))))))"

definition encode_ndef :: "Crypto \<Rightarrow> DeviceKeyRecord \<Rightarrow> Error + bytes" where
  "encode_ndef cr rec =
     rbind (encode_bootstrap cr rec) (\<lambda>payload.
     let mime = ascii NDEF_MIME in
     if length mime > 255 \<or> length payload > 2 ^ 32 - 1 then Inl ObjectTooLarge
     else Inr ([0xc2, word_of_nat (length mime)] @ u32_to_be (word_of_nat (length payload)) @ mime @ payload))"

definition decode_ndef :: "Crypto \<Rightarrow> bytes \<Rightarrow> bytes \<Rightarrow> Error + DeviceKeyRecord" where
  "decode_ndef cr bytes issuer =
     (if length bytes < 6 \<or> bytes ! 0 \<noteq> 0xc2 then Inl InvalidNfc
      else let type_len = unat (bytes ! 1);
          payload_len = unat (u32_from_be (bytes ! 2) (bytes ! 3) (bytes ! 4) (bytes ! 5));
          payload_start = 6 + type_len;
          payload_end = payload_start + payload_len in
        if length bytes \<noteq> payload_end \<or> take type_len (drop 6 bytes) \<noteq> ascii NDEF_MIME then Inl InvalidNfc
        else decode_bootstrap cr (drop payload_start bytes) issuer)"

section \<open>The ISO-DEP codec\<close>

record IsoDepCodec =
  n_sequence :: u8
  n_expected_sequence :: "u8 option"
  n_inner :: bytes
  n_expected :: "nat option"

definition IsoDepCodec_default :: IsoDepCodec where
  "IsoDepCodec_default = \<lparr>n_sequence = 0, n_expected_sequence = None, n_inner = [], n_expected = None\<rparr>"

definition IsoDepCodec_reset :: "IsoDepCodec \<Rightarrow> IsoDepCodec" where
  "IsoDepCodec_reset c = c\<lparr>n_inner := [], n_expected := None, n_expected_sequence := None\<rparr>"

fun iso_dep_apdus :: "u16 \<Rightarrow> bytes list \<Rightarrow> (IsoDepCodec, TransportError, bytes list) sm" where
  "iso_dep_apdus tot [] = ret []"
| "iso_dep_apdus tot (chunk # rest) = bnd (gets n_sequence) (\<lambda>s.
     let apdu = s # u16_to_be tot @ chunk in
     thn (modify (\<lambda>c. c\<lparr>n_sequence := n_sequence c + 1\<rparr>)) (
     bnd (iso_dep_apdus tot rest) (\<lambda>result. ret (apdu # result))))"

definition IsoDepCodec_encode :: "bytes \<Rightarrow> (IsoDepCodec, TransportError, bytes list) sm" where
  "IsoDepCodec_encode message =
     thn (guard_err (message = [] \<or> length message > MAX_NDEF_RECORD) T_TooLarge) (
       iso_dep_apdus (word_of_nat (length message)) (chunks MAX_APDU_PAYLOAD message))"

definition IsoDepCodec_push :: "bytes \<Rightarrow> (IsoDepCodec, TransportError, bytes option) sm" where
  "IsoDepCodec_push fragment =
     thn (guard_err (length fragment < 3) T_TooShort) (
     let total = unat (u16_from_be (fragment ! 1) (fragment ! 2)) in
     thn (guard_err (total = 0 \<or> total > MAX_NDEF_RECORD \<or> length fragment > MAX_APDU_PAYLOAD + 3) T_InvalidNfc) (
     bnd (gets n_expected) (\<lambda>expected.
     thn (if expected = None then
            modify (\<lambda>c. c\<lparr>n_expected := Some total, n_expected_sequence := Some (fragment ! 0)\<rparr>)
          else guard_err (expected \<noteq> Some total) T_Conflict) (
     bnd (gets n_expected_sequence) (\<lambda>expected_sequence.
     thn (guard_err (expected_sequence \<noteq> Some (fragment ! 0)) T_Conflict) (
     let payload = drop 3 fragment in
     bnd (gets n_inner) (\<lambda>inner.
     thn (guard_err (length inner + length payload > total) T_OutOfBounds) (
     thn (modify (\<lambda>c. c\<lparr>n_expected_sequence := map_option (\<lambda>n. n + 1) (n_expected_sequence c),
            n_inner := n_inner c @ payload\<rparr>)) (
     bnd (gets n_inner) (\<lambda>inner.
     if length inner = total then thn (modify IsoDepCodec_reset) (ret (Some inner))
     else ret None))))))))))"

section \<open>Delivery in order\<close>

definition iso_dep_sendable :: "bytes \<Rightarrow> bool" where
  "iso_dep_sendable m \<longleftrightarrow> m \<noteq> [] \<and> length m \<le> MAX_NDEF_RECORD"

text \<open>The receiver is free, or in the middle of a message of this length with this number next.\<close>

definition awaits :: "IsoDepCodec \<Rightarrow> nat \<Rightarrow> u8 \<Rightarrow> bool" where
  "awaits c tot s \<longleftrightarrow> n_expected c = None \<and> n_inner c = []
     \<or> n_expected c = Some tot \<and> n_expected_sequence c = Some s"

lemma push_apdu:
  assumes "awaits c (unat tot) s" "0 < unat tot" "unat tot \<le> 4096" "length chunk \<le> 240"
    "length (n_inner c) + length chunk \<le> unat tot"
  shows "IsoDepCodec_push (s # u16_to_be tot @ chunk) c =
    (if length (n_inner c) + length chunk = unat tot
     then (Inr (Some (n_inner c @ chunk)), c\<lparr>n_inner := [], n_expected := None, n_expected_sequence := None\<rparr>)
     else (Inr None, c\<lparr>n_expected := Some (unat tot), n_expected_sequence := Some (s + 1), n_inner := n_inner c @ chunk\<rparr>))"
proof -
  obtain a b where "u16_to_be tot = [a, b]" "u16_from_be a b = tot" by (rule u16_be_bytes)
  with assms show ?thesis
    by (auto simp: IsoDepCodec_push_def run_simps awaits_def Let_def MAX_NDEF_RECORD_def MAX_OBJECT_SIZE_def
        MAX_APDU_PAYLOAD_def IsoDepCodec_reset_def)
qed

lemma feed_apdus:
  assumes "iso_dep_apdus tot cs tx = (Inr fs, tx')" "cs \<noteq> []" "awaits rx (unat tot) (n_sequence tx)"
    "list_all (\<lambda>c. c \<noteq> [] \<and> length c \<le> 240) cs" "unat tot \<le> 4096" "length (n_inner rx @ concat cs) = unat tot"
  shows "\<exists>rx'. feed IsoDepCodec_push fs rx = (Inr [n_inner rx @ concat cs], rx') \<and> n_expected rx' = None \<and> n_inner rx' = []"
  using assms
proof (induction cs arbitrary: tx rx fs)
  case (Cons chunk cs)
  let ?f = "n_sequence tx # u16_to_be tot @ chunk"
  from Cons.prems(1) obtain gs where gs: "fs = ?f # gs"
    "iso_dep_apdus tot cs (tx\<lparr>n_sequence := n_sequence tx + 1\<rparr>) = (Inr gs, tx')"
    by (auto simp: run_Inr_iffs Let_def)
  have "0 < unat tot" using Cons.prems(4,6) by (cases chunk) auto
  note push = push_apdu [OF Cons.prems(3) this Cons.prems(5), of chunk]
  show ?case
  proof (cases "cs = []")
    case True
    with gs push Cons.prems show ?thesis by (auto simp: run_simps)
  next
    case False
    let ?rx = "rx\<lparr>n_expected := Some (unat tot), n_expected_sequence := Some (n_sequence tx + 1),
      n_inner := n_inner rx @ chunk\<rparr>"
    have "0 < length (concat cs)" using False Cons.prems(4) by (cases cs) auto
    moreover have "length (n_inner rx) + length chunk + length (concat cs) = unat tot" using Cons.prems(6) by simp
    ultimately have "length (n_inner rx) + length chunk < unat tot" by linarith
    then have "IsoDepCodec_push ?f rx = (Inr None, ?rx)" using push Cons.prems(4) by simp
    with Cons.IH [OF gs(2) False, of ?rx] gs(1) Cons.prems show ?thesis by (auto simp: awaits_def run_simps)
  qed
qed simp

lemma iso_dep_apdus_total: "\<exists>fs tx'. iso_dep_apdus tot cs tx = (Inr fs, tx')"
proof (induction cs arbitrary: tx)
  case (Cons c cs)
  then obtain fs tx' where "iso_dep_apdus tot cs (tx\<lparr>n_sequence := n_sequence tx + 1\<rparr>) = (Inr fs, tx')" by blast
  then show ?case by (simp add: run_simps Let_def)
qed (simp add: run_simps)

interpretation iso_dep: frame_codec IsoDepCodec_encode IsoDepCodec_push "\<lambda>tx rx :: IsoDepCodec. True"
  "\<lambda>rx. n_expected rx = None \<and> n_inner rx = []" iso_dep_sendable
proof unfold_locales
  fix tx rx :: IsoDepCodec and m assume "iso_dep_sendable m"
  then show "\<exists>fs tx'. IsoDepCodec_encode m tx = (Inr fs, tx')"
    using iso_dep_apdus_total by (auto simp: IsoDepCodec_encode_def iso_dep_sendable_def run_simps)
next
  fix tx rx tx' :: IsoDepCodec and m fs
  assume r: "n_expected rx = None \<and> n_inner rx = []" and e: "IsoDepCodec_encode m tx = (Inr fs, tx')"
  from e have m: "m \<noteq> []" "length m \<le> 4096"
    and a: "iso_dep_apdus (word_of_nat (length m)) (chunks MAX_APDU_PAYLOAD m) tx = (Inr fs, tx')"
    by (auto simp: IsoDepCodec_encode_def run_Inr_iffs MAX_NDEF_RECORD_def MAX_OBJECT_SIZE_def)
  have len: "unat (word_of_nat (length m) :: u16) = length m" using m(2) by (rule unat_u16_of_nat)
  have "list_all (\<lambda>c. c \<noteq> [] \<and> length c \<le> 240) (chunks MAX_APDU_PAYLOAD m)" "chunks MAX_APDU_PAYLOAD m \<noteq> []"
    "concat (chunks MAX_APDU_PAYLOAD m) = m"
    using chunks_nonempty [of _ MAX_APDU_PAYLOAD m] m(1)
    by (auto simp: list_all_iff concat_chunks chunks_eq_Nil_iff MAX_APDU_PAYLOAD_def)
  with feed_apdus [OF a] r m len
  show "\<exists>rx'. feed IsoDepCodec_push fs rx = (Inr [m], rx') \<and> (n_expected rx' = None \<and> n_inner rx' = []) \<and> True"
    by (auto simp: awaits_def)
qed

end
