(* ===== verification/Nfc_Props.thy ===== *)
theory Nfc_Props
  imports Nfc Trust_Props
begin

text \<open>
  Properties of the bootstrap record (\<^verbatim>\<open>crates/openlock-transport-nfc/src/lib.rs\<close>): an NDEF message is
  accepted exactly when it is the one encoding of a device key certified by the issuer.
\<close>

lemma bootstrap_fits:
  "DeviceKey_wf (kr_key rec) \<Longrightarrow> length (kr_signature rec) < 2 ^ 64 \<Longrightarrow> wire_value (bootstrap_value rec)"
  by (simp add: DeviceKey_wf_def LockId_wf_def wire_value_def bootstrap_value_def Let_def)

lemma verify_object_size: "verify_object cr key kind cose = Inr v \<Longrightarrow> length cose < 2 ^ 64"
  by (auto simp: verify_object_def result_Inr_iffs cdecode_def MAX_OBJECT_SIZE_def dest!: decode_limit_canonical)

lemma decode_bootstrap_iff:
  assumes "cbor_ok cr"
  shows "decode_bootstrap cr b issuer = Inr rec \<longleftrightarrow>
    encode_bootstrap cr rec = Inr b \<and> verify_device_key cr issuer rec = Inr ()"
proof
  assume "decode_bootstrap cr b issuer = Inr rec"
  then show "encode_bootstrap cr rec = Inr b \<and> verify_device_key cr issuer rec = Inr ()"
    by (auto simp: decode_bootstrap_def encode_bootstrap_def bootstrap_value_def result_Inr_iffs cbor_Inr_iffs
        length_eq_9 Let_def dest!: decode_limit_canonical split: if_splits)
next
  assume a: "encode_bootstrap cr rec = Inr b \<and> verify_device_key cr issuer rec = Inr ()"
  then have wf: "DeviceKey_wf (kr_key rec)" and "length (kr_signature rec) < 2 ^ 64"
    by (auto simp: verify_device_key_iff dest: verify_object_size)
  from decode_encode_limit [OF assms bootstrap_fits [OF this]] a
  have "decode_limit cr b MAX_NDEF_RECORD = Inr (bootstrap_value rec)" by (simp add: encode_bootstrap_def)
  moreover obtain di ki kv xp rp cap ik rs where "rec = \<lparr>kr_key = \<lparr>dk_device_id = di, dk_key_id = ki,
      dk_key_version = kv, dk_x25519_public_key = xp, dk_rotation_public_key = rp, dk_capabilities = cap\<rparr>,
      kr_issuer_key_id = ik, kr_signature = rs\<rparr>"
    by (metis DeviceKeyRecord.cases DeviceKey.cases)
  ultimately show "decode_bootstrap cr b issuer = Inr rec"
    using a wf by (simp add: decode_bootstrap_def bootstrap_value_def DeviceKey_wf_def LockId_wf_def Let_def)
qed

lemma length_mime: "length (ascii NDEF_MIME) = 39"
  by (simp add: ascii_def NDEF_MIME_def)

definition ndef_message :: "bytes \<Rightarrow> bytes" where
  "ndef_message payload = [0xc2, 39] @ u32_to_be (word_of_nat (length payload)) @ ascii NDEF_MIME @ payload"

lemma decode_ndef_message:
  assumes "length payload < 2 ^ 32"
  shows "decode_ndef cr (ndef_message payload) issuer = decode_bootstrap cr payload issuer"
proof -
  obtain a b c d where w: "u32_to_be (word_of_nat (length payload)) = [a, b, c, d]"
    "u32_from_be a b c d = word_of_nat (length payload)" by (rule u32_be_bytes)
  have "unat (word_of_nat (length payload) :: u32) = length payload"
    using assms by (simp add: unat_of_nat)
  with length_mime show ?thesis by (simp add: decode_ndef_def ndef_message_def w Let_def)
qed

lemma decode_ndef_cases:
  assumes "decode_ndef cr b issuer = Inr rec"
  obtains payload where "b = ndef_message payload" "length payload < 2 ^ 32"
proof -
  from assms have "length (take 6 b) = 6" by (auto simp: decode_ndef_def split: if_splits)
  then obtain b0 b1 b2 b3 b4 b5 where "take 6 b = [b0, b1, b2, b3, b4, b5]" unfolding length_eq_6 by blast
  then have b: "b = b0 # b1 # b2 # b3 # b4 # b5 # drop 6 b" using append_take_drop_id [of 6 b] by simp
  define r where "r = drop 6 b"
  note b = b [folded r_def]
  let ?p = "drop (unat b1) r" and ?n = "u32_from_be b2 b3 b4 b5"
  have c: "b0 = 0xc2" "length r = unat b1 + unat ?n" "take (unat b1) r = ascii NDEF_MIME"
    using assms unfolding b decode_ndef_def Let_def by (auto split: if_splits)
  have "length (take (unat b1) r) = unat b1" using c(2) by simp
  then have n: "unat b1 = 39" "length ?p = unat ?n" using c(2,3) length_mime by simp_all
  have r: "r = ascii NDEF_MIME @ ?p" using append_take_drop_id [of "unat b1" r] c(3) by simp
  have "b1 = word_of_nat (unat b1)" by simp
  then have "b1 = 39" unfolding n(1) by simp
  with c(1) n(2) r b have "b = ndef_message ?p" by (simp add: ndef_message_def u32_be_inverse)
  moreover have "length ?p < 2 ^ 32" using n(2) unsigned_less [of ?n, where 'a = nat] by simp
  ultimately show ?thesis by (rule that)
qed

lemma encode_ndef_iff:
  "encode_ndef cr rec = Inr b \<longleftrightarrow> (\<exists>payload. encode_bootstrap cr rec = Inr payload \<and> b = ndef_message payload)"
proof (cases "encode_bootstrap cr rec")
  case (Inr payload)
  then have "length payload \<le> 4096"
    by (simp add: encode_bootstrap_def encode_limit_Inr_iff MAX_NDEF_RECORD_def MAX_OBJECT_SIZE_def)
  with Inr length_mime show ?thesis by (auto simp: encode_ndef_def ndef_message_def Let_def)
qed (simp add: encode_ndef_def)

text \<open>C33. Bootstrap records: a byte string is accepted as the NDEF message of a device under an
  issuer's key if and only if it is the encoding of a record that this issuer certified.\<close>

theorem ndef_exact:
  assumes "cbor_ok cr"
  shows "decode_ndef cr b issuer = Inr rec \<longleftrightarrow> encode_ndef cr rec = Inr b \<and> verify_device_key cr issuer rec = Inr ()"
proof
  assume d: "decode_ndef cr b issuer = Inr rec"
  then obtain payload where b: "b = ndef_message payload" "length payload < 2 ^ 32" by (rule decode_ndef_cases)
  with d decode_bootstrap_iff [OF assms] show "encode_ndef cr rec = Inr b \<and> verify_device_key cr issuer rec = Inr ()"
    by (auto simp: decode_ndef_message encode_ndef_iff)
next
  assume e: "encode_ndef cr rec = Inr b \<and> verify_device_key cr issuer rec = Inr ()"
  then obtain payload where p: "encode_bootstrap cr rec = Inr payload" "b = ndef_message payload"
    by (auto simp: encode_ndef_iff)
  then have "length payload < 2 ^ 32"
    by (simp add: encode_bootstrap_def encode_limit_Inr_iff MAX_NDEF_RECORD_def MAX_OBJECT_SIZE_def)
  with e p decode_bootstrap_iff [OF assms, of payload issuer rec] show "decode_ndef cr b issuer = Inr rec"
    by (simp add: decode_ndef_message)
qed

theorem ndef_exact_witness:
  "\<exists>rec b. sign_device_key ex_crypto ex_key ex_device_key 3 = Inr rec \<and> encode_ndef ex_crypto rec = Inr b
     \<and> decode_ndef ex_crypto b (cr_verifying_key ex_crypto ex_key) = Inr rec"
proof -
  from ex_sign_device_key [OF ex_device_key_wf ex_device_key_valid, of 3] obtain rec where
    rec: "sign_device_key ex_crypto ex_key ex_device_key 3 = Inr rec" "length (kr_signature rec) \<le> 400" by blast
  from verify_sign_device_key [OF ex_crypto_cbor_ok ex_crypto_ed25519_ok ex_device_key_wf rec(1)]
  have v: "verify_device_key ex_crypto (cr_verifying_key ex_crypto ex_key) rec = Inr ()" and k: "kr_key rec = ex_device_key"
    by simp_all
  have "value_size (bootstrap_value rec) \<le> 4096"
    using rec(2) ex_device_key_wf by (simp add: bootstrap_value_def k DeviceKey_wf_def LockId_wf_def Let_def)
  from ex_cencode [OF this] obtain p where "encode_bootstrap ex_crypto rec = Inr p"
    by (auto simp: encode_bootstrap_def cencode_def MAX_NDEF_RECORD_def)
  then have "encode_ndef ex_crypto rec = Inr (ndef_message p)" by (simp add: encode_ndef_iff)
  with ndef_exact [OF ex_crypto_cbor_ok] rec(1) v show ?thesis by blast
qed

end
