(* ===== verification/Commissioning.thy ===== *)
theory Commissioning
  imports Trust "HOL-Library.Char_ord"
begin

text \<open>
  The setup code of a device (\<^verbatim>\<open>crates/openlock-crypto/src/commissioning.rs\<close>): the text that the
  owner scans, with the identity, the public key and the secret setup key in lower-case
  hexadecimal. A Rust string is the sequence of its bytes, so that \<open>len\<close> and \<open>split\<close> on an
  ASCII character are those of a character list.
\<close>

record SetupPayload =
  sp_lock_id :: LockId
  sp_public_key :: bytes
  sp_setup_key :: bytes

section \<open>Strings\<close>

text \<open>\<open>str::split\<close> on a character, and \<open>u8::from_str_radix\<close> in base 16 on two digits.\<close>

fun split_on :: "char \<Rightarrow> string \<Rightarrow> string list" where
  "split_on c [] = [[]]"
| "split_on c (x # xs) =
     (if x = c then [] # split_on c xs
      else case split_on c xs of [] \<Rightarrow> [[x]] | w # ws \<Rightarrow> (x # w) # ws)"

definition hex_digit :: "nat \<Rightarrow> char" where
  "hex_digit n = ''0123456789abcdef'' ! n"

definition hex_value :: "char \<Rightarrow> nat option" where
  "hex_value c = find_index (\<lambda>d. d = c) ''0123456789abcdef''"

definition is_lower_hex :: "char \<Rightarrow> bool" where
  "is_lower_hex c \<longleftrightarrow> CHR ''0'' \<le> c \<and> c \<le> CHR ''9'' \<or> CHR ''a'' \<le> c \<and> c \<le> CHR ''f''"

definition hex_byte :: "char \<Rightarrow> char \<Rightarrow> u8 option" where
  "hex_byte a b = (case (hex_value a, hex_value b) of
     (Some m, Some n) \<Rightarrow> Some (word_of_nat (16 * m + n)) | _ \<Rightarrow> None)"

section \<open>The code\<close>

definition hex :: "bytes \<Rightarrow> string" where
  "hex b = concat (map (\<lambda>b. [hex_digit (unat b div 16), hex_digit (unat b mod 16)]) b)"

fun unhex_pairs :: "string \<Rightarrow> Error + bytes" where
  "unhex_pairs (a # b # rest) =
     rbind (ok_or InvalidPayload (hex_byte a b)) (\<lambda>x. rbind (unhex_pairs rest) (\<lambda>xs. Inr (x # xs)))"
| "unhex_pairs _ = Inr []"

definition unhex :: "nat \<Rightarrow> string \<Rightarrow> Error + bytes" where
  "unhex n s =
     (if length s \<noteq> n * 2 \<or> \<not> list_all is_lower_hex s then Inl InvalidPayload else unhex_pairs s)"

definition SetupPayload_encode :: "Crypto \<Rightarrow> SetupPayload \<Rightarrow> Error + string" where
  "SetupPayload_encode cr p =
     rbind (validate_public cr (sp_public_key p)) (\<lambda>_.
     if sp_setup_key p = replicate 32 0 then Inl InvalidPayload
     else Inr (''OPENLOCK4:'' @ hex (lock_bytes (sp_lock_id p)) @ '':'' @ hex (sp_public_key p)
       @ '':'' @ hex (sp_setup_key p)))"

definition SetupPayload_decode :: "Crypto \<Rightarrow> string \<Rightarrow> Error + SetupPayload" where
  "SetupPayload_decode cr t =
     (let f = split_on CHR '':'' t; next = (\<lambda>i. if i < length f then Some (f ! i) else None) in
      if next 0 \<noteq> Some ''OPENLOCK4'' then Inl UnsupportedVersion else
      rbind (ok_or InvalidPayload (next 1)) (\<lambda>s. rbind (unhex 16 s) (\<lambda>lock_id.
      rbind (ok_or InvalidPayload (next 2)) (\<lambda>s. rbind (unhex 32 s) (\<lambda>public_key.
      rbind (ok_or InvalidPayload (next 3)) (\<lambda>s. rbind (unhex 32 s) (\<lambda>setup_key.
      let out = \<lparr>sp_lock_id = LockId lock_id, sp_public_key = public_key, sp_setup_key = setup_key\<rparr> in
      if next 4 \<noteq> None then Inl InvalidPayload
      else rbind (SetupPayload_encode cr out) (\<lambda>_. Inr out))))))))"

section \<open>Splitting and hexadecimal\<close>

lemma split_on_nonempty [simp]: "split_on c xs \<noteq> []"
  by (induction xs) (auto split: list.splits)

lemma split_on_free [simp]: "c \<notin> set w \<Longrightarrow> split_on c w = [w]"
  by (induction w) auto

lemma split_on_join: "c \<notin> set w \<Longrightarrow> split_on c (w @ c # rest) = w # split_on c rest"
  by (induction w) auto

fun join :: "char \<Rightarrow> string list \<Rightarrow> string" where
  "join c [] = []"
| "join c [w] = w"
| "join c (w # v # ws) = w @ c # join c (v # ws)"

lemma join_split_on: "join c (split_on c xs) = xs"
proof (induction xs)
  case (Cons x xs)
  obtain w ws where "split_on c xs = w # ws" by (meson list.exhaust split_on_nonempty)
  with Cons show ?case by (cases ws) auto
qed simp

lemma hex_digit_lower: "n < 16 \<Longrightarrow> is_lower_hex (hex_digit n) \<and> hex_digit n \<noteq> CHR '':''"
proof -
  have "list_all (\<lambda>n. is_lower_hex (hex_digit n) \<and> hex_digit n \<noteq> CHR '':'') [0..<16]" by code_simp
  then show "n < 16 \<Longrightarrow> is_lower_hex (hex_digit n) \<and> hex_digit n \<noteq> CHR '':''" by (simp add: list_all_iff)
qed

lemma hex_value_digit: "n < 16 \<Longrightarrow> hex_value (hex_digit n) = Some n"
proof -
  have "list_all (\<lambda>n. hex_value (hex_digit n) = Some n) [0..<16]" by code_simp
  then show "n < 16 \<Longrightarrow> hex_value (hex_digit n) = Some n" by (simp add: list_all_iff)
qed

lemma hex_value_Some: "hex_value c = Some n \<Longrightarrow> n < 16 \<and> hex_digit n = c"
  unfolding hex_value_def hex_digit_def by (drule find_index_Some) simp

lemma byte_nibbles: "unat (b :: u8) div 16 < 16" "unat (b :: u8) mod 16 < 16"
  using unsigned_less [of b, where 'a = nat] by auto

lemma hex_byte_iff: "hex_byte x y = Some b \<longleftrightarrow> x = hex_digit (unat b div 16) \<and> y = hex_digit (unat b mod 16)"
proof
  assume "hex_byte x y = Some b"
  then obtain m n where h: "hex_value x = Some m" "hex_value y = Some n" "b = word_of_nat (16 * m + n)"
    by (auto simp: hex_byte_def split: option.splits)
  then have "m < 16" "n < 16" "hex_digit m = x" "hex_digit n = y" using hex_value_Some by blast+
  moreover from this have "unat b = 16 * m + n" by (simp add: h(3) unat_of_nat del: of_nat_add of_nat_mult)
  ultimately show "x = hex_digit (unat b div 16) \<and> y = hex_digit (unat b mod 16)" by simp
next
  assume "x = hex_digit (unat b div 16) \<and> y = hex_digit (unat b mod 16)"
  then show "hex_byte x y = Some b" using byte_nibbles [of b] by (simp add: hex_byte_def hex_value_digit del: of_nat_add of_nat_mult)
qed

lemma hex_Cons: "hex (x # b) = hex_digit (unat x div 16) # hex_digit (unat x mod 16) # hex b"
  by (simp add: hex_def)

lemma length_hex: "length (hex b) = length b * 2"
  by (induction b) (simp_all add: hex_Cons, simp add: hex_def)

lemma hex_chars: "list_all (\<lambda>c. is_lower_hex c \<and> c \<noteq> CHR '':'') (hex b)"
  using byte_nibbles hex_digit_lower by (induction b) (auto simp: hex_Cons, simp add: hex_def)

lemma unhex_pairs_iff: "even (length s) \<Longrightarrow> unhex_pairs s = Inr b \<longleftrightarrow> s = hex b"
proof (induction s arbitrary: b rule: unhex_pairs.induct)
  case (1 x y rest)
  then show ?case by (cases b) (auto simp: result_Inr_iffs hex_byte_iff hex_Cons, simp_all add: hex_def)
qed (auto simp: hex_def)

lemma unhex_iff: "unhex n s = Inr b \<longleftrightarrow> s = hex b \<and> length b = n"
proof -
  have "list_all is_lower_hex (hex b)" using hex_chars [of b] by (auto simp: list_all_iff)
  then show ?thesis using unhex_pairs_iff [of s b] length_hex [of b] by (auto simp: unhex_def)
qed

lemma hex_no_colon: "CHR '':'' \<notin> set (hex b)"
  using hex_chars [of b] by (auto simp: list_all_iff)

definition setup_text :: "SetupPayload \<Rightarrow> string" where
  "setup_text p = join CHR '':'' [''OPENLOCK4'', hex (lock_bytes (sp_lock_id p)), hex (sp_public_key p), hex (sp_setup_key p)]"

lemma split_setup_text:
  "split_on CHR '':'' t = [''OPENLOCK4'', hex a, hex b, hex c] \<longleftrightarrow> t = join CHR '':'' [''OPENLOCK4'', hex a, hex b, hex c]"
proof
  assume "split_on CHR '':'' t = [''OPENLOCK4'', hex a, hex b, hex c]"
  then show "t = join CHR '':'' [''OPENLOCK4'', hex a, hex b, hex c]" using join_split_on [of "CHR '':''" t] by simp
next
  assume "t = join CHR '':'' [''OPENLOCK4'', hex a, hex b, hex c]"
  then show "split_on CHR '':'' t = [''OPENLOCK4'', hex a, hex b, hex c]" by (simp add: split_on_join hex_no_colon)
qed

lemma encode_iff:
  "SetupPayload_encode cr p = Inr t \<longleftrightarrow> validate_public cr (sp_public_key p) = Inr ()
     \<and> sp_setup_key p \<noteq> replicate 32 0 \<and> t = setup_text p"
  by (auto simp: SetupPayload_encode_def setup_text_def result_Inr_iffs)

text \<open>C34. Setup codes: a text decodes to a payload if and only if it is the text that the
  payload encodes to; so there is exactly one code for a device, and a code with anything
  added, missing or in upper case is refused.\<close>

theorem setup_payload_exact:
  "SetupPayload_decode cr t = Inr p \<longleftrightarrow> SetupPayload_encode cr p = Inr t
     \<and> length (lock_bytes (sp_lock_id p)) = 16 \<and> length (sp_public_key p) = 32 \<and> length (sp_setup_key p) = 32"
proof
  assume d: "SetupPayload_decode cr t = Inr p"
  let ?f = "split_on CHR '':'' t"
  from d have "\<not> 4 < length ?f" and f: "3 < length ?f" "?f ! 0 = ''OPENLOCK4''" "?f ! 1 = hex (lock_bytes (sp_lock_id p))"
    "?f ! 2 = hex (sp_public_key p)" "?f ! 3 = hex (sp_setup_key p)"
    and len: "length (lock_bytes (sp_lock_id p)) = 16" "length (sp_public_key p) = 32" "length (sp_setup_key p) = 32"
    and enc: "\<exists>t. SetupPayload_encode cr p = Inr t"
    by (auto simp: SetupPayload_decode_def Let_def result_Inr_iffs unhex_iff split: if_splits)
  then have "length ?f = 4" by simp
  then have "?f = [''OPENLOCK4'', hex (lock_bytes (sp_lock_id p)), hex (sp_public_key p), hex (sp_setup_key p)]"
    using f by (auto simp: length_eqs)
  then have "t = setup_text p" unfolding split_setup_text setup_text_def .
  with enc len show "SetupPayload_encode cr p = Inr t \<and> length (lock_bytes (sp_lock_id p)) = 16
      \<and> length (sp_public_key p) = 32 \<and> length (sp_setup_key p) = 32" by (auto simp: encode_iff)
next
  assume e: "SetupPayload_encode cr p = Inr t \<and> length (lock_bytes (sp_lock_id p)) = 16
      \<and> length (sp_public_key p) = 32 \<and> length (sp_setup_key p) = 32"
  then have "split_on CHR '':'' t = [''OPENLOCK4'', hex (lock_bytes (sp_lock_id p)), hex (sp_public_key p), hex (sp_setup_key p)]"
    unfolding split_setup_text by (simp only: encode_iff setup_text_def)
  moreover have "unhex (length b) (hex b) = Inr b" for b by (simp add: unhex_iff)
  then have "unhex 16 (hex (lock_bytes (sp_lock_id p))) = Inr (lock_bytes (sp_lock_id p))"
    "unhex 32 (hex (sp_public_key p)) = Inr (sp_public_key p)" "unhex 32 (hex (sp_setup_key p)) = Inr (sp_setup_key p)"
    using e by metis+
  ultimately show "SetupPayload_decode cr t = Inr p"
    using e by (cases p) (simp add: SetupPayload_decode_def)
qed

end
