(* ===== verification/Noise.thy ===== *)
theory Noise
  imports Trust
begin

text \<open>
  The encrypted channel (\<^verbatim>\<open>crates/openlock-crypto/src/noise.rs\<close>): a state machine around the
  handshake and transport states of the \<^verbatim>\<open>snow\<close> crate. The crate is not part of the
  repository: its functions are the fields of a record \<open>Snow\<close> over abstract state types. A
  call takes the state and the size of the output buffer, and leaves a new state behind
  whether it succeeds or not; all its failures become \<open>Error::Noise\<close>.
\<close>

definition NOISE_SUITE :: string where "NOISE_SUITE = ''Noise_IK_25519_ChaChaPoly_SHA256''"
definition PROLOGUE :: string where "PROLOGUE = ''OpenLock/v4/profile1''"

record ('h, 't) Snow =
  sn_build :: "string \<Rightarrow> string \<Rightarrow> bytes \<Rightarrow> bytes option \<Rightarrow> 'h option"
  sn_h_write :: "nat \<Rightarrow> bytes \<Rightarrow> 'h \<Rightarrow> bytes option \<times> 'h"
  sn_h_read :: "nat \<Rightarrow> bytes \<Rightarrow> 'h \<Rightarrow> bytes option \<times> 'h"
  sn_h_finished :: "'h \<Rightarrow> bool"
  sn_h_remote :: "'h \<Rightarrow> bytes option"
  sn_into_transport :: "'h \<Rightarrow> 't option"
  sn_t_write :: "nat \<Rightarrow> bytes \<Rightarrow> 't \<Rightarrow> bytes option \<times> 't"
  sn_t_read :: "nat \<Rightarrow> bytes \<Rightarrow> 't \<Rightarrow> bytes option \<times> 't"
  sn_t_remote :: "'t \<Rightarrow> bytes option"

datatype ('h, 't) NoiseState = NS_Handshake 'h | NS_Transport 't | NS_Closed

record ('h, 't) NoiseChannel =
  nc_state :: "('h, 't) NoiseState"

definition static_public :: "Crypto \<Rightarrow> bytes \<Rightarrow> bytes" where
  "static_public cr private = cr_x25519_public cr private"

definition NoiseChannel_new :: "('h, 't) Snow \<Rightarrow> bytes \<Rightarrow> bytes option \<Rightarrow> Error + ('h, 't) NoiseChannel" where
  "NoiseChannel_new sn private peer =
     (if private = replicate 32 0 then Inl NoiseError
      else rbind (ok_or NoiseError (sn_build sn NOISE_SUITE PROLOGUE private peer)) (\<lambda>state.
        Inr \<lparr>nc_state = NS_Handshake state\<rparr>))"

definition NoiseChannel_initiator ::
  "Crypto \<Rightarrow> ('h, 't) Snow \<Rightarrow> bytes \<Rightarrow> bytes \<Rightarrow> Error + ('h, 't) NoiseChannel" where
  "NoiseChannel_initiator cr sn private peer =
     rbind (validate_public cr peer) (\<lambda>_. NoiseChannel_new sn private (Some peer))"

definition NoiseChannel_responder :: "('h, 't) Snow \<Rightarrow> bytes \<Rightarrow> Error + ('h, 't) NoiseChannel" where
  "NoiseChannel_responder sn private = NoiseChannel_new sn private None"

definition is_transport :: "('h, 't) NoiseChannel \<Rightarrow> bool" where
  "is_transport c = (case nc_state c of NS_Transport _ \<Rightarrow> True | _ \<Rightarrow> False)"

definition NoiseChannel_close :: "('h, 't) NoiseChannel \<Rightarrow> ('h, 't) NoiseChannel" where
  "NoiseChannel_close c = c\<lparr>nc_state := NS_Closed\<rparr>"

definition finish_handshake :: "('h, 't) Snow \<Rightarrow> (('h, 't) NoiseChannel, Error, unit) sm" where
  "finish_handshake sn = bnd (gets nc_state) (\<lambda>state. case state of
     NS_Handshake s \<Rightarrow>
       if sn_h_finished sn s then
         thn (modify NoiseChannel_close) (
         bnd (lift (ok_or NoiseError (sn_into_transport sn s))) (\<lambda>t.
           modify (\<lambda>c. c\<lparr>nc_state := NS_Transport t\<rparr>)))
       else ret ()
   | _ \<Rightarrow> ret ())"

text \<open>What \<open>write\<close> and \<open>read\<close> do with the result of the crate: finish the handshake, or close.\<close>

definition settle :: "('h, 't) Snow \<Rightarrow> bytes option \<Rightarrow> (('h, 't) NoiseChannel, Error, bytes) sm" where
  "settle sn result = (case result of
     Some out \<Rightarrow> thn (finish_handshake sn) (ret out)
   | None \<Rightarrow> thn (modify NoiseChannel_close) (raise NoiseError))"

definition NoiseChannel_write :: "('h, 't) Snow \<Rightarrow> bytes \<Rightarrow> (('h, 't) NoiseChannel, Error, bytes) sm" where
  "NoiseChannel_write sn payload =
     thn (guard_err (length payload > MAX_MESSAGE_SIZE - 128) ObjectTooLarge) (
     bnd (gets nc_state) (\<lambda>state. case state of
       NS_Handshake s \<Rightarrow> (case sn_h_write sn MAX_MESSAGE_SIZE payload s of (result, s) \<Rightarrow>
         thn (modify (\<lambda>c. c\<lparr>nc_state := NS_Handshake s\<rparr>)) (settle sn result))
     | NS_Transport s \<Rightarrow> (case sn_t_write sn MAX_MESSAGE_SIZE payload s of (result, s) \<Rightarrow>
         thn (modify (\<lambda>c. c\<lparr>nc_state := NS_Transport s\<rparr>)) (settle sn result))
     | NS_Closed \<Rightarrow> raise InvalidState))"

definition NoiseChannel_read :: "('h, 't) Snow \<Rightarrow> bytes \<Rightarrow> (('h, 't) NoiseChannel, Error, bytes) sm" where
  "NoiseChannel_read sn input =
     (if length input > MAX_MESSAGE_SIZE then thn (modify NoiseChannel_close) (raise ObjectTooLarge)
      else bnd (gets nc_state) (\<lambda>state. case state of
       NS_Handshake s \<Rightarrow> (case sn_h_read sn MAX_MESSAGE_SIZE input s of (result, s) \<Rightarrow>
         thn (modify (\<lambda>c. c\<lparr>nc_state := NS_Handshake s\<rparr>)) (settle sn result))
     | NS_Transport s \<Rightarrow> (case sn_t_read sn MAX_MESSAGE_SIZE input s of (result, s) \<Rightarrow>
         thn (modify (\<lambda>c. c\<lparr>nc_state := NS_Transport s\<rparr>)) (settle sn result))
     | NS_Closed \<Rightarrow> raise InvalidState))"

definition NoiseChannel_peer_static ::
  "Crypto \<Rightarrow> ('h, 't) Snow \<Rightarrow> ('h, 't) NoiseChannel \<Rightarrow> Error + SubjectKey" where
  "NoiseChannel_peer_static cr sn c =
     rbind (ok_or InvalidState (case nc_state c of
              NS_Handshake s \<Rightarrow> sn_h_remote sn s
            | NS_Transport s \<Rightarrow> sn_t_remote sn s
            | NS_Closed \<Rightarrow> None)) (\<lambda>peer.
     if length peer \<noteq> 32 then Inl NoiseError
     else rbind (validate_public cr peer) (\<lambda>_. Inr (SubjectKey peer)))"

section \<open>A closed channel stays closed\<close>

lemma closed_write:
  "nc_state c = NS_Closed \<Longrightarrow> NoiseChannel_write sn p c =
     (Inl (if length p > MAX_MESSAGE_SIZE - 128 then ObjectTooLarge else InvalidState), c)"
  by (simp add: NoiseChannel_write_def run_simps)

lemma closed_read:
  "nc_state c = NS_Closed \<Longrightarrow> NoiseChannel_read sn p c =
     (Inl (if length p > MAX_MESSAGE_SIZE then ObjectTooLarge else InvalidState), c)"
  by (simp add: NoiseChannel_read_def NoiseChannel_close_def run_simps)

lemma settle_transport:
  "nc_state c = NS_Transport t \<Longrightarrow> settle sn r c = (case r of
     Some out \<Rightarrow> (Inr out, c) | None \<Rightarrow> (Inl NoiseError, NoiseChannel_close c))"
  by (simp add: settle_def finish_handshake_def run_simps split: option.split)

lemma write_transport:
  assumes "nc_state c = NS_Transport t" "length p \<le> MAX_MESSAGE_SIZE - 128"
  shows "NoiseChannel_write sn p c = (case sn_t_write sn MAX_MESSAGE_SIZE p t of
     (Some out, t') \<Rightarrow> (Inr out, c\<lparr>nc_state := NS_Transport t'\<rparr>)
   | (None, t') \<Rightarrow> (Inl NoiseError, c\<lparr>nc_state := NS_Closed\<rparr>))"
  using assms
  by (simp add: NoiseChannel_write_def run_simps settle_transport NoiseChannel_close_def
      split: prod.split option.split)

lemma read_transport:
  assumes "nc_state c = NS_Transport t" "length p \<le> MAX_MESSAGE_SIZE"
  shows "NoiseChannel_read sn p c = (case sn_t_read sn MAX_MESSAGE_SIZE p t of
     (Some out, t') \<Rightarrow> (Inr out, c\<lparr>nc_state := NS_Transport t'\<rparr>)
   | (None, t') \<Rightarrow> (Inl NoiseError, c\<lparr>nc_state := NS_Closed\<rparr>))"
  using assms
  by (simp add: NoiseChannel_read_def run_simps settle_transport NoiseChannel_close_def
      split: prod.split option.split)

lemma write_handshake:
  assumes "nc_state c = NS_Handshake h" "length p \<le> MAX_MESSAGE_SIZE - 128"
    "sn_h_write sn MAX_MESSAGE_SIZE p h = (Some out, h')"
  shows "NoiseChannel_write sn p c = (if sn_h_finished sn h'
     then (case sn_into_transport sn h' of
        Some t \<Rightarrow> (Inr out, c\<lparr>nc_state := NS_Transport t\<rparr>) | None \<Rightarrow> (Inl NoiseError, c\<lparr>nc_state := NS_Closed\<rparr>))
     else (Inr out, c\<lparr>nc_state := NS_Handshake h'\<rparr>))"
  using assms
  by (simp add: NoiseChannel_write_def run_simps settle_def finish_handshake_def NoiseChannel_close_def
      split: option.split)

lemma read_handshake:
  assumes "nc_state c = NS_Handshake h" "length p \<le> MAX_MESSAGE_SIZE"
    "sn_h_read sn MAX_MESSAGE_SIZE p h = (Some out, h')"
  shows "NoiseChannel_read sn p c = (if sn_h_finished sn h'
     then (case sn_into_transport sn h' of
        Some t \<Rightarrow> (Inr out, c\<lparr>nc_state := NS_Transport t\<rparr>) | None \<Rightarrow> (Inl NoiseError, c\<lparr>nc_state := NS_Closed\<rparr>))
     else (Inr out, c\<lparr>nc_state := NS_Handshake h'\<rparr>))"
  using assms
  by (simp add: NoiseChannel_read_def run_simps settle_def finish_handshake_def NoiseChannel_close_def
      split: option.split)

end
