(* ===== verification/Session.thy ===== *)
theory Session
  imports Noise Wire_Laws
begin

text \<open>
  The session protocol (\<^verbatim>\<open>crates/openlock-protocol/src/lib.rs\<close>): packets, and the two ends of a
  session as one state machine over the encrypted channel. An initiator starts the
  handshake, sends requests with increasing numbers and accepts responses to pending
  requests; a responder accepts requests with increasing numbers and answers them. An
  error while receiving closes the session.
\<close>

unbundle bit_operations_syntax

section \<open>Packets\<close>

definition PROFILE :: u64 where "PROFILE = 1"
definition KIND_HANDSHAKE :: u8 where "KIND_HANDSHAKE = 0"
definition KIND_REQUEST :: u8 where "KIND_REQUEST = 1"
definition KIND_RESPONSE :: u8 where "KIND_RESPONSE = 2"
definition MAX_PENDING_REQUESTS :: nat where "MAX_PENDING_REQUESTS = 1024"

lemmas kind_defs = KIND_HANDSHAKE_def KIND_REQUEST_def KIND_RESPONSE_def

datatype Role = Initiator | Responder

datatype SessionEvent =
    HandshakeComplete SubjectKey
  | Event_Request u32 Command SubjectKey
  | Event_Response u32 Response

record Packet =
  pk_kind :: u8
  pk_request_id :: u32
  pk_capabilities :: u64
  pk_payload :: bytes

definition Packet_validate :: "Packet \<Rightarrow> Error + unit" where
  "Packet_validate p =
     (if pk_kind p > KIND_RESPONSE \<or> pk_payload p = [] \<or> pk_capabilities p AND NOT KNOWN_CAPABILITIES \<noteq> 0
      then Inl InvalidPayload
      else if pk_kind p = KIND_HANDSHAKE then
        reject_if (pk_request_id p \<noteq> 0 \<or> pk_capabilities p \<noteq> 0) InvalidPayload
      else reject_if (pk_request_id p = 0 \<or> pk_capabilities p = 0) InvalidPayload)"

definition packet_value :: "Packet \<Rightarrow> Value" where
  "packet_value p = carray [cuint PROTOCOL_VERSION, cuint PROFILE, cuint (ucast (pk_kind p)),
     cuint (ucast (pk_request_id p)), cuint (pk_capabilities p), cbytes (pk_payload p)]"

definition encode_packet :: "Crypto \<Rightarrow> Packet \<Rightarrow> Error + bytes" where
  "encode_packet cr p = rbind (Packet_validate p) (\<lambda>_. encode_limit cr (packet_value p) MAX_MESSAGE_SIZE)"

definition decode_packet :: "Crypto \<Rightarrow> bytes \<Rightarrow> Error + Packet" where
  "decode_packet cr input =
     rbind (decode_limit cr input MAX_MESSAGE_SIZE) (\<lambda>value.
     rbind (cfields value 6) (\<lambda>f.
     rbind (number (f ! 0)) (\<lambda>version.
     if version \<noteq> PROTOCOL_VERSION then Inl UnsupportedVersion else
     rbind (number (f ! 1)) (\<lambda>profile.
     if profile \<noteq> PROFILE then Inl UnsupportedVersion else
     rbind (u32_value (f ! 2)) (\<lambda>kind.
     if kind > ucast KIND_RESPONSE then Inl InvalidPayload else
     rbind (u32_value (f ! 3)) (\<lambda>request_id.
     rbind (number (f ! 4)) (\<lambda>capabilities.
     rbind (cdata (f ! 5)) (\<lambda>payload.
     let packet = \<lparr>pk_kind = ucast kind, pk_request_id = request_id, pk_capabilities = capabilities,
                   pk_payload = payload\<rparr> in
     rbind (Packet_validate packet) (\<lambda>_. Inr packet)))))))))"

definition validate_command :: "Command \<Rightarrow> Error + unit" where
  "validate_command c =
     rbind (Command_validate c) (\<lambda>_. rbind (Command_parse (Command_value c)) (\<lambda>_. Inr ()))"

definition response_capability :: "Response \<Rightarrow> u64" where
  "response_capability r = push_bit (unat (rsp_opcode r)) 1"

definition authenticated_value :: "u8 \<Rightarrow> u32 \<Rightarrow> u64 \<Rightarrow> Value \<Rightarrow> Value" where
  "authenticated_value kind request_id capabilities body =
     carray [cuint (ucast kind), cuint (ucast request_id), cuint capabilities, body]"

definition handshake_packet :: "bytes \<Rightarrow> Packet" where
  "handshake_packet payload =
     \<lparr>pk_kind = KIND_HANDSHAKE, pk_request_id = 0, pk_capabilities = 0, pk_payload = payload\<rparr>"

section \<open>Sessions\<close>

record ('h, 't) Session =
  ss_role :: Role
  ss_capabilities :: u64
  ss_next_request :: u32
  ss_started :: bool
  ss_pending_requests :: "(u32, u64) fmap"
  ss_last_request_id :: u32
  ss_channel :: "('h, 't) NoiseChannel"

type_synonym ('h, 't, 'a) ses = "(('h, 't) Session, Error, 'a) sm"

definition fresh_session :: "Role \<Rightarrow> u64 \<Rightarrow> ('h, 't) NoiseChannel \<Rightarrow> ('h, 't) Session" where
  "fresh_session role capabilities channel =
     \<lparr>ss_role = role, ss_capabilities = capabilities, ss_next_request = 1, ss_started = False,
      ss_pending_requests = fmempty, ss_last_request_id = 0, ss_channel = channel\<rparr>"

definition Session_initiator ::
  "Crypto \<Rightarrow> ('h, 't) Snow \<Rightarrow> bytes \<Rightarrow> bytes \<Rightarrow> u64 \<Rightarrow> Error + ('h, 't) Session" where
  "Session_initiator cr sn private lock_public capabilities =
     (if capabilities = 0 \<or> capabilities AND NOT KNOWN_CAPABILITIES \<noteq> 0 then Inl UnsupportedCapability
      else rbind (NoiseChannel_initiator cr sn private lock_public) (\<lambda>channel.
        Inr (fresh_session Initiator capabilities channel)))"

definition Session_responder :: "('h, 't) Snow \<Rightarrow> bytes \<Rightarrow> u64 \<Rightarrow> Error + ('h, 't) Session" where
  "Session_responder sn private capabilities =
     (if capabilities = 0 \<or> capabilities AND NOT KNOWN_CAPABILITIES \<noteq> 0 then Inl UnsupportedCapability
      else rbind (NoiseChannel_responder sn private) (\<lambda>channel.
        Inr (fresh_session Responder capabilities channel)))"

text \<open>A method of the channel, called on the session's own channel.\<close>

definition on_channel :: "(('h, 't) NoiseChannel, Error, 'a) sm \<Rightarrow> ('h, 't, 'a) ses" where
  "on_channel m s = (case m (ss_channel s) of (r, channel) \<Rightarrow> (r, s\<lparr>ss_channel := channel\<rparr>))"

definition start_size :: "Crypto \<Rightarrow> ('h, 't) Session \<Rightarrow> Error + nat" where
  "start_size cr s =
     (if ss_role s \<noteq> Initiator \<or> ss_started s then Inl InvalidState
      else rbind (encode_packet cr (handshake_packet (replicate 96 0))) (\<lambda>p. Inr (length p)))"

definition Session_start :: "Crypto \<Rightarrow> ('h, 't) Snow \<Rightarrow> ('h, 't, bytes) ses" where
  "Session_start cr sn =
     bnd (gets id) (\<lambda>s.
     thn (guard_err (ss_role s \<noteq> Initiator \<or> ss_started s) InvalidState) (
     thn (modify (ss_started_update (\<lambda>_. True))) (
     bnd (on_channel (NoiseChannel_write sn [])) (\<lambda>payload.
       lift (encode_packet cr (handshake_packet payload))))))"

definition Session_close :: "('h, 't) Session \<Rightarrow> ('h, 't) Session" where
  "Session_close s = s\<lparr>ss_channel := NoiseChannel_close (ss_channel s), ss_pending_requests := fmempty\<rparr>"

definition Session_peer_static :: "Crypto \<Rightarrow> ('h, 't) Snow \<Rightarrow> ('h, 't) Session \<Rightarrow> Error + SubjectKey" where
  "Session_peer_static cr sn s = NoiseChannel_peer_static cr sn (ss_channel s)"

section \<open>Receiving\<close>

text \<open>The checks on role, order and request number before anything is decrypted.\<close>

definition receive_guards :: "Packet \<Rightarrow> ('h, 't, unit) ses" where
  "receive_guards packet = bnd (gets id) (\<lambda>s.
     thn (if pk_kind packet = KIND_HANDSHAKE then
            (if ss_role s = Initiator then guard_err (\<not> ss_started s) InvalidState
             else guard_err (ss_started s) InvalidState)
          else guard_err (\<not> ss_started s) InvalidState) (
     thn (guard_err (pk_kind packet = KIND_REQUEST
            \<and> (ss_role s \<noteq> Responder \<or> pk_request_id packet \<le> ss_last_request_id s)) InvalidState) (
       guard_err (pk_kind packet = KIND_RESPONSE
            \<and> (ss_role s \<noteq> Initiator \<or> fmlookup (ss_pending_requests s) (pk_request_id packet) = None))
         InvalidState)))"

definition receive_handshake ::
  "Crypto \<Rightarrow> ('h, 't) Snow \<Rightarrow> bytes \<Rightarrow> ('h, 't, SessionEvent list \<times> bytes option) ses" where
  "receive_handshake cr sn clear =
     thn (guard_err (clear \<noteq> []) InvalidPayload) (
     thn (modify (ss_started_update (\<lambda>_. True))) (
     bnd (gets ss_role) (\<lambda>role.
     bnd (if role = Responder then
            bnd (on_channel (NoiseChannel_write sn [])) (\<lambda>payload.
            bnd (lift (encode_packet cr (handshake_packet payload))) (\<lambda>reply. ret (Some reply)))
          else ret None) (\<lambda>reply.
     bnd (gets id) (\<lambda>s.
     if is_transport (ss_channel s) then
       bnd (lift (Session_peer_static cr sn s)) (\<lambda>peer. ret ([HandshakeComplete peer], reply))
     else ret ([], reply))))))"

definition receive_request ::
  "Packet \<Rightarrow> Value \<Rightarrow> SubjectKey \<Rightarrow> ('h, 't, SessionEvent list \<times> bytes option) ses" where
  "receive_request packet value peer =
     bnd (lift (Command_parse value)) (\<lambda>command.
     bnd (gets id) (\<lambda>s.
     thn (guard_err (Command_capability command AND pk_capabilities packet \<noteq> Command_capability command
            \<or> Command_capability command AND ss_capabilities s \<noteq> Command_capability command)
           UnsupportedCapability) (
     thn (guard_err (map_len (ss_pending_requests s) \<ge> MAX_PENDING_REQUESTS) InvalidState) (
     thn (modify (\<lambda>s. s\<lparr>ss_last_request_id := pk_request_id packet,
            ss_pending_requests :=
              fmupd (pk_request_id packet) (Command_capability command) (ss_pending_requests s)\<rparr>)) (
       ret ([Event_Request (pk_request_id packet) command peer], None))))))"

text \<open>The request is pending: \<open>receive_guards\<close> has checked it, so the lookup with a default is the
  indexing of the source.\<close>

definition receive_response :: "Packet \<Rightarrow> Value \<Rightarrow> ('h, 't, SessionEvent list \<times> bytes option) ses" where
  "receive_response packet value =
     bnd (lift (Response_parse value)) (\<lambda>response.
     bnd (gets id) (\<lambda>s.
     let expected = get_or 0 (ss_pending_requests s) (pk_request_id packet);
         cap = response_capability response in
     thn (guard_err (cap \<noteq> expected \<or> cap AND pk_capabilities packet \<noteq> cap) InvalidPayload) (
     thn (modify (\<lambda>s. s\<lparr>ss_pending_requests := fmdrop (pk_request_id packet) (ss_pending_requests s)\<rparr>)) (
       ret ([Event_Response (pk_request_id packet) response], None)))))"

definition receive_sealed ::
  "Crypto \<Rightarrow> ('h, 't) Snow \<Rightarrow> Packet \<Rightarrow> bytes \<Rightarrow> ('h, 't, SessionEvent list \<times> bytes option) ses" where
  "receive_sealed cr sn packet clear =
     bnd (lift (cdecode cr clear)) (\<lambda>envelope.
     bnd (lift (cfields envelope 4)) (\<lambda>fields.
     bnd (lift (u32_value (fields ! 0))) (\<lambda>kind.
     thn (guard_err (kind \<noteq> ucast (pk_kind packet)) InvalidPayload) (
     bnd (lift (u32_value (fields ! 1))) (\<lambda>request_id.
     thn (guard_err (request_id \<noteq> pk_request_id packet) InvalidPayload) (
     bnd (lift (number (fields ! 2))) (\<lambda>capabilities.
     thn (guard_err (capabilities \<noteq> pk_capabilities packet) InvalidPayload) (
     bnd (gets id) (\<lambda>s.
     bnd (lift (Session_peer_static cr sn s)) (\<lambda>peer.
     if pk_kind packet = KIND_REQUEST then receive_request packet (fields ! 3) peer
     else if pk_kind packet = KIND_RESPONSE then receive_response packet (fields ! 3)
     else raise InvalidPayload))))))))))"

definition receive_inner ::
  "Crypto \<Rightarrow> ('h, 't) Snow \<Rightarrow> bytes \<Rightarrow> ('h, 't, SessionEvent list \<times> bytes option) ses" where
  "receive_inner cr sn input =
     bnd (lift (decode_packet cr input)) (\<lambda>packet.
     thn (receive_guards packet) (
     if pk_kind packet = KIND_HANDSHAKE then
       bnd (on_channel (NoiseChannel_read sn (pk_payload packet))) (\<lambda>clear. receive_handshake cr sn clear)
     else
       bnd (gets id) (\<lambda>s.
       thn (guard_err (\<not> is_transport (ss_channel s)) InvalidState) (
       bnd (on_channel (NoiseChannel_read sn (pk_payload packet))) (\<lambda>clear.
         receive_sealed cr sn packet clear)))))"

definition Session_receive ::
  "Crypto \<Rightarrow> ('h, 't) Snow \<Rightarrow> bytes \<Rightarrow> ('h, 't, SessionEvent list \<times> bytes option) ses" where
  "Session_receive cr sn input =
     bnd (attempt (receive_inner cr sn input)) (\<lambda>result.
     thn (if \<not> is_ok result then modify Session_close else ret ()) (lift result))"

section \<open>Sending\<close>

definition can_send :: "Command \<Rightarrow> ('h, 't) Session \<Rightarrow> bool" where
  "can_send command s \<longleftrightarrow> \<not> (ss_role s \<noteq> Initiator \<or> \<not> is_transport (ss_channel s)
     \<or> Command_capability command AND ss_capabilities s \<noteq> Command_capability command
     \<or> map_len (ss_pending_requests s) \<ge> MAX_PENDING_REQUESTS)"

definition request_size :: "Crypto \<Rightarrow> ('h, 't) Session \<Rightarrow> Command \<Rightarrow> Error + nat" where
  "request_size cr s command =
     rbind (validate_command command) (\<lambda>_.
     if \<not> can_send command s then Inl InvalidState else
     rbind (cencode cr (authenticated_value KIND_REQUEST (ss_next_request s) (ss_capabilities s)
              (Command_value command))) (\<lambda>body.
     if length body > MAX_MESSAGE_SIZE - 128 then Inl ObjectTooLarge else
     rbind (encode_packet cr \<lparr>pk_kind = KIND_REQUEST, pk_request_id = ss_next_request s,
              pk_capabilities = ss_capabilities s, pk_payload = replicate (length body + 16) 0\<rparr>) (\<lambda>packet.
       Inr (length packet))))"

definition Session_send :: "Crypto \<Rightarrow> ('h, 't) Snow \<Rightarrow> Command \<Rightarrow> ('h, 't, u32 \<times> bytes) ses" where
  "Session_send cr sn command =
     bnd (gets id) (\<lambda>s.
     thn (lift (request_size cr s command)) (
     thn (guard_err (\<not> can_send command s) InvalidState) (
     let request_id = ss_next_request s in
     bnd (lift (ok_or InvalidState (checked_add request_id 1))) (\<lambda>next_request.
     thn (modify (ss_next_request_update (\<lambda>_. next_request))) (
     bnd (lift (cencode cr (authenticated_value KIND_REQUEST request_id (ss_capabilities s)
            (Command_value command)))) (\<lambda>body.
     bnd (on_channel (NoiseChannel_write sn body)) (\<lambda>payload.
     bnd (lift (encode_packet cr \<lparr>pk_kind = KIND_REQUEST, pk_request_id = request_id,
            pk_capabilities = ss_capabilities s, pk_payload = payload\<rparr>)) (\<lambda>packet.
     thn (modify (\<lambda>s. s\<lparr>ss_pending_requests :=
            fmupd request_id (Command_capability command) (ss_pending_requests s)\<rparr>)) (
       ret (request_id, packet))))))))))"

definition response_size :: "Crypto \<Rightarrow> ('h, 't) Session \<Rightarrow> u32 \<Rightarrow> Response \<Rightarrow> Error + nat" where
  "response_size cr s request_id response =
     rbind (validate_response response) (\<lambda>_.
     if ss_role s \<noteq> Responder
        \<or> fmlookup (ss_pending_requests s) request_id \<noteq> Some (push_bit (unat (rsp_opcode response)) 1)
     then Inl InvalidState else
     rbind (cencode cr (authenticated_value KIND_RESPONSE request_id (ss_capabilities s)
              (Response_value response))) (\<lambda>body.
     if length body > MAX_MESSAGE_SIZE - 128 then Inl ObjectTooLarge else
     rbind (encode_packet cr \<lparr>pk_kind = KIND_RESPONSE, pk_request_id = request_id,
              pk_capabilities = ss_capabilities s, pk_payload = replicate (length body + 16) 0\<rparr>) (\<lambda>packet.
       Inr (length packet))))"

definition Session_respond :: "Crypto \<Rightarrow> ('h, 't) Snow \<Rightarrow> u32 \<Rightarrow> Response \<Rightarrow> ('h, 't, bytes) ses" where
  "Session_respond cr sn request_id response =
     bnd (gets id) (\<lambda>s.
     thn (lift (response_size cr s request_id response)) (
     thn (guard_err (ss_role s \<noteq> Responder \<or> \<not> is_transport (ss_channel s)
            \<or> fmlookup (ss_pending_requests s) request_id = None) InvalidState) (
     let expected = get_or 0 (ss_pending_requests s) request_id; cap = response_capability response in
     thn (guard_err (cap \<noteq> expected) InvalidPayload) (
     thn (guard_err (cap AND ss_capabilities s = 0) UnsupportedCapability) (
     bnd (lift (cencode cr (authenticated_value KIND_RESPONSE request_id (ss_capabilities s)
            (Response_value response)))) (\<lambda>body.
     bnd (on_channel (NoiseChannel_write sn body)) (\<lambda>payload.
     bnd (lift (encode_packet cr \<lparr>pk_kind = KIND_RESPONSE, pk_request_id = request_id,
            pk_capabilities = ss_capabilities s, pk_payload = payload\<rparr>)) (\<lambda>packet.
     thn (modify (\<lambda>s. s\<lparr>ss_pending_requests := fmdrop request_id (ss_pending_requests s)\<rparr>)) (
       ret packet)))))))))"

end
