(* ===== verification/Simulator.thy ===== *)
theory Simulator
  imports Device_Run Session
begin

text \<open>
  The lock of \<^verbatim>\<open>crates/openlock-core/examples/simulator.rs\<close>: the program that composes a session with
  a controller. A packet is received by the session; a handshake sets the context of the
  connection, and every request is handled by the controller in that context and answered
  over the session. The lines of the terminal and the test platform behind the controls
  \<open>complete-unlock\<close>, \<open>complete-lock\<close> and \<open>confirm-boot\<close> are not modelled.
\<close>

record ('s, 'p, 'h, 't) Server =
  sv_device :: "('s, 'p) DeviceController"
  sv_session :: "('h, 't) Session"
  sv_context :: "SessionContext option"
  sv_confirm :: bool

datatype ServeError = Serve_Error Error | No_Handshake | No_Response

type_synonym ('s, 'p, 'h, 't, 'a) serve = "(('s, 'p, 'h, 't) Server, ServeError, 'a) sm"

text \<open>A method of the controller or of the session; an error of it is passed on.\<close>

definition passed :: "Error + 'a \<Rightarrow> ServeError + 'a" where
  "passed r = (case r of Inl e \<Rightarrow> Inl (Serve_Error e) | Inr x \<Rightarrow> Inr x)"

definition on_device :: "('s, 'p, 'a) ctl \<Rightarrow> ('s, 'p, 'h, 't, 'a) serve" where
  "on_device m sv = (case m (sv_device sv) of (r, d) \<Rightarrow> (passed r, sv\<lparr>sv_device := d\<rparr>))"

definition on_session :: "('h, 't, 'a) ses \<Rightarrow> ('s, 'p, 'h, 't, 'a) serve" where
  "on_session m sv = (case m (sv_session sv) of (r, s) \<Rightarrow> (passed r, sv\<lparr>sv_session := s\<rparr>))"

definition respond_with :: "('s, 'p) Env \<Rightarrow> SessionContext \<Rightarrow> Command \<Rightarrow> ('s, 'p, 'h, 't, Response) serve" where
  "respond_with E x command sv =
     (case handle E x command (sv_device sv) of (response, d) \<Rightarrow> (Inr response, sv\<lparr>sv_device := d\<rparr>))"

section \<open>Controls\<close>

definition serve_private :: "('s, 'p) Env \<Rightarrow> ('s, 'p) DeviceController \<Rightarrow> bytes" where
  "serve_private E device =
     (if dk_x25519_public_key (s_device_key (c_state device))
           = static_public (env_crypto E) (replicate 32 12)
      then replicate 32 12 else replicate 32 4)"

definition serve_connect :: "('s, 'p) Env \<Rightarrow> ('h, 't) Snow \<Rightarrow> ('s, 'p, 'h, 't, unit) serve" where
  "serve_connect E sn =
     bnd (gets sv_device) (\<lambda>device.
     bnd (lift (passed (Session_responder sn (serve_private E device) KNOWN_CAPABILITIES))) (\<lambda>session.
       modify (\<lambda>sv. sv\<lparr>sv_session := session, sv_context := None\<rparr>)))"

definition serve_pair :: "('s, 'p) Env \<Rightarrow> ('s, 'p, 'h, 't, unit) serve" where
  "serve_pair E = on_device (open_pairing_window E)"

definition serve_confirm_next :: "('s, 'p, 'h, 't, unit) serve" where
  "serve_confirm_next = modify (sv_confirm_update (\<lambda>_. True))"

section \<open>Packets\<close>

definition note_handshake :: "SessionEvent \<Rightarrow> ('s, 'p, 'h, 't) Server \<Rightarrow> ('s, 'p, 'h, 't) Server" where
  "note_handshake event sv = (case event of
       HandshakeComplete peer \<Rightarrow> sv\<lparr>sv_context := Some (context_of (sv_device sv) peer)\<rparr>
     | _ \<Rightarrow> sv)"

definition serve_request ::
  "('s, 'p) Env \<Rightarrow> ('h, 't) Snow \<Rightarrow> u32 \<Rightarrow> Command \<Rightarrow> ('s, 'p, 'h, 't, bytes) serve" where
  "serve_request E sn request_id command =
     bnd (gets sv_context) (\<lambda>context'.
     bnd (lift (ok_or No_Handshake context')) (\<lambda>x.
     bnd (gets sv_confirm) (\<lambda>confirm.
     thn (if confirm then
            thn (on_device (confirm_physical E x command)) (modify (sv_confirm_update (\<lambda>_. False)))
          else ret ()) (
     bnd (respond_with E x command) (\<lambda>response.
     bnd (on_session (Session_respond (env_crypto E) sn request_id response)) (\<lambda>output.
     bnd (gets sv_device) (\<lambda>device.
     thn (if sc_generation x \<noteq> s_generation (c_state device)
          then modify (sv_session_update Session_close) else ret ()) (
       ret output))))))))"

fun serve_events ::
  "('s, 'p) Env \<Rightarrow> ('h, 't) Snow \<Rightarrow> SessionEvent list \<Rightarrow> bytes option \<Rightarrow> ('s, 'p, 'h, 't, bytes option) serve" where
  "serve_events E sn [] output = ret output"
| "serve_events E sn (Event_Request request_id command peer # events) output =
     bnd (serve_request E sn request_id command) (\<lambda>answer. serve_events E sn events (Some answer))"
| "serve_events E sn (_ # events) output = serve_events E sn events output"

definition serve_packet :: "('s, 'p) Env \<Rightarrow> ('h, 't) Snow \<Rightarrow> bytes \<Rightarrow> ('s, 'p, 'h, 't, bytes) serve" where
  "serve_packet E sn input =
     bnd (on_session (Session_receive (env_crypto E) sn input)) (\<lambda>(events, reply).
     case reply of
       Some reply \<Rightarrow> thn (modify (fold note_handshake events)) (ret reply)
     | None \<Rightarrow>
         bnd (serve_events E sn events None) (\<lambda>output. lift (ok_or No_Response output)))"

end
