(* ===== verification/Session_Laws.thy ===== *)
theory Session_Laws
  imports Session
begin

text \<open>
  Invariants of the session protocol. \<open>book\<close> is the part of a session that the channel does
  not touch; the outcome of every operation on it is stated exactly once, and the
  invariants and the trace properties follow from that by induction over runs.
\<close>

unbundle bit_operations_syntax

section \<open>The outcome of receiving\<close>

definition book :: "('h, 't) Session \<Rightarrow> Role \<times> u64 \<times> u32 \<times> (u32, u64) fmap \<times> u32" where
  "book s = (ss_role s, ss_capabilities s, ss_next_request s, ss_pending_requests s, ss_last_request_id s)"

lemma book_channel [simp]: "book (s\<lparr>ss_channel := ch\<rparr>) = book s" "book (s\<lparr>ss_started := b\<rparr>) = book s"
  "book (ss_started_update f s) = book s"
  by (simp_all add: book_def)

lemma on_channel_wp: "(\<And>r ch. Q r (s\<lparr>ss_channel := ch\<rparr>)) \<Longrightarrow> wp (on_channel m) Q s"
  by (simp add: wp_def on_channel_def split: prod.split)

definition outcome :: "('h, 't) Session \<Rightarrow> SessionEvent list \<Rightarrow> ('h, 't) Session \<Rightarrow> bool" where
  "outcome s evs s' \<longleftrightarrow>
     (evs = [] \<or> (\<exists>p. evs = [HandshakeComplete p])) \<and> book s' = book s
   \<or> (\<exists>i c p. evs = [Event_Request i c p] \<and> ss_role s = Responder \<and> ss_last_request_id s < i
        \<and> Command_capability c AND ss_capabilities s = Command_capability c
        \<and> map_len (ss_pending_requests s) < MAX_PENDING_REQUESTS
        \<and> book s' = (ss_role s, ss_capabilities s, ss_next_request s,
             fmupd i (Command_capability c) (ss_pending_requests s), i))
   \<or> (\<exists>i r. evs = [Event_Response i r] \<and> ss_role s = Initiator \<and> rsp_opcode r \<le> 22
        \<and> fmlookup (ss_pending_requests s) i = Some (response_capability r)
        \<and> book s' = (ss_role s, ss_capabilities s, ss_next_request s,
             fmdrop i (ss_pending_requests s), ss_last_request_id s))"

definition received :: "('h, 't) Session \<Rightarrow> Error + SessionEvent list \<times> bytes option \<Rightarrow> ('h, 't) Session \<Rightarrow> bool" where
  "received s r s' = (case r of Inl e \<Rightarrow> book s' = book s | Inr (evs, reply) \<Rightarrow> outcome s evs s')"

lemma received_Inl [simp]: "received s (Inl e) s' \<longleftrightarrow> book s' = book s"
  by (simp add: received_def)

lemma received_frame: "book t = book s \<Longrightarrow> received t r s' = received s r s'"
  unfolding received_def outcome_def book_def by (auto split: sum.split)

lemma receive_handshake_wp: "wp (receive_handshake cr sn clear) (received s) s"
  by (auto simp: receive_handshake_def received_def outcome_def split: sum.split intro!: on_channel_wp)

lemma Response_parse_opcode: "Response_parse v = Inr r \<Longrightarrow> rsp_opcode r \<le> 22"
  by (auto simp: Response_parse_def result_Inr_iffs Let_def not_less split: if_splits)

lemma receive_request_wp:
  assumes "ss_role s = Responder" "ss_last_request_id s < pk_request_id packet"
  shows "wp (receive_request packet value peer) (received s) s"
  using assms by (auto simp: receive_request_def received_def outcome_def book_def split: sum.split)

lemma receive_response_wp:
  assumes "ss_role s = Initiator" "fmlookup (ss_pending_requests s) (pk_request_id packet) \<noteq> None"
  shows "wp (receive_response packet value) (received s) s"
  using assms Response_parse_opcode
  by (auto simp: receive_response_def received_def outcome_def book_def get_or_def Let_def split: sum.split)

lemma receive_sealed_wp:
  assumes "pk_kind packet = KIND_REQUEST \<Longrightarrow> ss_role s = Responder \<and> ss_last_request_id s < pk_request_id packet"
    "pk_kind packet = KIND_RESPONSE \<Longrightarrow>
       ss_role s = Initiator \<and> fmlookup (ss_pending_requests s) (pk_request_id packet) \<noteq> None"
  shows "wp (receive_sealed cr sn packet clear) (received s) s"
  unfolding receive_sealed_def
  using receive_request_wp [of s packet] receive_response_wp [of s packet] assms by (auto split: sum.split)

lemma received_channel: "received (s\<lparr>ss_channel := ch\<rparr>) = received s"
  by (intro ext received_frame) simp

lemma receive_inner_wp: "wp (receive_inner cr sn input) (received s) s"
proof -
  have h: "wp (receive_handshake cr sn clear) (received s) (s\<lparr>ss_channel := ch\<rparr>)" for clear ch
    using receive_handshake_wp [of cr sn clear "s\<lparr>ss_channel := ch\<rparr>"] by (simp only: received_channel)
  have e: "wp (receive_sealed cr sn packet clear) (received s) (s\<lparr>ss_channel := ch\<rparr>)"
    if "pk_kind packet = KIND_REQUEST \<Longrightarrow> ss_role s = Responder \<and> ss_last_request_id s < pk_request_id packet"
      "pk_kind packet = KIND_RESPONSE \<Longrightarrow>
         ss_role s = Initiator \<and> fmlookup (ss_pending_requests s) (pk_request_id packet) \<noteq> None"
    for packet clear ch
    using receive_sealed_wp [of packet "s\<lparr>ss_channel := ch\<rparr>" cr sn clear] that by (simp add: received_channel)
  show ?thesis
    unfolding receive_inner_def receive_guards_def
    by (auto simp: not_le intro!: on_channel_wp h e split: sum.split)
qed

definition closed :: "('h, 't) Session \<Rightarrow> bool" where
  "closed s \<longleftrightarrow> nc_state (ss_channel s) = NS_Closed \<and> ss_pending_requests s = fmempty"

lemma Session_receive_wp:
  "wp (Session_receive cr sn input) (\<lambda>r s'. case r of
     Inl e \<Rightarrow> closed s' \<and> ss_role s' = ss_role s \<and> ss_capabilities s' = ss_capabilities s
       \<and> ss_next_request s' = ss_next_request s \<and> ss_last_request_id s' = ss_last_request_id s
   | Inr (evs, reply) \<Rightarrow> outcome s evs s') s"
  unfolding Session_receive_def using receive_inner_wp [of cr sn input s]
  by (auto simp: received_def closed_def Session_close_def NoiseChannel_close_def book_def
      elim!: wp_mono split: sum.split)

section \<open>The outcome of sending\<close>

definition sent :: "('h, 't) Session \<Rightarrow> Command \<Rightarrow> Error + u32 \<times> bytes \<Rightarrow> ('h, 't) Session \<Rightarrow> bool" where
  "sent s c r s' = (case r of
     Inl e \<Rightarrow> (\<exists>n. ss_next_request s \<le> n \<and> book s' = (ss_role s, ss_capabilities s, n, ss_pending_requests s, ss_last_request_id s))
   | Inr (i, packet) \<Rightarrow> i = ss_next_request s \<and> ss_role s = Initiator \<and> i < i + 1
       \<and> Command_capability c AND ss_capabilities s = Command_capability c
       \<and> map_len (ss_pending_requests s) < MAX_PENDING_REQUESTS
       \<and> book s' = (ss_role s, ss_capabilities s, i + 1,
            fmupd i (Command_capability c) (ss_pending_requests s), ss_last_request_id s))"

lemma Session_send_wp: "wp (Session_send cr sn c) (sent s c) s"
proof -
  have "n + 1 = m \<and> n < m" if "checked_add n (1 :: u32) = Some m" for n m
    using that checked_add_one_less [OF that] by (simp add: checked_add_Some_iff)
  then have n: "ok_or InvalidState (checked_add n (1 :: u32)) = Inr m \<Longrightarrow> m = n + 1 \<and> n < n + 1" for n m
    by (auto simp: ok_or_Inr_iff)
  show ?thesis
    unfolding Session_send_def
    by (auto simp: sent_def book_def can_send_def Let_def dest: n split: sum.split intro!: on_channel_wp)
qed

definition responded :: "('h, 't) Session \<Rightarrow> u32 \<Rightarrow> Response \<Rightarrow> Error + bytes \<Rightarrow> ('h, 't) Session \<Rightarrow> bool" where
  "responded s i resp r s' = (case r of
     Inl e \<Rightarrow> book s' = book s
   | Inr packet \<Rightarrow> ss_role s = Responder \<and> rsp_opcode resp \<le> 22
       \<and> fmlookup (ss_pending_requests s) i = Some (response_capability resp)
       \<and> book s' = (ss_role s, ss_capabilities s, ss_next_request s, fmdrop i (ss_pending_requests s), ss_last_request_id s))"

lemma response_size_Inr:
  "response_size cr s i r = Inr n \<Longrightarrow> ss_role s = Responder \<and> rsp_opcode r \<le> 22
     \<and> fmlookup (ss_pending_requests s) i = Some (response_capability r)"
  by (auto simp: response_size_def result_Inr_iffs response_capability_def validate_response_def not_less
      split: if_splits)

lemma Session_respond_wp: "wp (Session_respond cr sn i resp) (responded s i resp) s"
  unfolding Session_respond_def
  by (auto simp: responded_def book_def Let_def dest: response_size_Inr split: sum.split intro!: on_channel_wp)

lemma Session_start_wp: "wp (Session_start cr sn) (\<lambda>r s'. book s' = book s) s"
  unfolding Session_start_def by (auto split: sum.split intro!: on_channel_wp)

section \<open>Runs of a session\<close>

text \<open>What a run shows to the two applications: a request that is opened (sent by the initiator
  or delivered to the responder) and one that is settled (answered by the responder, or the
  answer delivered to the initiator).\<close>

datatype exchange = Opened u32 Command | Settled u32 Response

fun exchanges :: "SessionEvent list \<Rightarrow> exchange list" where
  "exchanges [] = []"
| "exchanges (HandshakeComplete p # evs) = exchanges evs"
| "exchanges (Event_Request i c p # evs) = Opened i c # exchanges evs"
| "exchanges (Event_Response i r # evs) = Settled i r # exchanges evs"

inductive session_step :: "Crypto \<Rightarrow> ('h, 't) Snow \<Rightarrow> ('h, 't) Session \<Rightarrow> exchange list \<Rightarrow> ('h, 't) Session \<Rightarrow> bool"
  for cr sn where
  step_start: "Session_start cr sn s = (r, s') \<Longrightarrow> session_step cr sn s [] s'"
| step_receive: "Session_receive cr sn input s = (r, s') \<Longrightarrow>
    session_step cr sn s (case r of Inl e \<Rightarrow> [] | Inr (evs, reply) \<Rightarrow> exchanges evs) s'"
| step_send: "Session_send cr sn c s = (r, s') \<Longrightarrow>
    session_step cr sn s (case r of Inl e \<Rightarrow> [] | Inr (i, packet) \<Rightarrow> [Opened i c]) s'"
| step_respond: "Session_respond cr sn i resp s = (r, s') \<Longrightarrow>
    session_step cr sn s (case r of Inl e \<Rightarrow> [] | Inr packet \<Rightarrow> [Settled i resp]) s'"
| step_close: "session_step cr sn s [] (Session_close s)"

inductive session_run :: "Crypto \<Rightarrow> ('h, 't) Snow \<Rightarrow> ('h, 't) Session \<Rightarrow> exchange list \<Rightarrow> ('h, 't) Session \<Rightarrow> bool"
  for cr sn s where
  run_refl: "session_run cr sn s [] s"
| run_step: "session_run cr sn s tr t \<Longrightarrow> session_step cr sn t ls u \<Longrightarrow> session_run cr sn s (tr @ ls) u"

text \<open>The request numbers a session has used: those it gave out, or those it has accepted.\<close>

definition spent :: "('h, 't) Session \<Rightarrow> u32 \<Rightarrow> bool" where
  "spent s i = (if ss_role s = Initiator then i < ss_next_request s else i \<le> ss_last_request_id s)"

definition opens :: "('h, 't) Session \<Rightarrow> u32 \<Rightarrow> Command \<Rightarrow> ('h, 't) Session \<Rightarrow> bool" where
  "opens s i c s' \<longleftrightarrow> (\<forall>j. spent s j \<longrightarrow> j < i) \<and> spent s' i
     \<and> Command_capability c AND ss_capabilities s = Command_capability c
     \<and> map_len (ss_pending_requests s) < MAX_PENDING_REQUESTS
     \<and> ss_pending_requests s' = fmupd i (Command_capability c) (ss_pending_requests s)"

definition settles :: "('h, 't) Session \<Rightarrow> u32 \<Rightarrow> Response \<Rightarrow> ('h, 't) Session \<Rightarrow> bool" where
  "settles s i r s' \<longleftrightarrow> rsp_opcode r \<le> 22 \<and> fmlookup (ss_pending_requests s) i = Some (response_capability r)
     \<and> ss_pending_requests s' = fmdrop i (ss_pending_requests s)"

definition advances :: "('h, 't) Session \<Rightarrow> exchange list \<Rightarrow> ('h, 't) Session \<Rightarrow> bool" where
  "advances s ls s' \<longleftrightarrow> ss_role s' = ss_role s \<and> ss_capabilities s' = ss_capabilities s
     \<and> (\<forall>j. spent s j \<longrightarrow> spent s' j)
     \<and> (ls = [] \<and> (ss_pending_requests s' = ss_pending_requests s \<or> ss_pending_requests s' = fmempty)
        \<or> (\<exists>i c. ls = [Opened i c] \<and> opens s i c s') \<or> (\<exists>i r. ls = [Settled i r] \<and> settles s i r s'))"

lemma book_advances: "book s' = book s \<Longrightarrow> advances s [] s'"
  by (simp add: advances_def book_def spent_def)

lemma outcome_advances: "outcome s evs s' \<Longrightarrow> advances s (exchanges evs) s'"
  unfolding outcome_def
  by (elim disjE exE conjE)
    (auto simp: advances_def book_def spent_def opens_def settles_def)

lemma sent_advances: "sent s c r s' \<Longrightarrow> advances s (case r of Inl e \<Rightarrow> [] | Inr (i, packet) \<Rightarrow> [Opened i c]) s'"
  by (auto simp: sent_def advances_def book_def spent_def opens_def split: sum.splits)

lemma responded_advances:
  "responded s i resp r s' \<Longrightarrow> advances s (case r of Inl e \<Rightarrow> [] | Inr packet \<Rightarrow> [Settled i resp]) s'"
  by (auto simp: responded_def advances_def book_def spent_def settles_def split: sum.splits)

lemma closed_advances:
  "closed s' \<Longrightarrow> ss_role s' = ss_role s \<Longrightarrow> ss_capabilities s' = ss_capabilities s \<Longrightarrow>
     ss_next_request s' = ss_next_request s \<Longrightarrow> ss_last_request_id s' = ss_last_request_id s \<Longrightarrow> advances s [] s'"
  by (simp add: closed_def advances_def spent_def)

lemma session_step_advances:
  assumes "session_step cr sn s ls s'"
  shows "advances s ls s'"
  using assms
proof cases
  case (step_start r)
  then show ?thesis using wpD [OF Session_start_wp step_start(2)] book_advances by blast
next
  case (step_receive input r)
  from wpD [OF Session_receive_wp step_receive(2)] step_receive(1) show ?thesis
    by (cases r) (auto intro: closed_advances outcome_advances)
next
  case (step_send c r)
  then show ?thesis using sent_advances [OF wpD [OF Session_send_wp step_send(2)]] by simp
next
  case (step_respond i resp r)
  then show ?thesis using responded_advances [OF wpD [OF Session_respond_wp step_respond(2)]] by simp
next
  case step_close
  then show ?thesis by (simp add: advances_def spent_def Session_close_def)
qed

section \<open>The ledger of a run\<close>

definition opened_ids :: "exchange list \<Rightarrow> u32 list" where
  "opened_ids tr = concat (map (\<lambda>e. case e of Opened i c \<Rightarrow> [i] | Settled i r \<Rightarrow> []) tr)"

definition settled_ids :: "exchange list \<Rightarrow> u32 list" where
  "settled_ids tr = concat (map (\<lambda>e. case e of Opened i c \<Rightarrow> [] | Settled i r \<Rightarrow> [i]) tr)"

lemma ids_simps [simp]:
  "opened_ids [] = []" "settled_ids [] = []"
  "opened_ids (tr @ ls) = opened_ids tr @ opened_ids ls" "settled_ids (tr @ ls) = settled_ids tr @ settled_ids ls"
  "opened_ids (Opened i c # ls) = i # opened_ids ls" "opened_ids (Settled i r # ls) = opened_ids ls"
  "settled_ids (Opened i c # ls) = settled_ids ls" "settled_ids (Settled i r # ls) = i # settled_ids ls"
  by (simp_all add: opened_ids_def settled_ids_def)

definition answers :: "Response \<Rightarrow> Command \<Rightarrow> bool" where
  "answers r c \<longleftrightarrow> rsp_opcode r = Action_opcode (cmd_action c)"

definition matched :: "exchange list \<Rightarrow> bool" where
  "matched tr \<longleftrightarrow> (\<forall>k<length tr. \<forall>i r. tr ! k = Settled i r \<longrightarrow>
     (\<exists>c. Opened i c \<in> set (take k tr) \<and> answers r c))"

definition ledger :: "exchange list \<Rightarrow> ('h, 't) Session \<Rightarrow> bool" where
  "ledger tr s \<longleftrightarrow> sorted_wrt (<) (opened_ids tr) \<and> (\<forall>i\<in>set (opened_ids tr). spent s i)
     \<and> distinct (settled_ids tr) \<and> set (settled_ids tr) \<subseteq> set (opened_ids tr) \<and> matched tr
     \<and> map_len (ss_pending_requests s) \<le> MAX_PENDING_REQUESTS
     \<and> (\<forall>i cap. fmlookup (ss_pending_requests s) i = Some cap \<longrightarrow> i \<notin> set (settled_ids tr)
          \<and> cap AND ss_capabilities s = cap \<and> (\<exists>c. Opened i c \<in> set tr \<and> Command_capability c = cap))"

lemma opened_ids_mem: "i \<in> set (opened_ids tr) \<longleftrightarrow> (\<exists>c. Opened i c \<in> set tr)"
  by (induction tr) (auto simp: opened_ids_def split: exchange.splits)

lemma capability_answers:
  assumes "rsp_opcode r \<le> 22" "response_capability r = Command_capability c"
  shows "answers r c"
proof -
  have "unat (rsp_opcode r) < 64" using assms(1) by (simp add: word_le_nat_alt)
  moreover have "Action_opcode a \<le> 22" for a by (cases a) simp_all
  then have "unat (Action_opcode (cmd_action c)) \<le> 22" unfolding word_le_nat_alt by simp
  then have "unat (Action_opcode (cmd_action c)) < 64" by simp
  moreover have "bit (push_bit m (1 :: u64)) k \<longleftrightarrow> k = m" if "m < 64" for m k
    using that by (auto simp: bit_exp_iff)
  ultimately show ?thesis
    using assms(2) by (metis answers_def response_capability_def Command_capability_def word_unat_eq_iff)
qed

lemma matched_append: "matched tr \<Longrightarrow> matched (tr @ [Opened i c])"
  by (auto simp: matched_def nth_append less_Suc_eq)

lemma matched_settled: "matched tr \<Longrightarrow> Opened i c \<in> set tr \<Longrightarrow> answers r c \<Longrightarrow> matched (tr @ [Settled i r])"
  by (auto simp: matched_def nth_append less_Suc_eq)

lemma map_len_drop: "map_len (fmdrop i m) \<le> map_len m"
  by (auto simp: map_len_def intro: fcard_mono)

lemma ledger_advances:
  assumes l: "ledger tr s" and a: "advances s ls s'"
  shows "ledger (tr @ ls) s'"
proof -
  have sp: "\<And>j. spent s j \<Longrightarrow> spent s' j" and caps: "ss_capabilities s' = ss_capabilities s"
    using a by (simp_all add: advances_def)
  consider (quiet) "ls = []" "ss_pending_requests s' = ss_pending_requests s \<or> ss_pending_requests s' = fmempty"
    | (opens) i c where "ls = [Opened i c]" "opens s i c s'" | (settles) i r where "ls = [Settled i r]" "settles s i r s'"
    using a by (auto simp: advances_def)
  then show ?thesis
  proof cases
    case quiet
    with l sp caps show ?thesis by (auto simp: ledger_def)
  next
    case opens
    then have i: "\<forall>j\<in>set (opened_ids tr). j < i" "spent s' i" using l by (auto simp: ledger_def opens_def)
    then have "i \<notin> set (opened_ids tr)" by blast
    moreover have pend: "ss_pending_requests s' = fmupd i (Command_capability c) (ss_pending_requests s)"
      "map_len (ss_pending_requests s) < MAX_PENDING_REQUESTS" "Command_capability c AND ss_capabilities s = Command_capability c"
      using opens by (simp_all add: opens_def)
    then have "map_len (ss_pending_requests s') \<le> MAX_PENDING_REQUESTS" by (simp add: map_len_upd)
    moreover have "j \<notin> set (settled_ids tr) \<and> cap AND ss_capabilities s' = cap
        \<and> (\<exists>c. Opened j c \<in> set (tr @ ls) \<and> Command_capability c = cap)"
      if "fmlookup (ss_pending_requests s') j = Some cap" for j cap
    proof (cases "j = i")
      case True
      moreover have "i \<notin> set (settled_ids tr)" using \<open>i \<notin> set (opened_ids tr)\<close> l by (auto simp: ledger_def)
      ultimately show ?thesis using that pend caps opens(1) by auto
    next
      case False
      with that pend(1) have "fmlookup (ss_pending_requests s) j = Some cap" by simp
      with l caps show ?thesis unfolding ledger_def by (metis Un_iff set_append)
    qed
    ultimately show ?thesis
      using l opens(1) i sp matched_append [of tr i c] by (simp add: ledger_def sorted_wrt_append subset_insertI2)
  next
    case settles
    then have p: "fmlookup (ss_pending_requests s) i = Some (response_capability r)" "rsp_opcode r \<le> 22"
      by (simp_all add: settles_def)
    with l obtain c where c: "Opened i c \<in> set tr" "Command_capability c = response_capability r"
      "i \<notin> set (settled_ids tr)" unfolding ledger_def by blast
    with capability_answers [OF p(2)] have "matched (tr @ ls)" using l settles matched_settled by (simp add: ledger_def)
    moreover have "ss_pending_requests s' = fmdrop i (ss_pending_requests s)" using settles by (simp add: settles_def)
    moreover from this have "map_len (ss_pending_requests s') \<le> MAX_PENDING_REQUESTS"
      using l map_len_drop [of i "ss_pending_requests s"] by (simp add: ledger_def)
    moreover have "i \<in> set (opened_ids tr)" using c opened_ids_mem by blast
    ultimately show ?thesis
      using l settles(1) c(3) sp caps unfolding ledger_def by (simp split: if_splits)
  qed
qed

lemma run_ledger:
  assumes "session_run cr sn (fresh_session role caps ch) tr s"
  shows "ledger tr s \<and> ss_role s = role \<and> ss_capabilities s = caps"
  using assms
proof induction
  case run_refl
  show ?case by (simp add: ledger_def fresh_session_def matched_def)
next
  case (run_step tr t ls u)
  from session_step_advances [OF run_step.hyps(2)] have a: "advances t ls u" .
  with run_step.IH ledger_advances [OF _ a] show ?case by (simp add: advances_def)
qed

end
