(* ===== verification/Session_Closed.thy ===== *)
theory Session_Closed
  imports Session_Laws Codec_Props
begin

text \<open>
  Closed sessions (\<^verbatim>\<open>crates/openlock-protocol/src/lib.rs\<close>): on a session whose channel is closed every
  operation fails and leaves it closed, so nothing passes in any run from there.
\<close>

unbundle bit_operations_syntax

section \<open>Closed sessions\<close>

lemma closed_on_channel:
  assumes "closed s"
  shows "wp (on_channel (NoiseChannel_read sn p)) Q s =
      Q (Inl (if length p > MAX_MESSAGE_SIZE then ObjectTooLarge else InvalidState)) s"
    and "wp (on_channel (NoiseChannel_write sn p)) Q s =
      Q (Inl (if length p > MAX_MESSAGE_SIZE - 128 then ObjectTooLarge else InvalidState)) s"
  using assms by (simp_all add: wp_def on_channel_def closed_def closed_read closed_write)

lemma closed_transport: "closed s \<Longrightarrow> \<not> is_transport (ss_channel s)"
  by (simp add: closed_def is_transport_def)

lemma closed_update: "closed (s\<lparr>ss_started := b\<rparr>) = closed s" "closed (ss_started_update f s) = closed s"
  by (simp_all add: closed_def)

lemma closed_receive_inner: "closed s \<Longrightarrow> wp (receive_inner cr sn input) (\<lambda>r s'. \<not> is_ok r) s"
  by (auto simp: receive_inner_def receive_guards_def closed_on_channel closed_transport split: sum.split)

lemma closed_receive: "closed s \<Longrightarrow> wp (Session_receive cr sn input) (\<lambda>r s'. \<not> is_ok r \<and> closed s') s"
  using closed_receive_inner [of s cr sn input]
  by (auto simp: Session_receive_def closed_def Session_close_def NoiseChannel_close_def elim!: wp_mono split: sum.split)

lemma closed_step:
  assumes "session_step cr sn s ls s'" "closed s"
  shows "ls = [] \<and> closed s'"
  using assms(1)
proof cases
  case (step_start r)
  have "wp (Session_start cr sn) (\<lambda>r s'. closed s') s"
    using assms(2) by (auto simp: Session_start_def closed_on_channel closed_update)
  from wpD [OF this step_start(2)] step_start(1) show ?thesis by simp
next
  case (step_receive input r)
  from wpD [OF closed_receive [OF assms(2)] step_receive(2)] step_receive(1) show ?thesis by (cases r) auto
next
  case (step_send c r)
  have "wp (Session_send cr sn c) (\<lambda>r s'. \<not> is_ok r \<and> closed s') s"
    using assms(2) by (auto simp: Session_send_def can_send_def closed_transport split: sum.split)
  from wpD [OF this step_send(2)] step_send(1) show ?thesis by (cases r) auto
next
  case (step_respond i resp r)
  have "wp (Session_respond cr sn i resp) (\<lambda>r s'. \<not> is_ok r \<and> closed s') s"
    using assms(2) by (auto simp: Session_respond_def closed_transport split: sum.split)
  from wpD [OF this step_respond(2)] step_respond(1) show ?thesis by (cases r) auto
next
  case step_close
  then show ?thesis by (simp add: closed_def Session_close_def NoiseChannel_close_def)
qed

lemma closed_run: "session_run cr sn s tr t \<Longrightarrow> closed s \<Longrightarrow> tr = [] \<and> closed t"
  by (induction rule: session_run.induct) (auto dest: closed_step)

end
