(* ===== verification/Session_Exchange.thy ===== *)
theory Session_Exchange
  imports Session_Closed
begin

text \<open>
  Two ends of a session over a channel that keeps the promises of the Noise protocol: the
  handshake completes and names the two static keys, and every request and response passes
  through unchanged. The promises are named hypotheses over the record \<open>Snow\<close>, and a
  concrete channel shows that they can hold.
\<close>

unbundle bit_operations_syntax

section \<open>What the channel and the CBOR writer promise\<close>

text \<open>Two transport states in step (\<open>R\<close>): either end can encrypt a message that fits, the
  ciphertext is 16 bytes longer, the other end decrypts it, and both are in step again and
  remember the static key of their peer.\<close>

definition transport_pair :: "('h, 't) Snow \<Rightarrow> ('t \<Rightarrow> 't \<Rightarrow> bool) \<Rightarrow> bool" where
  "transport_pair sn R \<longleftrightarrow> (\<forall>a b. R a b \<longrightarrow> R b a) \<and>
     (\<forall>a b p. R a b \<and> length p \<le> MAX_MESSAGE_SIZE - 128 \<longrightarrow>
       (\<exists>ct a' b'. sn_t_write sn MAX_MESSAGE_SIZE p a = (Some ct, a') \<and> length ct = length p + 16
          \<and> sn_t_read sn MAX_MESSAGE_SIZE ct b = (Some p, b') \<and> R a' b'
          \<and> sn_t_remote sn a' = sn_t_remote sn a \<and> sn_t_remote sn b' = sn_t_remote sn b))"

text \<open>The length of a CBOR array that ends in a byte string depends on the length of that
  string only.\<close>

definition cbor_sized :: "Crypto \<Rightarrow> bool" where
  "cbor_sized cr \<longleftrightarrow> (\<forall>vs b b'. length b = length b' \<longrightarrow>
     map_option length (cr_into_writer cr (carray (vs @ [cbytes b])))
       = map_option length (cr_into_writer cr (carray (vs @ [cbytes b']))))"

section \<open>Packets\<close>

lemma Packet_validate_iff:
  "Packet_validate p = Inr u \<longleftrightarrow> pk_kind p \<le> KIND_RESPONSE \<and> pk_payload p \<noteq> []
     \<and> pk_capabilities p AND NOT KNOWN_CAPABILITIES = 0
     \<and> (if pk_kind p = KIND_HANDSHAKE then pk_request_id p = 0 \<and> pk_capabilities p = 0
         else pk_request_id p \<noteq> 0 \<and> pk_capabilities p \<noteq> 0)"
  by (auto simp: Packet_validate_def reject_if_def not_less)

lemma ucast_kind:
  "(ucast (KIND_RESPONSE) :: u32) < ucast (k :: u8) \<longleftrightarrow> KIND_RESPONSE < k" "ucast (ucast k :: u32) = k"
  by (simp_all add: word_less_nat_alt unat_ucast_up ucast_up_down)

lemma u32_value_kind [simp]: "u32_value (cuint (ucast (k :: u8))) = Inr (ucast k)"
proof -
  have "(ucast k :: u64) = ucast (ucast k :: u32)" by (simp add: word_unat_eq_iff unat_ucast_up)
  then show ?thesis by (simp only: u32_value_cuint)
qed

lemma decode_encode_packet:
  assumes "cbor_ok cr" "length (pk_payload p) < 2 ^ 64" "encode_packet cr p = Inr b"
  shows "decode_packet cr b = Inr p"
proof -
  from assms(3) have v: "Packet_validate p = Inr ()" and e: "encode_limit cr (packet_value p) MAX_MESSAGE_SIZE = Inr b"
    by (auto simp: encode_packet_def result_Inr_iffs)
  have "wire_value (packet_value p)" using assms(2) by (simp add: wire_value_def packet_value_def)
  moreover have "\<not> KIND_RESPONSE < pk_kind p" using v by (simp add: Packet_validate_iff not_less)
  ultimately show ?thesis
    using decode_encode_limit [OF assms(1) _ e] v
    by (cases p) (simp add: decode_packet_def packet_value_def ucast_kind Let_def)
qed

lemma encode_packet_sized:
  assumes "cbor_sized cr" "encode_packet cr p = Inr z" "length x = length (pk_payload p)"
  shows "\<exists>b. encode_packet cr (p\<lparr>pk_payload := x\<rparr>) = Inr b \<and> length b = length z"
proof -
  let ?vs = "[cuint PROTOCOL_VERSION, cuint PROFILE, cuint (ucast (pk_kind p)), cuint (ucast (pk_request_id p)),
    cuint (pk_capabilities p)]"
  from assms(2) have v: "Packet_validate p = Inr ()" and z: "cr_into_writer cr (carray (?vs @ [cbytes (pk_payload p)])) = Some z"
    "length z \<le> MAX_MESSAGE_SIZE"
    by (auto simp: encode_packet_def result_Inr_iffs encode_limit_Inr_iff packet_value_def)
  have "map_option length (cr_into_writer cr (carray (?vs @ [cbytes x])))
      = map_option length (cr_into_writer cr (carray (?vs @ [cbytes (pk_payload p)])))"
    using assms(1,3) unfolding cbor_sized_def by blast
  then obtain b where b: "cr_into_writer cr (carray (?vs @ [cbytes x])) = Some b" "length b = length z"
    unfolding z(1) by auto
  have "x = [] \<longleftrightarrow> pk_payload p = []" using assms(3) by auto
  then have "Packet_validate (p\<lparr>pk_payload := x\<rparr>) = Inr ()" using v by (simp add: Packet_validate_iff)
  with b z(2) show ?thesis by (simp add: encode_packet_def encode_limit_def packet_value_def)
qed

section \<open>A sealed message\<close>

definition sealed_packet :: "u8 \<Rightarrow> u32 \<Rightarrow> u64 \<Rightarrow> bytes \<Rightarrow> Packet" where
  "sealed_packet kind i caps payload =
     \<lparr>pk_kind = kind, pk_request_id = i, pk_capabilities = caps, pk_payload = payload\<rparr>"

lemma sealed_transfer:
  assumes ok: "cbor_ok cr" "cbor_sized cr" "transport_pair sn R" and R: "R a b" and v: "plain 14 v"
    and body: "cencode cr (authenticated_value kind i caps v) = Inr body" "length body \<le> MAX_MESSAGE_SIZE - 128"
    and z: "encode_packet cr (sealed_packet kind i caps (replicate (length body + 16) 0)) = Inr z"
  obtains ct a' b' packet where
    "sn_t_write sn MAX_MESSAGE_SIZE body a = (Some ct, a')" "sn_t_read sn MAX_MESSAGE_SIZE ct b = (Some body, b')"
    "length ct \<le> MAX_MESSAGE_SIZE" "R a' b'" "sn_t_remote sn a' = sn_t_remote sn a" "sn_t_remote sn b' = sn_t_remote sn b"
    "encode_packet cr (sealed_packet kind i caps ct) = Inr packet" "length packet = length z"
    "decode_packet cr packet = Inr (sealed_packet kind i caps ct)"
    "cdecode cr body = Inr (authenticated_value kind i caps v)"
proof -
  from ok(3) R body(2) obtain ct a' b' where c: "sn_t_write sn MAX_MESSAGE_SIZE body a = (Some ct, a')"
    "length ct = length body + 16" "sn_t_read sn MAX_MESSAGE_SIZE ct b = (Some body, b')" "R a' b'"
    "sn_t_remote sn a' = sn_t_remote sn a" "sn_t_remote sn b' = sn_t_remote sn b"
    unfolding transport_pair_def by metis
  from encode_packet_sized [OF ok(2) z, of ct] c(2) obtain packet where
    p: "encode_packet cr (sealed_packet kind i caps ct) = Inr packet" "length packet = length z"
    by (auto simp: sealed_packet_def)
  have len: "length ct \<le> MAX_MESSAGE_SIZE" using c(2) body(2) by (simp add: MAX_MESSAGE_SIZE_def)
  then have "decode_packet cr packet = Inr (sealed_packet kind i caps ct)"
    by (intro decode_encode_packet [OF ok(1) _ p(1)]) (simp add: sealed_packet_def MAX_MESSAGE_SIZE_def)
  moreover have "wire_value (authenticated_value kind i caps v)"
    using v by (simp add: wire_value_def authenticated_value_def)
  with cdecode_cencode [OF ok(1)] body(1) have "cdecode cr body = Inr (authenticated_value kind i caps v)" by blast
  ultimately show ?thesis using that c len p by blast
qed

section \<open>Requests and responses\<close>

text \<open>Two ends of a session in step, with the static keys that they know of each other.\<close>

definition in_step ::
  "Crypto \<Rightarrow> ('h, 't) Snow \<Rightarrow> ('t \<Rightarrow> 't \<Rightarrow> bool) \<Rightarrow> SubjectKey \<Rightarrow> SubjectKey \<Rightarrow> ('h, 't) Session \<Rightarrow> ('h, 't) Session \<Rightarrow> bool" where
  "in_step cr sn R client lock i r \<longleftrightarrow> (\<exists>a b. nc_state (ss_channel i) = NS_Transport a
     \<and> nc_state (ss_channel r) = NS_Transport b \<and> R a b)
     \<and> ss_role i = Initiator \<and> ss_role r = Responder \<and> ss_started i \<and> ss_started r
     \<and> Session_peer_static cr sn i = Inr lock \<and> Session_peer_static cr sn r = Inr client"

lemma peer_static_transport:
  assumes "nc_state (ss_channel s) = NS_Transport t" "nc_state (ss_channel s') = NS_Transport t'"
    "sn_t_remote sn t' = sn_t_remote sn t"
  shows "Session_peer_static cr sn s' = Session_peer_static cr sn s"
  using assms by (simp add: Session_peer_static_def NoiseChannel_peer_static_def)

lemma on_channel_write:
  assumes "nc_state (ss_channel s) = NS_Transport a" "length p \<le> MAX_MESSAGE_SIZE - 128"
    "sn_t_write sn MAX_MESSAGE_SIZE p a = (Some ct, a')"
  shows "on_channel (NoiseChannel_write sn p) s = (Inr ct, s\<lparr>ss_channel := (ss_channel s)\<lparr>nc_state := NS_Transport a'\<rparr>\<rparr>)"
  using assms by (simp add: on_channel_def write_transport)

lemma on_channel_read:
  assumes "nc_state (ss_channel s) = NS_Transport b" "length ct \<le> MAX_MESSAGE_SIZE"
    "sn_t_read sn MAX_MESSAGE_SIZE ct b = (Some p, b')"
  shows "on_channel (NoiseChannel_read sn ct) s = (Inr p, s\<lparr>ss_channel := (ss_channel s)\<lparr>nc_state := NS_Transport b'\<rparr>\<rparr>)"
  using assms by (simp add: on_channel_def read_transport)

lemma request_size_Inr:
  assumes "request_size cr s c = Inr n"
  obtains body z where "can_send c s"
    "cencode cr (authenticated_value KIND_REQUEST (ss_next_request s) (ss_capabilities s) (Command_value c)) = Inr body"
    "length body \<le> MAX_MESSAGE_SIZE - 128"
    "encode_packet cr (sealed_packet KIND_REQUEST (ss_next_request s) (ss_capabilities s) (replicate (length body + 16) 0)) = Inr z"
    "length z = n"
  using assms
  by (auto simp: request_size_def result_Inr_iffs sealed_packet_def not_less split: if_splits)

lemma receive_sealed_request:
  assumes "cdecode cr clear = Inr (authenticated_value KIND_REQUEST i caps (Command_value c))"
    and "Session_peer_static cr sn s = Inr peer" and "Command_wf c"
    and "Command_capability c AND caps = Command_capability c"
    and "Command_capability c AND ss_capabilities s = Command_capability c"
    and "map_len (ss_pending_requests s) < MAX_PENDING_REQUESTS"
  shows "receive_sealed cr sn (sealed_packet KIND_REQUEST i caps ct) clear s =
    (Inr ([Event_Request i c peer], None), s\<lparr>ss_last_request_id := i,
       ss_pending_requests := fmupd i (Command_capability c) (ss_pending_requests s)\<rparr>)"
proof -
  have "Command_parse (Command_value c) = Inr c" using assms(3) by (simp add: Command_parse_iff)
  with assms show ?thesis
    by (simp add: receive_sealed_def receive_request_def run_simps authenticated_value_def sealed_packet_def not_le)
qed

lemma checked_add_next: "n \<noteq> - 1 \<Longrightarrow> checked_add n (1 :: u32) = Some (n + 1)"
proof -
  assume "n \<noteq> - 1"
  then have "unat n \<noteq> unat (- 1 :: u32)" by (simp add: word_unat_eq_iff)
  moreover have "unat n < 2 ^ 32" using unsigned_less [of n, where 'a = nat] by simp
  moreover have "unat (- 1 :: u32) = 4294967295" by (simp add: unsigned_minus_1_eq_mask mask_eq_exp_minus_1)
  ultimately show ?thesis by (simp add: checked_add_def)
qed

lemma request_delivered:
  assumes ok: "cbor_ok cr" "cbor_sized cr" "transport_pair sn R" and step: "in_step cr sn R client lock i r"
    and wf: "Command_wf c" and fits: "Action_fits (cmd_action c)" and size: "request_size cr i c = Inr n"
    and ids: "ss_last_request_id r < ss_next_request i" "ss_next_request i \<noteq> - 1"
    and caps: "Command_capability c AND ss_capabilities r = Command_capability c"
    and room: "map_len (ss_pending_requests r) < MAX_PENDING_REQUESTS"
  obtains packet i' r' where
    "Session_send cr sn c i = (Inr (ss_next_request i, packet), i')" "length packet = n"
    "Session_receive cr sn packet r = (Inr ([Event_Request (ss_next_request i) c client], None), r')"
    "in_step cr sn R client lock i' r'"
    "fmlookup (ss_pending_requests i') (ss_next_request i) = Some (Command_capability c)"
    "fmlookup (ss_pending_requests r') (ss_next_request i) = Some (Command_capability c)"
    "ss_capabilities i' = ss_capabilities i" "ss_capabilities r' = ss_capabilities r"
    "ss_next_request i' = ss_next_request i + 1" "ss_last_request_id r' = ss_next_request i"
proof -
  let ?id = "ss_next_request i" and ?caps = "ss_capabilities i"
  from size obtain body z where can: "can_send c i"
    and body: "cencode cr (authenticated_value KIND_REQUEST ?id ?caps (Command_value c)) = Inr body"
      "length body \<le> MAX_MESSAGE_SIZE - 128"
    and z: "encode_packet cr (sealed_packet KIND_REQUEST ?id ?caps (replicate (length body + 16) 0)) = Inr z" "length z = n"
    by (rule request_size_Inr)
  from step obtain a b where ab: "nc_state (ss_channel i) = NS_Transport a" "nc_state (ss_channel r) = NS_Transport b" "R a b"
    and roles: "ss_role i = Initiator" "ss_role r = Responder" "ss_started i" "ss_started r"
    and peers: "Session_peer_static cr sn i = Inr lock" "Session_peer_static cr sn r = Inr client"
    by (auto simp: in_step_def)
  obtain ct a' b' packet where t: "sn_t_write sn MAX_MESSAGE_SIZE body a = (Some ct, a')"
    "sn_t_read sn MAX_MESSAGE_SIZE ct b = (Some body, b')" "length ct \<le> MAX_MESSAGE_SIZE" "R a' b'"
    "sn_t_remote sn a' = sn_t_remote sn a" "sn_t_remote sn b' = sn_t_remote sn b"
    "encode_packet cr (sealed_packet KIND_REQUEST ?id ?caps ct) = Inr packet" "length packet = length z"
    "decode_packet cr packet = Inr (sealed_packet KIND_REQUEST ?id ?caps ct)"
    "cdecode cr body = Inr (authenticated_value KIND_REQUEST ?id ?caps (Command_value c))"
    by (rule sealed_transfer [OF ok ab(3) command_plain [OF wf fits] body z(1)])
  let ?i = "i\<lparr>ss_next_request := ?id + 1, ss_channel := (ss_channel i)\<lparr>nc_state := NS_Transport a'\<rparr>,
    ss_pending_requests := fmupd ?id (Command_capability c) (ss_pending_requests i)\<rparr>"
  let ?r1 = "r\<lparr>ss_channel := (ss_channel r)\<lparr>nc_state := NS_Transport b'\<rparr>\<rparr>"
  let ?r = "?r1\<lparr>ss_last_request_id := ?id,
    ss_pending_requests := fmupd ?id (Command_capability c) (ss_pending_requests r)\<rparr>"
  have add: "checked_add ?id 1 = Some (?id + 1)" using ids(2) by (rule checked_add_next)
  have send: "Session_send cr sn c i = (Inr (?id, packet), ?i)"
    using on_channel_write [OF _ body(2) t(1)] ab(1) size can body(1) t(7) add
    by (simp add: Session_send_def run_simps sealed_packet_def Let_def)
  have peer: "Session_peer_static cr sn ?r1 = Inr client"
    using peer_static_transport [of r b ?r1 b' sn cr] ab(2) t(6) peers(2) by simp
  have "receive_sealed cr sn (sealed_packet KIND_REQUEST ?id ?caps ct) body ?r1 =
      (Inr ([Event_Request ?id c client], None), ?r)"
    using receive_sealed_request [OF t(10) peer wf] can caps room by (simp add: can_send_def)
  then have "receive_inner cr sn packet r = (Inr ([Event_Request ?id c client], None), ?r)"
    using t(9) on_channel_read [OF ab(2) t(3,2)] roles ab(2) ids(1)
    by (simp add: receive_inner_def receive_guards_def run_simps sealed_packet_def kind_defs is_transport_def not_le)
  then have recv: "Session_receive cr sn packet r = (Inr ([Event_Request ?id c client], None), ?r)"
    by (simp add: Session_receive_def run_simps)
  have "Session_peer_static cr sn ?i = Inr lock" "Session_peer_static cr sn ?r = Inr client"
    using peer_static_transport [of i a ?i a' sn cr] peer_static_transport [of r b ?r b' sn cr] ab t(5,6) peers by simp_all
  then have "in_step cr sn R client lock ?i ?r" using t(4) roles by (simp add: in_step_def)
  with send recv that [of packet ?i ?r] t(8) z(2) show ?thesis by simp
qed

lemma response_size_cases:
  assumes "response_size cr s i resp = Inr n"
  obtains body z where "validate_response resp = Inr ()" "fmlookup (ss_pending_requests s) i = Some (response_capability resp)"
    "cencode cr (authenticated_value KIND_RESPONSE i (ss_capabilities s) (Response_value resp)) = Inr body"
    "length body \<le> MAX_MESSAGE_SIZE - 128"
    "encode_packet cr (sealed_packet KIND_RESPONSE i (ss_capabilities s) (replicate (length body + 16) 0)) = Inr z"
    "length z = n"
  using assms
  by (auto simp: response_size_def result_Inr_iffs sealed_packet_def response_capability_def not_less split: if_splits)

lemma receive_sealed_response:
  assumes "cdecode cr clear = Inr (authenticated_value KIND_RESPONSE i caps (Response_value resp))"
    and "Session_peer_static cr sn s = Inr peer" and "Response_wf resp"
    and "fmlookup (ss_pending_requests s) i = Some (response_capability resp)"
    and "response_capability resp AND caps = response_capability resp"
  shows "receive_sealed cr sn (sealed_packet KIND_RESPONSE i caps ct) clear s =
    (Inr ([Event_Response i resp], None), s\<lparr>ss_pending_requests := fmdrop i (ss_pending_requests s)\<rparr>)"
proof -
  have "Response_parse (Response_value resp) = Inr resp" using assms(3) by (simp add: Response_parse_iff)
  moreover have "KIND_RESPONSE \<noteq> KIND_REQUEST" by (simp add: kind_defs)
  ultimately show ?thesis using assms
    by (simp add: receive_sealed_def receive_response_def run_simps authenticated_value_def sealed_packet_def
        get_or_def Let_def)
qed

lemma capability_nonzero: "rsp_opcode r \<le> 22 \<Longrightarrow> response_capability r \<noteq> 0"
proof -
  assume "rsp_opcode r \<le> 22"
  then have "unat (rsp_opcode r) < 64" by (simp add: word_le_nat_alt)
  then have "bit (response_capability r) (unat (rsp_opcode r))" by (simp add: response_capability_def bit_exp_iff)
  then show ?thesis by auto
qed

lemma response_delivered:
  assumes ok: "cbor_ok cr" "cbor_sized cr" "transport_pair sn R" and step: "in_step cr sn R client lock i r"
    and wf: "Response_wf resp" and size: "response_size cr r q resp = Inr n"
    and pending: "fmlookup (ss_pending_requests i) q = Some (response_capability resp)"
    and caps: "response_capability resp AND ss_capabilities r = response_capability resp"
  obtains packet i' r' where
    "Session_respond cr sn q resp r = (Inr packet, r')" "length packet = n"
    "Session_receive cr sn packet i = (Inr ([Event_Response q resp], None), i')"
    "in_step cr sn R client lock i' r'"
proof -
  let ?caps = "ss_capabilities r"
  from size obtain body z where valid: "validate_response resp = Inr ()"
    and look: "fmlookup (ss_pending_requests r) q = Some (response_capability resp)"
    and body: "cencode cr (authenticated_value KIND_RESPONSE q ?caps (Response_value resp)) = Inr body"
      "length body \<le> MAX_MESSAGE_SIZE - 128"
    and z: "encode_packet cr (sealed_packet KIND_RESPONSE q ?caps (replicate (length body + 16) 0)) = Inr z" "length z = n"
    by (rule response_size_cases)
  from step obtain a b where ab: "nc_state (ss_channel i) = NS_Transport a" "nc_state (ss_channel r) = NS_Transport b" "R a b"
    and roles: "ss_role i = Initiator" "ss_role r = Responder" "ss_started i" "ss_started r"
    and peers: "Session_peer_static cr sn i = Inr lock" "Session_peer_static cr sn r = Inr client"
    by (auto simp: in_step_def)
  from ok(3) ab(3) have "R b a" by (simp add: transport_pair_def)
  then obtain ct b' a' packet where t: "sn_t_write sn MAX_MESSAGE_SIZE body b = (Some ct, b')"
    "sn_t_read sn MAX_MESSAGE_SIZE ct a = (Some body, a')" "length ct \<le> MAX_MESSAGE_SIZE" "R b' a'"
    "sn_t_remote sn b' = sn_t_remote sn b" "sn_t_remote sn a' = sn_t_remote sn a"
    "encode_packet cr (sealed_packet KIND_RESPONSE q ?caps ct) = Inr packet" "length packet = length z"
    "decode_packet cr packet = Inr (sealed_packet KIND_RESPONSE q ?caps ct)"
    "cdecode cr body = Inr (authenticated_value KIND_RESPONSE q ?caps (Response_value resp))"
    by (rule sealed_transfer [OF ok _ response_plain [OF wf] body z(1)])
  let ?r = "r\<lparr>ss_channel := (ss_channel r)\<lparr>nc_state := NS_Transport b'\<rparr>,
    ss_pending_requests := fmdrop q (ss_pending_requests r)\<rparr>"
  let ?i1 = "i\<lparr>ss_channel := (ss_channel i)\<lparr>nc_state := NS_Transport a'\<rparr>\<rparr>"
  let ?i = "?i1\<lparr>ss_pending_requests := fmdrop q (ss_pending_requests i)\<rparr>"
  have "response_capability resp \<noteq> 0"
    using response_size_Inr [OF size] capability_nonzero by blast
  then have send: "Session_respond cr sn q resp r = (Inr packet, ?r)"
    using on_channel_write [OF ab(2) body(2) t(1)] size roles(2) ab(2) look caps body(1) t(7)
    by (simp add: Session_respond_def run_simps sealed_packet_def is_transport_def get_or_def Let_def)
  have peer: "Session_peer_static cr sn ?i1 = Inr lock"
    using peer_static_transport [of i a ?i1 a' sn cr] ab(1) t(6) peers(1) by simp
  have "receive_sealed cr sn (sealed_packet KIND_RESPONSE q ?caps ct) body ?i1 =
      (Inr ([Event_Response q resp], None), ?i)"
    using receive_sealed_response [OF t(10) peer wf] pending caps by simp
  then have "receive_inner cr sn packet i = (Inr ([Event_Response q resp], None), ?i)"
    using t(9) on_channel_read [OF ab(1) t(3,2)] roles ab(1) pending
    by (simp add: receive_inner_def receive_guards_def run_simps sealed_packet_def kind_defs is_transport_def)
  then have recv: "Session_receive cr sn packet i = (Inr ([Event_Response q resp], None), ?i)"
    by (simp add: Session_receive_def run_simps)
  have "Session_peer_static cr sn ?i = Inr lock" "Session_peer_static cr sn ?r = Inr client"
    using peer_static_transport [of i a ?i a' sn cr] peer_static_transport [of r b ?r b' sn cr] ab t(5,6) peers by simp_all
  moreover have "R a' b'" using t(4) ok(3) by (simp add: transport_pair_def)
  ultimately have "in_step cr sn R client lock ?i ?r" using roles by (simp add: in_step_def)
  with send recv that [of packet ?r ?i] t(8) z(2) show ?thesis by simp
qed

end
