(* ===== verification/Session_Props.thy ===== *)
theory Session_Props
  imports Session_Exchange
begin

text \<open>
  Properties of the session protocol (\<^verbatim>\<open>crates/openlock-protocol/src/lib.rs\<close>): over every run, requests
  and responses match one to one and in order; a session that failed to receive is closed
  for good; and over a channel that does what the Noise protocol promises, the handshake
  of two fresh sessions completes, and then every request is delivered and every response
  to it comes back. A concrete channel and two concrete sessions show that it does happen.
\<close>

unbundle bit_operations_syntax

section \<open>A concrete channel\<close>

text \<open>A channel without secrecy that does what the contracts ask for: the first handshake message
  carries the static key of the initiator, and a ciphertext is the message and 16 bytes.\<close>

type_synonym ex_handshake = "bytes \<times> bytes option \<times> nat"

definition ex_snow :: "(ex_handshake, bytes) Snow" where
  "ex_snow = \<lparr>sn_build = (\<lambda>suite prologue private peer. Some (private, peer, 0)),
     sn_h_write = (\<lambda>n p (own, peer, stage).
       (Some (if stage = 0 then own @ replicate 64 0 else replicate 48 0), (own, peer, Suc stage))),
     sn_h_read = (\<lambda>n m (own, peer, stage).
       (Some [], (own, if stage = 0 then Some (take 32 m) else peer, Suc stage))),
     sn_h_finished = (\<lambda>(own, peer, stage). stage = 2),
     sn_h_remote = (\<lambda>(own, peer, stage). peer),
     sn_into_transport = (\<lambda>(own, peer, stage). peer),
     sn_t_write = (\<lambda>n p t. (Some (p @ replicate 16 0), t)),
     sn_t_read = (\<lambda>n m t. (Some (take (length m - 16) m), t)),
     sn_t_remote = Some\<rparr>"

lemma ex_transport_pair: "transport_pair ex_snow (\<lambda>a b. True)"
  by (simp add: transport_pair_def ex_snow_def)

lemma ex_cbor_sized: "cbor_sized ex_crypto"
  by (simp add: cbor_sized_def ex_crypto_def into_writer_def carray_def cbytes_def)

definition ex_client :: "(ex_handshake, bytes) Session" where
  "ex_client = (fresh_session Initiator KNOWN_CAPABILITIES \<lparr>nc_state = NS_Transport (replicate 32 2)\<rparr>)\<lparr>ss_started := True\<rparr>"

definition ex_server :: "(ex_handshake, bytes) Session" where
  "ex_server = (fresh_session Responder KNOWN_CAPABILITIES \<lparr>nc_state = NS_Transport (replicate 32 1)\<rparr>)\<lparr>ss_started := True\<rparr>"

lemma ex_in_step:
  "in_step ex_crypto ex_snow (\<lambda>a b. True) (SubjectKey (replicate 32 1)) (SubjectKey (replicate 32 2)) ex_client ex_server"
  by (simp add: in_step_def ex_client_def ex_server_def fresh_session_def Session_peer_static_def
      NoiseChannel_peer_static_def ex_snow_def validate_public_def replicate_eq_replicate)

lemma ex_unlock_wf: "Command_wf ex_unlock"
  using ex_credential_length ex_credential_nonempty
  by (simp add: Command_wf_def Action_wf_def Command_validate_def MAX_OBJECT_SIZE_def credentialless_def Action_mutates_def)

lemma ex_sealed_size:
  assumes "value_size v \<le> 900" "kind = KIND_REQUEST \<or> kind = KIND_RESPONSE"
  obtains body z where "cencode ex_crypto (authenticated_value kind 1 KNOWN_CAPABILITIES v) = Inr body"
    "length body \<le> MAX_MESSAGE_SIZE - 128"
    "encode_packet ex_crypto (sealed_packet kind 1 KNOWN_CAPABILITIES (replicate (length body + 16) 0)) = Inr z"
proof -
  let ?v = "authenticated_value kind 1 KNOWN_CAPABILITIES v"
  have size: "value_size ?v \<le> 1000" using assms(1) by (simp add: authenticated_value_def)
  then have body: "cencode ex_crypto ?v = Inr (put_value ?v)" "length (put_value ?v) \<le> 1000"
    using ex_cencode [of ?v] length_put_value [of ?v] by simp_all
  let ?p = "sealed_packet kind 1 KNOWN_CAPABILITIES (replicate (length (put_value ?v) + 16) 0)"
  have "value_size (packet_value ?p) \<le> 4096"
    using body(2) by (simp add: packet_value_def sealed_packet_def)
  with ex_cencode obtain z where "encode_limit ex_crypto (packet_value ?p) MAX_MESSAGE_SIZE = Inr z"
    by (auto simp: cencode_def MAX_OBJECT_SIZE_def MAX_MESSAGE_SIZE_def)
  moreover have "Packet_validate ?p = Inr ()"
    using assms(2) by (auto simp: Packet_validate_iff sealed_packet_def kind_defs KNOWN_CAPABILITIES_def)
  ultimately show ?thesis using that body by (simp add: encode_packet_def MAX_MESSAGE_SIZE_def)
qed

lemma ex_request_size:
  assumes "can_send ex_unlock s" "ss_next_request s = 1" "ss_capabilities s = KNOWN_CAPABILITIES"
  obtains n where "request_size ex_crypto s ex_unlock = Inr n"
proof -
  have "value_size (Command_value ex_unlock) \<le> 900"
    using ex_credential_length
    by (simp add: Command_value_def Action_value_def Action_args_def Option_value_def U64_value_def U8_value_def)
  then obtain body z where
    "cencode ex_crypto (authenticated_value KIND_REQUEST 1 KNOWN_CAPABILITIES (Command_value ex_unlock)) = Inr body"
    "length body \<le> MAX_MESSAGE_SIZE - 128"
    "encode_packet ex_crypto (sealed_packet KIND_REQUEST 1 KNOWN_CAPABILITIES (replicate (length body + 16) 0)) = Inr z"
    by (rule ex_sealed_size [where kind = KIND_REQUEST]) simp
  moreover have "Command_validate ex_unlock = Inr ()" "Command_parse (Command_value ex_unlock) = Inr ex_unlock"
    using ex_unlock_wf by (simp_all add: Command_parse_iff Command_wf_def)
  ultimately show ?thesis
    using assms that by (simp add: request_size_def validate_command_def sealed_packet_def)
qed

definition ex_refusal :: Response where "ex_refusal = Response_rejected Unlock Expired"

lemma ex_refusal_wf: "Response_wf ex_refusal"
  by (simp add: ex_refusal_def Response_wf_def validate_response_def Response_rejected_def Action_opcode_def)

lemma ex_response_size:
  assumes "ss_role s = Responder" "fmlookup (ss_pending_requests s) 1 = Some (Command_capability ex_unlock)"
    "ss_capabilities s = KNOWN_CAPABILITIES"
  obtains n where "response_size ex_crypto s 1 ex_refusal = Inr n"
proof -
  have "value_size (Response_value ex_refusal) \<le> 900"
    by (simp add: ex_refusal_def Response_value_def Response_rejected_def U8_value_def U32_value_def)
  then obtain body z where
    "cencode ex_crypto (authenticated_value KIND_RESPONSE 1 KNOWN_CAPABILITIES (Response_value ex_refusal)) = Inr body"
    "length body \<le> MAX_MESSAGE_SIZE - 128"
    "encode_packet ex_crypto (sealed_packet KIND_RESPONSE 1 KNOWN_CAPABILITIES (replicate (length body + 16) 0)) = Inr z"
    by (rule ex_sealed_size [where kind = KIND_RESPONSE]) simp
  moreover have "validate_response ex_refusal = Inr ()" using ex_refusal_wf by (simp add: Response_wf_def)
  moreover have "rsp_opcode ex_refusal = Action_opcode Unlock" by (simp add: ex_refusal_def Response_rejected_def)
  ultimately show ?thesis
    using assms that by (simp add: response_size_def sealed_packet_def Command_capability_def)
qed

lemma ex_can_send: "can_send ex_unlock ex_client"
  by (simp add: can_send_def ex_client_def fresh_session_def is_transport_def MAX_PENDING_REQUESTS_def
      Command_capability_def KNOWN_CAPABILITIES_def Action_opcode_def)

lemma ex_exchange:
  obtains packet i r answer i' r' where
    "Session_send ex_crypto ex_snow ex_unlock ex_client = (Inr (1, packet), i)"
    "Session_receive ex_crypto ex_snow packet ex_server = (Inr ([Event_Request 1 ex_unlock (SubjectKey (replicate 32 1))], None), r)"
    "Session_respond ex_crypto ex_snow 1 ex_refusal r = (Inr answer, r')"
    "Session_receive ex_crypto ex_snow answer i = (Inr ([Event_Response 1 ex_refusal], None), i')"
proof -
  note ok = ex_crypto_cbor_ok ex_cbor_sized ex_transport_pair
  have caps: "Command_capability ex_unlock AND KNOWN_CAPABILITIES = Command_capability ex_unlock"
    "response_capability ex_refusal = Command_capability ex_unlock"
    by (simp_all add: Command_capability_def response_capability_def ex_refusal_def Response_rejected_def
        KNOWN_CAPABILITIES_def Action_opcode_def)
  obtain n where n: "request_size ex_crypto ex_client ex_unlock = Inr n"
    by (rule ex_request_size [OF ex_can_send]) (simp_all add: ex_client_def fresh_session_def)
  obtain packet i r where s: "Session_send ex_crypto ex_snow ex_unlock ex_client = (Inr (1, packet), i)"
    "Session_receive ex_crypto ex_snow packet ex_server = (Inr ([Event_Request 1 ex_unlock (SubjectKey (replicate 32 1))], None), r)"
    and step: "in_step ex_crypto ex_snow (\<lambda>a b. True) (SubjectKey (replicate 32 1)) (SubjectKey (replicate 32 2)) i r"
    and look: "fmlookup (ss_pending_requests i) 1 = Some (Command_capability ex_unlock)"
      "fmlookup (ss_pending_requests r) 1 = Some (Command_capability ex_unlock)" "ss_capabilities r = KNOWN_CAPABILITIES"
    by (rule request_delivered [OF ok ex_in_step ex_unlock_wf _ n])
      (auto simp: ex_client_def ex_server_def fresh_session_def caps MAX_PENDING_REQUESTS_def Action_fits_def)
  obtain k where k: "response_size ex_crypto r 1 ex_refusal = Inr k"
    using step by (elim ex_response_size [rotated, OF look(2,3)]) (simp add: in_step_def)
  obtain answer i' r' where "Session_respond ex_crypto ex_snow 1 ex_refusal r = (Inr answer, r')"
    "Session_receive ex_crypto ex_snow answer i = (Inr ([Event_Response 1 ex_refusal], None), i')"
    by (rule response_delivered [OF ok step ex_refusal_wf k]) (use look caps in simp_all)
  with s that show ?thesis by blast
qed

lemma ex_start:
  "session_step ex_crypto ex_snow (fresh_session Initiator KNOWN_CAPABILITIES \<lparr>nc_state = NS_Transport (replicate 32 2)\<rparr>)
     [] ex_client"
proof -
  have "snd (Session_start ex_crypto ex_snow (fresh_session Initiator KNOWN_CAPABILITIES
      \<lparr>nc_state = NS_Transport (replicate 32 2)\<rparr>)) = ex_client"
    by (simp add: Session_start_def run_simps fresh_session_def on_channel_def write_transport ex_snow_def
        ex_client_def split: sum.split)
  then show ?thesis by (metis step_start surjective_pairing)
qed

section \<open>Runs of a session\<close>

text \<open>C35. Failing closed: when a session fails to receive, its channel is closed and it forgets
  its pending requests; whatever is called afterwards, no request and no response ever
  passes again.\<close>

theorem receive_failure_final:
  assumes "Session_receive cr sn input s = (Inl e, s')" and "session_run cr sn s' tr t"
  shows "closed s' \<and> tr = [] \<and> closed t"
  using wpD [OF Session_receive_wp assms(1)] closed_run [OF assms(2)] by simp

theorem receive_failure_final_witness:
  "closed (snd (Session_start ex_crypto ex_snow (snd (Session_receive ex_crypto ex_snow [] ex_client))))"
proof -
  have "decode_packet ex_crypto [] = Inl InvalidPayload"
    by (simp add: decode_packet_def decode_limit_def ex_crypto_def from_reader_def read_head_def)
  then obtain e where "Session_receive ex_crypto ex_snow [] ex_client
      = (Inl e, snd (Session_receive ex_crypto ex_snow [] ex_client))"
    by (simp add: Session_receive_def receive_inner_def run_simps)
  moreover have "session_step cr sn s [] (snd (Session_start cr sn s))" for cr sn s
    by (metis step_start surjective_pairing)
  ultimately show ?thesis using receive_failure_final run_step [OF run_refl] by fastforce
qed

text \<open>C36. Exchanges: over every run of either end of a session, request numbers are strictly
  increasing, so no request is delivered twice or out of order; every response that is sent
  or delivered answers an earlier request with the same number and operation, and no
  request has two responses; and at most 1024 requests are pending.\<close>

theorem session_exchanges:
  assumes "session_run cr sn (fresh_session role caps ch) tr s"
  shows "sorted_wrt (<) (opened_ids tr) \<and> distinct (settled_ids tr) \<and> matched tr
    \<and> map_len (ss_pending_requests s) \<le> MAX_PENDING_REQUESTS"
  using run_ledger [OF assms] by (simp add: ledger_def)

theorem session_exchanges_witness:
  "\<exists>s. session_run ex_crypto ex_snow (fresh_session Initiator KNOWN_CAPABILITIES \<lparr>nc_state = NS_Transport (replicate 32 2)\<rparr>)
      [Opened 1 ex_unlock, Settled 1 ex_refusal] s
    \<and> matched [Opened 1 ex_unlock, Settled 1 ex_refusal] \<and> map_len (ss_pending_requests s) \<le> MAX_PENDING_REQUESTS"
proof -
  let ?f = "fresh_session Initiator KNOWN_CAPABILITIES \<lparr>nc_state = NS_Transport (replicate 32 2)\<rparr>"
  obtain packet i answer i' where "Session_send ex_crypto ex_snow ex_unlock ex_client = (Inr (1, packet), i)"
    "Session_receive ex_crypto ex_snow answer i = (Inr ([Event_Response 1 ex_refusal], None), i')"
    by (rule ex_exchange)
  then have "session_step ex_crypto ex_snow ex_client [Opened 1 ex_unlock] i"
    "session_step ex_crypto ex_snow i [Settled 1 ex_refusal] i'"
    using step_send [of ex_crypto ex_snow ex_unlock ex_client] step_receive [of ex_crypto ex_snow answer i] by fastforce+
  then have "session_run ex_crypto ex_snow ?f ((([] @ []) @ [Opened 1 ex_unlock]) @ [Settled 1 ex_refusal]) i'"
    using ex_start by (blast intro: run_step run_refl)
  with session_exchanges [of ex_crypto ex_snow Initiator] show ?thesis by auto
qed

section \<open>The handshake\<close>

text \<open>The pattern IK of the Noise protocol with empty payloads: a message of 96 bytes, an answer
  of 48 bytes; both ends then know the static key of the other and are in step.\<close>

definition noise_ik :: "Crypto \<Rightarrow> ('h, 't) Snow \<Rightarrow> ('t \<Rightarrow> 't \<Rightarrow> bool) \<Rightarrow> bool" where
  "noise_ik cr sn R \<longleftrightarrow> (\<forall>ki kr. length (static_public cr ki) = 32 \<and> length (static_public cr kr) = 32 \<longrightarrow>
     (\<exists>hi hr m1 hi1 hr1 m2 hr2 hi2 a b.
       sn_build sn NOISE_SUITE PROLOGUE ki (Some (static_public cr kr)) = Some hi
     \<and> sn_build sn NOISE_SUITE PROLOGUE kr None = Some hr
     \<and> sn_h_write sn MAX_MESSAGE_SIZE [] hi = (Some m1, hi1) \<and> length m1 = 96 \<and> \<not> sn_h_finished sn hi1
     \<and> sn_h_read sn MAX_MESSAGE_SIZE m1 hr = (Some [], hr1) \<and> \<not> sn_h_finished sn hr1
     \<and> sn_h_write sn MAX_MESSAGE_SIZE [] hr1 = (Some m2, hr2) \<and> length m2 = 48 \<and> sn_h_finished sn hr2
     \<and> sn_into_transport sn hr2 = Some b \<and> sn_t_remote sn b = Some (static_public cr ki)
     \<and> sn_h_read sn MAX_MESSAGE_SIZE m2 hi1 = (Some [], hi2) \<and> sn_h_finished sn hi2
     \<and> sn_into_transport sn hi2 = Some a \<and> sn_t_remote sn a = Some (static_public cr kr)
     \<and> R a b))"

text \<open>A CBOR head takes at most nine bytes.\<close>

definition cbor_small :: "Crypto \<Rightarrow> bool" where
  "cbor_small cr \<longleftrightarrow> (\<forall>v b. wire_value v \<and> cr_into_writer cr v = Some b \<longrightarrow> length b \<le> value_size v)"

lemma handshake_packet_encodes:
  assumes "cbor_ok cr" "cbor_small cr" "payload \<noteq> []" "length payload \<le> 96"
  obtains b where "encode_packet cr (handshake_packet payload) = Inr b"
    "decode_packet cr b = Inr (handshake_packet payload)"
proof -
  let ?v = "packet_value (handshake_packet payload)"
  have v: "wire_value ?v" using assms(4) by (simp add: wire_value_def packet_value_def handshake_packet_def)
  with assms(1) obtain b where b: "cr_into_writer cr ?v = Some b" by (auto simp: cbor_ok_def)
  with v assms(2) have "length b \<le> value_size ?v" by (simp add: cbor_small_def)
  also have "\<dots> \<le> MAX_MESSAGE_SIZE"
    using assms(4) by (simp add: packet_value_def handshake_packet_def MAX_MESSAGE_SIZE_def)
  finally have e: "encode_packet cr (handshake_packet payload) = Inr b"
    using b assms(3)
    by (simp add: encode_packet_def encode_limit_def Packet_validate_def handshake_packet_def kind_defs)
  moreover have "length (pk_payload (handshake_packet payload)) < 2 ^ 64" using assms(4) by (simp add: handshake_packet_def)
  ultimately show ?thesis using that decode_encode_packet [OF assms(1)] by blast
qed

lemma new_session:
  assumes "Session_initiator cr sn ki (static_public cr kr) caps = Inr i"
    "sn_build sn NOISE_SUITE PROLOGUE ki (Some (static_public cr kr)) = Some hi"
  shows "i = fresh_session Initiator caps \<lparr>nc_state = NS_Handshake hi\<rparr>"
    and "validate_public cr (static_public cr kr) = Inr ()"
  using assms
  by (auto simp: Session_initiator_def NoiseChannel_initiator_def NoiseChannel_new_def result_Inr_iffs split: if_splits)

lemma new_responder:
  assumes "Session_responder sn kr caps = Inr r" "sn_build sn NOISE_SUITE PROLOGUE kr None = Some hr"
  shows "r = fresh_session Responder caps \<lparr>nc_state = NS_Handshake hr\<rparr>"
  using assms
  by (auto simp: Session_responder_def NoiseChannel_responder_def NoiseChannel_new_def result_Inr_iffs split: if_splits)

lemma fresh_fields [simp]:
  "ss_role (fresh_session role caps ch) = role" "ss_started (fresh_session role caps ch) = False"
  "ss_channel (fresh_session role caps ch) = ch" "ss_pending_requests (fresh_session role caps ch) = fmempty"
  "ss_next_request (fresh_session role caps ch) = 1" "ss_last_request_id (fresh_session role caps ch) = 0"
  "ss_capabilities (fresh_session role caps ch) = caps"
  by (simp_all add: fresh_session_def)

text \<open>The handshake completes: an initiator that knows the public key of the responder
  starts, the responder answers, and both report a completed handshake with the static key
  of the other; they are then in step and have no request pending.\<close>

lemma handshake_completes:
  assumes "cbor_ok cr" and "cbor_small cr" and "noise_ik cr sn R"
    and "length (static_public cr ki) = 32" and "length (static_public cr kr) = 32"
    and "validate_public cr (static_public cr ki) = Inr ()"
    and "Session_initiator cr sn ki (static_public cr kr) ci = Inr i" and "Session_responder sn kr c = Inr r"
  shows "\<exists>p1 i1 p2 r1 i2. Session_start cr sn i = (Inr p1, i1)
    \<and> Session_receive cr sn p1 r = (Inr ([HandshakeComplete (SubjectKey (static_public cr ki))], Some p2), r1)
    \<and> Session_receive cr sn p2 i1 = (Inr ([HandshakeComplete (SubjectKey (static_public cr kr))], None), i2)
    \<and> in_step cr sn R (SubjectKey (static_public cr ki)) (SubjectKey (static_public cr kr)) i2 r1
    \<and> book i2 = book i \<and> book r1 = book r"
proof -
  from assms(3) [unfolded noise_ik_def, rule_format, OF conjI [OF assms(4,5)]] obtain hi hr m1 hi1 hr1 m2 hr2 hi2 a b where
    h: "sn_build sn NOISE_SUITE PROLOGUE ki (Some (static_public cr kr)) = Some hi"
       "sn_build sn NOISE_SUITE PROLOGUE kr None = Some hr"
    and w1: "sn_h_write sn MAX_MESSAGE_SIZE [] hi = (Some m1, hi1)" "length m1 = 96" "\<not> sn_h_finished sn hi1"
    and d1: "sn_h_read sn MAX_MESSAGE_SIZE m1 hr = (Some [], hr1)" "\<not> sn_h_finished sn hr1"
    and w2: "sn_h_write sn MAX_MESSAGE_SIZE [] hr1 = (Some m2, hr2)" "length m2 = 48" "sn_h_finished sn hr2"
      "sn_into_transport sn hr2 = Some b" "sn_t_remote sn b = Some (static_public cr ki)"
    and d2: "sn_h_read sn MAX_MESSAGE_SIZE m2 hi1 = (Some [], hi2)" "sn_h_finished sn hi2"
      "sn_into_transport sn hi2 = Some a" "sn_t_remote sn a = Some (static_public cr kr)" "R a b"
    by (elim exE conjE) (rule that)
  note i = new_session [OF assms(7) h(1)] and r = new_responder [OF assms(8) h(2)]
  have max: "length m1 \<le> MAX_MESSAGE_SIZE" "length m2 \<le> MAX_MESSAGE_SIZE" "length ([] :: bytes) \<le> MAX_MESSAGE_SIZE - 128"
    using w1(2) w2(2) by (simp_all add: MAX_MESSAGE_SIZE_def)
  have "m1 \<noteq> []" "m2 \<noteq> []" using w1(2) w2(2) by auto
  moreover have "length m1 \<le> 96" "length m2 \<le> 96" using w1(2) w2(2) by simp_all
  ultimately obtain p1 p2 where p: "encode_packet cr (handshake_packet m1) = Inr p1" "decode_packet cr p1 = Inr (handshake_packet m1)"
    "encode_packet cr (handshake_packet m2) = Inr p2" "decode_packet cr p2 = Inr (handshake_packet m2)"
    using handshake_packet_encodes [OF assms(1,2)] by metis
  let ?i1 = "i\<lparr>ss_started := True, ss_channel := \<lparr>nc_state = NS_Handshake hi1\<rparr>\<rparr>"
  let ?i2 = "?i1\<lparr>ss_channel := \<lparr>nc_state = NS_Transport a\<rparr>\<rparr>"
  let ?r1 = "r\<lparr>ss_started := True, ss_channel := \<lparr>nc_state = NS_Transport b\<rparr>\<rparr>"
  have start: "Session_start cr sn i = (Inr p1, ?i1)"
    using write_handshake [OF _ max(3) w1(1), of "\<lparr>nc_state = NS_Handshake hi\<rparr>"] w1(3) p(1)
    by (simp add: Session_start_def run_simps i(1) on_channel_def)
  have keys: "NoiseChannel_peer_static cr sn \<lparr>nc_state = NS_Transport a\<rparr> = Inr (SubjectKey (static_public cr kr))"
    "NoiseChannel_peer_static cr sn \<lparr>nc_state = NS_Transport b\<rparr> = Inr (SubjectKey (static_public cr ki))"
    using d2(4) w2(5) assms(4-6) i(2) by (simp_all add: NoiseChannel_peer_static_def)
  have "receive_inner cr sn p1 r = (Inr ([HandshakeComplete (SubjectKey (static_public cr ki))], Some p2), ?r1)"
    using p(2,3) read_handshake [OF _ max(1) d1(1), of "\<lparr>nc_state = NS_Handshake hr\<rparr>"] d1(2)
      write_handshake [OF _ max(3) w2(1), of "\<lparr>nc_state = NS_Handshake hr1\<rparr>"] w2(3,4) keys(2)
    by (simp add: receive_inner_def receive_guards_def receive_handshake_def run_simps r on_channel_def
        handshake_packet_def kind_defs is_transport_def Session_peer_static_def)
  moreover have "receive_inner cr sn p2 ?i1 = (Inr ([HandshakeComplete (SubjectKey (static_public cr kr))], None), ?i2)"
    using p(4) read_handshake [OF _ max(2) d2(1), of "\<lparr>nc_state = NS_Handshake hi1\<rparr>"] d2(2,3) keys(1)
    by (simp add: receive_inner_def receive_guards_def receive_handshake_def run_simps i(1) on_channel_def
        handshake_packet_def kind_defs is_transport_def Session_peer_static_def)
  moreover have "in_step cr sn R (SubjectKey (static_public cr ki)) (SubjectKey (static_public cr kr)) ?i2 ?r1"
    using keys d2(5) by (simp add: in_step_def i(1) r Session_peer_static_def)
  moreover have "book ?i2 = book i" "book ?r1 = book r" by (simp_all add: book_def)
  ultimately show ?thesis using start unfolding Session_receive_def by (auto simp: run_simps)
qed

lemma ex_noise_ik: "noise_ik ex_crypto ex_snow (\<lambda>a b. True)"
  by (simp add: noise_ik_def ex_snow_def static_public_def ex_crypto_def)

lemma ex_cbor_small: "cbor_small ex_crypto"
  using length_put_value by (auto simp: cbor_small_def ex_crypto_def into_writer_def)

section \<open>An exchange\<close>

text \<open>Every exchange completes: over sessions in step, a well-formed command whose size was
  computed and that both ends support is sent with that size and delivered unchanged with
  the client's key, and it is then pending at the responder; every well-formed response whose size the responder computes for it
  is sent with that size and delivered unchanged to the client. The ends stay in step.\<close>

lemma exchange_completes:
  assumes "cbor_ok cr" and "cbor_sized cr" and "transport_pair sn R" and "in_step cr sn R client lock i r"
    and "Command_wf c" and "Action_fits (cmd_action c)" and "request_size cr i c = Inr n"
    and "ss_last_request_id r < ss_next_request i" and "ss_next_request i \<noteq> - 1"
    and "Command_capability c AND ss_capabilities r = Command_capability c"
    and "map_len (ss_pending_requests r) < MAX_PENDING_REQUESTS"
  shows "\<exists>packet i' r'. Session_send cr sn c i = (Inr (ss_next_request i, packet), i') \<and> length packet = n
    \<and> Session_receive cr sn packet r = (Inr ([Event_Request (ss_next_request i) c client], None), r')
    \<and> ss_role r' = Responder \<and> ss_capabilities r' = ss_capabilities r
    \<and> fmlookup (ss_pending_requests r') (ss_next_request i) = Some (Command_capability c)
    \<and> (\<forall>resp k. Response_wf resp \<and> response_size cr r' (ss_next_request i) resp = Inr k \<longrightarrow>
        (\<exists>answer r'' i''. Session_respond cr sn (ss_next_request i) resp r' = (Inr answer, r'') \<and> length answer = k
          \<and> Session_receive cr sn answer i' = (Inr ([Event_Response (ss_next_request i) resp], None), i'')
          \<and> in_step cr sn R client lock i'' r''))"
proof -
  obtain packet i' r' where s: "Session_send cr sn c i = (Inr (ss_next_request i, packet), i')" "length packet = n"
    "Session_receive cr sn packet r = (Inr ([Event_Request (ss_next_request i) c client], None), r')"
    and step: "in_step cr sn R client lock i' r'"
    and look: "fmlookup (ss_pending_requests i') (ss_next_request i) = Some (Command_capability c)"
      "fmlookup (ss_pending_requests r') (ss_next_request i) = Some (Command_capability c)"
    and caps: "ss_capabilities r' = ss_capabilities r"
    by (rule request_delivered [OF assms]) blast
  have "\<exists>answer r'' i''. Session_respond cr sn (ss_next_request i) resp r' = (Inr answer, r'') \<and> length answer = k
      \<and> Session_receive cr sn answer i' = (Inr ([Event_Response (ss_next_request i) resp], None), i'')
      \<and> in_step cr sn R client lock i'' r''"
    if "Response_wf resp" "response_size cr r' (ss_next_request i) resp = Inr k" for resp k
  proof -
    have "response_capability resp = Command_capability c" using response_size_Inr [OF that(2)] look(2) by simp
    with response_delivered [OF assms(1-3) step that] look(1) assms(10) caps show ?thesis by metis
  qed
  moreover have "ss_role r' = Responder" using step by (simp add: in_step_def)
  ultimately show ?thesis using s caps look(2) by blast
qed

end
