(* ===== verification/Simulator_Props.thy ===== *)
theory Simulator_Props
  imports Simulator Session_Props
begin

text \<open>
  The lock end to end (\<^verbatim>\<open>crates/openlock-core/examples/simulator.rs\<close>): a command that a client sends is
  handled by the controller exactly once and its response comes back to the client, and a
  request is only ever handled in the context of the peer whose key the channel has
  authenticated.
\<close>

unbundle bit_operations_syntax

section \<open>Calls\<close>

lemma passed_simps [simp]: "passed (Inl e) = Inl (Serve_Error e)" "passed (Inr x) = Inr x"
  by (simp_all add: passed_def)

lemma wp_on_session:
  "wp (on_session m) Q sv = wp m (\<lambda>r s. Q (passed r) (sv\<lparr>sv_session := s\<rparr>)) (sv_session sv)"
  by (simp add: wp_def on_session_def split: prod.split)

lemma wp_on_device:
  "wp (on_device m) Q sv = wp m (\<lambda>r d. Q (passed r) (sv\<lparr>sv_device := d\<rparr>)) (sv_device sv)"
  by (simp add: wp_def on_device_def split: prod.split)

lemma wp_respond_with [simp]:
  "wp (respond_with E x c) Q sv =
     (case handle E x c (sv_device sv) of (response, d) \<Rightarrow> Q (Inr response) (sv\<lparr>sv_device := d\<rparr>))"
  by (simp add: wp_def respond_with_def split: prod.split)

section \<open>The peer of a session\<close>

text \<open>The static key of the peer is fixed once the handshake is over.\<close>

definition remote_fixed :: "('h, 't) Snow \<Rightarrow> bool" where
  "remote_fixed sn \<longleftrightarrow> (\<forall>n b t. sn_t_remote sn (snd (sn_t_write sn n b t)) = sn_t_remote sn t
     \<and> sn_t_remote sn (snd (sn_t_read sn n b t)) = sn_t_remote sn t)"

text \<open>The session is closed, or its channel is established with the peer.\<close>

definition bound_to :: "Crypto \<Rightarrow> ('h, 't) Snow \<Rightarrow> SubjectKey \<Rightarrow> ('h, 't) Session \<Rightarrow> bool" where
  "bound_to cr sn p s \<longleftrightarrow> nc_state (ss_channel s) = NS_Closed
     \<or> (is_transport (ss_channel s) \<and> Session_peer_static cr sn s = Inr p)"

lemma bound_to_fields [simp]:
  "bound_to cr sn p (s\<lparr>ss_started := b\<rparr>) = bound_to cr sn p s"
  "bound_to cr sn p (ss_started_update f s) = bound_to cr sn p s"
  "bound_to cr sn p (s\<lparr>ss_last_request_id := i\<rparr>) = bound_to cr sn p s"
  "bound_to cr sn p (s\<lparr>ss_pending_requests := m\<rparr>) = bound_to cr sn p s"
  "bound_to cr sn p (Session_close s)"
  by (simp_all add: bound_to_def Session_peer_static_def Session_close_def NoiseChannel_close_def)

lemma bound_to_read:
  assumes "remote_fixed sn" "bound_to cr sn p s" "\<And>r s'. bound_to cr sn p s' \<Longrightarrow> Q r s'"
  shows "wp (on_channel (NoiseChannel_read sn b)) Q s"
proof (cases "length b \<le> MAX_MESSAGE_SIZE \<and> is_transport (ss_channel s)")
  case True
  then obtain t where t: "nc_state (ss_channel s) = NS_Transport t" by (auto simp: is_transport_def split: NoiseState.splits)
  have "sn_t_remote sn (snd (sn_t_read sn MAX_MESSAGE_SIZE b t)) = sn_t_remote sn t" using assms(1) by (simp add: remote_fixed_def)
  with True t assms(2,3) show ?thesis
    by (auto simp: wp_def on_channel_def read_transport bound_to_def is_transport_def Session_peer_static_def
        NoiseChannel_peer_static_def split: prod.split option.split)
next
  case False
  with assms(2,3) show ?thesis
    by (auto simp: wp_def on_channel_def NoiseChannel_read_def run_simps bound_to_def NoiseChannel_close_def
        is_transport_def split: NoiseState.splits)
qed

lemma bound_to_write:
  assumes "remote_fixed sn" "bound_to cr sn p s" "\<And>r s'. bound_to cr sn p s' \<Longrightarrow> Q r s'"
  shows "wp (on_channel (NoiseChannel_write sn b)) Q s"
proof (cases "length b \<le> MAX_MESSAGE_SIZE - 128 \<and> is_transport (ss_channel s)")
  case True
  then obtain t where t: "nc_state (ss_channel s) = NS_Transport t" by (auto simp: is_transport_def split: NoiseState.splits)
  have "sn_t_remote sn (snd (sn_t_write sn MAX_MESSAGE_SIZE b t)) = sn_t_remote sn t" using assms(1) by (simp add: remote_fixed_def)
  with True t assms(2,3) show ?thesis
    by (auto simp: wp_def on_channel_def write_transport bound_to_def is_transport_def Session_peer_static_def
        NoiseChannel_peer_static_def split: prod.split option.split)
next
  case False
  with assms(2,3) show ?thesis
    by (auto simp: wp_def on_channel_def NoiseChannel_write_def run_simps bound_to_def
        is_transport_def split: NoiseState.splits)
qed

lemma bound_to_handshake:
  assumes "remote_fixed sn" "bound_to cr sn p s"
  shows "wp (receive_handshake cr sn clear) (\<lambda>r s'. bound_to cr sn p s') s"
  unfolding receive_handshake_def using assms(2)
  by (auto split: sum.split intro!: bound_to_write [OF assms(1)])

lemma bound_to_sealed:
  "bound_to cr sn p s \<Longrightarrow> wp (receive_sealed cr sn packet clear) (\<lambda>r s'. bound_to cr sn p s') s"
  by (auto simp: receive_sealed_def receive_request_def receive_response_def Let_def split: sum.split)

lemma bound_to_receive:
  assumes "remote_fixed sn" "bound_to cr sn p s"
  shows "wp (Session_receive cr sn input) (\<lambda>r s'. bound_to cr sn p s') s"
proof -
  have "wp (receive_inner cr sn input) (\<lambda>r s'. bound_to cr sn p s') s"
    unfolding receive_inner_def receive_guards_def using assms(2)
    by (auto split: sum.split intro!: bound_to_read [OF assms] bound_to_handshake [OF assms(1)] bound_to_sealed)
  then show ?thesis unfolding Session_receive_def by (auto elim!: wp_mono split: sum.split)
qed

lemma bound_to_respond:
  assumes "remote_fixed sn" "bound_to cr sn p s"
  shows "wp (Session_respond cr sn i response) (\<lambda>r s'. bound_to cr sn p s') s"
  unfolding Session_respond_def using assms(2)
  by (auto simp: Let_def split: sum.split intro!: bound_to_write [OF assms])


section \<open>Events name the authenticated peer\<close>

primrec speaker :: "SessionEvent \<Rightarrow> SubjectKey option" where
  "speaker (HandshakeComplete p) = Some p"
| "speaker (Event_Request i c p) = Some p"
| "speaker (Event_Response i r) = None"

definition authentic ::
  "Crypto \<Rightarrow> ('h, 't) Snow \<Rightarrow> Error + SessionEvent list \<times> bytes option \<Rightarrow> ('h, 't) Session \<Rightarrow> bool" where
  "authentic cr sn r s = (case r of
     Inl e \<Rightarrow> True
   | Inr (events, reply) \<Rightarrow> \<forall>event p. event \<in> set events \<and> speaker event = Some p \<longrightarrow>
       is_transport (ss_channel s) \<and> Session_peer_static cr sn s = Inr p)"

lemma authentic_Inl [simp]: "authentic cr sn (Inl e) s"
  by (simp add: authentic_def)

lemma read_stays:
  assumes "is_transport (ss_channel s)" "\<And>r s'. (is_ok r \<Longrightarrow> is_transport (ss_channel s')) \<Longrightarrow> Q r s'"
  shows "wp (on_channel (NoiseChannel_read sn b)) Q s"
proof -
  obtain t where "nc_state (ss_channel s) = NS_Transport t"
    using assms(1) by (auto simp: is_transport_def split: NoiseState.splits)
  then have "wp (on_channel (NoiseChannel_read sn b)) (\<lambda>r s'. is_ok r \<longrightarrow> is_transport (ss_channel s')) s"
  proof (cases "length b \<le> MAX_MESSAGE_SIZE")
    case True
    with \<open>nc_state (ss_channel s) = NS_Transport t\<close> show ?thesis
      by (auto simp: wp_def on_channel_def read_transport is_transport_def is_ok_def split: prod.split option.split)
  next
    case False
    then show ?thesis by (simp add: wp_def on_channel_def NoiseChannel_read_def run_simps is_ok_def)
  qed
  then show ?thesis by (rule wp_mono) (use assms(2) in blast)
qed

lemma authentic_handshake: "wp (receive_handshake cr sn clear) (authentic cr sn) s"
  by (auto simp: receive_handshake_def authentic_def split: sum.split intro!: on_channel_wp)

lemma authentic_sealed:
  "is_transport (ss_channel s) \<Longrightarrow> wp (receive_sealed cr sn packet clear) (authentic cr sn) s"
  by (auto simp: receive_sealed_def receive_request_def receive_response_def Let_def authentic_def
      Session_peer_static_def split: sum.split)

lemma authentic_receive: "wp (Session_receive cr sn input) (authentic cr sn) s"
proof -
  have h: "wp (on_channel (NoiseChannel_read sn b))
      (\<lambda>r s. \<forall>clear. r = Inr clear \<longrightarrow> wp (receive_handshake cr sn clear) (authentic cr sn) s) s" for b
    by (rule on_channel_wp) (simp add: authentic_handshake)
  have e: "wp (on_channel (NoiseChannel_read sn b))
      (\<lambda>r s. \<forall>clear. r = Inr clear \<longrightarrow> wp (receive_sealed cr sn packet clear) (authentic cr sn) s) s"
    if "is_transport (ss_channel s)" for b packet
    using that by (rule read_stays) (simp add: authentic_sealed is_ok_iff)
  have "wp (receive_inner cr sn input) (authentic cr sn) s"
    by (auto simp: receive_inner_def receive_guards_def h e split: sum.split)
  moreover have "authentic cr sn r s'" if "\<not> is_ok r" for r s' using that by (cases r) simp_all
  ultimately show ?thesis unfolding Session_receive_def by (auto elim!: wp_mono)
qed

section \<open>The context of a connection\<close>

definition vouched :: "('s, 'p) Env \<Rightarrow> ('h, 't) Snow \<Rightarrow> ('s, 'p, 'h, 't) Server \<Rightarrow> bool" where
  "vouched E sn sv \<longleftrightarrow>
     (\<forall>x. sv_context sv = Some x \<longrightarrow> bound_to (env_crypto E) sn (sc_peer x) (sv_session sv))"

lemma vouched_device [simp]: "vouched E sn (sv\<lparr>sv_device := d\<rparr>) = vouched E sn sv"
  "vouched E sn (sv_confirm_update f sv) = vouched E sn sv"
  by (simp_all add: vouched_def)

lemma wp_any: "(\<And>r c'. Q r c') \<Longrightarrow> wp m Q c"
  by (simp add: wpI)

lemma vouched_close [simp]: "vouched E sn (sv_session_update Session_close sv)"
  by (simp add: vouched_def)

lemma on_device_vouched: "vouched E sn sv \<Longrightarrow> (\<And>r sv'. vouched E sn sv' \<Longrightarrow> Q r sv') \<Longrightarrow> wp (on_device m) Q sv"
  by (auto simp: wp_on_device intro: wp_any)

lemma wp_eval: "m c = (r, c') \<Longrightarrow> wp m Q c = Q r c'"
  by (simp add: wp_def)

lemma respond_vouched:
  assumes "remote_fixed sn" "vouched E sn sv" "\<And>r sv'. vouched E sn sv' \<Longrightarrow> Q r sv'"
  shows "wp (on_session (Session_respond (env_crypto E) sn i response)) Q sv"
proof (cases "sv_context sv")
  case None
  then show ?thesis using assms(3) by (auto simp: wp_on_session vouched_def intro!: wp_any)
next
  case (Some x)
  with assms(2) have "bound_to (env_crypto E) sn (sc_peer x) (sv_session sv)" by (simp add: vouched_def)
  from bound_to_respond [OF assms(1) this] show ?thesis unfolding wp_on_session
    by (rule wp_mono) (use Some assms(3) in \<open>simp add: vouched_def\<close>)
qed

lemma request_vouched:
  assumes "remote_fixed sn" "vouched E sn sv"
  shows "wp (serve_request E sn i c) (\<lambda>r. vouched E sn) sv"
  unfolding serve_request_def using assms(2)
  by (auto split: sum.split prod.split intro!: on_device_vouched [where E = E and sn = sn] respond_vouched [OF assms(1)])

lemma events_vouched:
  "remote_fixed sn \<Longrightarrow> vouched E sn sv \<Longrightarrow> wp (serve_events E sn events out) (\<lambda>r. vouched E sn) sv"
proof (induction E sn events out arbitrary: sv rule: serve_events.induct)
  case (2 E sn i c p events out)
  then show ?case by (auto split: sum.split intro!: wp_mono [OF request_vouched])
qed simp_all

lemma note_vouched:
  assumes "\<And>p. HandshakeComplete p \<in> set events \<Longrightarrow> bound_to (env_crypto E) sn p (sv_session sv)" "vouched E sn sv"
  shows "vouched E sn (fold note_handshake events sv)"
  using assms
proof (induction events arbitrary: sv)
  case (Cons event events)
  have "sv_session (note_handshake event sv) = sv_session sv" by (simp add: note_handshake_def split: SessionEvent.split)
  moreover have "vouched E sn (note_handshake event sv)"
    using Cons.prems by (auto simp: note_handshake_def vouched_def context_of_def split: SessionEvent.split)
  ultimately show ?case using Cons by simp
qed simp

lemma receive_vouched:
  assumes "remote_fixed sn" "vouched E sn sv"
    "Session_receive (env_crypto E) sn input (sv_session sv) = (r, s)"
  shows "vouched E sn (sv\<lparr>sv_session := s\<rparr>)"
  using wpD [OF bound_to_receive [OF assms(1)] assms(3)] assms(2) by (simp add: vouched_def)

lemma packet_vouched:
  assumes "remote_fixed sn" "vouched E sn sv"
  shows "wp (serve_packet E sn input) (\<lambda>r. vouched E sn) sv"
proof -
  obtain r s where receive: "Session_receive (env_crypto E) sn input (sv_session sv) = (r, s)" by fastforce
  note s = receive_vouched [OF assms receive]
  have "authentic (env_crypto E) sn r s" using wpD [OF authentic_receive receive] .
  then have "bound_to (env_crypto E) sn p s" if "r = Inr (events, reply)" "HandshakeComplete p \<in> set events" for events reply p
    using that by (force simp: authentic_def bound_to_def)
  with s receive events_vouched [OF assms(1) s] show ?thesis
    by (cases r)
      (auto simp: serve_packet_def wp_on_session wp_eval [of "Session_receive (env_crypto E) sn input", OF receive] intro!: note_vouched wp_mono [OF events_vouched [OF assms(1) s]]
        split: sum.split option.split)
qed

text \<open>The steps of the program; the controls that only work on the device may leave any device.\<close>

inductive serve_step ::
  "('s, 'p) Env \<Rightarrow> ('h, 't) Snow \<Rightarrow> ('s, 'p, 'h, 't) Server \<Rightarrow> ('s, 'p, 'h, 't) Server \<Rightarrow> bool"
  for E sn where
  step_connect: "serve_connect E sn sv = (r, sv') \<Longrightarrow> serve_step E sn sv sv'"
| step_pair: "serve_pair E sv = (r, sv') \<Longrightarrow> serve_step E sn sv sv'"
| step_confirm: "serve_confirm_next sv = (r, sv') \<Longrightarrow> serve_step E sn sv sv'"
| step_packet: "serve_packet E sn input sv = (r, sv') \<Longrightarrow> serve_step E sn sv sv'"
| step_device: "serve_step E sn sv (sv\<lparr>sv_device := d\<rparr>)"

lemma step_vouched:
  assumes "serve_step E sn sv sv'" "remote_fixed sn" "vouched E sn sv"
  shows "vouched E sn sv'"
  using assms(1)
proof cases
  case (step_connect r)
  have "wp (serve_connect E sn) (\<lambda>r. vouched E sn) sv"
    using assms(3) by (auto simp: serve_connect_def vouched_def split: sum.split)
  then show ?thesis using step_connect by (rule wpD)
next
  case (step_pair r)
  have "wp (serve_pair E) (\<lambda>r. vouched E sn) sv" using assms(3) by (auto simp: serve_pair_def intro: on_device_vouched)
  then show ?thesis using step_pair by (rule wpD)
next
  case (step_packet input r)
  with wpD [OF packet_vouched [OF assms(2,3)]] show ?thesis by blast
qed (use assms(3) in \<open>auto simp: serve_confirm_next_def modify_def\<close>)

lemma run_vouched:
  "(serve_step E sn)\<^sup>*\<^sup>* sv sv' \<Longrightarrow> remote_fixed sn \<Longrightarrow> sv_context sv = None \<Longrightarrow> vouched E sn sv'"
proof (induction rule: rtranclp_induct)
  case base
  then show ?case by (simp add: vouched_def)
qed (blast intro: step_vouched)

section \<open>A connection\<close>

text \<open>The message fits in a packet: its plaintext and the packet of its ciphertext are in bounds.\<close>

definition message_fits :: "Crypto \<Rightarrow> u8 \<Rightarrow> u32 \<Rightarrow> u64 \<Rightarrow> Value \<Rightarrow> bool" where
  "message_fits cr kind i caps v \<longleftrightarrow> (case cencode cr (authenticated_value kind i caps v) of
     Inl e \<Rightarrow> False
   | Inr body \<Rightarrow> length body \<le> MAX_MESSAGE_SIZE - 128
       \<and> is_ok (encode_packet cr (sealed_packet kind i caps (replicate (length body + 16) 0))))"

lemma request_size_fits:
  assumes "message_fits cr KIND_REQUEST (ss_next_request s) (ss_capabilities s) (Command_value c)" "Command_wf c" "can_send c s"
  obtains n where "request_size cr s c = Inr n"
proof -
  have "Command_validate c = Inr ()" "Command_parse (Command_value c) = Inr c"
    using assms(2) by (simp_all add: Command_parse_iff Command_wf_def)
  with assms(1,3) that show ?thesis
    by (auto simp: message_fits_def request_size_def validate_command_def sealed_packet_def is_ok_iff split: sum.splits)
qed

lemma response_size_fits:
  assumes "message_fits cr KIND_RESPONSE i (ss_capabilities s) (Response_value resp)" "Response_wf resp"
    "ss_role s = Responder" "fmlookup (ss_pending_requests s) i = Some (response_capability resp)"
  obtains n where "response_size cr s i resp = Inr n"
  using assms that
  by (auto simp: message_fits_def response_size_def Response_wf_def sealed_packet_def response_capability_def is_ok_iff
      split: sum.splits)

lemma handle_opcode: "rsp_opcode (fst (handle E x c ctl)) = Action_opcode (cmd_action c)"
  by (simp add: handle_def Response_rejected_def split: prod.split sum.split)

lemma connect_responder:
  assumes "noise_ik cr sn R" "length (static_public cr (serve_private E (sv_device sv))) = 32"
  obtains r where "Session_responder sn (serve_private E (sv_device sv)) KNOWN_CAPABILITIES = Inr r"
    "serve_connect E sn sv = (Inr (), sv\<lparr>sv_session := r, sv_context := None\<rparr>)"
    "book r = (Responder, KNOWN_CAPABILITIES, 1, fmempty, 0)"
proof -
  let ?k = "serve_private E (sv_device sv)"
  have "?k \<noteq> replicate 32 0" by (simp add: serve_private_def replicate_eq_replicate)
  moreover obtain hr where "sn_build sn NOISE_SUITE PROLOGUE ?k None = Some hr"
    using assms by (auto simp: noise_ik_def)
  ultimately show ?thesis using that
    by (simp add: Session_responder_def NoiseChannel_responder_def NoiseChannel_new_def KNOWN_CAPABILITIES_def
        serve_connect_def run_simps book_def)
qed

lemma serve_handshake:
  assumes "Session_receive (env_crypto E) sn p (sv_session sv) = (Inr ([HandshakeComplete peer], Some reply), s)"
  shows "serve_packet E sn p sv
    = (Inr reply, sv\<lparr>sv_session := s, sv_context := Some (context_of (sv_device sv) peer)\<rparr>)"
  using assms by (simp add: serve_packet_def run_simps on_session_def note_handshake_def)

lemma serve_one_request:
  assumes "Session_receive (env_crypto E) sn p (sv_session sv) = (Inr ([Event_Request i c peer], None), s)"
    and "sv_context sv = Some x" and "\<not> sv_confirm sv" and "handle E x c (sv_device sv) = (resp, d)"
    and "Session_respond (env_crypto E) sn i resp s = (Inr answer, s')"
  obtains sv' where "serve_packet E sn p sv = (Inr answer, sv')" "sv_device sv' = d" "sv_context sv' = Some x"
    "sv_session sv' = (if sc_generation x = s_generation (c_state d) then s' else Session_close s')"
  using assms
  by (cases "sc_generation x = s_generation (c_state d)")
    (simp_all add: serve_packet_def run_simps on_session_def serve_request_def respond_with_def)

lemma capability_known: "Command_capability c AND KNOWN_CAPABILITIES = Command_capability c"
  by (cases "cmd_action c") (simp_all add: Command_capability_def KNOWN_CAPABILITIES_def Action_opcode_def)

lemma request_served:
  assumes ok: "cbor_ok (env_crypto E)" "cbor_sized (env_crypto E)" "transport_pair sn R"
    and step: "in_step (env_crypto E) sn R client lock i (sv_session sv)"
    and ib: "book i = (Initiator, caps, 1, fmempty, 0)" and rb: "book (sv_session sv) = (Responder, KNOWN_CAPABILITIES, 1, fmempty, 0)"
    and sv: "sv_context sv = Some x" "\<not> sv_confirm sv"
    and c: "Command_wf c" "Action_fits (cmd_action c)" "Command_capability c AND caps = Command_capability c"
      "message_fits (env_crypto E) KIND_REQUEST 1 caps (Command_value c)"
    and handled: "handle E x c (sv_device sv) = (resp, d)"
    and resp: "Response_wf resp" "message_fits (env_crypto E) KIND_RESPONSE 1 KNOWN_CAPABILITIES (Response_value resp)"
  obtains p i' answer sv' i'' where "Session_send (env_crypto E) sn c i = (Inr (1, p), i')"
    "serve_packet E sn p sv = (Inr answer, sv')" "sv_device sv' = d"
    "Session_receive (env_crypto E) sn answer i' = (Inr ([Event_Response 1 resp], None), i'')"
    "nc_state (ss_channel (sv_session sv')) = NS_Closed \<longleftrightarrow> sc_generation x \<noteq> s_generation (c_state d)"
proof -
  let ?cr = "env_crypto E" and ?r = "sv_session sv"
  have books: "ss_next_request i = 1" "ss_capabilities i = caps" "ss_pending_requests i = fmempty" "ss_role i = Initiator"
    "ss_capabilities ?r = KNOWN_CAPABILITIES" "ss_last_request_id ?r = 0" "ss_pending_requests ?r = fmempty"
    using ib rb by (simp_all add: book_def)
  have "can_send c i"
    using step c(3) books by (auto simp: can_send_def in_step_def is_transport_def MAX_PENDING_REQUESTS_def)
  with c(1,4) books obtain n where n: "request_size ?cr i c = Inr n" by (metis request_size_fits)
  obtain p i' r' where send: "Session_send ?cr sn c i = (Inr (1, p), i')"
    and recv: "Session_receive ?cr sn p ?r = (Inr ([Event_Request 1 c client], None), r')"
    and r': "ss_role r' = Responder" "ss_capabilities r' = KNOWN_CAPABILITIES"
      "fmlookup (ss_pending_requests r') 1 = Some (Command_capability c)"
    and answered: "\<forall>resp k. Response_wf resp \<and> response_size ?cr r' 1 resp = Inr k \<longrightarrow>
      (\<exists>answer r'' i''. Session_respond ?cr sn 1 resp r' = (Inr answer, r'') \<and> length answer = k
        \<and> Session_receive ?cr sn answer i' = (Inr ([Event_Response 1 resp], None), i'')
        \<and> in_step ?cr sn R client lock i'' r'')"
    using exchange_completes [OF ok step c(1,2) n] books capability_known [of c]
    by (simp add: MAX_PENDING_REQUESTS_def) (elim exE conjE, rule that, simp_all)
  have "rsp_opcode resp = Action_opcode (cmd_action c)" using handle_opcode [of E x c "sv_device sv"] handled by simp
  then have "response_capability resp = Command_capability c" by (simp add: response_capability_def Command_capability_def)
  with r' resp obtain k where "response_size ?cr r' 1 resp = Inr k" by (metis response_size_fits)
  with answered resp(1) obtain answer r'' i'' where respond: "Session_respond ?cr sn 1 resp r' = (Inr answer, r'')"
    and final: "Session_receive ?cr sn answer i' = (Inr ([Event_Response 1 resp], None), i'')"
    and step': "in_step ?cr sn R client lock i'' r''" by blast
  obtain sv' where sv': "serve_packet E sn p sv = (Inr answer, sv')" "sv_device sv' = d"
    "sv_session sv' = (if sc_generation x = s_generation (c_state d) then r'' else Session_close r'')"
    by (rule serve_one_request [OF recv sv handled respond])
  have "nc_state (ss_channel (sv_session sv')) = NS_Closed \<longleftrightarrow> sc_generation x \<noteq> s_generation (c_state d)"
    using sv'(3) step' by (auto simp: in_step_def Session_close_def NoiseChannel_close_def)
  with that send sv'(1,2) final show ?thesis by blast
qed

lemma handshake_served:
  assumes ok: "cbor_ok (env_crypto E)" "cbor_small (env_crypto E)" "noise_ik (env_crypto E) sn R"
    and k: "length (static_public (env_crypto E) ki) = 32"
      "length (static_public (env_crypto E) (serve_private E (sv_device sv))) = 32"
      "validate_public (env_crypto E) (static_public (env_crypto E) ki) = Inr ()"
    and i: "Session_initiator (env_crypto E) sn ki (static_public (env_crypto E) (serve_private E (sv_device sv))) caps = Inr i"
    and client: "client = SubjectKey (static_public (env_crypto E) ki)"
    and lock: "lock = SubjectKey (static_public (env_crypto E) (serve_private E (sv_device sv)))"
  obtains sv0 p1 i1 p2 sv1 i2 where "serve_connect E sn sv = (Inr (), sv0)" "Session_start (env_crypto E) sn i = (Inr p1, i1)"
    "serve_packet E sn p1 sv0 = (Inr p2, sv1)" "sv_device sv1 = sv_device sv" "sv_confirm sv1 = sv_confirm sv"
    "sv_context sv1 = Some (context_of (sv_device sv) client)"
    "Session_receive (env_crypto E) sn p2 i1 = (Inr ([HandshakeComplete lock], None), i2)"
    "in_step (env_crypto E) sn R client lock i2 (sv_session sv1)"
    "book i2 = (Initiator, caps, 1, fmempty, 0)" "book (sv_session sv1) = (Responder, KNOWN_CAPABILITIES, 1, fmempty, 0)"
proof -
  obtain r where r: "Session_responder sn (serve_private E (sv_device sv)) KNOWN_CAPABILITIES = Inr r"
    and connect: "serve_connect E sn sv = (Inr (), sv\<lparr>sv_session := r, sv_context := None\<rparr>)"
    and rb: "book r = (Responder, KNOWN_CAPABILITIES, 1, fmempty, 0)"
    by (rule connect_responder [OF ok(3) k(2)])
  have ib: "book i = (Initiator, caps, 1, fmempty, 0)"
    using i by (auto simp: Session_initiator_def result_Inr_iffs book_def split: if_splits)
  obtain p1 i1 p2 r1 i2 where start: "Session_start (env_crypto E) sn i = (Inr p1, i1)"
    and h: "Session_receive (env_crypto E) sn p1 r = (Inr ([HandshakeComplete client], Some p2), r1)"
      "Session_receive (env_crypto E) sn p2 i1 = (Inr ([HandshakeComplete lock], None), i2)"
    and step: "in_step (env_crypto E) sn R client lock i2 r1" and books: "book i2 = book i" "book r1 = book r"
    using handshake_completes [OF ok k i r] unfolding client lock by blast
  let ?sv1 = "sv\<lparr>sv_session := r1, sv_context := Some (context_of (sv_device sv) client)\<rparr>"
  have sv1: "serve_packet E sn p1 (sv\<lparr>sv_session := r, sv_context := None\<rparr>) = (Inr p2, ?sv1)"
    using serve_handshake [of E sn p1 "sv\<lparr>sv_session := r, sv_context := None\<rparr>"] h(1) by simp
  show ?thesis by (rule that [OF connect start sv1 _ _ _ h(2)]) (use step books ib rb in simp_all)
qed

text \<open>C8. A connection works end to end. A client that knows the public key of the lock starts a
  session, the lock answers the handshake, and both know the static key of the other. A
  well-formed command that the client then sends, and that fits in a packet with the
  response to it, is handled exactly once: the controller is left as \<open>handle\<close> leaves it
  in the context of the client's key, and the response of \<open>handle\<close> is the one event that
  the client receives. The lock closes the session exactly when the request has changed
  the generation of the device.\<close>

theorem connection_served:
  assumes "cbor_ok (env_crypto E)" and "cbor_sized (env_crypto E)" and "cbor_small (env_crypto E)"
    and "transport_pair sn R" and "noise_ik (env_crypto E) sn R"
    and "length (static_public (env_crypto E) ki) = 32"
    and "length (static_public (env_crypto E) (serve_private E (sv_device sv))) = 32"
    and "validate_public (env_crypto E) (static_public (env_crypto E) ki) = Inr ()"
    and "Session_initiator (env_crypto E) sn ki (static_public (env_crypto E) (serve_private E (sv_device sv))) caps = Inr i"
    and "\<not> sv_confirm sv" and "Command_wf c" and "Action_fits (cmd_action c)"
    and "Command_capability c AND caps = Command_capability c"
    and "message_fits (env_crypto E) KIND_REQUEST 1 caps (Command_value c)"
    and "handle E (context_of (sv_device sv) (SubjectKey (static_public (env_crypto E) ki))) c (sv_device sv) = (resp, d)"
    and "Response_wf resp" and "message_fits (env_crypto E) KIND_RESPONSE 1 KNOWN_CAPABILITIES (Response_value resp)"
  shows "\<exists>sv0 p1 i1 p2 sv1 i2 p3 i3 p4 sv2 i4.
      serve_connect E sn sv = (Inr (), sv0)
    \<and> Session_start (env_crypto E) sn i = (Inr p1, i1)
    \<and> serve_packet E sn p1 sv0 = (Inr p2, sv1) \<and> sv_device sv1 = sv_device sv
    \<and> Session_receive (env_crypto E) sn p2 i1 =
        (Inr ([HandshakeComplete (SubjectKey (static_public (env_crypto E) (serve_private E (sv_device sv))))], None), i2)
    \<and> Session_send (env_crypto E) sn c i2 = (Inr (1, p3), i3)
    \<and> serve_packet E sn p3 sv1 = (Inr p4, sv2) \<and> sv_device sv2 = d
    \<and> Session_receive (env_crypto E) sn p4 i3 = (Inr ([Event_Response 1 resp], None), i4)
    \<and> (nc_state (ss_channel (sv_session sv2)) = NS_Closed
         \<longleftrightarrow> s_generation (c_state d) \<noteq> s_generation (c_state (sv_device sv)))"
proof -
  let ?client = "SubjectKey (static_public (env_crypto E) ki)"
    and ?lock = "SubjectKey (static_public (env_crypto E) (serve_private E (sv_device sv)))"
  obtain sv0 p1 i1 p2 sv1 i2 where connect: "serve_connect E sn sv = (Inr (), sv0)"
    "Session_start (env_crypto E) sn i = (Inr p1, i1)" "serve_packet E sn p1 sv0 = (Inr p2, sv1)"
    and sv1: "sv_device sv1 = sv_device sv" "sv_confirm sv1 = sv_confirm sv"
      "sv_context sv1 = Some (context_of (sv_device sv) ?client)"
    and established: "Session_receive (env_crypto E) sn p2 i1 = (Inr ([HandshakeComplete ?lock], None), i2)"
    and step: "in_step (env_crypto E) sn R ?client ?lock i2 (sv_session sv1)"
    and books: "book i2 = (Initiator, caps, 1, fmempty, 0)"
      "book (sv_session sv1) = (Responder, KNOWN_CAPABILITIES, 1, fmempty, 0)"
    by (rule handshake_served [OF assms(1,3,5-9) refl refl])
  have "handle E (context_of (sv_device sv) ?client) c (sv_device sv1) = (resp, d)" "\<not> sv_confirm sv1"
    using assms(10,15) sv1 by simp_all
  then obtain p3 i3 p4 sv2 i4 where served: "Session_send (env_crypto E) sn c i2 = (Inr (1, p3), i3)"
    "serve_packet E sn p3 sv1 = (Inr p4, sv2)" "sv_device sv2 = d"
    "Session_receive (env_crypto E) sn p4 i3 = (Inr ([Event_Response 1 resp], None), i4)"
    and closing: "nc_state (ss_channel (sv_session sv2)) = NS_Closed
      \<longleftrightarrow> sc_generation (context_of (sv_device sv) ?client) \<noteq> s_generation (c_state d)"
    by (elim request_served [OF assms(1,2,4) step books sv1(3) _ assms(11-14) _ assms(16,17)])
  from closing have "nc_state (ss_channel (sv_session sv2)) = NS_Closed
      \<longleftrightarrow> s_generation (c_state d) \<noteq> s_generation (c_state (sv_device sv))" by (auto simp: context_of_def)
  with connect sv1(1) established served show ?thesis by blast
qed

section \<open>A concrete connection\<close>

definition ex_simulator :: "(DeviceSnapshot option, ex_platform, ex_handshake, bytes) Server" where
  "ex_simulator = \<lparr>sv_device = ex_controller, sv_session = ex_server, sv_context = None, sv_confirm = False\<rparr>"

lemma ex_simulator_fields [simp]:
  "sv_device ex_simulator = ex_controller" "\<not> sv_confirm ex_simulator" "sv_context ex_simulator = None"
  by (simp_all add: ex_simulator_def)

lemma ex_static_public [simp]: "static_public ex_crypto k = k"
  by (simp add: static_public_def ex_crypto_def)

lemma ex_serve_private [simp]: "serve_private ex_env ex_controller = replicate 32 4"
  by (simp add: serve_private_def ex_device_key_def replicate_eq_replicate)

lemma ex_context_of: "context_of ex_controller ex_peer = ex_context"
  by (simp add: context_of_def ex_context_def)

lemma ex_initiator:
  obtains i where "Session_initiator ex_crypto ex_snow (replicate 32 3) (replicate 32 4) KNOWN_CAPABILITIES = Inr i"
  by (simp add: Session_initiator_def NoiseChannel_initiator_def NoiseChannel_new_def ex_snow_def validate_public_def
      replicate_eq_replicate KNOWN_CAPABILITIES_def)

definition ex_unlocking :: Response where
  "ex_unlocking = \<lparr>rsp_opcode = 0, rsp_result = Inr (Reply_Operation (ex_status Phase_Running))\<rparr>"

lemma ex_message_fits:
  assumes "value_size v \<le> 900" "kind = KIND_REQUEST \<or> kind = KIND_RESPONSE"
  shows "message_fits ex_crypto kind 1 KNOWN_CAPABILITIES v"
  by (rule ex_sealed_size [OF assms]) (simp add: message_fits_def)

lemma ex_status_values [simp]:
  "os_credential_id (ex_status phase) = ex_credential_id" "os_sequence (ex_status phase) = 1" "os_opcode (ex_status phase) = 0"
  "os_phase (ex_status phase) = phase" "os_evidence (ex_status phase) = Evidence_None" "os_error (ex_status phase) = 0"
  by (simp_all add: ex_status_def accepted_status_def)

lemma ex_command_size: "value_size (Command_value ex_unlock) \<le> 900"
  using ex_credential_length
  by (simp add: Command_value_def Action_value_def Action_args_def Option_value_def U64_value_def U8_value_def)

lemma ex_response_value_size: "value_size (Response_value ex_unlocking) \<le> 900"
  by (simp add: Response_value_def ex_unlocking_def Reply_value_def OperationStatus_value_def U64_value_def U32_value_def
      U8_value_def CredentialId_value_def OperationPhase_value_def CompletionEvidence_value_def)

lemma ex_unlocking_wf: "Response_wf ex_unlocking"
  by (simp add: ex_unlocking_def Response_wf_def validate_response_def reply_opcode_ok_def Reply_wf_def
      OperationStatus_wf_def CredentialId_wf_def)

theorem connection_served_witness:
  "\<exists>i sv0 p1 i1 p2 sv1 i2 p3 i3 p4 sv2 i4.
      serve_connect ex_env ex_snow ex_simulator = (Inr (), sv0)
    \<and> Session_initiator ex_crypto ex_snow (replicate 32 3) (replicate 32 4) KNOWN_CAPABILITIES = Inr i
    \<and> Session_start ex_crypto ex_snow i = (Inr p1, i1)
    \<and> serve_packet ex_env ex_snow p1 sv0 = (Inr p2, sv1)
    \<and> Session_receive ex_crypto ex_snow p2 i1 = (Inr ([HandshakeComplete (SubjectKey (replicate 32 4))], None), i2)
    \<and> Session_send ex_crypto ex_snow ex_unlock i2 = (Inr (1, p3), i3)
    \<and> serve_packet ex_env ex_snow p3 sv1 = (Inr p4, sv2) \<and> sv_device sv2 = ex_driving
    \<and> Session_receive ex_crypto ex_snow p4 i3 = (Inr ([Event_Response 1 ex_unlocking], None), i4)"
proof -
  obtain i where i: "Session_initiator ex_crypto ex_snow (replicate 32 3) (replicate 32 4) KNOWN_CAPABILITIES = Inr i"
    by (rule ex_initiator)
  note fits = ex_message_fits [OF ex_command_size, of KIND_REQUEST]
    ex_message_fits [OF ex_response_value_size, of KIND_RESPONSE]
  have handled: "handle ex_env (context_of ex_controller (SubjectKey (replicate 32 3))) ex_unlock ex_controller = (ex_unlocking, ex_driving)"
    using ex_unlock_handled ex_context_of by (simp add: ex_unlocking_def ex_peer_def)
  show ?thesis
    using connection_served [of ex_env ex_snow "\<lambda>a b. True" "replicate 32 3" ex_simulator KNOWN_CAPABILITIES i ex_unlock
        ex_unlocking ex_driving] ex_cbor_sized ex_cbor_small ex_transport_pair ex_noise_ik i handled fits
      ex_unlock_wf ex_unlocking_wf capability_known [of ex_unlock]
    by (simp add: validate_public_def replicate_eq_replicate Action_fits_def) blast
qed

section \<open>The peer of a request\<close>

text \<open>C9. A request is only ever handled in the context of its sender: over every run of the
  program from a state without a connection, whatever the controls do with the device,
  when the session delivers a request and the lock has a context to handle it in, then
  the key of that context is the key that the channel has authenticated as the sender.\<close>

theorem handled_for_sender:
  assumes "remote_fixed sn" and "(serve_step E sn)\<^sup>*\<^sup>* sv sv'" and "sv_context sv = None"
    and "Session_receive (env_crypto E) sn packet (sv_session sv') = (Inr (events, reply), s)"
    and "Event_Request i c sender \<in> set events" and "sv_context sv' = Some x"
  shows "sc_peer x = sender \<and> Session_peer_static (env_crypto E) sn s = Inr sender"
proof -
  have "authentic (env_crypto E) sn (Inr (events, reply)) s" using wpD [OF authentic_receive assms(4)] .
  with assms(5) have s: "is_transport (ss_channel s)" "Session_peer_static (env_crypto E) sn s = Inr sender"
    by (force simp: authentic_def)+
  have "vouched E sn (sv'\<lparr>sv_session := s\<rparr>)"
    using receive_vouched [OF assms(1) run_vouched [OF assms(2,1,3)] assms(4)] .
  with s assms(6) show ?thesis by (auto simp: vouched_def bound_to_def is_transport_def)
qed

lemma ex_remote_fixed: "remote_fixed ex_snow"
  by (simp add: remote_fixed_def ex_snow_def)

theorem handled_for_sender_witness:
  "\<exists>sv p s. (serve_step ex_env ex_snow)\<^sup>*\<^sup>* ex_simulator sv
    \<and> Session_receive ex_crypto ex_snow p (sv_session sv) = (Inr ([Event_Request 1 ex_unlock ex_peer], None), s)
    \<and> sv_context sv = Some ex_context \<and> sc_peer ex_context = ex_peer
    \<and> Session_peer_static ex_crypto ex_snow s = Inr ex_peer"
proof -
  obtain i where i: "Session_initiator ex_crypto ex_snow (replicate 32 3) (replicate 32 4) KNOWN_CAPABILITIES = Inr i"
    by (rule ex_initiator)
  obtain sv0 p1 p2 sv1 i2 where connect: "serve_connect ex_env ex_snow ex_simulator = (Inr (), sv0)"
    "serve_packet ex_env ex_snow p1 sv0 = (Inr p2, sv1)" and x: "sv_context sv1 = Some ex_context"
    and step: "in_step ex_crypto ex_snow (\<lambda>a b. True) ex_peer (SubjectKey (replicate 32 4)) i2 (sv_session sv1)"
    and books: "book i2 = (Initiator, KNOWN_CAPABILITIES, 1, fmempty, 0)"
      "book (sv_session sv1) = (Responder, KNOWN_CAPABILITIES, 1, fmempty, 0)"
    by (rule handshake_served [of ex_env ex_snow "\<lambda>a b. True" "replicate 32 3" ex_simulator KNOWN_CAPABILITIES i ex_peer
          "SubjectKey (replicate 32 4)"])
      (use i ex_cbor_small ex_noise_ik ex_context_of in \<open>simp_all add: validate_public_def replicate_eq_replicate ex_peer_def\<close>)
  have "can_send ex_unlock i2"
    using step books capability_known [of ex_unlock]
    by (auto simp: can_send_def in_step_def is_transport_def MAX_PENDING_REQUESTS_def book_def)
  then obtain n where n: "request_size ex_crypto i2 ex_unlock = Inr n"
    by (rule ex_request_size) (use books in \<open>simp_all add: book_def\<close>)
  obtain p3 i3 s where recv: "Session_receive ex_crypto ex_snow p3 (sv_session sv1) = (Inr ([Event_Request 1 ex_unlock ex_peer], None), s)"
    by (rule request_delivered [OF ex_crypto_cbor_ok ex_cbor_sized ex_transport_pair step ex_unlock_wf _ n])
      (use books capability_known [of ex_unlock] in \<open>auto simp: book_def MAX_PENDING_REQUESTS_def Action_fits_def\<close>)
  have run: "(serve_step ex_env ex_snow)\<^sup>*\<^sup>* ex_simulator sv1"
    using step_connect [OF connect(1)] step_packet [OF connect(2)] by (meson r_into_rtranclp rtranclp.rtrancl_into_rtrancl)
  from handled_for_sender [OF ex_remote_fixed run] recv x
  have "sc_peer ex_context = ex_peer \<and> Session_peer_static ex_crypto ex_snow s = Inr ex_peer" by auto
  with run recv x show ?thesis by blast
qed

end
