(* ===== verification/Ffi.thy ===== *)
theory Ffi
  imports Session
begin

text \<open>
  The C interface (\<^verbatim>\<open>crates/openlock-ffi/src/lib.rs\<close>). A pointer of the caller is an option: \<open>None\<close> is the
  null pointer, \<open>Some\<close> the memory behind it. What the caller passes for output is the record
  \<open>Caller\<close>: the buffer and its capacity, the place for the length and the place for a
  request number. A function works on the session and the caller's memory, and an \<open>Inl\<close> is
  the status it returns: the code of an error, -1 for a bad pointer, -2 for a small buffer.
  The memory that a caller passes with a length is at least that long, and a session that was
  freed is not used again.
\<close>

type_synonym i32 = int

record ('h, 't) OpenLockSession =
  ol_inner :: "('h, 't) Session"
  ol_events :: "bytes list"
  ol_output :: "bytes option"

record Caller =
  ca_out :: "bytes option"
  ca_cap :: nat
  ca_len :: "nat option"
  ca_id :: "u32 option"

section \<open>Marshalling\<close>

definition ffi_code :: "Error \<Rightarrow> i32" where
  "ffi_code e = sint (Error_code e)"

definition coded :: "Error + 'a \<Rightarrow> i32 + 'a" where
  "coded r = (case r of Inl e \<Rightarrow> Inl (ffi_code e) | Inr x \<Rightarrow> Inr x)"

definition ffi_input :: "bytes option \<Rightarrow> nat \<Rightarrow> i32 + bytes" where
  "ffi_input data len =
     (if len > MAX_MESSAGE_SIZE then Inl (ffi_code ObjectTooLarge)
      else if len = 0 then Inr []
      else case data of None \<Rightarrow> Inl (- 1) | Some memory \<Rightarrow> Inr (take len memory))"

definition ffi_capacity :: "nat \<Rightarrow> (Caller, i32, unit) sm" where
  "ffi_capacity required = bnd (gets id) (\<lambda>ca.
     thn (guard_err (ca_len ca = None \<or> ca_cap ca > 0 \<and> ca_out ca = None) (- 1)) (
     thn (modify (\<lambda>ca. ca\<lparr>ca_len := Some required\<rparr>)) (
       guard_err (ca_cap ca < required) (- 2))))"

definition ffi_copy :: "bytes \<Rightarrow> (Caller, i32, unit) sm" where
  "ffi_copy b =
     thn (ffi_capacity (length b)) (
     if b \<noteq> [] then modify (\<lambda>ca. ca\<lparr>ca_out := map_option (\<lambda>memory. b @ drop (length b) memory) (ca_out ca)\<rparr>)
     else ret ())"

definition ffi_status :: "i32 + 'a \<Rightarrow> i32" where
  "ffi_status r = (case r of Inl e \<Rightarrow> e | Inr _ \<Rightarrow> 0)"

definition event_value :: "SessionEvent \<Rightarrow> Value" where
  "event_value event = (case event of
     HandshakeComplete peer \<Rightarrow> carray [cuint 1, cuint 0, SubjectKey_value peer, V_Null]
   | Event_Request request_id command peer \<Rightarrow>
       carray [cuint 2, cuint (ucast request_id), SubjectKey_value peer, Command_value command]
   | Event_Response request_id response \<Rightarrow>
       carray [cuint 3, cuint (ucast request_id), V_Null, Response_value response])"

definition event_bytes :: "Crypto \<Rightarrow> SessionEvent \<Rightarrow> Error + bytes" where
  "event_bytes cr event = encode_limit cr (event_value event) MAX_EVENT_SIZE"

section \<open>Calls\<close>

text \<open>The state of a call on a session: the session behind the pointer and the caller's memory.
  A call on the null pointer returns -1 and does nothing else.\<close>

record ('h, 't) Call =
  fc_session :: "('h, 't) OpenLockSession"
  fc_caller :: Caller

type_synonym ('h, 't, 'a) call = "(('h, 't) Call, i32, 'a) sm"

definition with_session ::
  "('h, 't, unit) call \<Rightarrow> ('h, 't) OpenLockSession option \<Rightarrow> Caller \<Rightarrow>
     i32 \<times> ('h, 't) OpenLockSession option \<times> Caller" where
  "with_session m session ca = (case session of
     None \<Rightarrow> (- 1, None, ca)
   | Some s \<Rightarrow> (case m \<lparr>fc_session = s, fc_caller = ca\<rparr> of
       (r, st) \<Rightarrow> (ffi_status r, Some (fc_session st), fc_caller st)))"

definition on_caller :: "(Caller, i32, 'a) sm \<Rightarrow> ('h, 't, 'a) call" where
  "on_caller m st = (case m (fc_caller st) of (r, ca) \<Rightarrow> (r, st\<lparr>fc_caller := ca\<rparr>))"

definition on_inner :: "('h, 't, 'a) ses \<Rightarrow> ('h, 't, 'a) call" where
  "on_inner m st = (case m (ol_inner (fc_session st)) of
     (r, inner) \<Rightarrow> (coded r, st\<lparr>fc_session := (fc_session st)\<lparr>ol_inner := inner\<rparr>\<rparr>))"

definition inner_size :: "(('h, 't) Session \<Rightarrow> Error + 'a) \<Rightarrow> ('h, 't, 'a) call" where
  "inner_size f = bnd (gets (\<lambda>st. ol_inner (fc_session st))) (\<lambda>inner. lift (coded (f inner)))"

definition modify_session :: "(('h, 't) OpenLockSession \<Rightarrow> ('h, 't) OpenLockSession) \<Rightarrow> ('h, 't, unit) call" where
  "modify_session f = modify (\<lambda>st. st\<lparr>fc_session := f (fc_session st)\<rparr>)"

section \<open>Sessions\<close>

text \<open>The place for the new session is again a pointer; it is cleared first.\<close>

definition fresh_handle :: "('h, 't) Session \<Rightarrow> ('h, 't) OpenLockSession" where
  "fresh_handle inner = \<lparr>ol_inner = inner, ol_events = [], ol_output = None\<rparr>"

definition store_session ::
  "Error + ('h, 't) Session \<Rightarrow> i32 \<times> ('h, 't) OpenLockSession option option" where
  "store_session r = (case r of
     Inr inner \<Rightarrow> (0, Some (Some (fresh_handle inner))) | Inl e \<Rightarrow> (ffi_code e, Some None))"

definition openlock_session_initiator ::
  "Crypto \<Rightarrow> ('h, 't) Snow \<Rightarrow> bytes option \<Rightarrow> bytes option \<Rightarrow> u64 \<Rightarrow> ('h, 't) OpenLockSession option option \<Rightarrow>
     i32 \<times> ('h, 't) OpenLockSession option option" where
  "openlock_session_initiator cr sn private public capabilities out = (case (private, public, out) of
     (Some private, Some public, Some _) \<Rightarrow> store_session (Session_initiator cr sn private public capabilities)
   | _ \<Rightarrow> (- 1, out))"

definition openlock_session_responder ::
  "('h, 't) Snow \<Rightarrow> bytes option \<Rightarrow> u64 \<Rightarrow> ('h, 't) OpenLockSession option option \<Rightarrow>
     i32 \<times> ('h, 't) OpenLockSession option option" where
  "openlock_session_responder sn private capabilities out = (case (private, out) of
     (Some private, Some _) \<Rightarrow> store_session (Session_responder sn private capabilities)
   | _ \<Rightarrow> (- 1, out))"

definition openlock_session_start ::
  "Crypto \<Rightarrow> ('h, 't) Snow \<Rightarrow> ('h, 't) OpenLockSession option \<Rightarrow> Caller \<Rightarrow>
     i32 \<times> ('h, 't) OpenLockSession option \<times> Caller" where
  "openlock_session_start cr sn = with_session (
     bnd (inner_size (start_size cr)) (\<lambda>required.
     thn (on_caller (ffi_capacity required)) (
     bnd (on_inner (Session_start cr sn)) (\<lambda>b. on_caller (ffi_copy b)))))"

definition openlock_session_send ::
  "Crypto \<Rightarrow> ('h, 't) Snow \<Rightarrow> bytes option \<Rightarrow> nat \<Rightarrow> ('h, 't) OpenLockSession option \<Rightarrow> Caller \<Rightarrow>
     i32 \<times> ('h, 't) OpenLockSession option \<times> Caller" where
  "openlock_session_send cr sn data data_len = with_session (
     bnd (gets (\<lambda>st. ca_id (fc_caller st))) (\<lambda>i.
     thn (guard_err (i = None) (- 1)) (
     bnd (lift (ffi_input data data_len)) (\<lambda>b.
     bnd (lift (coded (decode_wire cr Command_parse b))) (\<lambda>command.
     bnd (inner_size (\<lambda>s. request_size cr s command)) (\<lambda>required.
     thn (on_caller (ffi_capacity required)) (
     bnd (on_inner (Session_send cr sn command)) (\<lambda>(request_id, packet).
     thn (on_caller (modify (ca_id_update (\<lambda>_. Some request_id)))) (
       on_caller (ffi_copy packet))))))))))"

definition openlock_session_respond ::
  "Crypto \<Rightarrow> ('h, 't) Snow \<Rightarrow> u32 \<Rightarrow> bytes option \<Rightarrow> nat \<Rightarrow> ('h, 't) OpenLockSession option \<Rightarrow> Caller \<Rightarrow>
     i32 \<times> ('h, 't) OpenLockSession option \<times> Caller" where
  "openlock_session_respond cr sn i data data_len = with_session (
     bnd (lift (ffi_input data data_len)) (\<lambda>b.
     bnd (lift (coded (decode_wire cr Response_parse b))) (\<lambda>response.
     bnd (inner_size (\<lambda>s. response_size cr s i response)) (\<lambda>required.
     thn (on_caller (ffi_capacity required)) (
     bnd (on_inner (Session_respond cr sn i response)) (\<lambda>packet.
       on_caller (ffi_copy packet)))))))"

text \<open>The loop over the events of a packet: an event that does not fit closes the session.\<close>

fun queue_events :: "Crypto \<Rightarrow> SessionEvent list \<Rightarrow> ('h, 't, unit) call" where
  "queue_events cr [] = ret ()"
| "queue_events cr (event # rest) = (case event_bytes cr event of
     Inr b \<Rightarrow> thn (modify_session (\<lambda>s. s\<lparr>ol_events := ol_events s @ [b]\<rparr>)) (queue_events cr rest)
   | Inl e \<Rightarrow> thn (modify_session (\<lambda>s. s\<lparr>ol_inner := Session_close (ol_inner s)\<rparr>)) (raise (ffi_code e)))"

definition openlock_session_receive ::
  "Crypto \<Rightarrow> ('h, 't) Snow \<Rightarrow> bytes option \<Rightarrow> nat \<Rightarrow> ('h, 't) OpenLockSession option \<Rightarrow> Caller \<Rightarrow>
     i32 \<times> ('h, 't) OpenLockSession option \<times> Caller" where
  "openlock_session_receive cr sn data data_len = with_session (
     bnd (gets fc_session) (\<lambda>s.
     thn (guard_err (ol_output s \<noteq> None \<or> ol_events s \<noteq> []) (ffi_code Busy)) (
     bnd (lift (ffi_input data data_len)) (\<lambda>b.
     bnd (attempt (on_inner (Session_receive cr sn b))) (\<lambda>result.
     case result of
       Inr (events, reply) \<Rightarrow>
         thn (queue_events cr events) (modify_session (\<lambda>s. s\<lparr>ol_output := reply\<rparr>))
     | Inl e \<Rightarrow>
         thn (modify_session (\<lambda>s. s\<lparr>ol_inner := Session_close (ol_inner s)\<rparr>)) (raise e))))))"

definition openlock_session_take_output ::
  "('h, 't) OpenLockSession option \<Rightarrow> Caller \<Rightarrow> i32 \<times> ('h, 't) OpenLockSession option \<times> Caller" where
  "openlock_session_take_output = with_session (
     bnd (gets fc_session) (\<lambda>s.
     thn (on_caller (ffi_copy (case ol_output s of Some b \<Rightarrow> b | None \<Rightarrow> []))) (
       modify_session (\<lambda>s. s\<lparr>ol_output := None\<rparr>))))"

definition openlock_session_take_event ::
  "('h, 't) OpenLockSession option \<Rightarrow> Caller \<Rightarrow> i32 \<times> ('h, 't) OpenLockSession option \<times> Caller" where
  "openlock_session_take_event = with_session (
     bnd (gets fc_session) (\<lambda>s.
     thn (on_caller (ffi_copy (case ol_events s of b # _ \<Rightarrow> b | [] \<Rightarrow> []))) (
       modify_session (\<lambda>s. s\<lparr>ol_events := tl (ol_events s)\<rparr>))))"

text \<open>Dropping the box: nothing is left behind the pointer.\<close>

definition openlock_session_free :: "('h, 't) OpenLockSession option \<Rightarrow> ('h, 't) OpenLockSession option" where
  "openlock_session_free session = None"

section \<open>Objects\<close>

definition on_memory :: "(Caller, i32, unit) sm \<Rightarrow> Caller \<Rightarrow> i32 \<times> Caller" where
  "on_memory m ca = (case m ca of (r, ca) \<Rightarrow> (ffi_status r, ca))"

definition command_bytes :: "Crypto \<Rightarrow> bytes \<Rightarrow> u64 \<Rightarrow> bytes \<Rightarrow> Error + bytes" where
  "command_bytes cr credential sequence action =
     rbind (decode_wire cr Action_parse action) (\<lambda>action.
     let c = \<lparr>cmd_credential = credential, cmd_sequence = (if sequence = 0 then None else Some sequence),
              cmd_action = action\<rparr> in
     rbind (Command_validate c) (\<lambda>_. encode_wire cr Command_value c))"

definition openlock_encode_command ::
  "Crypto \<Rightarrow> bytes option \<Rightarrow> nat \<Rightarrow> u64 \<Rightarrow> bytes option \<Rightarrow> nat \<Rightarrow> Caller \<Rightarrow> i32 \<times> Caller" where
  "openlock_encode_command cr credential credential_len sequence action action_len = on_memory (
     bnd (lift (ffi_input credential credential_len)) (\<lambda>credential.
     bnd (lift (ffi_input action action_len)) (\<lambda>action.
     bnd (lift (coded (command_bytes cr credential sequence action))) ffi_copy)))"

text \<open>The public key has 32 bytes; there is no length to check.\<close>

definition openlock_public_key :: "Crypto \<Rightarrow> u32 \<Rightarrow> bytes option \<Rightarrow> bytes option \<Rightarrow> i32 \<times> bytes option" where
  "openlock_public_key cr kind private out = (case (private, out) of
     (Some key, Some memory) \<Rightarrow>
       if kind = 0 then (0, Some (static_public cr key @ drop 32 memory))
       else if kind = 1 then (0, Some (cr_verifying_key cr key @ drop 32 memory))
       else (- 1, out)
   | _ \<Rightarrow> (- 1, out))"

definition signed_payload :: "Crypto \<Rightarrow> bytes \<Rightarrow> u32 \<Rightarrow> bytes \<Rightarrow> Error + bytes" where
  "signed_payload cr key kind b =
     rbind (cdecode cr b) (\<lambda>value.
     if kind = 0 then rbind (parse_grant value) (sign_grant cr key)
     else if kind = 1 then
       rbind (sign_object cr key POLICY value) (\<lambda>signed.
       rbind (read_policy cr (cr_verifying_key cr key) signed) (\<lambda>_. Inr signed))
     else if kind = 2 then rbind (FirmwareManifest_parse value) (sign_manifest cr key)
     else if kind = 3 \<or> kind = 4 then sign_trust_payload cr key kind value
     else Inl InvalidPayload)"

definition openlock_sign ::
  "Crypto \<Rightarrow> u32 \<Rightarrow> bytes option \<Rightarrow> bytes option \<Rightarrow> nat \<Rightarrow> Caller \<Rightarrow> i32 \<times> Caller" where
  "openlock_sign cr kind private data data_len = on_memory (
     bnd (lift (case private of None \<Rightarrow> Inl (- 1) | Some key \<Rightarrow> Inr key)) (\<lambda>key.
     bnd (lift (ffi_input data data_len)) (\<lambda>b.
     bnd (lift (coded (signed_payload cr key kind b))) ffi_copy)))"

end
