(* ===== verification/Kotlin.thy ===== *)
theory Kotlin
  imports Ffi "HOL-Library.Monad_Syntax"
begin

text \<open>
  The Kotlin binding (\<^verbatim>\<open>bindings/kotlin/src/main\<close>): its own CBOR codec and message types in
  \<^verbatim>\<open>Wire.kt\<close> and \<^verbatim>\<open>OpenLock.kt\<close>, and the C functions of \<^verbatim>\<open>openlock_jni.c\<close> over the C interface. A
  \<open>ULong\<close> is a 64-bit word, a \<open>String\<close> the list of the bytes of its UTF-8 form. \<open>None\<close> stands for
  the exceptions of \<open>require\<close>, \<open>check\<close>, \<open>error\<close> and of a failed cast; an \<open>OpenLockException\<close> carries
  the code of the C interface. The enumerations and readings have the same constructors as
  in the crates and share their types.
\<close>

unbundle bit_operations_syntax

section \<open>The codec\<close>

datatype (plugins only: code size) Kt_Wire =
    Kt_UInt u64 | Kt_Bytes bytes | Kt_Text string | Kt_Items "Kt_Wire list" | Kt_Null

definition kt_head :: "u8 \<Rightarrow> u64 \<Rightarrow> bytes" where
  "kt_head major n =
     (if n < 24 then [push_bit 5 major OR ucast n]
      else let count = (if n \<le> 255 then 1 else if n \<le> 65535 then 2 else if n \<le> 0xffffffff then 4 else 8);
               ai = (if count = 1 then 24 else if count = 2 then 25 else if count = 4 then 26 else 27) in
        (push_bit 5 major OR ai) # map (\<lambda>i. ucast (drop_bit ((count - 1 - i) * 8) n)) [0..<count])"

fun kt_encode :: "Kt_Wire \<Rightarrow> bytes" where
  "kt_encode (Kt_UInt n) = kt_head 0 n"
| "kt_encode (Kt_Bytes b) = kt_head 2 (of_nat (length b)) @ b"
| "kt_encode (Kt_Text s) = kt_head 3 (of_nat (length s)) @ map of_char s"
| "kt_encode (Kt_Items ws) = kt_head 4 (of_nat (length ws)) @ concat (map kt_encode ws)"
| "kt_encode Kt_Null = [0xf6]"

definition kt_argument :: "u8 \<Rightarrow> bytes \<Rightarrow> (u64 \<times> bytes) option" where
  "kt_argument ai bs =
     (if ai < 24 then Some (ucast ai, bs)
      else if ai < 28 then
        let count = (if ai = 24 then 1 else if ai = 25 then 2 else if ai = 26 then 4 else 8) in
        if length bs < count then None
        else Some (foldl (\<lambda>n b. push_bit 8 n OR ucast b) 0 (take count bs), drop count bs)
      else None)"

text \<open>The strict decoder of the standard library asks for well-formed UTF-8.\<close>

definition kt_string :: "bytes \<Rightarrow> Kt_Wire option" where
  "kt_string b = (if utf8_valid b then Some (Kt_Text (map (\<lambda>c. char_of (unat c)) b)) else None)"

function kt_parse :: "nat \<Rightarrow> bytes \<Rightarrow> (Kt_Wire \<times> bytes) option"
  and kt_items :: "nat \<Rightarrow> nat \<Rightarrow> bytes \<Rightarrow> (Kt_Wire list \<times> bytes) option" where
  "kt_parse depth bs =
     (if depth < 32 then
        (case bs of
           [] \<Rightarrow> None
         | h # rest \<Rightarrow>
             if h = 0xf6 then Some (Kt_Null, rest)
             else (case kt_argument (h AND 31) rest of
                 None \<Rightarrow> None
               | Some (n, rest) \<Rightarrow>
                   if drop_bit 5 h = 0 then Some (Kt_UInt n, rest)
                   else if drop_bit 5 h = 2 \<or> drop_bit 5 h = 3 then
                     if unat n \<le> length rest then
                       map_option (\<lambda>w. (w, drop (unat n) rest))
                         (if drop_bit 5 h = 2 then Some (Kt_Bytes (take (unat n) rest))
                          else kt_string (take (unat n) rest))
                     else None
                   else if drop_bit 5 h = 4 then
                     if n \<le> 4096 then map_option (\<lambda>(ws, rest). (Kt_Items ws, rest)) (kt_items (Suc depth) (unat n) rest)
                     else None
                   else None))
      else None)"
| "kt_items depth 0 bs = Some ([], bs)"
| "kt_items depth (Suc n) bs = (case kt_parse depth bs of
     None \<Rightarrow> None
   | Some (w, rest) \<Rightarrow> map_option (\<lambda>(ws, rest). (w # ws, rest)) (kt_items depth n rest))"
  by pat_completeness auto

termination
  by (relation "measures [\<lambda>x. case x of Inl (depth, _) \<Rightarrow> 2 * (33 - depth) | Inr (depth, _, _) \<Rightarrow> 2 * (33 - depth) + 1,
      \<lambda>x. case x of Inl _ \<Rightarrow> 0 | Inr (_, n, _) \<Rightarrow> n]") auto

declare kt_parse.simps [simp del]

definition kt_decode :: "bytes \<Rightarrow> nat \<Rightarrow> Kt_Wire option" where
  "kt_decode data maxSize =
     (if length data \<le> maxSize then
        (case kt_parse 0 data of
           Some (w, []) \<Rightarrow> if kt_encode w = data then Some w else None
         | _ \<Rightarrow> None)
      else None)"

section \<open>Reading values\<close>

definition kt_require :: "bool \<Rightarrow> unit option" where
  "kt_require b = (if b then Some () else None)"

definition kt_fields :: "Kt_Wire \<Rightarrow> nat \<Rightarrow> Kt_Wire list option" where
  "kt_fields w size' = (case w of Kt_Items ws \<Rightarrow> if length ws = size' then Some ws else None | _ \<Rightarrow> None)"

definition kt_number :: "Kt_Wire \<Rightarrow> u64 option" where
  "kt_number w = (case w of Kt_UInt n \<Rightarrow> Some n | _ \<Rightarrow> None)"

definition kt_bytes :: "Kt_Wire \<Rightarrow> bytes option" where
  "kt_bytes w = (case w of Kt_Bytes b \<Rightarrow> Some b | _ \<Rightarrow> None)"

definition kt_text :: "Kt_Wire \<Rightarrow> string option" where
  "kt_text w = (case w of Kt_Text t \<Rightarrow> Some t | _ \<Rightarrow> None)"

definition kt_bool :: "Kt_Wire \<Rightarrow> bool option" where
  "kt_bool w = do { n \<leftarrow> kt_number w; kt_require (n \<le> 1); Some (n = 1) }"

definition kt_optional :: "Kt_Wire \<Rightarrow> u64 option option" where
  "kt_optional w = (if w = Kt_Null then Some None else map_option Some (kt_number w))"

definition kt_nullable :: "(Kt_Wire \<Rightarrow> 'a option) \<Rightarrow> Kt_Wire \<Rightarrow> 'a option option" where
  "kt_nullable parse w = (if w = Kt_Null then Some None else map_option Some (parse w))"

definition kt_reading :: "(Kt_Wire \<Rightarrow> 'a option) \<Rightarrow> Kt_Wire \<Rightarrow> 'a Reading option" where
  "kt_reading parse w = (case w of
     Kt_Items (tag # rest) \<Rightarrow> do {
       n \<leftarrow> kt_number tag;
       if n = 0 then do { kt_require (rest = []); Some Unsupported }
       else if n = 1 then do { kt_require (rest = []); Some Unknown }
       else if n = 2 then do { kt_require (length rest = 1); map_option Known (parse (rest ! 0)) }
       else None }
   | _ \<Rightarrow> None)"

definition kt_enumeration :: "'a list \<Rightarrow> Kt_Wire \<Rightarrow> 'a option" where
  "kt_enumeration values w = do {
     n \<leftarrow> kt_number w;
     kt_require (n < of_nat (length values));
     Some (values ! unat n) }"

definition kt_bolt :: "Kt_Wire \<Rightarrow> BoltState option" where
  "kt_bolt = kt_enumeration [Locked, Unlocked]"
definition kt_door :: "Kt_Wire \<Rightarrow> DoorState option" where
  "kt_door = kt_enumeration [Closed, Open]"
definition kt_actuator :: "Kt_Wire \<Rightarrow> ActuatorKind option" where
  "kt_actuator = kt_enumeration [Motor, Pulse]"
definition kt_phase :: "Kt_Wire \<Rightarrow> OperationPhase option" where
  "kt_phase = kt_enumeration [Phase_Accepted, Phase_Running, Phase_Completed, Phase_Failed, Phase_Unknown]"
definition kt_evidence :: "Kt_Wire \<Rightarrow> CompletionEvidence option" where
  "kt_evidence = kt_enumeration [Evidence_None, Evidence_Driver, Evidence_Sensor, Evidence_NoChange]"
definition kt_fault :: "Kt_Wire \<Rightarrow> Fault option" where
  "kt_fault = kt_enumeration
     [Fault_None, Fault_Jammed, Fault_Timeout, Fault_SensorConflict, Fault_Driver, Fault_DoorAjar]"
definition kt_firmware_phase :: "Kt_Wire \<Rightarrow> FirmwarePhase option" where
  "kt_firmware_phase = kt_enumeration
     [Firmware_Empty, Firmware_Receiving, Firmware_Verified, Firmware_Trial, Firmware_Confirmed, Firmware_Failed]"

section \<open>Message types\<close>

record Kt_OperationStatus =
  ko_credentialID :: bytes
  ko_sequence :: u64
  ko_opcode :: u64
  ko_phase :: OperationPhase
  ko_evidence :: CompletionEvidence
  ko_errorCode :: u64

definition kt_operation_status :: "Kt_Wire \<Rightarrow> Kt_OperationStatus option" where
  "kt_operation_status v = do {
     f \<leftarrow> kt_fields v 6;
     credentialID \<leftarrow> kt_bytes (f ! 0); sequence \<leftarrow> kt_number (f ! 1); opcode \<leftarrow> kt_number (f ! 2);
     phase \<leftarrow> kt_phase (f ! 3); evidence \<leftarrow> kt_evidence (f ! 4); errorCode \<leftarrow> kt_number (f ! 5);
     Some \<lparr>ko_credentialID = credentialID, ko_sequence = sequence, ko_opcode = opcode,
           ko_phase = phase, ko_evidence = evidence, ko_errorCode = errorCode\<rparr> }"

record Kt_LockStatus =
  kl_bolt :: "BoltState Reading"
  kl_door :: "DoorState Reading"
  kl_privacy :: "bool Reading"
  kl_batteryPercent :: "u64 Reading"
  kl_fault :: Fault
  kl_active :: "Kt_OperationStatus option"
  kl_epoch :: u64
  kl_policyVersion :: u64
  kl_configVersion :: u64
  kl_generation :: u64
  kl_clockTrusted :: bool

definition kt_lock_status :: "Kt_Wire \<Rightarrow> Kt_LockStatus option" where
  "kt_lock_status v = do {
     f \<leftarrow> kt_fields v 11;
     bolt \<leftarrow> kt_reading kt_bolt (f ! 0); door \<leftarrow> kt_reading kt_door (f ! 1);
     privacy \<leftarrow> kt_reading kt_bool (f ! 2); batteryPercent \<leftarrow> kt_reading kt_number (f ! 3);
     fault \<leftarrow> kt_fault (f ! 4); active \<leftarrow> kt_nullable kt_operation_status (f ! 5);
     epoch \<leftarrow> kt_number (f ! 6); policyVersion \<leftarrow> kt_number (f ! 7); configVersion \<leftarrow> kt_number (f ! 8);
     generation \<leftarrow> kt_number (f ! 9); clockTrusted \<leftarrow> kt_bool (f ! 10);
     Some \<lparr>kl_bolt = bolt, kl_door = door, kl_privacy = privacy, kl_batteryPercent = batteryPercent,
           kl_fault = fault, kl_active = active, kl_epoch = epoch, kl_policyVersion = policyVersion,
           kl_configVersion = configVersion, kl_generation = generation, kl_clockTrusted = clockTrusted\<rparr> }"

datatype Kt_AutoRelock = Kt_Disabled | Kt_Delay u64 | Kt_AfterClose u64

definition kt_auto_relock_wire :: "Kt_AutoRelock \<Rightarrow> Kt_Wire" where
  "kt_auto_relock_wire a = (case a of
     Kt_Disabled \<Rightarrow> Kt_Items [Kt_UInt 0]
   | Kt_Delay ms \<Rightarrow> Kt_Items [Kt_UInt 1, Kt_UInt ms]
   | Kt_AfterClose ms \<Rightarrow> Kt_Items [Kt_UInt 2, Kt_UInt ms])"

definition kt_auto_relock :: "Kt_Wire \<Rightarrow> Kt_AutoRelock option" where
  "kt_auto_relock v = (case v of
     Kt_Items (tag # rest) \<Rightarrow> do {
       n \<leftarrow> kt_number tag;
       if n = 0 then do { kt_require (rest = []); Some Kt_Disabled }
       else if n = 1 then do { kt_require (length rest = 1); map_option Kt_Delay (kt_number (rest ! 0)) }
       else if n = 2 then do { kt_require (length rest = 1); map_option Kt_AfterClose (kt_number (rest ! 0)) }
       else None }
   | _ \<Rightarrow> None)"

record Kt_DeviceConfig =
  kc_version :: u64
  kc_autoRelock :: Kt_AutoRelock
  kc_releaseMS :: u64
  kc_actionTimeoutMS :: u64
  kc_holdOpen :: bool
  kc_doorAjarMS :: u64

definition kt_device_config_wire :: "Kt_DeviceConfig \<Rightarrow> Kt_Wire" where
  "kt_device_config_wire c = Kt_Items
     [Kt_UInt (kc_version c), kt_auto_relock_wire (kc_autoRelock c), Kt_UInt (kc_releaseMS c),
      Kt_UInt (kc_actionTimeoutMS c), Kt_UInt (if kc_holdOpen c then 1 else 0), Kt_UInt (kc_doorAjarMS c)]"

definition kt_device_config :: "Kt_Wire \<Rightarrow> Kt_DeviceConfig option" where
  "kt_device_config v = do {
     f \<leftarrow> kt_fields v 6;
     version \<leftarrow> kt_number (f ! 0); autoRelock \<leftarrow> kt_auto_relock (f ! 1); releaseMS \<leftarrow> kt_number (f ! 2);
     actionTimeoutMS \<leftarrow> kt_number (f ! 3); holdOpen \<leftarrow> kt_bool (f ! 4); doorAjarMS \<leftarrow> kt_number (f ! 5);
     Some \<lparr>kc_version = version, kc_autoRelock = autoRelock, kc_releaseMS = releaseMS,
           kc_actionTimeoutMS = actionTimeoutMS, kc_holdOpen = holdOpen, kc_doorAjarMS = doorAjarMS\<rparr> }"

record Kt_FirmwareManifest =
  km_model :: string
  km_hardware :: string
  km_version :: string
  km_size :: u64
  km_sha256 :: bytes
  km_securityVersion :: u64

definition kt_firmware_manifest :: "Kt_Wire \<Rightarrow> Kt_FirmwareManifest option" where
  "kt_firmware_manifest v = do {
     f \<leftarrow> kt_fields v 6;
     model \<leftarrow> kt_text (f ! 0); hardware \<leftarrow> kt_text (f ! 1); version \<leftarrow> kt_text (f ! 2);
     size' \<leftarrow> kt_number (f ! 3); sha256 \<leftarrow> kt_bytes (f ! 4); securityVersion \<leftarrow> kt_number (f ! 5);
     Some \<lparr>km_model = model, km_hardware = hardware, km_version = version, km_size = size',
           km_sha256 = sha256, km_securityVersion = securityVersion\<rparr> }"

record Kt_FirmwareStatus =
  kf_phase :: FirmwarePhase
  kf_received :: u64
  kf_manifest :: "Kt_FirmwareManifest option"
  kf_securityVersion :: u64

definition kt_firmware_status :: "Kt_Wire \<Rightarrow> Kt_FirmwareStatus option" where
  "kt_firmware_status v = do {
     f \<leftarrow> kt_fields v 4;
     phase \<leftarrow> kt_firmware_phase (f ! 0); received \<leftarrow> kt_number (f ! 1);
     manifest \<leftarrow> kt_nullable kt_firmware_manifest (f ! 2); securityVersion \<leftarrow> kt_number (f ! 3);
     Some \<lparr>kf_phase = phase, kf_received = received, kf_manifest = manifest,
           kf_securityVersion = securityVersion\<rparr> }"

record Kt_HardwareState =
  kh_bolt :: "BoltState Reading"
  kh_door :: "DoorState Reading"
  kh_privacy :: "bool Reading"
  kh_batteryPercent :: "u64 Reading"

definition kt_hardware_state :: "Kt_Wire \<Rightarrow> Kt_HardwareState option" where
  "kt_hardware_state v = do {
     f \<leftarrow> kt_fields v 4;
     bolt \<leftarrow> kt_reading kt_bolt (f ! 0); door \<leftarrow> kt_reading kt_door (f ! 1);
     privacy \<leftarrow> kt_reading kt_bool (f ! 2); batteryPercent \<leftarrow> kt_reading kt_number (f ! 3);
     Some \<lparr>kh_bolt = bolt, kh_door = door, kh_privacy = privacy, kh_batteryPercent = batteryPercent\<rparr> }"

record Kt_AuditEvent =
  ka_cursor :: u64
  ka_unixSeconds :: "u64 option"
  ka_kind :: u64
  ka_credentialID :: "bytes option"
  ka_sequence :: "u64 option"
  ka_code :: u64
  ka_hardware :: "Kt_HardwareState option"
  ka_operation :: "Kt_OperationStatus option"

definition kt_audit_event :: "Kt_Wire \<Rightarrow> Kt_AuditEvent option" where
  "kt_audit_event v = do {
     f \<leftarrow> kt_fields v 8;
     cursor \<leftarrow> kt_number (f ! 0); unixSeconds \<leftarrow> kt_optional (f ! 1); kind \<leftarrow> kt_number (f ! 2);
     credentialID \<leftarrow> kt_nullable kt_bytes (f ! 3); sequence \<leftarrow> kt_optional (f ! 4); code \<leftarrow> kt_number (f ! 5);
     hardware \<leftarrow> kt_nullable kt_hardware_state (f ! 6); operation \<leftarrow> kt_nullable kt_operation_status (f ! 7);
     Some \<lparr>ka_cursor = cursor, ka_unixSeconds = unixSeconds, ka_kind = kind, ka_credentialID = credentialID,
           ka_sequence = sequence, ka_code = code, ka_hardware = hardware, ka_operation = operation\<rparr> }"

record Kt_AuditPage =
  kp_events :: "Kt_AuditEvent list"
  kp_nextCursor :: u64
  kp_gap :: bool

fun kt_map :: "('a \<Rightarrow> 'b option) \<Rightarrow> 'a list \<Rightarrow> 'b list option" where
  "kt_map f [] = Some []"
| "kt_map f (x # xs) = do { y \<leftarrow> f x; ys \<leftarrow> kt_map f xs; Some (y # ys) }"

definition kt_audit_page :: "Kt_Wire \<Rightarrow> Kt_AuditPage option" where
  "kt_audit_page v = do {
     f \<leftarrow> kt_fields v 3;
     events \<leftarrow> (case f ! 0 of Kt_Items ws \<Rightarrow> kt_map kt_audit_event ws | _ \<Rightarrow> None);
     nextCursor \<leftarrow> kt_number (f ! 1); gap \<leftarrow> kt_bool (f ! 2);
     Some \<lparr>kp_events = events, kp_nextCursor = nextCursor, kp_gap = gap\<rparr> }"

record Kt_DeviceInfo =
  ki_lockID :: bytes
  ki_model :: string
  ki_hardware :: string
  ki_firmware :: string
  ki_capabilities :: u64
  ki_actuator :: ActuatorKind
  ki_boltSensor :: bool
  ki_doorSensor :: bool
  ki_privacySensor :: bool
  ki_batterySensor :: bool
  ki_safeLockWithoutDoor :: bool
  ki_holdOpen :: bool
  ki_maxReleaseMS :: u64
  ki_maxActionMS :: u64
  ki_maxDelayMS :: u64
  ki_logCapacity :: u64
  ki_operationCapacity :: u64
  ki_credentialCapacity :: u64
  ki_maxImageSize :: u64
  ki_maxChunkSize :: u64

definition kt_device_info :: "Kt_Wire \<Rightarrow> Kt_DeviceInfo option" where
  "kt_device_info v = do {
     f \<leftarrow> kt_fields v 20;
     lockID \<leftarrow> kt_bytes (f ! 0); model \<leftarrow> kt_text (f ! 1); hardware \<leftarrow> kt_text (f ! 2); firmware \<leftarrow> kt_text (f ! 3);
     capabilities \<leftarrow> kt_number (f ! 4); actuator \<leftarrow> kt_actuator (f ! 5); boltSensor \<leftarrow> kt_bool (f ! 6);
     doorSensor \<leftarrow> kt_bool (f ! 7); privacySensor \<leftarrow> kt_bool (f ! 8); batterySensor \<leftarrow> kt_bool (f ! 9);
     safeLockWithoutDoor \<leftarrow> kt_bool (f ! 10); holdOpen \<leftarrow> kt_bool (f ! 11); maxReleaseMS \<leftarrow> kt_number (f ! 12);
     maxActionMS \<leftarrow> kt_number (f ! 13); maxDelayMS \<leftarrow> kt_number (f ! 14); logCapacity \<leftarrow> kt_number (f ! 15);
     operationCapacity \<leftarrow> kt_number (f ! 16); credentialCapacity \<leftarrow> kt_number (f ! 17);
     maxImageSize \<leftarrow> kt_number (f ! 18); maxChunkSize \<leftarrow> kt_number (f ! 19);
     Some \<lparr>ki_lockID = lockID, ki_model = model, ki_hardware = hardware, ki_firmware = firmware,
           ki_capabilities = capabilities, ki_actuator = actuator, ki_boltSensor = boltSensor,
           ki_doorSensor = doorSensor, ki_privacySensor = privacySensor, ki_batterySensor = batterySensor,
           ki_safeLockWithoutDoor = safeLockWithoutDoor, ki_holdOpen = holdOpen,
           ki_maxReleaseMS = maxReleaseMS, ki_maxActionMS = maxActionMS, ki_maxDelayMS = maxDelayMS,
           ki_logCapacity = logCapacity, ki_operationCapacity = operationCapacity,
           ki_credentialCapacity = credentialCapacity, ki_maxImageSize = maxImageSize,
           ki_maxChunkSize = maxChunkSize\<rparr> }"

end
