(* ===== verification/Kotlin_Codec.thy ===== *)
theory Kotlin_Codec
  imports Kotlin Ref_Cbor
begin

text \<open>
  The codec of the Kotlin binding: its heads and encodings are those of RFC 8949 in the
  shortest form, and its decoder accepts exactly the encodings of the values it can hold.
\<close>

unbundle bit_operations_syntax

section \<open>Heads\<close>

definition kt_major :: "u8 \<Rightarrow> bool" where
  "kt_major major \<longleftrightarrow> major = 0 \<or> major = 2 \<or> major = 3 \<or> major = 4"

definition kt_be :: "nat \<Rightarrow> u64 \<Rightarrow> bytes" where
  "kt_be k n = map (\<lambda>i. ucast (drop_bit ((k - 1 - i) * 8) n)) [0..<k]"

lemma kt_be_Suc: "kt_be (Suc k) n = ucast (drop_bit (k * 8) n) # kt_be k n"
proof -
  have "[0..<Suc k] = 0 # map Suc [0..<k]" by (simp add: upt_conv_Cons map_Suc_upt)
  then show ?thesis by (simp add: kt_be_def)
qed

lemma length_kt_be [simp]: "length (kt_be k n) = k"
  by (simp add: kt_be_def)

lemma kt_be_bytes: "kt_be k n = be_bytes k (unat n)"
proof (induction k arbitrary: n)
  case (Suc k)
  have "kt_be (Suc k) n = map (\<lambda>i. ucast (drop_bit ((k - i) * 8) n)) [0..<k] @ [ucast n]"
    by (simp add: kt_be_def)
  also have "map (\<lambda>i. ucast (drop_bit ((k - i) * 8) n)) [0..<k] = kt_be k (drop_bit 8 n)"
    by (auto simp: kt_be_def intro!: arg_cong [where f = ucast] arg_cong [where f = "\<lambda>i. drop_bit i n"])
  also have "kt_be k (drop_bit 8 n) = be_bytes k (unat n div 256)"
    by (simp only: Suc.IH unat_drop_bit_eq) (simp add: drop_bit_eq_div)
  also have "(ucast n :: u8) = of_nat (unat n mod 256)"
    by (simp add: word_unat_eq_iff unsigned_ucast_eq unat_of_nat_byte take_bit_eq_mod)
  finally show ?case by simp
qed (simp add: kt_be_def)

lemma kt_read_be:
  "foldl (\<lambda>n b. push_bit 8 n OR ucast b) a (kt_be k n) = push_bit (8 * k) a OR take_bit (8 * k) (n :: u64)"
proof (induction k arbitrary: a)
  case (Suc k)
  have "push_bit (8 * k) (push_bit 8 a OR ucast (ucast (drop_bit (k * 8) n) :: u8)) OR take_bit (8 * k) n
      = push_bit (8 * Suc k) a OR take_bit (8 * Suc k) n"
    by (rule bit_word_eqI) (auto simp: bit_simps ac_simps)
  with Suc show ?case by (simp add: kt_be_Suc)
qed (simp add: kt_be_def)


lemma take_bit_self: "unat n < 2 ^ k \<Longrightarrow> take_bit k (n :: u64) = n"
  by (simp add: word_unat_eq_iff unsigned_take_bit_eq take_bit_nat_eq_self)

text \<open>The first byte of a head carries the major type and the size of the argument.\<close>

lemma kt_tag:
  assumes "kt_major major" "a < (28 :: u8)"
  shows "push_bit 5 major OR a \<noteq> 0xf6" "drop_bit 5 (push_bit 5 major OR a) = major" "(push_bit 5 major OR a) AND 31 = a"
    "push_bit 5 major OR a = of_nat (unat major * 32 + unat a)"
proof -
  have "unat a \<in> set [0..<28]" using assms(2) by (simp add: word_less_nat_alt)
  then have "(of_nat (unat a) :: u8) \<in> of_nat ` set [0..<28]" by (rule imageI)
  then have "a \<in> {0, 1, 2, 3, 4, 5, 6, 7, 8, 9, 10, 11, 12, 13, 14, 15, 16, 17, 18, 19, 20, 21, 22, 23, 24, 25, 26, 27}"
    by (simp add: upt_conv_Cons)
  with assms(1) show "push_bit 5 major OR a \<noteq> 0xf6" "drop_bit 5 (push_bit 5 major OR a) = major" "(push_bit 5 major OR a) AND 31 = a"
    "push_bit 5 major OR a = of_nat (unat major * 32 + unat a)"
    by (auto simp: kt_major_def)
qed

lemma kt_head_cases:
  obtains "n < 24" "kt_head major n = [push_bit 5 major OR ucast n]" "(ucast n :: u8) < 24"
  | "\<not> n < 24" "n \<le> 255" "kt_head major n = (push_bit 5 major OR 24) # kt_be 1 n"
  | "\<not> n \<le> 255" "n \<le> 65535" "kt_head major n = (push_bit 5 major OR 25) # kt_be 2 n"
  | "\<not> n \<le> 65535" "n \<le> 0xffffffff" "kt_head major n = (push_bit 5 major OR 26) # kt_be 4 n"
  | "\<not> n \<le> 0xffffffff" "kt_head major n = (push_bit 5 major OR 27) # kt_be 8 n"
proof -
  consider "n < 24" | "\<not> n < 24" "n \<le> 255" | "\<not> n \<le> 255" "n \<le> 65535" | "\<not> n \<le> 65535" "n \<le> 0xffffffff" | "\<not> n \<le> 0xffffffff"
    by blast
  then show ?thesis
  proof cases
    case 1
    then have "unat (ucast n :: u8) = unat n" by (simp add: unsigned_ucast_eq take_bit_nat_eq_self word_less_nat_alt)
    with 1 that(1) show ?thesis by (simp add: kt_head_def word_less_nat_alt)
  next
    case 2
    then show ?thesis using that(2) by (simp add: kt_head_def kt_be_def)
  next
    case 3
    moreover from this have "\<not> n < 24" by (auto simp: word_less_nat_alt word_le_nat_alt)
    ultimately show ?thesis using that(3) by (simp add: kt_head_def kt_be_def)
  next
    case 4
    moreover from this have "\<not> n < 24" "\<not> n \<le> 255" by (auto simp: word_less_nat_alt word_le_nat_alt)
    ultimately show ?thesis using that(4) by (simp add: kt_head_def kt_be_def)
  next
    case 5
    moreover from this have "\<not> n < 24" "\<not> n \<le> 255" "\<not> n \<le> 65535" by (auto simp: word_less_nat_alt word_le_nat_alt)
    ultimately show ?thesis using that(5) by (simp add: kt_head_def kt_be_def)
  qed
qed

lemma kt_head_read:
  assumes "kt_major major"
  obtains h args where "kt_head major n @ rest = h # args" "h \<noteq> 0xf6" "drop_bit 5 h = major"
    "kt_argument (h AND 31) args = Some (n, rest)"
proof (cases rule: kt_head_cases [of n major])
  case 1
  have "ucast (ucast n :: u8) = take_bit 8 n" by (rule bit_word_eqI) (auto simp: bit_simps)
  with 1(1) have "ucast (ucast n :: u8) = n" using take_bit_self [of n 8] by (simp add: word_less_nat_alt)
  with 1 that kt_tag [OF assms, of "ucast n"] show ?thesis by (simp add: kt_argument_def order.strict_trans)
next
  case 2
  with that kt_tag [OF assms, of 24] kt_read_be [of 0 1 n] take_bit_self [of n 8] show ?thesis
    by (simp add: kt_argument_def word_le_nat_alt)
next
  case 3
  with that kt_tag [OF assms, of 25] kt_read_be [of 0 2 n] take_bit_self [of n 16] show ?thesis
    by (simp add: kt_argument_def word_le_nat_alt)
next
  case 4
  with that kt_tag [OF assms, of 26] kt_read_be [of 0 4 n] take_bit_self [of n 32] show ?thesis
    by (simp add: kt_argument_def word_le_nat_alt)
next
  case 5
  have "take_bit 64 n = n" by (rule bit_word_eqI) (simp add: bit_simps)
  with 5 that kt_tag [OF assms, of 27] kt_read_be [of 0 8 n] show ?thesis by (simp add: kt_argument_def)
qed

lemma kt_head_head:
  assumes "kt_major major"
  shows "kt_head major n = head (unat major) (unat n)"
proof (cases rule: kt_head_cases [of n major])
  case 1
  then have "unat (ucast n :: u8) = unat n" by (simp add: unsigned_ucast_eq take_bit_nat_eq_self word_less_nat_alt)
  with 1 kt_tag(4) [OF assms, of "ucast n"] show ?thesis
    by (simp add: head_def word_less_nat_alt order.strict_trans del: of_nat_add of_nat_mult)
qed (use kt_tag(4) [OF assms, of 24] kt_tag(4) [OF assms, of 25] kt_tag(4) [OF assms, of 26] kt_tag(4) [OF assms, of 27] in
  \<open>simp_all add: head_def Let_def kt_be_bytes word_less_nat_alt word_le_nat_alt del: of_nat_add of_nat_mult be_bytes.simps\<close>)

section \<open>Values\<close>

text \<open>What the decoder can return: text is well-formed UTF-8, and the containers are not too
  deep and not too long.\<close>

fun kt_ok :: "nat \<Rightarrow> Kt_Wire \<Rightarrow> bool" where
  "kt_ok depth (Kt_UInt n) = (depth < 32)"
| "kt_ok depth (Kt_Bytes b) = (depth < 32 \<and> length b < 2 ^ 31)"
| "kt_ok depth (Kt_Text s) = (depth < 32 \<and> length s < 2 ^ 31 \<and> utf8_valid (map of_char s))"
| "kt_ok depth (Kt_Items ws) = (depth < 32 \<and> length ws \<le> 4096 \<and> (\<forall>w \<in> set ws. kt_ok (Suc depth) w))"
| "kt_ok depth Kt_Null = (depth < 32)"

lemma unat_size: "n < 2 ^ 31 \<Longrightarrow> unat (of_nat n :: u64) = n"
  by (simp add: unsigned_of_nat take_bit_nat_eq_self)

lemma kt_major_simps [simp]: "kt_major 0" "kt_major 2" "kt_major 3" "kt_major 4"
  by (simp_all add: kt_major_def)

lemma kt_string_text: "utf8_valid (map of_char s) \<Longrightarrow> kt_string (map of_char s) = Some (Kt_Text s)"
  by (simp add: kt_string_def)

lemma kt_parse_head:
  assumes "kt_major major" "depth < 32"
  shows "kt_parse depth (kt_head major n @ rest) =
    (if major = 0 then Some (Kt_UInt n, rest)
     else if major = 2 \<or> major = 3 then
       if unat n \<le> length rest then
         map_option (\<lambda>w. (w, drop (unat n) rest))
           (if major = 2 then Some (Kt_Bytes (take (unat n) rest)) else kt_string (take (unat n) rest))
       else None
     else if n \<le> 4096 then map_option (\<lambda>(ws, rest). (Kt_Items ws, rest)) (kt_items (Suc depth) (unat n) rest)
     else None)"
proof -
  obtain h args where "kt_head major n @ rest = h # args" "h \<noteq> 0xf6" "drop_bit 5 h = major"
    "kt_argument (h AND 31) args = Some (n, rest)" by (rule kt_head_read [OF assms(1)])
  with assms show ?thesis by (auto simp: kt_parse.simps [of depth] kt_major_def)
qed

lemma kt_items_concat:
  "(\<And>w rest. w \<in> set ws \<Longrightarrow> kt_parse depth (f w @ rest) = Some (w, rest)) \<Longrightarrow>
     kt_items depth (length ws) (concat (map f ws) @ rest) = Some (ws, rest)"
  by (induction ws) auto

lemma kt_parse_encode: "kt_ok depth w \<Longrightarrow> kt_parse depth (kt_encode w @ rest) = Some (w, rest)"
proof (induction w arbitrary: depth rest rule: kt_encode.induct)
  case (3 s)
  then show ?case
    using kt_parse_head [of 3 depth "of_nat (length s)" "map of_char s @ rest"] unat_size [of "length s"]
    by (simp add: kt_string_text)
next
  case (4 ws)
  then have "kt_items (Suc depth) (length ws) (concat (map kt_encode ws) @ rest) = Some (ws, rest)"
    by (intro kt_items_concat) auto
  then show ?case
    using 4 kt_parse_head [of 4 depth "of_nat (length ws)" "concat (map kt_encode ws) @ rest"] unat_size [of "length ws"]
    by (simp add: word_le_nat_alt)
qed (use unat_size in \<open>auto simp: kt_parse_head\<close>, simp add: kt_parse.simps)

lemma of_char_byte: "of_char (char_of (unat (c :: u8))) = c"
proof -
  have "unat c < 256" using unsigned_less [of c] by simp
  then have "(of_char (char_of (unat c)) :: nat) = unat c" by simp
  then show ?thesis by (metis of_nat_of_char of_nat_unat ucast_id)
qed

lemma kt_string_ok: "kt_string b = Some w \<Longrightarrow> depth < 32 \<Longrightarrow> length b < 2 ^ 31 \<Longrightarrow> kt_ok depth w"
  by (auto simp: kt_string_def of_char_byte comp_def split: if_splits)

lemma kt_argument_length: "kt_argument ai bs = Some (n, rest) \<Longrightarrow> length rest \<le> length bs"
  by (auto simp: kt_argument_def Let_def split: if_splits)

lemma kt_parse_ok:
  "kt_parse depth bs = Some (w, rest) \<Longrightarrow> length bs < 2 ^ 31 \<Longrightarrow> kt_ok depth w \<and> length rest \<le> length bs"
  "kt_items depth n bs = Some (ws, rest) \<Longrightarrow> length bs < 2 ^ 31 \<Longrightarrow>
     length ws = n \<and> (\<forall>w \<in> set ws. kt_ok depth w) \<and> length rest \<le> length bs"
proof (induction depth bs and depth n bs arbitrary: w rest and ws rest rule: kt_parse_kt_items.induct)
  case (1 depth bs)
  from 1(2) have d: "depth < 32" by (simp add: kt_parse.simps [of depth] split: if_splits)
  from 1(2) obtain h args where bs: "bs = h # args" by (cases bs) (auto simp: kt_parse.simps [of depth] split: if_splits)
  show ?case
  proof (cases "h = 0xf6")
    case True
    with 1(2) bs d show ?thesis by (auto simp: kt_parse.simps [of depth])
  next
    case False
    with 1(2) bs d obtain n args' where a: "kt_argument (h AND 31) args = Some (n, args')"
      by (auto simp: kt_parse.simps [of depth] split: option.splits)
    have len: "length args' \<le> length args" by (rule kt_argument_length [OF a])
    show ?thesis
      using 1(2,3) bs d False a len 1(1) [OF d bs False a] kt_string_ok [of "take (unat n) args'" _ depth]
      by (auto simp: kt_parse.simps [of depth] word_le_nat_alt split: if_splits) (metis le_SucI le_trans)
  qed
next
  case (3 depth n bs)
  then show ?case by (fastforce split: option.splits)
qed simp

lemma kt_decode_iff:
  assumes "maxSize < 2 ^ 31"
  shows "kt_decode data maxSize = Some w \<longleftrightarrow> data = kt_encode w \<and> length data \<le> maxSize \<and> kt_ok 0 w"
proof
  assume "kt_decode data maxSize = Some w"
  then have "kt_parse 0 data = Some (w, [])" "data = kt_encode w" "length data \<le> maxSize"
    by (auto simp: kt_decode_def split: if_splits option.splits list.splits)
  with kt_parse_ok(1) [of 0 data w "[]"] assms show "data = kt_encode w \<and> length data \<le> maxSize \<and> kt_ok 0 w" by simp
next
  assume "data = kt_encode w \<and> length data \<le> maxSize \<and> kt_ok 0 w"
  then show "kt_decode data maxSize = Some w" using kt_parse_encode [of 0 w "[]"] by (auto simp: kt_decode_def)
qed

section \<open>The encoding of RFC 8949\<close>

fun value_of :: "Kt_Wire \<Rightarrow> Value" where
  "value_of (Kt_UInt n) = V_Integer (uint n)"
| "value_of (Kt_Bytes b) = V_Bytes b"
| "value_of (Kt_Text s) = V_Text s"
| "value_of (Kt_Items ws) = V_Array (map value_of ws)"
| "value_of Kt_Null = V_Null"

lemma kt_encode_put: "kt_ok depth w \<Longrightarrow> kt_encode w = put_value (value_of w)"
proof (induction w arbitrary: depth rule: kt_encode.induct)
  case (4 ws)
  then have "concat (map kt_encode ws) = concat (map (put_value \<circ> value_of) ws)" by (intro arg_cong [where f = concat]) auto
  with 4(2) unat_size [of "length ws"] show ?case by (simp add: kt_head_head)
qed (use unat_size in \<open>auto simp: kt_head_head\<close>)

end
