(* ===== verification/Kotlin_Client.thy ===== *)
theory Kotlin_Client
  imports Kotlin
begin

text \<open>
  The client of the Kotlin binding (\<^verbatim>\<open>OpenLock.kt\<close> and \<^verbatim>\<open>openlock_jni.c\<close> under
  \<^verbatim>\<open>bindings/kotlin/src/main\<close>): the factories of the actions, the replies and events, the native
  functions over the C interface, and the session that an application holds. The buffers
  of the native functions start with zeros; what they return was written by the C interface.
\<close>

unbundle bit_operations_syntax

section \<open>Actions\<close>

type_synonym LockAction = Kt_Wire

definition kt_action :: "u64 \<Rightarrow> Kt_Wire list \<Rightarrow> LockAction" where
  "kt_action code args = Kt_Items (Kt_UInt code # args)"

definition LockAction_Unlock :: LockAction where "LockAction_Unlock = kt_action 0 []"
definition LockAction_Status :: LockAction where "LockAction_Status = kt_action 1 []"
definition LockAction_Lock :: LockAction where "LockAction_Lock = kt_action 3 []"
definition LockAction_Info :: LockAction where "LockAction_Info = kt_action 4 []"
definition LockAction_GetConfig :: LockAction where "LockAction_GetConfig = kt_action 6 []"
definition LockAction_Reboot :: LockAction where "LockAction_Reboot = kt_action 10 []"
definition LockAction_FactoryReset :: LockAction where "LockAction_FactoryReset = kt_action 11 []"
definition LockAction_FirmwareFinish :: LockAction where "LockAction_FirmwareFinish = kt_action 15 []"
definition LockAction_FirmwareActivate :: LockAction where "LockAction_FirmwareActivate = kt_action 16 []"
definition LockAction_FirmwareAbort :: LockAction where "LockAction_FirmwareAbort = kt_action 17 []"
definition LockAction_FirmwareStatus :: LockAction where "LockAction_FirmwareStatus = kt_action 18 []"
definition LockAction_CredentialStatus :: LockAction where "LockAction_CredentialStatus = kt_action 20 []"
definition LockAction_PairingStatus :: LockAction where "LockAction_PairingStatus = kt_action 22 []"

definition applyPolicy :: "bytes \<Rightarrow> LockAction" where
  "applyPolicy signed' = kt_action 2 [Kt_Bytes signed']"
definition operation :: "u64 \<Rightarrow> LockAction" where
  "operation sequence = kt_action 5 [Kt_UInt sequence]"
definition setConfig :: "Kt_DeviceConfig \<Rightarrow> LockAction" where
  "setConfig config = kt_action 7 [kt_device_config_wire config]"
definition readLog :: "u64 \<Rightarrow> u64 \<Rightarrow> LockAction" where
  "readLog after limit = kt_action 8 [Kt_UInt after, Kt_UInt limit]"
definition setClock :: "u64 \<Rightarrow> LockAction" where
  "setClock unixSeconds = kt_action 9 [Kt_UInt unixSeconds]"
definition replaceIssuer :: "bytes \<Rightarrow> LockAction" where
  "replaceIssuer publicKey = kt_action 12 [Kt_Bytes publicKey]"
definition firmwareBegin :: "bytes \<Rightarrow> LockAction" where
  "firmwareBegin signed' = kt_action 13 [Kt_Bytes signed']"
definition firmwareChunk :: "u64 \<Rightarrow> bytes \<Rightarrow> LockAction" where
  "firmwareChunk offset data = kt_action 14 [Kt_UInt offset, Kt_Bytes data]"
definition claimAction :: "bytes \<Rightarrow> bytes \<Rightarrow> bytes \<Rightarrow> LockAction" where
  "claimAction setupKey issuer adminCredential = kt_action 19 [Kt_Bytes setupKey, Kt_Bytes issuer, Kt_Bytes adminCredential]"
definition rotateDeviceKey :: "bytes \<Rightarrow> LockAction" where
  "rotateDeviceKey signedUpdate = kt_action 21 [Kt_Bytes signedUpdate]"

section \<open>Replies and events\<close>

datatype LockReply =
    LR_Operation Kt_OperationStatus | LR_Status Kt_LockStatus | LR_Info Kt_DeviceInfo | LR_Config Kt_DeviceConfig
  | LR_Audit Kt_AuditPage | LR_Firmware Kt_FirmwareStatus | LR_Claimed u64 u64
  | LR_Credential u64 "u64 option" u64 | LR_Pairing u64 u64 bool

definition kt_reply :: "Kt_Wire \<Rightarrow> LockReply option" where
  "kt_reply v = do {
     f \<leftarrow> kt_fields v 2;
     n \<leftarrow> kt_number (f ! 0);
     if n = 0 then map_option LR_Operation (kt_operation_status (f ! 1))
     else if n = 1 then map_option LR_Status (kt_lock_status (f ! 1))
     else if n = 2 then map_option LR_Info (kt_device_info (f ! 1))
     else if n = 3 then map_option LR_Config (kt_device_config (f ! 1))
     else if n = 4 then map_option LR_Audit (kt_audit_page (f ! 1))
     else if n = 5 then map_option LR_Firmware (kt_firmware_status (f ! 1))
     else if n = 6 then do {
       it \<leftarrow> kt_fields (f ! 1) 2;
       epoch \<leftarrow> kt_number (it ! 0); generation \<leftarrow> kt_number (it ! 1);
       Some (LR_Claimed epoch generation) }
     else if n = 7 then do {
       it \<leftarrow> kt_fields (f ! 1) 3;
       uses \<leftarrow> kt_number (it ! 0); maxUses \<leftarrow> kt_optional (it ! 1); nextSequence \<leftarrow> kt_number (it ! 2);
       Some (LR_Credential uses maxUses nextSequence) }
     else if n = 8 then do {
       it \<leftarrow> kt_fields (f ! 1) 3;
       epoch \<leftarrow> kt_number (it ! 0); generation \<leftarrow> kt_number (it ! 1); windowOpen \<leftarrow> kt_bool (it ! 2);
       Some (LR_Pairing epoch generation windowOpen) }
     else None }"

record LockResponse =
  lr_opcode :: u64
  lr_errorCode :: u64
  lr_reply :: "LockReply option"

definition kt_response :: "Kt_Wire \<Rightarrow> LockResponse option" where
  "kt_response v = do {
     f \<leftarrow> kt_fields v 3;
     opcode \<leftarrow> kt_number (f ! 0); errorCode \<leftarrow> kt_number (f ! 1);
     reply \<leftarrow> (if errorCode = 0 then map_option Some (kt_reply (f ! 2)) else Some None);
     Some \<lparr>lr_opcode = opcode, lr_errorCode = errorCode, lr_reply = reply\<rparr> }"

datatype Kt_SessionEvent =
    Kt_Handshake bytes
  | Kt_Request u64 bytes bytes "u64 option" LockAction
  | Kt_Response u64 LockResponse

definition kt_event :: "bytes \<Rightarrow> Kt_SessionEvent option" where
  "kt_event data = do {
     w \<leftarrow> kt_decode data 4160;
     f \<leftarrow> kt_fields w 4;
     n \<leftarrow> kt_number (f ! 0);
     if n = 1 then map_option Kt_Handshake (kt_bytes (f ! 2))
     else if n = 2 then do {
       it \<leftarrow> kt_fields (f ! 3) 3;
       id' \<leftarrow> kt_number (f ! 1); peer \<leftarrow> kt_bytes (f ! 2);
       credential \<leftarrow> kt_bytes (it ! 0); sequence \<leftarrow> kt_optional (it ! 1);
       Some (Kt_Request id' peer credential sequence (it ! 2)) }
     else if n = 3 then do {
       id' \<leftarrow> kt_number (f ! 1); response \<leftarrow> kt_response (f ! 3);
       Some (Kt_Response id' response) }
     else None }"

section \<open>Native functions\<close>

type_synonym ('h, 't) kt_handle = "('h, 't) OpenLockSession option"

definition jni_read :: "nat \<Rightarrow> bytes \<Rightarrow> i32 + bytes" where
  "jni_read capacity input = (if length input > capacity then Inl 1 else Inr input)"

definition jni_buffer :: "nat \<Rightarrow> Caller" where
  "jni_buffer capacity = \<lparr>ca_out = Some (replicate capacity 0), ca_cap = capacity, ca_len = Some 0, ca_id = Some 0\<rparr>"

text \<open>What a native function reads back: the first \<open>length\<close> bytes of its buffer.\<close>

definition jni_bytes :: "Caller \<Rightarrow> bytes" where
  "jni_bytes ca = (case (ca_out ca, ca_len ca) of (Some memory, Some n) \<Rightarrow> take n memory | _ \<Rightarrow> [])"

definition jni_result :: "i32 \<Rightarrow> 'a \<Rightarrow> i32 + 'a" where
  "jni_result code out = (if code \<noteq> 0 then Inl code else Inr out)"

definition Native_create ::
  "Crypto \<Rightarrow> ('h, 't) Snow \<Rightarrow> bytes \<Rightarrow> bytes \<Rightarrow> u64 \<Rightarrow> i32 + ('h, 't) kt_handle" where
  "Native_create cr sn private_key public_key capabilities =
     (if length private_key > 32 \<or> length public_key > 32 then Inl 1
      else if length private_key \<noteq> 32 \<or> length public_key \<noteq> 32 then Inl (- 1)
      else case openlock_session_initiator cr sn (Some private_key) (Some public_key) capabilities (Some None) of
        (code, out) \<Rightarrow> jni_result code (case out of Some session \<Rightarrow> session | None \<Rightarrow> None))"

definition Native_start ::
  "Crypto \<Rightarrow> ('h, 't) Snow \<Rightarrow> ('h, 't) kt_handle \<Rightarrow> (i32 + bytes) \<times> ('h, 't) kt_handle" where
  "Native_start cr sn handle' =
     (if handle' = None then (Inl 17, handle')
      else case openlock_session_start cr sn handle' (jni_buffer 4096) of
        (code, s, ca) \<Rightarrow> (jni_result code (jni_bytes ca), s))"

definition id_bytes :: "u32 \<Rightarrow> bytes" where
  "id_bytes i = [ucast (drop_bit 24 i), ucast (drop_bit 16 i), ucast (drop_bit 8 i), ucast i]"

definition Native_send ::
  "Crypto \<Rightarrow> ('h, 't) Snow \<Rightarrow> bytes \<Rightarrow> ('h, 't) kt_handle \<Rightarrow> (i32 + bytes) \<times> ('h, 't) kt_handle" where
  "Native_send cr sn command handle' =
     (if handle' = None then (Inl 17, handle')
      else case jni_read 4096 command of
        Inl code \<Rightarrow> (Inl code, handle')
      | Inr input \<Rightarrow>
          (case openlock_session_send cr sn (Some input) (length input) handle' (jni_buffer 4096) of
             (code, s, ca) \<Rightarrow>
               (jni_result code (id_bytes (case ca_id ca of Some i \<Rightarrow> i | None \<Rightarrow> 0) @ jni_bytes ca), s)))"

definition Native_receive ::
  "Crypto \<Rightarrow> ('h, 't) Snow \<Rightarrow> bytes \<Rightarrow> ('h, 't) kt_handle \<Rightarrow> (i32 + bytes \<times> bytes) \<times> ('h, 't) kt_handle" where
  "Native_receive cr sn packet handle' =
     (if handle' = None then (Inl 17, handle')
      else case jni_read MAX_MESSAGE_SIZE packet of
        Inl code \<Rightarrow> (Inl code, handle')
      | Inr input \<Rightarrow>
          (case openlock_session_receive cr sn (Some input) (length input) handle' (jni_buffer 0) of
             (code, s, _) \<Rightarrow>
               if code \<noteq> 0 then (Inl code, s)
               else case openlock_session_take_event s (jni_buffer MAX_EVENT_SIZE) of
                 (code, s, event) \<Rightarrow>
                   if code \<noteq> 0 then (Inl code, s)
                   else case openlock_session_take_output s (jni_buffer MAX_MESSAGE_SIZE) of
                     (code, s, reply) \<Rightarrow> (jni_result code (jni_bytes event, jni_bytes reply), s)))"

definition Native_free :: "('h, 't) kt_handle \<Rightarrow> ('h, 't) kt_handle" where
  "Native_free handle' = openlock_session_free handle'"

section \<open>Sessions\<close>

datatype Kt_Exception = Kt_Illegal | Kt_OpenLock i32

definition kt_throw :: "i32 + 'a \<Rightarrow> Kt_Exception + 'a" where
  "kt_throw r = (case r of Inl code \<Rightarrow> Inl (Kt_OpenLock code) | Inr x \<Rightarrow> Inr x)"

definition kt_initiator ::
  "Crypto \<Rightarrow> ('h, 't) Snow \<Rightarrow> bytes \<Rightarrow> bytes \<Rightarrow> u64 \<Rightarrow> Kt_Exception + ('h, 't) kt_handle" where
  "kt_initiator cr sn privateKey lockPublicKey capabilities =
     (if length privateKey = 32 \<and> length lockPublicKey = 32
      then kt_throw (Native_create cr sn privateKey lockPublicKey capabilities)
      else Inl Kt_Illegal)"

definition kt_close :: "('h, 't) kt_handle \<Rightarrow> ('h, 't) kt_handle" where
  "kt_close handle' = (if handle' \<noteq> None then Native_free handle' else handle')"

definition kt_start ::
  "Crypto \<Rightarrow> ('h, 't) Snow \<Rightarrow> ('h, 't) kt_handle \<Rightarrow> (Kt_Exception + bytes) \<times> ('h, 't) kt_handle" where
  "kt_start cr sn handle' =
     (if handle' = None then (Inl Kt_Illegal, handle')
      else case Native_start cr sn handle' of (r, s) \<Rightarrow> (kt_throw r, s))"

definition kt_command :: "LockAction \<Rightarrow> bytes \<Rightarrow> u64 \<Rightarrow> bytes" where
  "kt_command action credential sequence = kt_encode (Kt_Items
     [Kt_Bytes credential, if sequence = 0 then Kt_Null else Kt_UInt sequence, action])"

definition kt_sent :: "bytes \<Rightarrow> Kt_Exception + u64 \<times> bytes" where
  "kt_sent data =
     (if length data \<ge> 4
      then Inr (foldl (\<lambda>i b. push_bit 8 i OR ucast b) 0 (take 4 data), drop 4 data)
      else Inl Kt_Illegal)"

definition kt_send ::
  "Crypto \<Rightarrow> ('h, 't) Snow \<Rightarrow> LockAction \<Rightarrow> bytes \<Rightarrow> u64 \<Rightarrow> ('h, 't) kt_handle \<Rightarrow>
     (Kt_Exception + u64 \<times> bytes) \<times> ('h, 't) kt_handle" where
  "kt_send cr sn action credential sequence handle' =
     (if handle' = None then (Inl Kt_Illegal, handle')
      else case Native_send cr sn (kt_command action credential sequence) handle' of
        (r, s) \<Rightarrow> (rbind (kt_throw r) kt_sent, s))"

definition kt_received :: "bytes \<times> bytes \<Rightarrow> Kt_Exception + Kt_SessionEvent option \<times> bytes" where
  "kt_received pair = (case pair of (event, reply) \<Rightarrow>
     if event = [] then Inr (None, reply)
     else case kt_event event of Some e \<Rightarrow> Inr (Some e, reply) | None \<Rightarrow> Inl Kt_Illegal)"

definition kt_receive ::
  "Crypto \<Rightarrow> ('h, 't) Snow \<Rightarrow> bytes \<Rightarrow> ('h, 't) kt_handle \<Rightarrow>
     (Kt_Exception + Kt_SessionEvent option \<times> bytes) \<times> ('h, 't) kt_handle" where
  "kt_receive cr sn packet handle' =
     (if handle' = None then (Inl Kt_Illegal, handle')
      else case Native_receive cr sn packet handle' of
        (r, s) \<Rightarrow> (rbind (kt_throw r) kt_received, s))"

end
