(* ===== verification/Kotlin_Views.thy ===== *)
theory Kotlin_Views
  imports Kotlin_Codec Kotlin_Client Codec_Props
begin

text \<open>
  The messages of the Kotlin binding against those of the crates: what the binding reads
  from the encoding of a reply, a response or an event is that message, field by field, and
  the actions that it builds have the encoding of the actions of the crates.
\<close>

unbundle bit_operations_syntax

section \<open>Values that the binding can hold\<close>

fun kt_of :: "Value \<Rightarrow> Kt_Wire" where
  "kt_of (V_Integer n) = Kt_UInt (of_int n)"
| "kt_of (V_Bytes b) = Kt_Bytes b"
| "kt_of (V_Text s) = Kt_Text s"
| "kt_of (V_Array vs) = Kt_Items (map kt_of vs)"
| "kt_of _ = Kt_Null"

text \<open>Numbers are not negative, containers are not too deep and not too long, text is UTF-8.\<close>

fun kt_shape :: "nat \<Rightarrow> Value \<Rightarrow> bool" where
  "kt_shape depth (V_Integer n) = (depth < 32 \<and> 0 \<le> n \<and> n < 2 ^ 64)"
| "kt_shape depth (V_Bytes b) = (depth < 32)"
| "kt_shape depth (V_Text s) = (depth < 32 \<and> utf8_string s)"
| "kt_shape depth (V_Array vs) = (depth < 32 \<and> length vs \<le> 4096 \<and> (\<forall>v \<in> set vs. kt_shape (Suc depth) v))"
| "kt_shape depth V_Null = (depth < 32)"
| "kt_shape depth _ = False"

lemma put_value_array: "v \<in> set vs \<Longrightarrow> length (put_value v) \<le> length (put_value (V_Array vs))"
proof -
  assume "v \<in> set vs"
  then have "length (put_value v) \<le> length (concat (map put_value vs))" by (induction vs) auto
  then show ?thesis by simp
qed

lemma kt_of_value:
  "kt_shape depth v \<Longrightarrow> length (put_value v) < 2 ^ 31 \<Longrightarrow> value_of (kt_of v) = v \<and> kt_ok depth (kt_of v)"
proof (induction v arbitrary: depth rule: kt_of.induct)
  case (4 vs)
  then have "value_of (kt_of v) = v \<and> kt_ok (Suc depth) (kt_of v)" if "v \<in> set vs" for v
    using that put_value_array [OF that] by auto
  with 4(2) show ?case by (auto simp: comp_def map_idI)
qed (auto simp: unsigned_of_int take_bit_int_eq_self utf8_string_def)

lemma kt_decode_value:
  assumes "kt_shape 0 v" "length (put_value v) \<le> maxSize" "maxSize < 2 ^ 31"
  shows "kt_decode (put_value v) maxSize = Some (kt_of v)"
proof -
  have "length (put_value v) < 2 ^ 31" using assms(2,3) by simp
  from kt_of_value [OF assms(1) this] have "value_of (kt_of v) = v" "kt_ok 0 (kt_of v)" by simp_all
  with kt_encode_put [of 0 "kt_of v"] assms(2) show ?thesis by (simp add: kt_decode_iff [OF assms(3)])
qed

section \<open>Leaves\<close>

lemma kt_of_protocol [simp]:
  "kt_of (cuint n) = Kt_UInt n" "kt_of (cbytes b) = Kt_Bytes b" "kt_of (carray vs) = Kt_Items (map kt_of vs)"
  by (simp_all add: cuint_def cbytes_def carray_def)

lemma kt_of_leaves [simp]:
  "kt_of (U64_value a) = Kt_UInt a" "kt_of (U32_value b) = Kt_UInt (ucast b)" "kt_of (U8_value c) = Kt_UInt (ucast c)"
  "kt_of (Bool_value d) = Kt_UInt (if d then 1 else 0)" "kt_of (String_value s) = Kt_Text s"
  "kt_of (LockId_value l) = Kt_Bytes (lock_bytes l)" "kt_of (CredentialId_value i) = Kt_Bytes (cred_bytes i)"
  "kt_of (SubjectKey_value k) = Kt_Bytes (subject_bytes k)" "kt_of (AuditKind_value a') = Kt_UInt (AuditKind_code a')"
  by (simp_all add: U64_value_def U32_value_def U8_value_def Bool_value_def String_value_def LockId_value_def
      CredentialId_value_def SubjectKey_value_def AuditKind_value_def)

lemma kt_accessors [simp]:
  "kt_number (Kt_UInt n) = Some n" "kt_bytes (Kt_Bytes b) = Some b" "kt_text (Kt_Text s) = Some s"
  "kt_optional (Kt_UInt n) = Some (Some n)" "kt_optional Kt_Null = Some None"
  "kt_fields (Kt_Items ws) k = (if length ws = k then Some ws else None)"
  "kt_bool (Kt_UInt (if d then 1 else 0)) = Some d"
  by (simp_all add: kt_number_def kt_bytes_def kt_text_def kt_optional_def kt_fields_def kt_bool_def kt_require_def)

lemma kt_enumerations [simp]:
  "kt_bolt (kt_of (BoltState_value a)) = Some a" "kt_door (kt_of (DoorState_value b)) = Some b"
  "kt_actuator (kt_of (ActuatorKind_value c)) = Some c" "kt_phase (kt_of (OperationPhase_value d)) = Some d"
  "kt_evidence (kt_of (CompletionEvidence_value e)) = Some e" "kt_fault (kt_of (Fault_value f)) = Some f"
  "kt_firmware_phase (kt_of (FirmwarePhase_value g)) = Some g"
proof -
  note defs = kt_enumeration_def kt_require_def
  show "kt_bolt (kt_of (BoltState_value a)) = Some a" by (cases a) (simp_all add: kt_bolt_def BoltState_value_def defs)
  show "kt_door (kt_of (DoorState_value b)) = Some b" by (cases b) (simp_all add: kt_door_def DoorState_value_def defs)
  show "kt_actuator (kt_of (ActuatorKind_value c)) = Some c" by (cases c) (simp_all add: kt_actuator_def ActuatorKind_value_def defs)
  show "kt_phase (kt_of (OperationPhase_value d)) = Some d" by (cases d) (simp_all add: kt_phase_def OperationPhase_value_def defs)
  show "kt_evidence (kt_of (CompletionEvidence_value e)) = Some e" by (cases e) (simp_all add: kt_evidence_def CompletionEvidence_value_def defs)
  show "kt_fault (kt_of (Fault_value f)) = Some f" by (cases f) (simp_all add: kt_fault_def Fault_value_def defs)
  show "kt_firmware_phase (kt_of (FirmwarePhase_value g)) = Some g" by (cases g) (simp_all add: kt_firmware_phase_def FirmwarePhase_value_def defs)
qed

lemma kt_reading_value:
  "(\<And>x. parse (kt_of (val x)) = Some (view x)) \<Longrightarrow>
     kt_reading parse (kt_of (Reading_value val r)) = Some (map_Reading view r)"
  by (cases r) (simp_all add: kt_reading_def Reading_value_def kt_require_def)

lemma kt_nullable_value:
  "(\<And>x. parse (kt_of (val x)) = Some (view x)) \<Longrightarrow> parse Kt_Null = None \<Longrightarrow>
     kt_nullable parse (kt_of (Option_value val m)) = Some (map_option view m)"
  by (cases m) (auto simp: kt_nullable_def Option_value_def, metis option.discI)

lemma kt_optional_value [simp]: "kt_optional (kt_of (Option_value U64_value m)) = Some m"
  by (cases m) (simp_all add: Option_value_def)

lemma kt_null [simp]: "kt_bytes Kt_Null = None" "kt_fields Kt_Null n = None" "kt_number Kt_Null = None"
  by (simp_all add: kt_bytes_def kt_fields_def kt_number_def)

lemma kt_readings [simp]:
  "kt_reading kt_bolt (kt_of (Reading_value BoltState_value a)) = Some a"
  "kt_reading kt_door (kt_of (Reading_value DoorState_value b)) = Some b"
  "kt_reading kt_bool (kt_of (Reading_value Bool_value c)) = Some c"
  "kt_reading kt_number (kt_of (Reading_value U8_value d)) = Some (map_Reading ucast d)"
  using kt_reading_value [of kt_bolt BoltState_value "\<lambda>x. x" a] kt_reading_value [of kt_door DoorState_value "\<lambda>x. x" b]
    kt_reading_value [of kt_bool Bool_value "\<lambda>x. x" c] kt_reading_value [of kt_number U8_value ucast d]
  by (simp_all add: Reading.map_ident)

section \<open>Records\<close>

definition view_operation :: "OperationStatus \<Rightarrow> Kt_OperationStatus" where
  "view_operation x = \<lparr>ko_credentialID = cred_bytes (os_credential_id x), ko_sequence = os_sequence x,
     ko_opcode = ucast (os_opcode x), ko_phase = os_phase x, ko_evidence = os_evidence x,
     ko_errorCode = ucast (os_error x)\<rparr>"

lemma kt_operation_value [simp]:
  "kt_operation_status (kt_of (OperationStatus_value x)) = Some (view_operation x)"
  "kt_nullable kt_operation_status (kt_of (Option_value OperationStatus_value m)) = Some (map_option view_operation m)"
proof -
  show o: "kt_operation_status (kt_of (OperationStatus_value x)) = Some (view_operation x)" for x
    by (simp add: kt_operation_status_def OperationStatus_value_def view_operation_def)
  show "kt_nullable kt_operation_status (kt_of (Option_value OperationStatus_value m)) = Some (map_option view_operation m)"
    by (rule kt_nullable_value, rule o) (simp add: kt_operation_status_def)
qed

definition view_status :: "LockStatus \<Rightarrow> Kt_LockStatus" where
  "view_status x = \<lparr>kl_bolt = ls_bolt x, kl_door = ls_door x, kl_privacy = ls_privacy x,
     kl_batteryPercent = map_Reading ucast (ls_battery_percent x), kl_fault = ls_fault x,
     kl_active = map_option view_operation (ls_active x), kl_epoch = ls_epoch x,
     kl_policyVersion = ls_policy_version x, kl_configVersion = ls_config_version x,
     kl_generation = ls_generation x, kl_clockTrusted = ls_clock_trusted x\<rparr>"

lemma kt_status_value [simp]: "kt_lock_status (kt_of (LockStatus_value x)) = Some (view_status x)"
  by (simp add: kt_lock_status_def LockStatus_value_def view_status_def)

definition view_relock :: "AutoRelock \<Rightarrow> Kt_AutoRelock" where
  "view_relock x = (case x of Disabled \<Rightarrow> Kt_Disabled | Delay ms \<Rightarrow> Kt_Delay (ucast ms) | AfterClose ms \<Rightarrow> Kt_AfterClose (ucast ms))"

lemma kt_relock_value [simp]:
  "kt_auto_relock (kt_of (AutoRelock_value x)) = Some (view_relock x)"
  "kt_auto_relock_wire (view_relock x) = kt_of (AutoRelock_value x)"
  by (cases x; simp add: kt_auto_relock_def kt_auto_relock_wire_def AutoRelock_value_def view_relock_def kt_require_def)+

definition view_config :: "DeviceConfig \<Rightarrow> Kt_DeviceConfig" where
  "view_config x = \<lparr>kc_version = dc_version x, kc_autoRelock = view_relock (dc_auto_relock x),
     kc_releaseMS = ucast (dc_release_ms x), kc_actionTimeoutMS = ucast (dc_action_timeout_ms x),
     kc_holdOpen = dc_hold_open x, kc_doorAjarMS = ucast (dc_door_ajar_ms x)\<rparr>"

lemma kt_config_value [simp]:
  "kt_device_config (kt_of (DeviceConfig_value x)) = Some (view_config x)"
  "kt_device_config_wire (view_config x) = kt_of (DeviceConfig_value x)"
  by (simp_all add: kt_device_config_def kt_device_config_wire_def DeviceConfig_value_def view_config_def)

definition view_manifest :: "FirmwareManifest \<Rightarrow> Kt_FirmwareManifest" where
  "view_manifest x = \<lparr>km_model = fm_model x, km_hardware = fm_hardware x, km_version = fm_version x,
     km_size = fm_size x, km_sha256 = fm_sha256 x, km_securityVersion = fm_security_version x\<rparr>"

definition view_firmware :: "FirmwareStatus \<Rightarrow> Kt_FirmwareStatus" where
  "view_firmware x = \<lparr>kf_phase = fs_phase x, kf_received = fs_received x,
     kf_manifest = map_option view_manifest (fs_manifest x), kf_securityVersion = fs_security_version x\<rparr>"

lemma kt_firmware_value [simp]: "kt_firmware_status (kt_of (FirmwareStatus_value x)) = Some (view_firmware x)"
proof -
  have "kt_firmware_manifest (kt_of (FirmwareManifest_value m)) = Some (view_manifest m)" for m
    by (simp add: kt_firmware_manifest_def FirmwareManifest_value_def view_manifest_def)
  then have "kt_nullable kt_firmware_manifest (kt_of (Option_value FirmwareManifest_value m)) = Some (map_option view_manifest m)" for m
    by (rule kt_nullable_value) (simp add: kt_firmware_manifest_def)
  then show ?thesis by (simp add: kt_firmware_status_def FirmwareStatus_value_def view_firmware_def)
qed

definition view_hardware :: "HardwareState \<Rightarrow> Kt_HardwareState" where
  "view_hardware x = \<lparr>kh_bolt = hw_bolt x, kh_door = hw_door x, kh_privacy = hw_privacy x,
     kh_batteryPercent = map_Reading ucast (hw_battery_percent x)\<rparr>"

definition view_audit_event :: "AuditEvent \<Rightarrow> Kt_AuditEvent" where
  "view_audit_event x = \<lparr>ka_cursor = ae_cursor x, ka_unixSeconds = ae_unix_seconds x,
     ka_kind = AuditKind_code (ae_kind x), ka_credentialID = map_option cred_bytes (ae_credential_id x),
     ka_sequence = ae_sequence x, ka_code = ucast (ae_code x),
     ka_hardware = map_option view_hardware (ae_hardware x),
     ka_operation = map_option view_operation (ae_operation x)\<rparr>"

lemma kt_audit_event_value: "kt_audit_event (kt_of (AuditEvent_value x)) = Some (view_audit_event x)"
proof -
  have "kt_hardware_state (kt_of (HardwareState_value h)) = Some (view_hardware h)" for h
    by (simp add: kt_hardware_state_def HardwareState_value_def view_hardware_def)
  then have "kt_nullable kt_hardware_state (kt_of (Option_value HardwareState_value m)) = Some (map_option view_hardware m)" for m
    by (rule kt_nullable_value) (simp add: kt_hardware_state_def)
  moreover have "kt_nullable kt_bytes (kt_of (Option_value CredentialId_value m)) = Some (map_option cred_bytes m)" for m
    by (rule kt_nullable_value) simp_all
  ultimately show ?thesis by (simp add: kt_audit_event_def AuditEvent_value_def view_audit_event_def)
qed

definition view_page :: "AuditPage \<Rightarrow> Kt_AuditPage" where
  "view_page x = \<lparr>kp_events = map view_audit_event (ap_events x), kp_nextCursor = ap_next_cursor x, kp_gap = ap_gap x\<rparr>"

lemma kt_page_value [simp]: "kt_audit_page (kt_of (AuditPage_value x)) = Some (view_page x)"
proof -
  have "kt_map kt_audit_event (map (kt_of \<circ> AuditEvent_value) events) = Some (map view_audit_event events)" for events
    by (induction events) (simp_all add: kt_audit_event_value)
  then show ?thesis by (simp add: kt_audit_page_def AuditPage_value_def view_page_def)
qed

definition view_info :: "DeviceInfo \<Rightarrow> Kt_DeviceInfo" where
  "view_info x = \<lparr>ki_lockID = lock_bytes (di_lock_id x), ki_model = di_model x, ki_hardware = di_hardware x,
     ki_firmware = di_firmware x, ki_capabilities = di_capabilities x, ki_actuator = di_actuator x,
     ki_boltSensor = di_bolt_sensor x, ki_doorSensor = di_door_sensor x, ki_privacySensor = di_privacy_sensor x,
     ki_batterySensor = di_battery_sensor x, ki_safeLockWithoutDoor = di_safe_lock_without_door x,
     ki_holdOpen = di_hold_open x, ki_maxReleaseMS = ucast (di_max_release_ms x),
     ki_maxActionMS = ucast (di_max_action_ms x), ki_maxDelayMS = ucast (di_max_delay_ms x),
     ki_logCapacity = ucast (di_log_capacity x), ki_operationCapacity = ucast (di_operation_capacity x),
     ki_credentialCapacity = ucast (di_credential_capacity x), ki_maxImageSize = di_max_image_size x,
     ki_maxChunkSize = ucast (di_max_chunk_size x)\<rparr>"

lemma kt_info_value [simp]: "kt_device_info (kt_of (DeviceInfo_value x)) = Some (view_info x)"
  by (simp add: kt_device_info_def DeviceInfo_value_def view_info_def)

section \<open>Responses\<close>

definition view_reply :: "Reply \<Rightarrow> LockReply" where
  "view_reply r = (case r of
     Reply_Operation x \<Rightarrow> LR_Operation (view_operation x)
   | Reply_Status x \<Rightarrow> LR_Status (view_status x)
   | Reply_Info x \<Rightarrow> LR_Info (view_info x)
   | Reply_Config x \<Rightarrow> LR_Config (view_config x)
   | Reply_Audit x \<Rightarrow> LR_Audit (view_page x)
   | Reply_Firmware x \<Rightarrow> LR_Firmware (view_firmware x)
   | Reply_Pairing epoch generation window_open \<Rightarrow> LR_Pairing epoch generation window_open
   | Reply_Claimed epoch generation \<Rightarrow> LR_Claimed epoch generation
   | Reply_Credential uses max_uses next_sequence \<Rightarrow>
       LR_Credential (ucast uses) (map_option ucast max_uses) next_sequence)"

lemma kt_reply_value: "kt_reply (kt_of (Reply_value r)) = Some (view_reply r)"
proof (cases r)
  case (Reply_Credential uses max_uses next_sequence)
  then show ?thesis
    by (cases max_uses) (simp_all add: kt_reply_def Reply_value_def view_reply_def Option_value_def)
qed (simp_all add: kt_reply_def Reply_value_def view_reply_def)

definition view_response :: "Response \<Rightarrow> LockResponse" where
  "view_response r = (case rsp_result r of
     Inr reply \<Rightarrow> \<lparr>lr_opcode = ucast (rsp_opcode r), lr_errorCode = 0, lr_reply = Some (view_reply reply)\<rparr>
   | Inl code \<Rightarrow> \<lparr>lr_opcode = ucast (rsp_opcode r), lr_errorCode = ucast code, lr_reply = None\<rparr>)"

lemma kt_response_value:
  assumes "Response_wf r"
  shows "kt_response (kt_of (Response_value r)) = Some (view_response r)"
proof (cases "rsp_result r")
  case (Inl code)
  with assms have "code \<noteq> 0" by (auto simp: Response_wf_def validate_response_def split: if_splits)
  moreover have "unat (ucast code :: u64) = unat code"
    using unsigned_less [of code, where 'a = nat] by (simp add: unsigned_ucast_eq take_bit_nat_eq_self)
  ultimately have "(ucast code :: u64) \<noteq> 0" by (auto simp: word_unat_eq_iff)
  with Inl show ?thesis by (simp add: kt_response_def Response_value_def view_response_def)
next
  case (Inr reply)
  then show ?thesis by (simp add: kt_response_def Response_value_def view_response_def kt_reply_value)
qed

section \<open>Shapes\<close>

lemma kt_shape_protocol [simp]:
  "kt_shape d (cuint n) = (d < 32)" "kt_shape d (cbytes b) = (d < 32)"
  "kt_shape d (carray vs) = (d < 32 \<and> length vs \<le> 4096 \<and> list_all (kt_shape (Suc d)) vs)"
  using uint_lt2p [of n] by (simp_all add: cuint_def cbytes_def carray_def list_all_iff)

lemma kt_shape_leaves [simp]:
  "kt_shape d (U64_value a) = (d < 32)" "kt_shape d (U32_value b) = (d < 32)" "kt_shape d (U8_value c) = (d < 32)"
  "kt_shape d (Bool_value e) = (d < 32)" "kt_shape d (String_value s) = (d < 32 \<and> utf8_string s)"
  "kt_shape d (LockId_value l) = (d < 32)" "kt_shape d (CredentialId_value i) = (d < 32)"
  "kt_shape d (SubjectKey_value k) = (d < 32)" "kt_shape d (AuditKind_value f) = (d < 32)"
  "kt_shape d (BoltState_value g) = (d < 32)" "kt_shape d (DoorState_value h) = (d < 32)"
  "kt_shape d (ActuatorKind_value j) = (d < 32)" "kt_shape d (OperationPhase_value m) = (d < 32)"
  "kt_shape d (CompletionEvidence_value n) = (d < 32)" "kt_shape d (Fault_value p) = (d < 32)"
  "kt_shape d (FirmwarePhase_value q) = (d < 32)"
  by (simp_all add: U64_value_def U32_value_def U8_value_def Bool_value_def String_value_def LockId_value_def
      CredentialId_value_def SubjectKey_value_def AuditKind_value_def BoltState_value_def DoorState_value_def
      ActuatorKind_value_def OperationPhase_value_def CompletionEvidence_value_def Fault_value_def
      FirmwarePhase_value_def)

lemma kt_shape_containers:
  "kt_shape d (Option_value val m) = (case m of None \<Rightarrow> d < 32 | Some x \<Rightarrow> kt_shape d (val x))"
  "kt_shape d (Reading_value val' r) = (Suc d < 32 \<and> (case r of Known x \<Rightarrow> kt_shape (Suc d) (val' x) | _ \<Rightarrow> True))"
  by (auto simp: Option_value_def Reading_value_def split: option.split Reading.split)

lemma kt_shape_records [simp]:
  "d < 30 \<Longrightarrow> kt_shape d (OperationStatus_value x)" "d < 30 \<Longrightarrow> kt_shape d (HardwareState_value h)"
  "d < 30 \<Longrightarrow> kt_shape d (DeviceConfig_value c)"
  by (simp_all add: OperationStatus_value_def HardwareState_value_def DeviceConfig_value_def AutoRelock_value_def
      kt_shape_containers split: Reading.split AutoRelock.split)

lemma kt_shape_reply:
  assumes "Reply_wf r"
  shows "kt_shape 2 (Reply_value r)"
proof (cases r)
  case (Reply_Audit page)
  have "kt_shape 5 (AuditEvent_value e)" for e
    by (simp add: AuditEvent_value_def kt_shape_containers split: option.split)
  with Reply_Audit assms(1) show ?thesis
    by (simp add: Reply_value_def AuditPage_value_def Reply_wf_def AuditPage_wf_def list_all_iff)
qed (use assms in \<open>simp_all add: Reply_value_def Reply_wf_def DeviceInfo_wf_def FirmwareStatus_wf_def
  FirmwareManifest_wf_def String_wf_def LockStatus_value_def DeviceInfo_value_def
  FirmwareStatus_value_def FirmwareManifest_value_def kt_shape_containers option.pred_set split: option.split Reading.split\<close>)

section \<open>Actions\<close>

text \<open>The factory of the binding for every action of the crates.\<close>

definition factory_of :: "Action \<Rightarrow> LockAction" where
  "factory_of a = (case a of
     Unlock \<Rightarrow> LockAction_Unlock | Status \<Rightarrow> LockAction_Status | ApplyPolicy b \<Rightarrow> applyPolicy b
   | Lock \<Rightarrow> LockAction_Lock | Info \<Rightarrow> LockAction_Info | Operation n \<Rightarrow> operation n
   | GetConfig \<Rightarrow> LockAction_GetConfig | SetConfig c \<Rightarrow> setConfig (view_config c)
   | ReadLog after limit \<Rightarrow> readLog after (ucast limit) | SetClock n \<Rightarrow> setClock n
   | Reboot \<Rightarrow> LockAction_Reboot | FactoryReset \<Rightarrow> LockAction_FactoryReset
   | ReplaceIssuer b \<Rightarrow> replaceIssuer b | FirmwareBegin b \<Rightarrow> firmwareBegin b
   | FirmwareChunk offset data \<Rightarrow> firmwareChunk offset data | FirmwareFinish \<Rightarrow> LockAction_FirmwareFinish
   | FirmwareActivate \<Rightarrow> LockAction_FirmwareActivate | FirmwareAbort \<Rightarrow> LockAction_FirmwareAbort
   | FirmwareStatusQuery \<Rightarrow> LockAction_FirmwareStatus | Claim setup_key issuer admin \<Rightarrow> claimAction setup_key issuer admin
   | CredentialStatus \<Rightarrow> LockAction_CredentialStatus | RotateDeviceKey b \<Rightarrow> rotateDeviceKey b
   | PairingStatus \<Rightarrow> LockAction_PairingStatus)"

lemmas factory_defs = kt_action_def LockAction_Unlock_def LockAction_Status_def LockAction_Lock_def LockAction_Info_def
  LockAction_GetConfig_def LockAction_Reboot_def LockAction_FactoryReset_def LockAction_FirmwareFinish_def
  LockAction_FirmwareActivate_def LockAction_FirmwareAbort_def LockAction_FirmwareStatus_def
  LockAction_CredentialStatus_def LockAction_PairingStatus_def applyPolicy_def operation_def setConfig_def readLog_def
  setClock_def replaceIssuer_def firmwareBegin_def firmwareChunk_def claimAction_def rotateDeviceKey_def

lemma factory_value: "factory_of a = kt_of (Action_value a)"
  by (cases a) (simp_all add: factory_of_def factory_defs Action_value_def Action_args_def)

lemma kt_shape_action: "kt_shape 1 (Action_value a)"
  by (cases a) (simp_all add: Action_value_def Action_args_def)

lemma kt_command_value:
  assumes "length (put_value (Command_value c)) \<le> MAX_MESSAGE_SIZE"
    and "cmd_sequence c = (if sequence = 0 then None else Some sequence)"
  shows "kt_command (factory_of (cmd_action c)) (cmd_credential c) sequence = put_value (Command_value c)"
proof -
  have "kt_shape 0 (Command_value c)"
    using kt_shape_action [of "cmd_action c"]
    by (auto simp: Command_value_def kt_shape_containers split: option.split)
  moreover have "length (put_value (Command_value c)) < 2 ^ 31" using assms(1) by (simp add: MAX_MESSAGE_SIZE_def)
  ultimately have "value_of (kt_of (Command_value c)) = Command_value c" "kt_ok 0 (kt_of (Command_value c))"
    using kt_of_value by blast+
  then have "kt_encode (kt_of (Command_value c)) = put_value (Command_value c)" using kt_encode_put by metis
  moreover have "kt_of (Command_value c) = Kt_Items
      [Kt_Bytes (cmd_credential c), if sequence = 0 then Kt_Null else Kt_UInt sequence, factory_of (cmd_action c)]"
    using assms(2) by (simp add: Command_value_def factory_value Option_value_def)
  ultimately show ?thesis by (simp add: kt_command_def)
qed

section \<open>Events\<close>

definition view_event :: "SessionEvent \<Rightarrow> Kt_SessionEvent" where
  "view_event e = (case e of
     HandshakeComplete peer \<Rightarrow> Kt_Handshake (subject_bytes peer)
   | Event_Request i c peer \<Rightarrow> Kt_Request (ucast i) (subject_bytes peer) (cmd_credential c) (cmd_sequence c) (factory_of (cmd_action c))
   | Event_Response i r \<Rightarrow> Kt_Response (ucast i) (view_response r))"

text \<open>The events a client can receive: the handshake, and well-formed responses.\<close>

definition client_event :: "SessionEvent \<Rightarrow> bool" where
  "client_event e = (case e of HandshakeComplete peer \<Rightarrow> True | Event_Response i r \<Rightarrow> Response_wf r | _ \<Rightarrow> False)"

lemma kt_shape_event:
  assumes "client_event e"
  shows "kt_shape 0 (event_value e)"
proof (cases e)
  case (Event_Response i r)
  then show ?thesis
    using assms kt_shape_reply
    by (auto simp: numeral_2_eq_2 event_value_def client_event_def Response_value_def Response_wf_def split: sum.split)
qed (use assms in \<open>simp_all add: event_value_def client_event_def\<close>)

lemma kt_event_value:
  assumes "client_event e" "length (put_value (event_value e)) \<le> MAX_EVENT_SIZE"
  shows "kt_event (put_value (event_value e)) = Some (view_event e)"
proof -
  have "kt_decode (put_value (event_value e)) 4160 = Some (kt_of (event_value e))"
    by (rule kt_decode_value [OF kt_shape_event [OF assms(1)]])
      (use assms(2) in \<open>simp_all add: MAX_EVENT_SIZE_def MAX_MESSAGE_SIZE_def\<close>)
  then show ?thesis
    using assms(1) kt_response_value
    by (cases e) (simp_all add: kt_event_def event_value_def view_event_def client_event_def)
qed

end
