(* ===== verification/Ffi_Laws.thy ===== *)
theory Ffi_Laws
  imports Ffi Session_Exchange
begin

text \<open>
  Laws of the C interface: how a call works on the session and on the caller's memory, the
  length of the packets that are sent, and the size of the events that are delivered.
\<close>

unbundle bit_operations_syntax

section \<open>Calls\<close>

lemma ffi_code_pos [simp]: "0 < ffi_code e"
  by (cases e) (simp_all add: ffi_code_def)

lemma ffi_code_neq [simp]: "ffi_code e \<noteq> 0" "ffi_code e \<noteq> - 1" "ffi_code e \<noteq> - 2"
  using ffi_code_pos [of e] by linarith+

lemma coded_simps [simp]: "coded (Inl e) = Inl (ffi_code e)" "coded (Inr x) = Inr x"
  by (simp_all add: coded_def)

lemma coded_Inr_iff: "coded r = Inr x \<longleftrightarrow> r = Inr x"
  by (cases r) simp_all

lemma status_neq [simp]:
  "coded r \<noteq> Inl 0" "coded r \<noteq> Inl (- 2)" "ffi_input data len \<noteq> Inl 0" "ffi_input data len \<noteq> Inl (- 2)"
  by (cases r; auto simp: ffi_input_def split: option.split)+

lemma ffi_status_simps [simp]: "ffi_status (Inl e) = e" "ffi_status (Inr x) = 0"
  by (simp_all add: ffi_status_def)

lemma wp_run: "wp m Q s = (case m s of (r, s') \<Rightarrow> Q r s')"
  by (simp add: wp_def split: prod.split)

lemma wp_on_caller [simp]: "wp (on_caller m) Q st = wp m (\<lambda>r ca. Q r (st\<lparr>fc_caller := ca\<rparr>)) (fc_caller st)"
  by (simp add: wp_run on_caller_def split: prod.split)

lemma wp_on_inner [simp]:
  "wp (on_inner m) Q st =
     wp m (\<lambda>r inner. Q (coded r) (st\<lparr>fc_session := (fc_session st)\<lparr>ol_inner := inner\<rparr>\<rparr>)) (ol_inner (fc_session st))"
  by (simp add: wp_run on_inner_def split: prod.split)

lemma wp_inner_size [simp]: "wp (inner_size f) Q st = Q (coded (f (ol_inner (fc_session st)))) st"
  by (simp add: inner_size_def)

lemma wp_modify_session [simp]:
  "wp (modify_session f) Q st = Q (Inr ()) (st\<lparr>fc_session := f (fc_session st)\<rparr>)"
  by (simp add: modify_session_def)

lemma wp_capacity [simp]:
  "wp (ffi_capacity n) Q ca =
     (if ca_len ca = None \<or> 0 < ca_cap ca \<and> ca_out ca = None then Q (Inl (- 1)) ca
      else Q (if ca_cap ca < n then Inl (- 2) else Inr ()) (ca\<lparr>ca_len := Some n\<rparr>))"
  by (simp add: ffi_capacity_def)

definition copied :: "bytes \<Rightarrow> Caller \<Rightarrow> Caller" where
  "copied b ca = ca\<lparr>ca_len := Some (length b),
     ca_out := map_option (\<lambda>memory. b @ drop (length b) memory) (ca_out ca)\<rparr>"

lemma wp_copy [simp]:
  "wp (ffi_copy b) Q ca =
     (if ca_len ca = None \<or> 0 < ca_cap ca \<and> ca_out ca = None then Q (Inl (- 1)) ca
      else if ca_cap ca < length b then Q (Inl (- 2)) (ca\<lparr>ca_len := Some (length b)\<rparr>)
      else Q (Inr ()) (copied b ca))"
  by (simp add: ffi_copy_def copied_def option.map_id0 [unfolded id_def])

lemma with_session_wp:
  assumes "wp m (\<lambda>r st. Q (ffi_status r, Some (fc_session st), fc_caller st)) \<lparr>fc_session = s, fc_caller = ca\<rparr>"
  shows "Q (with_session m (Some s) ca)"
  using assms by (simp add: with_session_def wp_run split: prod.splits)

lemma with_session_Some:
  obtains st s' ca' where "with_session m (Some s) ca = (st, Some s', ca')"
  by (cases "m \<lparr>fc_session = s, fc_caller = ca\<rparr>") (simp add: with_session_def)

section \<open>The length of packets\<close>

text \<open>The Noise protocol adds an authentication tag of 16 bytes to every transport message.\<close>

definition noise_overhead :: "('h, 't) Snow \<Rightarrow> bool" where
  "noise_overhead sn \<longleftrightarrow> (\<forall>n p t ct t'. sn_t_write sn n p t = (Some ct, t') \<longrightarrow> length ct = length p + 16)"

lemma on_channel_overhead:
  assumes "noise_overhead sn" "is_transport (ss_channel s)" "length p \<le> MAX_MESSAGE_SIZE - 128"
    "on_channel (NoiseChannel_write sn p) s = (Inr ct, s')"
  shows "length ct = length p + 16"
proof -
  from assms(2) obtain t where t: "nc_state (ss_channel s) = NS_Transport t"
    by (auto simp: is_transport_def split: NoiseState.splits)
  from assms(4) write_transport [OF t assms(3), of sn] assms(1) show ?thesis
    unfolding noise_overhead_def by (auto simp: on_channel_def split: prod.splits option.splits) blast
qed

lemma sealed_length:
  assumes "cbor_sized cr" "encode_packet cr (sealed_packet kind i caps (replicate k 0)) = Inr z"
    "encode_packet cr (sealed_packet kind i caps ct) = Inr packet" "length ct = k"
  shows "length packet = length z"
  using encode_packet_sized [OF assms(1,2), of ct] assms(3,4) by (auto simp: sealed_packet_def)

lemma send_length:
  assumes ok: "cbor_sized cr" "noise_overhead sn" and n: "request_size cr s c = Inr n"
    and sent: "Session_send cr sn c s = (Inr (i, packet), s')"
  shows "length packet = n"
proof -
  from n obtain body z where can: "can_send c s"
    and body: "cencode cr (authenticated_value KIND_REQUEST (ss_next_request s) (ss_capabilities s) (Command_value c)) = Inr body"
      "length body \<le> MAX_MESSAGE_SIZE - 128"
    and z: "encode_packet cr (sealed_packet KIND_REQUEST (ss_next_request s) (ss_capabilities s) (replicate (length body + 16) 0)) = Inr z"
      "length z = n"
    by (rule request_size_Inr)
  from sent n can body(1) obtain m ct s1 where
    w: "on_channel (NoiseChannel_write sn body) (s\<lparr>ss_next_request := m\<rparr>) = (Inr ct, s1)"
    and p: "encode_packet cr (sealed_packet KIND_REQUEST (ss_next_request s) (ss_capabilities s) ct) = Inr packet"
    by (auto simp: Session_send_def run_Inr_iffs Let_def sealed_packet_def)
  have "is_transport (ss_channel (s\<lparr>ss_next_request := m\<rparr>))" using can by (simp add: can_send_def)
  from sealed_length [OF ok(1) z(1) p on_channel_overhead [OF ok(2) this body(2) w]] z(2) show ?thesis by simp
qed

lemma respond_length:
  assumes ok: "cbor_sized cr" "noise_overhead sn" and n: "response_size cr s i resp = Inr n"
    and sent: "Session_respond cr sn i resp s = (Inr packet, s')"
  shows "length packet = n"
proof -
  from n obtain body z where
    body: "cencode cr (authenticated_value KIND_RESPONSE i (ss_capabilities s) (Response_value resp)) = Inr body"
      "length body \<le> MAX_MESSAGE_SIZE - 128"
    and z: "encode_packet cr (sealed_packet KIND_RESPONSE i (ss_capabilities s) (replicate (length body + 16) 0)) = Inr z"
      "length z = n"
    by (rule response_size_cases)
  from sent n body(1) obtain ct s1 where trans: "is_transport (ss_channel s)"
    and w: "on_channel (NoiseChannel_write sn body) s = (Inr ct, s1)"
    and p: "encode_packet cr (sealed_packet KIND_RESPONSE i (ss_capabilities s) ct) = Inr packet"
    by (auto simp: Session_respond_def run_Inr_iffs Let_def sealed_packet_def)
  from sealed_length [OF ok(1) z(1) p on_channel_overhead [OF ok(2) trans body(2) w]] z(2) show ?thesis by simp
qed

section \<open>The size of events\<close>

text \<open>CBOR: an array of fewer than 24 items is a head of one byte and its items; a small number
  and null take one byte, and a string of 32 bytes has a head of two.\<close>

definition cbor_lengths :: "Crypto \<Rightarrow> bool" where
  "cbor_lengths cr \<longleftrightarrow>
     (\<forall>vs. length vs < 24 \<longrightarrow> map_option length (cr_into_writer cr (carray vs)) =
        (if \<forall>v\<in>set vs. cr_into_writer cr v \<noteq> None
         then Some (1 + sum_list (map (\<lambda>v. length (the (cr_into_writer cr v))) vs)) else None))
   \<and> (\<forall>n<24. map_option length (cr_into_writer cr (cuint n)) = Some 1)
   \<and> (\<forall>n. cr_into_writer cr (cuint n) \<noteq> Some [])
   \<and> (\<forall>b. length b = 32 \<longrightarrow> map_option length (cr_into_writer cr (cbytes b)) = Some 34)
   \<and> map_option length (cr_into_writer cr V_Null) = Some 1"

definition sealed_body :: "Crypto \<Rightarrow> u32 \<Rightarrow> Value \<Rightarrow> bool" where
  "sealed_body cr i v \<longleftrightarrow> (\<exists>k caps b. cencode cr (carray [cuint k, cuint (ucast i), cuint caps, v]) = Inr b)"

definition event_fits :: "Crypto \<Rightarrow> SessionEvent \<Rightarrow> bool" where
  "event_fits cr event = (case event of
     HandshakeComplete peer \<Rightarrow> length (subject_bytes peer) = 32
   | Event_Request i c peer \<Rightarrow> length (subject_bytes peer) = 32 \<and> sealed_body cr i (Command_value c)
   | Event_Response i r \<Rightarrow> sealed_body cr i (Response_value r))"

lemma sealed_envelope:
  assumes "cdecode cr clear = Inr envelope" "cfields envelope 4 = Inr fs" "u32_value (fs ! 0) = Inr k"
    "u32_value (fs ! 1) = Inr i" "number (fs ! 2) = Inr caps"
  shows "sealed_body cr i (fs ! 3)"
proof -
  from assms(2) have "envelope = carray fs" "length fs = 4" by (simp_all add: cfields_Inr_iff)
  moreover from this(2) have "fs = [fs ! 0, fs ! 1, fs ! 2, fs ! 3]"
    by (auto simp: numeral_eq_Suc length_Suc_conv)
  ultimately have "envelope = carray [cuint (ucast k), cuint (ucast i), cuint caps, fs ! 3]"
    using assms(3-5) by (simp add: u32_value_Inr_iff number_Inr_iff)
  with cdecode_canonical [OF assms(1)] show ?thesis unfolding sealed_body_def by blast
qed

lemma peer_static_length: "Session_peer_static cr sn s = Inr peer \<Longrightarrow> length (subject_bytes peer) = 32"
  by (auto simp: Session_peer_static_def NoiseChannel_peer_static_def result_Inr_iffs split: if_splits)

definition delivered_fit :: "Crypto \<Rightarrow> Error + SessionEvent list \<times> bytes option \<Rightarrow> bool" where
  "delivered_fit cr r = (case r of Inl e \<Rightarrow> True | Inr (events, reply) \<Rightarrow> list_all (event_fits cr) events)"

lemma delivered_fit_simps [simp]:
  "delivered_fit cr (Inl e)" "delivered_fit cr (Inr (events, reply)) = list_all (event_fits cr) events"
  by (simp_all add: delivered_fit_def)

lemma receive_request_fits:
  assumes "sealed_body cr (pk_request_id packet) v" "length (subject_bytes peer) = 32"
  shows "wp (receive_request packet v peer) (\<lambda>r s'. delivered_fit cr r) s"
  using assms by (auto simp: receive_request_def event_fits_def Command_parse_iff split: sum.split)

lemma receive_response_fits:
  assumes "sealed_body cr (pk_request_id packet) v"
  shows "wp (receive_response packet v) (\<lambda>r s'. delivered_fit cr r) s"
  using assms by (auto simp: receive_response_def event_fits_def Response_parse_iff Let_def split: sum.split)

lemma receive_sealed_fits: "wp (receive_sealed cr sn packet clear) (\<lambda>r s'. delivered_fit cr r) s"
  unfolding receive_sealed_def
  by (auto intro!: receive_request_fits receive_response_fits dest: sealed_envelope peer_static_length split: sum.split)

lemma receive_handshake_fits: "wp (receive_handshake cr sn clear) (\<lambda>r s'. delivered_fit cr r) s"
  by (auto simp: receive_handshake_def event_fits_def dest: peer_static_length split: sum.split intro!: on_channel_wp)

lemma receive_result_wp:
  assumes "\<And>packet clear s. wp (receive_sealed cr sn packet clear) (\<lambda>r s'. P r) s"
    "\<And>clear s. wp (receive_handshake cr sn clear) (\<lambda>r s'. P r) s" "\<And>e. P (Inl e)"
  shows "wp (Session_receive cr sn input) (\<lambda>r s'. P r) s"
  unfolding Session_receive_def receive_inner_def receive_guards_def
  by (auto intro!: on_channel_wp wp_mono [OF assms(1)] wp_mono [OF assms(2)] assms(3) split: sum.split)

lemma receive_fits: "wp (Session_receive cr sn input) (\<lambda>r s'. delivered_fit cr r) s"
  by (rule receive_result_wp [OF receive_sealed_fits receive_handshake_fits]) simp

lemma array4_length:
  assumes "cbor_lengths cr"
  shows "map_option length (cr_into_writer cr (carray [u, v, w, x])) = (case
      (cr_into_writer cr u, cr_into_writer cr v, cr_into_writer cr w, cr_into_writer cr x) of
        (Some bu, Some bv, Some bw, Some bx) \<Rightarrow> Some (1 + length bu + length bv + length bw + length bx)
      | _ \<Rightarrow> None)"
proof -
  have "length [u, v, w, x] < 24" by simp
  with assms show ?thesis
    unfolding cbor_lengths_def by (auto split: option.split)
qed

lemma sealed_body_length:
  assumes "cbor_lengths cr" "sealed_body cr i v"
  obtains bi bv where "cr_into_writer cr (cuint (ucast i)) = Some bi" "cr_into_writer cr v = Some bv"
    "length bi + length bv + 3 \<le> MAX_OBJECT_SIZE"
proof -
  from assms(2) obtain k caps b where "cr_into_writer cr (carray [cuint k, cuint (ucast i), cuint caps, v]) = Some b"
    "length b \<le> MAX_OBJECT_SIZE" by (auto simp: sealed_body_def cencode_def encode_limit_Inr_iff)
  with array4_length [OF assms(1), of "cuint k" "cuint (ucast i)" "cuint caps" v] obtain bk bi bc bv
    where w: "cr_into_writer cr (cuint k) = Some bk" "cr_into_writer cr (cuint (ucast i)) = Some bi"
      "cr_into_writer cr (cuint caps) = Some bc" "cr_into_writer cr v = Some bv"
      "1 + length bk + length bi + length bc + length bv \<le> MAX_OBJECT_SIZE"
    by (auto split: option.splits)
  from w(1,3) assms(1) have "bk \<noteq> []" "bc \<noteq> []" unfolding cbor_lengths_def by metis+
  with w that show ?thesis by (cases bk; cases bc) auto
qed

lemma small_lengths:
  assumes "cbor_lengths cr"
  shows "\<exists>b. cr_into_writer cr (cuint 0) = Some b \<and> length b = 1" "\<exists>b. cr_into_writer cr (cuint 1) = Some b \<and> length b = 1"
    "\<exists>b. cr_into_writer cr (cuint 2) = Some b \<and> length b = 1" "\<exists>b. cr_into_writer cr (cuint 3) = Some b \<and> length b = 1"
    "\<exists>b. cr_into_writer cr V_Null = Some b \<and> length b = 1"
  using assms by (simp_all add: cbor_lengths_def)

lemma peer_length:
  "cbor_lengths cr \<Longrightarrow> length (subject_bytes peer) = 32 \<Longrightarrow>
     \<exists>b. cr_into_writer cr (SubjectKey_value peer) = Some b \<and> length b = 34"
  by (simp add: cbor_lengths_def SubjectKey_value_def)

lemma event_bytes_fit:
  assumes ok: "cbor_lengths cr" and "event_fits cr event"
  obtains b where "event_bytes cr event = Inr b" "b \<noteq> []"
proof -
  have "\<exists>w. cr_into_writer cr (event_value event) = Some w \<and> 0 < length w \<and> length w \<le> MAX_EVENT_SIZE"
  proof (cases event)
    case (HandshakeComplete peer)
    with assms(2) small_lengths [OF ok] peer_length [OF ok, of peer] array4_length [OF ok, of "cuint 1" "cuint 0" "SubjectKey_value peer" V_Null]
    show ?thesis by (auto simp: event_fits_def event_value_def MAX_EVENT_SIZE_def MAX_MESSAGE_SIZE_def)
  next
    case (Event_Request i c peer)
    with assms(2) have "sealed_body cr i (Command_value c)" "length (subject_bytes peer) = 32"
      by (simp_all add: event_fits_def)
    with sealed_body_length [OF ok] obtain bi bv where "cr_into_writer cr (cuint (ucast i)) = Some bi"
      "cr_into_writer cr (Command_value c) = Some bv" "length bi + length bv + 3 \<le> MAX_OBJECT_SIZE" by blast
    with Event_Request \<open>length (subject_bytes peer) = 32\<close> small_lengths [OF ok] peer_length [OF ok, of peer]
      array4_length [OF ok, of "cuint 2" "cuint (ucast i)" "SubjectKey_value peer" "Command_value c"]
    show ?thesis by (auto simp: event_value_def MAX_EVENT_SIZE_def MAX_MESSAGE_SIZE_def MAX_OBJECT_SIZE_def)
  next
    case (Event_Response i r)
    with assms(2) have "sealed_body cr i (Response_value r)" by (simp add: event_fits_def)
    with sealed_body_length [OF ok] obtain bi bv where "cr_into_writer cr (cuint (ucast i)) = Some bi"
      "cr_into_writer cr (Response_value r) = Some bv" "length bi + length bv + 3 \<le> MAX_OBJECT_SIZE" by blast
    with Event_Response small_lengths [OF ok]
      array4_length [OF ok, of "cuint 3" "cuint (ucast i)" V_Null "Response_value r"]
    show ?thesis by (auto simp: event_value_def MAX_EVENT_SIZE_def MAX_MESSAGE_SIZE_def MAX_OBJECT_SIZE_def)
  qed
  with that show ?thesis by (auto simp: event_bytes_def encode_limit_def)
qed

section \<open>Queues\<close>

definition option_list :: "'a option \<Rightarrow> 'a list" where
  "option_list m = (case m of None \<Rightarrow> [] | Some x \<Rightarrow> [x])"

lemma option_list_simps [simp]: "option_list None = []" "option_list (Some x) = [x]"
  by (simp_all add: option_list_def)

lemma queue_events_fit:
  assumes "cbor_lengths cr" "list_all (event_fits cr) events"
  shows "\<exists>bs. map (event_bytes cr) events = map Inr bs \<and> [] \<notin> set bs \<and> queue_events cr events st =
     (Inr (), st\<lparr>fc_session := (fc_session st)\<lparr>ol_events := ol_events (fc_session st) @ bs\<rparr>\<rparr>)"
  using assms(2)
proof (induction events arbitrary: st)
  case Nil
  then show ?case by (simp add: run_simps)
next
  case (Cons event rest)
  from Cons.prems have "event_fits cr event" by simp
  then obtain b where b: "event_bytes cr event = Inr b" "b \<noteq> []" by (rule event_bytes_fit [OF assms(1)])
  let ?st = "st\<lparr>fc_session := (fc_session st)\<lparr>ol_events := ol_events (fc_session st) @ [b]\<rparr>\<rparr>"
  from Cons.IH [of ?st] Cons.prems obtain bs where "map (event_bytes cr) rest = map Inr bs" "[] \<notin> set bs"
    "queue_events cr rest ?st = (Inr (), ?st\<lparr>fc_session := (fc_session ?st)\<lparr>ol_events := ol_events (fc_session ?st) @ bs\<rparr>\<rparr>)"
    by auto
  with b show ?case by (intro exI [of _ "b # bs"]) (simp add: run_simps modify_session_def)
qed

lemma encode_packet_nonempty: "cbor_lengths cr \<Longrightarrow> encode_packet cr p = Inr b \<Longrightarrow> b \<noteq> []"
proof -
  assume ok: "cbor_lengths cr" and b: "encode_packet cr p = Inr b"
  from b obtain vs where "cr_into_writer cr (carray vs) = Some b" "length vs < 24"
    by (auto simp: encode_packet_def result_Inr_iffs encode_limit_Inr_iff packet_value_def)
  moreover from ok this(2) have "map_option length (cr_into_writer cr (carray vs)) \<noteq> Some 0"
    unfolding cbor_lengths_def by simp
  ultimately show ?thesis by auto
qed

definition reply_ok :: "Error + SessionEvent list \<times> bytes option \<Rightarrow> bool" where
  "reply_ok r = (case r of Inl e \<Rightarrow> True | Inr (events, reply) \<Rightarrow> reply \<noteq> Some [])"

lemma reply_ok_simps [simp]: "reply_ok (Inl e)" "reply_ok (Inr (events, reply)) \<longleftrightarrow> reply \<noteq> Some []"
  by (simp_all add: reply_ok_def)

lemma receive_reply:
  assumes "cbor_lengths cr"
  shows "wp (Session_receive cr sn input) (\<lambda>r s'. reply_ok r) s"
proof -
  have "wp (receive_sealed cr sn packet clear) (\<lambda>r s'. reply_ok r) s" for packet clear s
    by (auto simp: receive_sealed_def receive_request_def receive_response_def Let_def split: sum.split)
  moreover have "wp (receive_handshake cr sn clear) (\<lambda>r s'. reply_ok r) s" for clear s
    using encode_packet_nonempty [OF assms]
    by (auto simp: receive_handshake_def split: sum.split intro!: on_channel_wp)
  ultimately show ?thesis by (rule receive_result_wp) simp
qed

end
