(* ===== verification/Ffi_Props.thy ===== *)
theory Ffi_Props
  imports Ffi_Laws Session_Props
begin

text \<open>
  Properties of the C interface (\<^verbatim>\<open>crates/openlock-ffi/src/lib.rs\<close>): a caller with a small buffer
  learns the size and nothing else happens, a caller with a large one gets the packet; and
  every event and reply of the session reaches the caller exactly once and in order.
\<close>

unbundle bit_operations_syntax

section \<open>Sizes first\<close>

text \<open>
  What a call that produces a packet must return, given the size the session announces and what
  the session does when it is asked: an error of the announcement is passed on; a buffer that
  is too small gives the status -2 and the size, with the session and the buffer as they were;
  otherwise the session is asked, and its error is passed on, or the packet is at the start of
  the buffer, the rest of which is as before, with its length and its number.
\<close>

definition two_phase ::
  "Error + nat \<Rightarrow> (Error + u32 option \<times> bytes) \<times> ('h, 't) Session \<Rightarrow> ('h, 't) OpenLockSession \<Rightarrow> Caller \<Rightarrow>
     i32 \<times> ('h, 't) OpenLockSession option \<times> Caller" where
  "two_phase announced asked s ca = (case announced of
     Inl e \<Rightarrow> (ffi_code e, Some s, ca)
   | Inr n \<Rightarrow>
       if ca_cap ca < n then (- 2, Some s, ca\<lparr>ca_len := Some n\<rparr>)
       else case asked of
         (Inl e, inner) \<Rightarrow> (ffi_code e, Some (s\<lparr>ol_inner := inner\<rparr>), ca\<lparr>ca_len := Some n\<rparr>)
       | (Inr (i, packet), inner) \<Rightarrow> (0, Some (s\<lparr>ol_inner := inner\<rparr>),
           ca\<lparr>ca_id := i, ca_len := Some (length packet),
              ca_out := map_option (\<lambda>memory. packet @ drop (length packet) memory) (ca_out ca)\<rparr>))"

text \<open>The pointers a caller must pass: a place for the length, and a buffer unless the capacity is 0.\<close>

definition usable :: "Caller \<Rightarrow> bool" where
  "usable ca \<longleftrightarrow> ca_len ca \<noteq> None \<and> (ca_cap ca = 0 \<or> ca_out ca \<noteq> None)"

lemma ffi_capacity_usable:
  "usable ca \<Longrightarrow> ffi_capacity n ca = (if ca_cap ca < n then Inl (- 2) else Inr (), ca\<lparr>ca_len := Some n\<rparr>)"
  by (auto simp: ffi_capacity_def usable_def run_simps)

lemma ffi_copy_usable:
  assumes "usable ca" "length b \<le> ca_cap ca"
  shows "ffi_copy b ca = (Inr (), ca\<lparr>ca_len := Some (length b),
    ca_out := map_option (\<lambda>memory. b @ drop (length b) memory) (ca_out ca)\<rparr>)"
  using assms
  by (cases "b = []") (simp_all add: ffi_copy_def ffi_capacity_usable run_simps option.map_ident)

lemma usable_update [simp]: "usable (ca\<lparr>ca_len := Some n\<rparr>) = (ca_cap ca = 0 \<or> ca_out ca \<noteq> None)" "usable (ca\<lparr>ca_id := i\<rparr>) = usable ca"
  by (simp_all add: usable_def)

lemma send_two_phase:
  assumes ok: "cbor_sized cr" "noise_overhead sn" and ca: "usable ca" "ca_id ca \<noteq> None"
    and b: "ffi_input data len = Inr b" "decode_wire cr Command_parse b = Inr c"
  shows "openlock_session_send cr sn data len (Some s) ca = two_phase (request_size cr (ol_inner s) c)
    (case Session_send cr sn c (ol_inner s) of (r, inner) \<Rightarrow> (rbind r (\<lambda>(i, packet). Inr (Some i, packet)), inner)) s ca"
proof (cases "request_size cr (ol_inner s) c")
  case (Inl e)
  with ca b show ?thesis
    by (auto simp: openlock_session_send_def with_session_def run_simps inner_size_def coded_def ffi_status_def two_phase_def)
next
  case (Inr n)
  obtain r inner where sent: "Session_send cr sn c (ol_inner s) = (r, inner)" by fastforce
  have len: "length packet = n" if "r = Inr (i, packet)" for i packet
    using send_length [OF ok Inr] sent that by blast
  have out: "ca_cap ca = 0 \<or> ca_out ca \<noteq> None" using ca(1) by (simp add: usable_def)
  with Inr sent ca b len ffi_copy_usable [of "ca\<lparr>ca_len := Some n, ca_id := Some i\<rparr>" for i] show ?thesis
    by (cases r) (auto simp: openlock_session_send_def with_session_def run_simps inner_size_def coded_def ffi_status_def two_phase_def
        on_caller_def on_inner_def ffi_capacity_usable split: prod.split)
qed

lemma respond_two_phase:
  assumes ok: "cbor_sized cr" "noise_overhead sn" and ca: "usable ca"
    and b: "ffi_input data len = Inr b" "decode_wire cr Response_parse b = Inr resp"
  shows "openlock_session_respond cr sn q data len (Some s) ca = two_phase (response_size cr (ol_inner s) q resp)
    (case Session_respond cr sn q resp (ol_inner s) of (r, inner) \<Rightarrow> (rbind r (\<lambda>packet. Inr (ca_id ca, packet)), inner)) s ca"
proof (cases "response_size cr (ol_inner s) q resp")
  case (Inl e)
  with ca b show ?thesis
    by (simp add: openlock_session_respond_def with_session_def run_simps inner_size_def coded_def ffi_status_def two_phase_def)
next
  case (Inr n)
  obtain r inner where sent: "Session_respond cr sn q resp (ol_inner s) = (r, inner)" by fastforce
  have len: "length packet = n" if "r = Inr packet" for packet
    using respond_length [OF ok Inr] sent that by blast
  have out: "ca_cap ca = 0 \<or> ca_out ca \<noteq> None" using ca(1) by (simp add: usable_def)
  with Inr sent ca b len ffi_copy_usable [of "ca\<lparr>ca_len := Some n\<rparr>"] show ?thesis
    by (cases r) (auto simp: openlock_session_respond_def with_session_def run_simps inner_size_def coded_def ffi_status_def two_phase_def
        on_caller_def on_inner_def ffi_capacity_usable split: prod.split)
qed

text \<open>C37. Sizes first: for a caller with usable pointers and a request or a response that decodes, the
  call does exactly this. If the session cannot produce the packet, its error is returned and
  nothing changes. If the buffer is smaller than the packet will be, the status is -2, the
  required size is stored, and neither the session nor the buffer changes. Otherwise the
  session produces the packet: an error of its is returned, or the packet, which then fits,
  is in the buffer, the rest of which is untouched, with its length and, for a request, its
  number. So no packet of the session, whose keys have moved on, is lost for want of space.\<close>

theorem ffi_two_phase:
  assumes "cbor_sized cr" and "noise_overhead sn" and "usable ca" and "ffi_input data len = Inr b"
  shows "(ca_id ca \<noteq> None \<and> decode_wire cr Command_parse b = Inr c \<longrightarrow>
      openlock_session_send cr sn data len (Some s) ca = two_phase (request_size cr (ol_inner s) c)
        (case Session_send cr sn c (ol_inner s) of (r, inner) \<Rightarrow> (rbind r (\<lambda>(i, packet). Inr (Some i, packet)), inner)) s ca)
    \<and> (decode_wire cr Response_parse b = Inr resp \<longrightarrow>
      openlock_session_respond cr sn q data len (Some s) ca = two_phase (response_size cr (ol_inner s) q resp)
        (case Session_respond cr sn q resp (ol_inner s) of (r, inner) \<Rightarrow> (rbind r (\<lambda>packet. Inr (ca_id ca, packet)), inner)) s ca)"
  using send_two_phase [OF assms(1-3) _ assms(4)] respond_two_phase [OF assms] by blast

definition ex_request_bytes :: bytes where "ex_request_bytes = put_value (Command_value ex_unlock)"

lemma ex_request_input:
  "ffi_input (Some ex_request_bytes) (length ex_request_bytes) = Inr ex_request_bytes"
  "decode_wire ex_crypto Command_parse ex_request_bytes = Inr ex_unlock"
proof -
  have e: "cencode ex_crypto (Command_value ex_unlock) = Inr ex_request_bytes"
    using ex_encode by (simp add: encode_wire_def ex_request_bytes_def)
  then have "length ex_request_bytes \<le> MAX_MESSAGE_SIZE"
    by (simp add: cencode_def encode_limit_Inr_iff MAX_OBJECT_SIZE_def MAX_MESSAGE_SIZE_def)
  then show "ffi_input (Some ex_request_bytes) (length ex_request_bytes) = Inr ex_request_bytes"
    by (simp add: ffi_input_def)
  have "wire_value (Command_value ex_unlock)"
    using command_plain [OF ex_unlock_wf] by (simp add: wire_value_def Action_fits_def plain_mono)
  with cdecode_cencode [OF ex_crypto_cbor_ok _ e] ex_unlock_wf
  show "decode_wire ex_crypto Command_parse ex_request_bytes = Inr ex_unlock"
    by (simp add: decode_wire_def Command_parse_iff)
qed

lemma ex_noise_overhead: "noise_overhead ex_snow"
  by (simp add: noise_overhead_def ex_snow_def)

theorem ffi_two_phase_witness:
  "\<exists>n. 0 < n \<and> openlock_session_send ex_crypto ex_snow (Some ex_request_bytes) (length ex_request_bytes)
      (Some (fresh_handle ex_client)) \<lparr>ca_out = None, ca_cap = 0, ca_len = Some 0, ca_id = Some 0\<rparr>
    = (- 2, Some (fresh_handle ex_client), \<lparr>ca_out = None, ca_cap = 0, ca_len = Some n, ca_id = Some 0\<rparr>)"
proof -
  let ?ca = "\<lparr>ca_out = None, ca_cap = 0, ca_len = Some 0, ca_id = Some 0\<rparr>"
  obtain n where n: "request_size ex_crypto ex_client ex_unlock = Inr n"
    by (rule ex_request_size [OF ex_can_send]) (simp_all add: ex_client_def fresh_session_def)
  have "n \<noteq> 0"
    using n by (rule request_size_Inr)
      (auto simp: encode_packet_def result_Inr_iffs encode_limit_Inr_iff packet_value_def ex_crypto_def into_writer_def
        carray_def head_def Let_def split: if_splits)
  with ffi_two_phase [OF ex_cbor_sized ex_noise_overhead _ ex_request_input(1), of ?ca ex_unlock "fresh_handle ex_client"]
    ex_request_input(2) n show ?thesis by (auto simp: usable_def two_phase_def fresh_handle_def)
qed

section \<open>Nothing is lost\<close>

text \<open>What the session delivers to a call of receive, and what the caller finds in its memory
  after a call that takes an event or the output.\<close>

definition delivered ::
  "Crypto \<Rightarrow> ('h, 't) Snow \<Rightarrow> bytes option \<Rightarrow> nat \<Rightarrow> ('h, 't) OpenLockSession \<Rightarrow> SessionEvent list \<times> bytes list" where
  "delivered cr sn data len s =
     (if ol_output s \<noteq> None \<or> ol_events s \<noteq> [] then ([], []) else case ffi_input data len of
        Inl _ \<Rightarrow> ([], [])
      | Inr b \<Rightarrow> (case fst (Session_receive cr sn b (ol_inner s)) of
          Inl _ \<Rightarrow> ([], []) | Inr (events, reply) \<Rightarrow> (events, option_list reply)))"

definition found :: "i32 \<Rightarrow> Caller \<Rightarrow> bytes list" where
  "found st ca = (case (ca_len ca, ca_out ca) of
     (Some n, Some memory) \<Rightarrow> if st = 0 \<and> n \<noteq> 0 then [take n memory] else [] | _ \<Rightarrow> [])"

inductive ffi_step ::
  "Crypto \<Rightarrow> ('h, 't) Snow \<Rightarrow> ('h, 't) OpenLockSession \<Rightarrow> SessionEvent list \<times> bytes list \<Rightarrow> bytes list \<times> bytes list \<Rightarrow>
     ('h, 't) OpenLockSession \<Rightarrow> bool" for cr sn where
  ffi_start: "openlock_session_start cr sn (Some s) ca = (st, Some s', ca') \<Longrightarrow> ffi_step cr sn s ([], []) ([], []) s'"
| ffi_send: "openlock_session_send cr sn data n (Some s) ca = (st, Some s', ca') \<Longrightarrow> ffi_step cr sn s ([], []) ([], []) s'"
| ffi_respond: "openlock_session_respond cr sn i data n (Some s) ca = (st, Some s', ca') \<Longrightarrow>
    ffi_step cr sn s ([], []) ([], []) s'"
| ffi_receive: "openlock_session_receive cr sn data n (Some s) ca = (st, Some s', ca') \<Longrightarrow>
    ffi_step cr sn s (delivered cr sn data n s) ([], []) s'"
| ffi_take_output: "openlock_session_take_output (Some s) ca = (st, Some s', ca') \<Longrightarrow>
    ffi_step cr sn s ([], []) ([], found st ca') s'"
| ffi_take_event: "openlock_session_take_event (Some s) ca = (st, Some s', ca') \<Longrightarrow>
    ffi_step cr sn s ([], []) (found st ca', []) s'"

inductive ffi_run ::
  "Crypto \<Rightarrow> ('h, 't) Snow \<Rightarrow> ('h, 't) OpenLockSession \<Rightarrow> SessionEvent list \<times> bytes list \<Rightarrow> bytes list \<times> bytes list \<Rightarrow>
     ('h, 't) OpenLockSession \<Rightarrow> bool" for cr sn s where
  ffi_refl: "ffi_run cr sn s ([], []) ([], []) s"
| ffi_more: "ffi_run cr sn s (evs, replies) (objs, outs) t \<Longrightarrow> ffi_step cr sn t (evs', replies') (objs', outs') u \<Longrightarrow>
    ffi_run cr sn s (evs @ evs', replies @ replies') (objs @ objs', outs @ outs') u"

text \<open>What is still queued in a session.\<close>

definition queued :: "('h, 't) OpenLockSession \<Rightarrow> bytes list \<times> bytes option" where
  "queued s = (ol_events s, ol_output s)"

definition queue_ok :: "('h, 't) OpenLockSession \<Rightarrow> bool" where
  "queue_ok s \<longleftrightarrow> [] \<notin> set (ol_events s) \<and> ol_output s \<noteq> Some []"

lemma same_queue:
  assumes "wp m (\<lambda>r st. queued (fc_session st) = queued s) \<lparr>fc_session = s, fc_caller = ca\<rparr>"
    "with_session m (Some s) ca = (st, Some s', ca')"
  shows "queued s' = queued s"
  using with_session_wp [of m "\<lambda>(st, s', ca'). \<forall>t. s' = Some t \<longrightarrow> queued t = queued s" s ca] assms by simp

lemma queued_inner [simp]: "queued (s\<lparr>ol_inner := inner\<rparr>) = queued s"
  by (simp add: queued_def)

lemma sending_keeps_queue:
  "openlock_session_start cr sn (Some s) ca = (st, Some s', ca') \<Longrightarrow> queued s' = queued s"
  "openlock_session_send cr sn data n (Some s) ca = (st, Some s', ca') \<Longrightarrow> queued s' = queued s"
  "openlock_session_respond cr sn i data n (Some s) ca = (st, Some s', ca') \<Longrightarrow> queued s' = queued s"
  unfolding openlock_session_start_def openlock_session_send_def openlock_session_respond_def
  by (erule same_queue [rotated], auto simp: wp_run [of "Session_start cr sn"] wp_run [of "Session_send cr sn _"]
      wp_run [of "Session_respond cr sn i _"] split: sum.split prod.split)+

lemma found_copied:
  "b \<noteq> [] \<Longrightarrow> ca_out ca \<noteq> None \<Longrightarrow> found 0 (copied b ca) = [b]" "found 0 (copied [] ca) = []"
  "st \<noteq> 0 \<Longrightarrow> found st ca = []"
  by (auto simp: found_def copied_def split: option.split)

lemma take_output_order:
  assumes "queue_ok s" "openlock_session_take_output (Some s) ca = (st, Some s', ca')"
  shows "ol_events s' = ol_events s \<and> found st ca' @ option_list (ol_output s') = option_list (ol_output s) \<and> queue_ok s'"
proof -
  have "(\<lambda>(st, t, ca'). \<forall>s'. t = Some s' \<longrightarrow> ol_events s' = ol_events s
      \<and> found st ca' @ option_list (ol_output s') = option_list (ol_output s) \<and> queue_ok s')
      (openlock_session_take_output (Some s) ca)"
    unfolding openlock_session_take_output_def
    by (rule with_session_wp, cases "ol_output s")
      (use assms(1) in \<open>auto simp: found_copied queue_ok_def not_less\<close>)
  with assms(2) show ?thesis by simp
qed

lemma take_event_order:
  assumes "queue_ok s" "openlock_session_take_event (Some s) ca = (st, Some s', ca')"
  shows "ol_output s' = ol_output s \<and> found st ca' @ ol_events s' = ol_events s \<and> queue_ok s'"
proof -
  have "(\<lambda>(st, t, ca'). \<forall>s'. t = Some s' \<longrightarrow> ol_output s' = ol_output s
      \<and> found st ca' @ ol_events s' = ol_events s \<and> queue_ok s')
      (openlock_session_take_event (Some s) ca)"
    unfolding openlock_session_take_event_def
    by (rule with_session_wp, cases "ol_events s")
      (use assms(1) in \<open>auto simp: found_copied queue_ok_def not_less\<close>)
  with assms(2) show ?thesis by simp
qed

lemma receive_order:
  assumes ok: "cbor_lengths cr" and "queue_ok s"
    and "openlock_session_receive cr sn data n (Some s) ca = (st, Some s', ca')"
    and "delivered cr sn data n s = (evs, replies)"
  shows "map Inr (ol_events s') = map Inr (ol_events s) @ map (event_bytes cr) evs
    \<and> option_list (ol_output s') = option_list (ol_output s) @ replies \<and> queue_ok s'"
proof (cases "ol_output s \<noteq> None \<or> ol_events s \<noteq> [] \<or> (\<exists>e. ffi_input data n = Inl e)")
  case True
  then have "s' = s \<and> evs = [] \<and> replies = []"
    using assms(3,4)
    by (auto simp: openlock_session_receive_def with_session_def run_simps delivered_def split: sum.splits if_splits)
  with assms(2) show ?thesis by simp
next
  case False
  then obtain b where idle: "ol_output s = None" "ol_events s = []" and b: "ffi_input data n = Inr b"
    by (cases "ffi_input data n") auto
  obtain r inner where r: "Session_receive cr sn b (ol_inner s) = (r, inner)" by (cases "Session_receive cr sn b (ol_inner s)")
  show ?thesis
  proof (cases r)
    case (Inl e)
    with assms(3,4) idle b r show ?thesis
      by (auto simp: openlock_session_receive_def with_session_def run_simps on_inner_def modify_session_def
          delivered_def queue_ok_def)
  next
    case (Inr x)
    then obtain events reply where x: "r = Inr (events, reply)" by (cases x) auto
    from wpD [OF receive_fits r] wpD [OF receive_reply [OF ok] r] x
    have fit: "list_all (event_fits cr) events" and "reply \<noteq> Some []" by simp_all
    let ?st = "\<lparr>fc_session = s\<lparr>ol_inner := inner\<rparr>, fc_caller = ca\<rparr>"
    from queue_events_fit [OF ok fit, of ?st] obtain bs where "map (event_bytes cr) events = map Inr bs" "[] \<notin> set bs"
      "queue_events cr events ?st = (Inr (), ?st\<lparr>fc_session := (s\<lparr>ol_inner := inner\<rparr>)\<lparr>ol_events := bs\<rparr>\<rparr>)"
      using idle(2) by auto
    with assms(3,4) idle b r x \<open>reply \<noteq> Some []\<close> show ?thesis
      by (auto simp: openlock_session_receive_def with_session_def run_simps on_inner_def modify_session_def
          delivered_def queue_ok_def)
  qed
qed

lemma ffi_step_order:
  assumes "cbor_lengths cr" "queue_ok s" "ffi_step cr sn s (evs, replies) (objs, outs) s'"
  shows "map Inr (objs @ ol_events s') = map Inr (ol_events s) @ map (event_bytes cr) evs
    \<and> outs @ option_list (ol_output s') = option_list (ol_output s) @ replies \<and> queue_ok s'"
  using assms(3)
proof cases
  case (ffi_receive data n ca st ca')
  then have "delivered cr sn data n s = (evs, replies)" by simp
  from receive_order [OF assms(1,2) _ this] ffi_receive show ?thesis by simp
next
  case (ffi_take_output ca st ca')
  with take_output_order [OF assms(2)] show ?thesis by auto
next
  case (ffi_take_event ca st ca')
  with take_event_order [OF assms(2)] show ?thesis by auto
qed (use assms(2) in \<open>auto dest!: sending_keeps_queue simp: queued_def queue_ok_def split: option.splits\<close>)

text \<open>C38. Nothing is lost or reordered: over every run of calls on a new session, whatever the
  buffers of the caller, the events that the session delivered are exactly the objects that
  the caller has taken, in order, followed by those still queued, each encoded whole; and
  the replies are the outputs taken followed by the one still waiting.\<close>

theorem ffi_nothing_lost:
  assumes "cbor_lengths cr" and "ffi_run cr sn (fresh_handle inner) (evs, replies) (objs, outs) s"
  shows "map (event_bytes cr) evs = map Inr (objs @ ol_events s) \<and> replies = outs @ option_list (ol_output s)"
proof -
  have "map (event_bytes cr) (fst d) = map Inr (fst t @ ol_events s) \<and> snd d = snd t @ option_list (ol_output s) \<and> queue_ok s"
    if "ffi_run cr sn (fresh_handle inner) d t s" for d t
    using that
  proof induction
    case ffi_refl
    show ?case by (simp add: fresh_handle_def queue_ok_def)
  next
    case (ffi_more evs replies objs outs t evs' replies' objs' outs' u)
    with ffi_step_order [OF assms(1), of t sn evs' replies' objs' outs' u] show ?case by simp
  qed
  from this [OF assms(2)] show ?thesis by simp
qed

lemma length_head_small: "n < 24 \<Longrightarrow> length (head m n) = 1" "length (head m 32) = 2" "head m n \<noteq> []"
  by (simp_all add: head_def Let_def)

lemma ex_cbor_lengths: "cbor_lengths ex_crypto"
proof -
  have "cr_into_writer ex_crypto v = Some (put_value v)" for v by (simp add: ex_crypto_def into_writer_def)
  then show ?thesis
    by (auto simp: cbor_lengths_def carray_def cuint_def cbytes_def length_head_small length_concat o_def
        word_less_nat_alt)
qed

theorem ffi_nothing_lost_witness:
  "\<exists>b s. ffi_run ex_crypto ex_snow (fresh_handle ex_server)
      ([Event_Request 1 ex_unlock (SubjectKey (replicate 32 1))], []) ([], []) s
    \<and> event_bytes ex_crypto (Event_Request 1 ex_unlock (SubjectKey (replicate 32 1))) = Inr b \<and> ol_events s = [b]"
proof -
  let ?e = "Event_Request 1 ex_unlock (SubjectKey (replicate 32 1))"
  obtain packet r where r: "Session_receive ex_crypto ex_snow packet ex_server = (Inr ([?e], None), r)"
    by (rule ex_exchange)
  then obtain p where "decode_packet ex_crypto packet = Inr p"
    by (auto simp: Session_receive_def receive_inner_def run_Inr_iffs)
  then have "length packet \<le> MAX_MESSAGE_SIZE"
    by (auto simp: decode_packet_def result_Inr_iffs dest: decode_limit_canonical)
  then have i: "ffi_input (Some packet) (length packet) = Inr packet" by (simp add: ffi_input_def)
  let ?r = "openlock_session_receive ex_crypto ex_snow (Some packet) (length packet) (Some (fresh_handle ex_server))"
  obtain st s' ca' where "?r \<lparr>ca_out = None, ca_cap = 0, ca_len = None, ca_id = None\<rparr> = (st, Some s', ca')"
    unfolding openlock_session_receive_def by (rule with_session_Some)
  then have "ffi_step ex_crypto ex_snow (fresh_handle ex_server)
      (delivered ex_crypto ex_snow (Some packet) (length packet) (fresh_handle ex_server)) ([], []) s'"
    by (rule ffi_receive)
  moreover have "delivered ex_crypto ex_snow (Some packet) (length packet) (fresh_handle ex_server) = ([?e], [])"
    using r i by (simp add: delivered_def fresh_handle_def)
  ultimately have "ffi_run ex_crypto ex_snow (fresh_handle ex_server) ([] @ [?e], [] @ []) ([] @ [], [] @ []) s'"
    using ffi_more [OF ffi_refl] by fastforce
  moreover from ffi_nothing_lost [OF ex_cbor_lengths, of ex_snow ex_server "[?e]" "[]" "[]" "[]" s'] this
  obtain b where "event_bytes ex_crypto ?e = Inr b" "ol_events s' = [b]" by (auto simp: map_eq_Cons_conv)
  ultimately show ?thesis by auto
qed

end
