(* ===== verification/Kotlin_Props.thy ===== *)
theory Kotlin_Props
  imports Kotlin_Views Ffi_Props
begin

text \<open>
  Properties of the Kotlin binding (\<^verbatim>\<open>bindings/kotlin/src/main\<close>): a session of the binding does what
  the session of the crates does. What the application sends is the command of the crates,
  and what it receives is the event of the crates, with nothing left in a queue.
\<close>

unbundle bit_operations_syntax

text \<open>The CBOR writer of the crates emits the shortest form, which the decoder of the binding asks for.\<close>

definition cbor_shortest :: "Crypto \<Rightarrow> bool" where
  "cbor_shortest cr \<longleftrightarrow> (\<forall>v. wire_value v \<longrightarrow> cr_into_writer cr v = Some (put_value v))"

section \<open>Sending\<close>

lemma kt_sent_id: "kt_sent (id_bytes i @ p) = Inr (ucast i, p)"
proof -
  have byte: "(ucast (drop_bit k (ucast i :: u64)) :: u8) = ucast (drop_bit k i)" if "k \<le> 24" for k
    using that by (intro bit_word_eqI) (auto simp: bit_simps)
  have "id_bytes i = kt_be 4 (ucast i)"
    using byte [of 24] byte [of 16] byte [of 8] byte [of 0] by (simp add: id_bytes_def kt_be_def upt_conv_Cons)
  moreover have "take_bit 32 (ucast i :: u64) = ucast i" by (intro bit_word_eqI) (auto simp: bit_simps dest: bit_imp_le_length)
  ultimately show ?thesis using kt_read_be [of 0 4 "ucast i"] by (simp add: kt_sent_def)
qed

lemma packet_length: "encode_packet cr p = Inr b \<Longrightarrow> length b \<le> MAX_MESSAGE_SIZE"
  by (auto simp: encode_packet_def result_Inr_iffs encode_limit_Inr_iff)

lemma request_size_bound: "request_size cr s c = Inr n \<Longrightarrow> n \<le> MAX_MESSAGE_SIZE"
  by (auto elim!: request_size_Inr dest: packet_length)

lemma sent_bound: "Session_send cr sn c s = (Inr (i, p), s') \<Longrightarrow> length p \<le> MAX_MESSAGE_SIZE"
  by (auto simp: Session_send_def run_Inr_iffs Let_def dest: packet_length)

lemma Session_send_size: "request_size cr s c = Inl e \<Longrightarrow> Session_send cr sn c s = (Inl e, s)"
  by (simp add: Session_send_def run_simps)

lemma ffi_input_all: "length b \<le> 4096 \<Longrightarrow> ffi_input (Some b) (length b) = Inr b"
  by (simp add: ffi_input_def MAX_MESSAGE_SIZE_def)

definition native_sent ::
  "('h, 't) OpenLockSession \<Rightarrow> (Error + u32 \<times> bytes) \<times> ('h, 't) Session \<Rightarrow> (i32 + bytes) \<times> ('h, 't) kt_handle" where
  "native_sent h result = (case result of (r, inner) \<Rightarrow>
     (case r of Inl e \<Rightarrow> Inl (ffi_code e) | Inr (i, p) \<Rightarrow> Inr (id_bytes i @ p), Some (h\<lparr>ol_inner := inner\<rparr>)))"

lemma Native_send_session:
  assumes "decode_wire cr Command_parse b = Inr c" "length b \<le> 4096"
  shows "Native_send cr sn b (Some h) = native_sent h (Session_send cr sn c (ol_inner h))"
proof (cases "request_size cr (ol_inner h) c")
  case (Inl e)
  with assms Session_send_size [OF Inl] show ?thesis
    by (simp add: Native_send_def jni_read_def jni_result_def openlock_session_send_def with_session_def run_simps
        jni_buffer_def ffi_input_all inner_size_def native_sent_def)
next
  case (Inr n)
  have n: "n \<le> 4096" using request_size_bound [OF Inr] by (simp add: MAX_MESSAGE_SIZE_def)
  obtain r inner where send: "Session_send cr sn c (ol_inner h) = (r, inner)" by fastforce
  show ?thesis
  proof (cases r)
    case (Inl e)
    with assms Inr n send show ?thesis
      by (simp add: Native_send_def jni_read_def jni_result_def openlock_session_send_def with_session_def run_simps
          jni_buffer_def ffi_input_all ffi_capacity_def inner_size_def native_sent_def on_caller_def on_inner_def)
  next
    fix x
    assume r: "r = Inr x"
    obtain i p where x: "x = (i, p)" by fastforce
    have "length p \<le> 4096" using send r x sent_bound [of cr sn c "ol_inner h" i p inner] by (simp add: MAX_MESSAGE_SIZE_def)
    with assms Inr n send r x show ?thesis
      by (simp add: Native_send_def jni_read_def jni_result_def openlock_session_send_def with_session_def run_simps
          jni_buffer_def jni_bytes_def ffi_input_all ffi_copy_def ffi_capacity_def inner_size_def
          native_sent_def on_caller_def on_inner_def)
  qed
qed

text \<open>C39. What the application sends is the command of the crates: for every well-formed command that
  fits in a message, \<open>send\<close> of the binding with the factory of its action, its credential and its
  sequence number leaves the session as \<open>Session::send\<close> does for that command, and returns the
  same packet with the same number, or throws with the code of the same error.\<close>

theorem kotlin_send_refines:
  assumes "cbor_ok cr" and "cbor_shortest cr" and "Command_wf c" and "Action_fits (cmd_action c)"
    and "length (put_value (Command_value c)) \<le> MAX_MESSAGE_SIZE"
    and "cmd_sequence c = (if sequence = 0 then None else Some sequence)"
  shows "kt_send cr sn (factory_of (cmd_action c)) (cmd_credential c) sequence (Some h) =
    (case Session_send cr sn c (ol_inner h) of (r, inner) \<Rightarrow>
       (case r of Inl e \<Rightarrow> Inl (Kt_OpenLock (ffi_code e)) | Inr (i, p) \<Rightarrow> Inr (ucast i, p),
        Some (h\<lparr>ol_inner := inner\<rparr>)))"
proof -
  have "wire_value (Command_value c)"
    using plain_mono [OF command_plain [OF assms(3,4)], of 15] by (simp add: wire_value_def)
  with assms(2) have "cr_into_writer cr (Command_value c) = Some (put_value (Command_value c))" by (simp add: cbor_shortest_def)
  with assms(5) have "encode_wire cr Command_value c = Inr (put_value (Command_value c))"
    by (simp add: encode_wire_def cencode_def encode_limit_def MAX_OBJECT_SIZE_def MAX_MESSAGE_SIZE_def)
  with command_wire_exact [OF assms(1,4)] assms(3)
  have d: "decode_wire cr Command_parse (put_value (Command_value c)) = Inr c" by blast
  have "length (put_value (Command_value c)) \<le> 4096" using assms(5) by (simp add: MAX_MESSAGE_SIZE_def)
  note native = Native_send_session [OF d this, of sn h]
  obtain r inner where "Session_send cr sn c (ol_inner h) = (r, inner)" by fastforce
  with native show ?thesis
    by (cases r) (auto simp: kt_send_def kt_command_value [OF assms(5,6)] native_sent_def kt_throw_def kt_sent_id)
qed

section \<open>Receiving\<close>

definition client_result :: "Error + SessionEvent list \<times> bytes option \<Rightarrow> bool" where
  "client_result r = (case r of Inl e \<Rightarrow> True | Inr (events, reply) \<Rightarrow>
     (\<forall>i resp. Event_Response i resp \<in> set events \<longrightarrow> Response_wf resp)
     \<and> (\<forall>b. reply = Some b \<longrightarrow> length b \<le> MAX_MESSAGE_SIZE))"

lemma receive_client: "wp (Session_receive cr sn input) (\<lambda>r s'. client_result r) s"
proof (rule receive_result_wp)
  show "wp (receive_sealed cr sn packet clear) (\<lambda>r s'. client_result r) s" for packet clear s
    by (auto simp: receive_sealed_def receive_request_def receive_response_def Let_def client_result_def Response_parse_iff
        split: sum.split)
  show "wp (receive_handshake cr sn clear) (\<lambda>r s'. client_result r) s" for clear s
    by (auto simp: receive_handshake_def client_result_def dest: packet_length split: sum.split intro!: on_channel_wp)
qed (simp add: client_result_def)

lemma client_receives:
  assumes "Session_receive cr sn packet s = (Inr (events, reply), s')" "ss_role s = Initiator"
  obtains "events = []" | e where "events = [e]" "client_event e"
proof -
  have "client_result (Inr (events, reply))" using wpD [OF receive_client assms(1)] .
  moreover have "outcome s events s'" using wpD [OF Session_receive_wp assms(1)] by simp
  ultimately show ?thesis
    using that assms(2) by (auto simp: outcome_def client_result_def client_event_def)
qed

lemma Native_receive_fails:
  assumes "Session_receive cr sn packet (ol_inner h) = (Inl e, inner)" "length packet \<le> 4096"
    "ol_events h = []" "ol_output h = None"
  shows "Native_receive cr sn packet (Some h) = (Inl (ffi_code e), Some (h\<lparr>ol_inner := Session_close inner\<rparr>))"
  using assms
  by (simp add: Native_receive_def jni_read_def MAX_MESSAGE_SIZE_def openlock_session_receive_def with_session_def run_simps
      ffi_input_all on_inner_def modify_session_def)

lemma Native_receive_delivers:
  assumes "Session_receive cr sn packet (ol_inner h) = (Inr (events, reply), inner)" "length packet \<le> 4096"
    "ol_events h = []" "ol_output h = None"
    "events = [] \<and> b = [] \<or> (\<exists>e. events = [e] \<and> event_bytes cr e = Inr b)"
  shows "Native_receive cr sn packet (Some h) =
    (Inr (b, case reply of None \<Rightarrow> [] | Some out \<Rightarrow> out), Some (h\<lparr>ol_inner := inner\<rparr>))"
proof -
  have "client_result (Inr (events, reply))" using wpD [OF receive_client assms(1)] .
  then have reply: "length (case reply of None \<Rightarrow> [] | Some out \<Rightarrow> out) \<le> 4096"
    by (auto simp: client_result_def MAX_MESSAGE_SIZE_def split: option.split)
  have b: "length b \<le> MAX_EVENT_SIZE" using assms(5) by (auto simp: event_bytes_def encode_limit_Inr_iff)
  have max: "MAX_MESSAGE_SIZE = 4096" by (simp add: MAX_MESSAGE_SIZE_def)
  have h: "h\<lparr>ol_inner := inner, ol_events := [], ol_output := None\<rparr> = h\<lparr>ol_inner := inner\<rparr>" using assms(3,4) by (cases h) simp
  from assms(5) show ?thesis
    using assms(1-4) reply b h
    by (auto simp: Native_receive_def jni_read_def max openlock_session_receive_def openlock_session_take_event_def
        openlock_session_take_output_def with_session_def run_simps ffi_input_all on_inner_def on_caller_def modify_session_def
        jni_buffer_def jni_bytes_def jni_result_def ffi_copy_def ffi_capacity_def split: option.split)
qed

lemma event_bytes_shortest:
  assumes "cbor_shortest cr" "event_fits cr e" "client_event e" "event_bytes cr e = Inr b"
  shows "b = put_value (event_value e) \<and> length b \<le> MAX_EVENT_SIZE"
proof -
  have "plain 15 (event_value e)"
  proof (cases e)
    case (Event_Response i r)
    then have "plain 14 (Response_value r)" using assms(3) response_plain [of r] by (simp add: client_event_def)
    with Event_Response show ?thesis by (simp add: event_value_def)
  qed (use assms(2,3) in \<open>simp_all add: event_value_def event_fits_def client_event_def SubjectKey_value_def\<close>)
  then have "cr_into_writer cr (event_value e) = Some (put_value (event_value e))"
    using assms(1) by (simp add: cbor_shortest_def wire_value_def)
  with assms(4) show ?thesis by (auto simp: event_bytes_def encode_limit_Inr_iff)
qed

lemma Native_receive_long:
  "length packet > MAX_MESSAGE_SIZE \<Longrightarrow> Native_receive cr sn packet (Some h) = (Inl 1, Some h)"
  by (simp add: Native_receive_def jni_read_def)

text \<open>C40. What the application receives is the event of the crates. A packet longer than a message is
  not handed to the session: code 1 is thrown and the session, which \<open>Session::receive\<close> would
  close, stays as it was. For every other packet, when nothing is queued, \<open>receive\<close> of the binding
  leaves the session as \<open>Session::receive\<close> does and again nothing is queued; it returns the one
  event, field by field, or none, and the reply to send. When the session refuses the packet,
  the code of the error is thrown and the session is closed.\<close>

theorem kotlin_receive_refines:
  assumes "cbor_lengths cr" and "cbor_shortest cr" and "ss_role (ol_inner h) = Initiator"
    and "ol_events h = []" and "ol_output h = None"
  shows "kt_receive cr sn packet (Some h) =
    (if length packet > MAX_MESSAGE_SIZE then (Inl (Kt_OpenLock 1), Some h)
     else case Session_receive cr sn packet (ol_inner h) of
      (Inl e, inner) \<Rightarrow> (Inl (Kt_OpenLock (ffi_code e)), Some (h\<lparr>ol_inner := Session_close inner\<rparr>))
    | (Inr (events, reply), inner) \<Rightarrow>
        (Inr (case events of [] \<Rightarrow> None | e # _ \<Rightarrow> Some (view_event e), case reply of None \<Rightarrow> [] | Some out \<Rightarrow> out),
         Some (h\<lparr>ol_inner := inner\<rparr>)))"
proof (cases "length packet > MAX_MESSAGE_SIZE")
  case True
  with Native_receive_long [of packet cr sn h] show ?thesis by (simp add: kt_receive_def kt_throw_def)
next
  case False
  then have len: "length packet \<le> 4096" by (simp add: MAX_MESSAGE_SIZE_def)
  obtain r inner where receive: "Session_receive cr sn packet (ol_inner h) = (r, inner)" by fastforce
  show ?thesis
  proof (cases r)
    case (Inl e)
    with False receive Native_receive_fails [of cr sn packet h e inner, OF _ len assms(4,5)] show ?thesis
      by (simp add: kt_receive_def kt_throw_def)
  next
    fix x
    assume r: "r = Inr x"
    obtain events reply where x: "x = (events, reply)" by fastforce
    note receive = receive [unfolded r x]
    show ?thesis
    proof (cases rule: client_receives [OF receive assms(3)])
      case 1
      with False receive Native_receive_delivers [OF receive len assms(4,5), of "[]"] show ?thesis
        by (simp add: kt_receive_def kt_throw_def kt_received_def)
    next
      case (2 e)
      have fits: "event_fits cr e" using wpD [OF receive_fits receive] 2(1) by simp
      then obtain b where b: "event_bytes cr e = Inr b" "b \<noteq> []" by (rule event_bytes_fit [OF assms(1)])
      from event_bytes_shortest [OF assms(2) fits 2(2) b(1)] kt_event_value [OF 2(2)]
      have "kt_event b = Some (view_event e)" by auto
      with False receive Native_receive_delivers [OF receive len assms(4,5), of b] 2(1) b show ?thesis
        by (simp add: kt_receive_def kt_throw_def kt_received_def)
    qed
  qed
qed

lemma ex_cbor_shortest: "cbor_shortest ex_crypto"
  by (simp add: cbor_shortest_def ex_crypto_def into_writer_def)

lemma ex_command_length: "length (put_value (Command_value ex_unlock)) \<le> MAX_MESSAGE_SIZE"
proof -
  have "value_size (Command_value ex_unlock) \<le> 900"
    using ex_credential_length
    by (simp add: Command_value_def Action_value_def Action_args_def Option_value_def U64_value_def U8_value_def)
  then show ?thesis using length_put_value [of "Command_value ex_unlock"] by (simp add: MAX_MESSAGE_SIZE_def)
qed

theorem kotlin_send_refines_witness:
  "\<exists>packet s. kt_send ex_crypto ex_snow LockAction_Unlock ex_credential 1 (Some (fresh_handle ex_client)) = (Inr (1, packet), s)"
proof -
  obtain packet i where "Session_send ex_crypto ex_snow ex_unlock ex_client = (Inr (1, packet), i)" by (rule ex_exchange)
  with kotlin_send_refines [OF ex_crypto_cbor_ok ex_cbor_shortest ex_unlock_wf _ ex_command_length, of 1 ex_snow "fresh_handle ex_client"]
  show ?thesis by (simp add: Action_fits_def ex_unlock_def factory_of_def fresh_handle_def)
qed

theorem kotlin_receive_refines_witness:
  "\<exists>answer i s. kt_receive ex_crypto ex_snow answer (Some (fresh_handle i)) =
     (Inr (Some (Kt_Response 1 \<lparr>lr_opcode = 0, lr_errorCode = 8, lr_reply = None\<rparr>), []), s)"
proof -
  obtain packet i q answer q' i' where sent: "Session_send ex_crypto ex_snow ex_unlock ex_client = (Inr (1, packet), i)"
    and respond: "Session_respond ex_crypto ex_snow 1 ex_refusal q = (Inr answer, q')"
    and r: "Session_receive ex_crypto ex_snow answer i = (Inr ([Event_Response 1 ex_refusal], None), i')"
    by (rule ex_exchange)
  have "ss_role i = Initiator" using wpD [OF Session_send_wp sent] by (simp add: sent_def book_def)
  moreover have "length answer \<le> MAX_MESSAGE_SIZE"
    using respond by (auto simp: Session_respond_def run_Inr_iffs Let_def dest: packet_length)
  moreover have "view_event (Event_Response 1 ex_refusal) = Kt_Response 1 \<lparr>lr_opcode = 0, lr_errorCode = 8, lr_reply = None\<rparr>"
    by (simp add: view_event_def view_response_def ex_refusal_def Response_rejected_def Action_opcode_def)
  ultimately show ?thesis
    using kotlin_receive_refines [OF ex_cbor_lengths ex_cbor_shortest, of "fresh_handle i" ex_snow answer] r
    by (simp add: fresh_handle_def) blast
qed

end
