(* ===== verification/Spec2Isabelle.thy ===== *)
theory Spec2Isabelle
  imports Device_Props Drive_Props No_Drive Pairing_Props Reset_Props Admin_Props Open_Props Codec_Props Trust_Props Legacy_Props
    Lifecycle Ble Nfc_Props Commissioning Simulator_Props Kotlin_Props
begin

text \<open>
  A verification of the OpenLock protocol implementation.

  \<^bold>\<open>The program.\<close> A lock runs \<open>DeviceController\<close> (\<^verbatim>\<open>crates/openlock-core/src/device.rs\<close>) over a
  durable store and a hardware platform. A client reaches it over BLE or NFC fragments
  that carry the packets of a session, which runs inside a Noise channel. A command carries
  a grant signed by the owner's issuer; the controller checks it, protects against replay,
  records the operation durably before it acts, drives the actuator under sensor interlocks
  and keeps an audit log. The issuer makes grants, policies and device keys; an
  application uses sessions through the C interface and a binding over it.

  \<^bold>\<open>Correspondence.\<close> A method that takes \<open>&mut self\<close> is a function from the state to a result and
  the state left behind, also when it fails (the monad \<open>sm\<close> of \<open>Prelude\<close>); a function that may
  fail returns a sum with the error on the left. Structures are records, enumerations are
  datatypes with the constructors of the source, machine integers are words of their width,
  and checked and saturating operations are written out. Fixed-size arrays are byte lists;
  their lengths are in the predicates \<open>_wf\<close>. A string is the list of its bytes, which are UTF-8
  (\<open>utf8_string\<close>) wherever the source has a \<open>String\<close>. Definitions keep the names of the sources.

  \<^bold>\<open>Foundations.\<close>
  \<^item> \<open>Prelude\<close>: results, the state-error monad, weakest preconditions \<open>wp\<close>, step relations \<open>steps\<close>,
    checked arithmetic, lists and finite maps.
  \<^item> \<open>Types\<close> (\<^verbatim>\<open>openlock-types\<close>): data types, rights, error codes and validation.
  \<^item> \<open>Externals\<close>: the third-party functions as a record \<open>Crypto\<close> with contracts over it;
    \<open>Ref_Cbor\<close>: an RFC 8949 codec that meets the CBOR contract; \<open>Example_Env\<close>: a concrete device,
    store, platform and cryptography on which the hypotheses of the theorems are discharged.

  \<^bold>\<open>Objects\<close> (\<^verbatim>\<open>openlock-crypto\<close>, \<^verbatim>\<open>openlock-issuer\<close>).
  \<^item> \<open>Cbor\<close>, \<open>Wire\<close>, \<open>Wire_Laws\<close> (\<^verbatim>\<open>cbor.rs\<close>, \<^verbatim>\<open>wire.rs\<close>): canonical encoding, and for every record a
    value and a parser function; the locale \<open>wire\<close>, interpreted for every record, says that
    a parser accepts exactly the images of well-formed values.
  \<^item> \<open>Cose\<close> (\<^verbatim>\<open>cose.rs\<close>, \<^verbatim>\<open>firmware.rs\<close>), \<open>Trust\<close> (\<^verbatim>\<open>trust.rs\<close>), \<open>Commissioning\<close> (\<^verbatim>\<open>commissioning.rs\<close>), \<open>Issuer\<close>
    (\<^verbatim>\<open>openlock-issuer\<close>): signed objects, device keys, rotation and the trust store, the setup
    payload, and the issuer.
  \<^item> \<open>Codec_Props\<close>, \<open>Trust_Props\<close>: messages decode to exactly what was encoded; a byte string reads
    as a grant exactly when it is its signed form; policies and manifests make the round
    trip; the signing domains are separate; a key update needs both signatures, and a trust
    store never goes back to an older key.

  \<^bold>\<open>The device\<close> (\<^verbatim>\<open>openlock-core\<close>).
  \<^item> \<open>Device_State\<close>, \<open>Device_Core\<close>, \<open>Device_Ops\<close>, \<open>Device_Run\<close>, \<open>Device_Open\<close> (\<^verbatim>\<open>device.rs\<close>): snapshot and
    controller, inner methods, requests, execution and callbacks, constructors. The traits
    \<open>DeviceStorage\<close>, \<open>DevicePlatform\<close> and \<open>Bootloader\<close> are the functions of the record \<open>Env\<close>.
    \<open>Legacy\<close> (\<^verbatim>\<open>lib.rs\<close>): the version 2 lock state.
  \<^item> \<open>Device_Laws\<close>, \<open>Device_Guarantee\<close>, \<open>Device_Steps\<close>: the guarantee that every method gives on every
    path, errors included, and its closure over \<open>runs\<close>, the sequences of requests, callbacks,
    polls and changes of the platform. \<open>Device_Frames\<close>: locales for relations that the methods keep,
    from the clock to whole requests; a property that is about one part of the state
    interprets them once and gets the rule of every method.
  \<^item> \<open>Device_Props\<close>, \<open>Request_Props\<close>, \<open>Pairing_Props\<close>: the snapshot is valid and durable and never rolls
    back; drives have distinct identifiers; a poisoned controller refuses; authorization is
    exact; replays never act twice, and nothing is performed before it is on record; claiming
    needs the key within the window, and at most five wrong keys are tried in one.
  \<^item> \<open>Drive_Props\<close>, \<open>No_Drive\<close>: interlocks stop drives, and nothing starts on a blocked door or an
    uncommitted operation. \<open>Reset_Props\<close>, \<open>Admin_Props\<close>: resets and issuer changes need a confirmation
    at the device, and what a reset leaves behind; pages of the log; firmware chunks.
    \<open>Open_Props\<close>: opening recovers what was stored. \<open>Legacy_Props\<close>: uses are counted before the
    version 2 lock actuates.
  \<^item> \<open>Revocation\<close>, \<open>Lifecycle\<close> and this theory: credentials from the issuer to the end. \<open>lives\<close> adds
    restarts to runs, also of a controller that poisoned itself. A grant that is issued
    authorizes, within its validity if it has one, and one that is revoked never does again.

  \<^bold>\<open>Transport and sessions.\<close>
  \<^item> \<open>Frames\<close> (\<^verbatim>\<open>openlock-transport\<close>), \<open>Ble\<close> (\<^verbatim>\<open>openlock-transport-ble\<close>), \<open>Nfc\<close>, \<open>Nfc_Props\<close>
    (\<^verbatim>\<open>openlock-transport-nfc\<close>): the locale of a frame codec, interpreted for both;
    reassembly refines a map of fragments and succeeds in any order; NDEF records are exact.
  \<^item> \<open>Noise\<close> (\<^verbatim>\<open>noise.rs\<close>), \<open>Session\<close> (\<^verbatim>\<open>openlock-protocol\<close>): the channel and the session; \<open>Session_Laws\<close>,
    \<open>Session_Closed\<close>, \<open>Session_Exchange\<close>, \<open>Session_Props\<close>: over every run each response matches one
    request, in order; a session that failed to receive is closed for good; the handshake
    and every exchange over a working channel complete.
  \<^item> \<open>Simulator\<close>, \<open>Simulator_Props\<close> (\<^verbatim>\<open>openlock-core/examples/simulator.rs\<close>): the lock program that
    composes session and controller. A connection works end to end, and a request is only
    handled in the context of the peer that the channel authenticated.
  \<^item> \<open>Ffi\<close>, \<open>Ffi_Laws\<close>, \<open>Ffi_Props\<close> (\<^verbatim>\<open>openlock-ffi\<close>): the C interface with the caller's memory; sizes
    first, with the exact result of a call, and no event is lost.
  \<^item> \<open>Kotlin\<close>, \<open>Kotlin_Client\<close> (\<^verbatim>\<open>bindings/kotlin/src/main\<close>): the binding's own CBOR codec, message
    types, native functions and session; \<open>Kotlin_Codec\<close>, \<open>Kotlin_Views\<close>, \<open>Kotlin_Props\<close>: its codec
    accepts exactly its encodings, which are those of RFC 8949, and its \<open>send\<close> and \<open>receive\<close>
    refine those of the session, except that a packet longer than a message does not reach it.

  \<^bold>\<open>Contracts.\<close> What the theorems assume of code outside the repository is named: \<open>cbor_ok\<close>
  (reading inverts writing), \<open>cbor_sized\<close>, \<open>cbor_small\<close>, \<open>cbor_lengths\<close> and \<open>cbor_shortest\<close> (the
  lengths and the form of an encoding), \<open>ed25519_ok\<close> (signatures verify), \<open>storage_ok\<close> (the store
  returns the last successful commit), \<open>storage_atomic\<close> (after a failed commit it holds the previous
  snapshot or the new one), \<open>noise_ik\<close>, \<open>transport_pair\<close>, \<open>noise_overhead\<close> and \<open>remote_fixed\<close>
  (handshake, transport, size and peer of the Noise channel). Each is met by an instance.

  \<^bold>\<open>Bounds.\<close> There is no fuel: loops recurse on their data, and the cutting of fragments and the
  parser of the binding have termination proofs. The limit of 16 nested containers is the
  argument of the source, and \<open>Ref_Cbor\<close> recurses on it; the limit of 32 of the binding likewise.

  \<^bold>\<open>Not modelled.\<close> Secrecy and the hardness of forging signatures: the cryptography is a parameter
  of which only functional facts are assumed. A loss of power within a method: a restart happens
  between two methods, with whatever the store holds then. The terminal lines of the simulator, its controls that change
  the test platform and the fixtures that it prints are input, output and test data. Of the Kotlin binding
  the QR text and the issuer functions are left out: the crates do that work in
  \<^verbatim>\<open>commissioning.rs\<close> and \<^verbatim>\<open>openlock-issuer\<close>, which are modelled. The Swift binding repeats the Kotlin
  one. Accessors that return a field, \<open>Debug\<close> and \<open>Drop\<close> implementations have no content here.
\<close>

unbundle bit_operations_syntax

section \<open>The life of a credential\<close>

text \<open>C7. A grant that the owner's issuer issues authorizes: the credential that \<open>issue\<close> returns
  is accepted by the lock it names, in its epoch, in a session of the current generation with
  its subject, for every action whose rights it carries, unless its identifier is revoked or
  bound to another credential. If the grant has no validity the controller is left as it was;
  if it has one, the controller observes the hardware, and the grant is accepted when that
  gives a trusted clock interval that lies inside the validity. The grant that the controller
  works with is the one that was issued. The CBOR and Ed25519 contracts are assumed.\<close>

theorem issued_grant_authorizes:
  assumes "cbor_ok (env_crypto E)" and "ed25519_ok (env_crypto E)"
    and "Issuer_issue (env_crypto E) issuer request = Inr (g, credential)" and "Grant_wf g"
    and "s_owner (c_state c) = Some owner" and "ow_issuer owner = Issuer_verifying_key (env_crypto E) issuer"
    and "sc_generation x = s_generation (c_state c)" and "sc_peer x = ir_subject_key request"
    and "ir_lock_id request = s_lock_id (c_state c)" and "ir_epoch request = s_epoch (c_state c)"
    and "ir_rights request AND Action_right a = Action_right a"
    and "ir_credential_id request |\<notin>| s_revoked (c_state c)"
    and "fmlookup (s_bindings (c_state c)) (ir_credential_id request)
           \<in> {None, Some (cr_sha256 (env_crypto E) credential)}"
    and "case ir_validity request of None \<Rightarrow> c' = c
         | Some (not_before, not_after) \<Rightarrow> \<exists>now. observe_hardware E True c = (Inr (Some now), c')
             \<and> not_before \<le> cs_lower now \<and> cs_upper now < not_after"
  shows "authorize E x \<lparr>cmd_credential = credential, cmd_sequence = seq, cmd_action = a\<rparr> c = (Inr g, c')"
proof -
  from assms(3) have r: "request = issue_request g" and "sign_grant (env_crypto E) (is_key issuer) g = Inr credential"
    by (simp_all add: Issuer_issue_iff)
  from read_sign_grant [OF assms(1,2,4) this(2)] assms(6)
  have read: "read_grant (env_crypto E) (ow_issuer owner) credential = Inr g" by (simp add: Issuer_verifying_key_def)
  have key: "cr_vk_from_bytes (env_crypto E) (ow_issuer owner)"
    using assms(2,6) by (simp add: ed25519_ok_def Issuer_verifying_key_def)
  have "s_bindings (c_state c') = s_bindings (c_state c)" if "observe_hardware E True c = (Inr (Some now), c')" for now
    using core_eqD [OF evolves_coreD [OF stepsD [OF hs.observe_hardware_steps that]]] by simp
  with read key assms(5,7-) show ?thesis
    unfolding r by (cases "g_validity g") (auto simp: authorize_def run_simps issue_request_def outside_def)
qed

theorem issued_grant_authorizes_witness:
  "authorize ex_env ex_context ex_unlock ex_controller = (Inr ex_grant, ex_controller)
   \<and> (\<exists>credential. Issuer_issue ex_crypto ex_issuer (issue_request ex_timed_grant) = Inr (ex_timed_grant, credential)
      \<and> authorize ex_env ex_context (ex_unlock\<lparr>cmd_credential := credential\<rparr>) ex_controller = (Inr ex_timed_grant, ex_controller))"
proof -
  have issue: "Issuer_issue ex_crypto ex_issuer (issue_request ex_grant) = Inr (ex_grant, ex_credential)"
    using ex_sign_grant by (simp add: Issuer_issue_iff)
  have "Grant_wf ex_grant" using ex_read_grant by (rule read_grant_Inr)
  with issue have "authorize ex_env ex_context ex_unlock ex_controller = (Inr ex_grant, ex_controller)"
    using issued_grant_authorizes [of ex_env ex_issuer "issue_request ex_grant" ex_grant ex_credential ex_controller
        "\<lparr>ow_issuer = ex_key, ow_first_admin = ex_peer\<rparr>" ex_context Unlock ex_controller "Some 1"]
    by (simp add: issue_request_def Action_right_def rights_defs ex_unlock_def)
  moreover obtain b where b: "Issuer_issue ex_crypto ex_issuer (issue_request ex_timed_grant) = Inr (ex_timed_grant, b)"
    using ex_sign_timed by (auto simp: Issuer_issue_iff)
  then have "authorize ex_env ex_context (ex_unlock\<lparr>cmd_credential := b\<rparr>) ex_controller = (Inr ex_timed_grant, ex_controller)"
    using ex_timed_wf issued_grant_authorizes [of ex_env ex_issuer "issue_request ex_timed_grant" ex_timed_grant b ex_controller
        "\<lparr>ow_issuer = ex_key, ow_first_admin = ex_peer\<rparr>" ex_context Unlock ex_controller "Some 1"]
    by (simp add: issue_request_def Action_right_def rights_defs ex_unlock_def ex_timed_grant_def ex_observe)
  ultimately show ?thesis using b by blast
qed

text \<open>C6. Revocation is final: when a device that agrees with its store answers a request to apply
  a policy, made by the owner's issuer to revoke credentials in an epoch, with a completed
  operation, then whatever happens to the device afterwards, requests, callbacks, polls, changes of
  the hardware and restarts between them, no grant of that epoch or before with one of these
  identifiers is ever authorized again. The request must be new: its sequence is above the
  watermark of the credential that it carries. Commits of the store are assumed to be durable
  when they succeed and atomic when they fail, so a controller that poisoned itself may
  be restarted too. The CBOR and Ed25519 contracts are assumed for the issuer's signature.\<close>

theorem revocation_final:
  assumes "cbor_ok (env_crypto E)" and "ed25519_ok (env_crypto E)" and "storage_ok E" and "storage_atomic E"
    and "durable E c"
    and "Issuer_revoke (env_crypto E) issuer lock_id e version revoked = Inr (policy, update)" and "Policy_wf policy"
    and "s_owner (c_state c) = Some owner" and "ow_issuer owner = Issuer_verifying_key (env_crypto E) issuer"
    and "cmd_action cmd = ApplyPolicy update" and "fresh_sequence (env_crypto E) owner cmd (c_state c)"
    and "handle E x cmd c = (rsp, c1)" and "rsp_result rsp = Inr (Reply_Operation os)" and "os_phase os = Phase_Completed"
    and "lives E c1 c2" and "g_credential_id g |\<in>| revoked" and "g_epoch g \<le> e"
  shows "fst (authorize E x' cmd' c2) \<noteq> Inr g"
proof
  assume "fst (authorize E x' cmd' c2) = Inr g"
  then obtain c3 where a: "authorize E x' cmd' c2 = (Inr g, c3)" by (cases "authorize E x' cmd' c2") auto
  from assms(6) have p: "policy = \<lparr>p_lock_id = lock_id, p_epoch = e, p_version = version, p_revoked = revoked\<rparr>"
    and sign: "sign_policy (env_crypto E) (is_key issuer) policy = Inr update"
    by (auto simp: Issuer_revoke_def Let_def result_Inr_iffs)
  have "read_policy (env_crypto E) (ow_issuer owner) update = Inr policy"
    using read_sign_policy [OF assms(1,2,7) sign] assms(9) by (simp add: Issuer_verifying_key_def)
  from handle_outdated [OF assms(10,11,8) this assms(12-14)]
  have dead: "dead revoked e (c_state c1)" and "\<not> c_poisoned c" by (simp_all add: p)
  with durable_no_older [OF assms(5)] have "no_older E c1"
    using evolves_no_older [OF assms(3,4) handle_evolves [OF assms(12)]] by blast
  with lives_no_older [OF assms(3,4) _ assms(15)] dead have "dead revoked e (c_state c2)" by (metis dead_snap_le)
  from dead_authorize [OF this a] assms(16,17) show False by blast
qed

theorem revocation_final_witness:
  "fst (authorize ex_env ex_context ex_unlock ex_controller) = Inr ex_grant
   \<and> (\<exists>c sp. runs ex_env ex_controller ex_after_revocation
      \<and> Controller_open ex_env ex_factory (c_storage ex_after_revocation, []) = (Inr c, sp)
      \<and> fst (authorize ex_env ex_context ex_unlock c) \<noteq> Inr ex_grant)"
proof -
  from ex_apply_handled obtain os where h: "handle ex_env ex_context ex_apply ex_controller
      = (\<lparr>rsp_opcode = Action_opcode (ApplyPolicy ex_signed_policy), rsp_result = Inr (Reply_Operation os)\<rparr>, ex_after_revocation)"
    and os: "os_phase os = Phase_Completed" by blast
  from ex_reopen_revoked obtain c sp where
    o: "Controller_open ex_env ex_factory (c_storage ex_after_revocation, []) = (Inr c, sp)" by blast
  have life: "lives ex_env ex_after_revocation c" by (rule lives_restart [OF lives_on o])
  have "Issuer_revoke ex_crypto ex_issuer ex_lock 1 1 {|ex_credential_id|} = Inr (ex_revocation, ex_signed_policy)"
    using ex_revoke(1) by (simp add: Issuer_revoke_def ex_revocation_def)
  then have "fst (authorize ex_env ex_context ex_unlock c) \<noteq> Inr ex_grant"
    using revocation_final [of ex_env ex_controller ex_issuer ex_lock 1 1 "{|ex_credential_id|}" ex_revocation
        ex_signed_policy "\<lparr>ow_issuer = ex_key, ow_first_admin = ex_peer\<rparr>" ex_apply, OF _ _ _ _ _ _ _ _ _ _ _ h _ os life]
      ex_revocation_wf ex_durable ex_read_grant by (simp add: fresh_sequence_def get_or_def)
  moreover have "runs ex_env ex_controller ex_after_revocation"
    unfolding runs_def using step_handle [OF h] by (rule r_into_rtranclp)
  ultimately show ?thesis using ex_authorize o by auto
qed

end
